(* ===== verification/Prelude.thy ===== *)
theory Prelude
  imports Main "HOL-Library.Sublist" "HOL-Library.Multiset" "HOL-Library.List_Lexorder"
    "HOL-Library.Char_ord"
begin

text \<open>
  Shared vocabulary of the development: the functions of Go's packages strings, sort and
  fmt that the controller calls, the error values its functions return, and the generic
  lemmas on lists and options that the components share. A Go string is a \<^typ>\<open>string\<close>
  read as its bytes (so \<^const>\<open>length\<close> is Go's len, and the order of HOL-Library.List_Lexorder over
  HOL-Library.Char_ord is Go's byte-wise comparison). Case mapping and white space are those of ASCII,
  which is what Kubernetes admits in the DNS names, header names and enumerations that the
  controller folds or trims. A nil pointer is \<^const>\<open>None\<close>; an error return is the left
  summand of a sum.
\<close>

named_theorems go_strings \<open>the string functions of Go as list functions\<close>
named_theorems go_lookup \<open>reading a keyed collection after an update\<close>

section \<open>Errors\<close>

text \<open>
  An error is a message, or a message that wraps a cause (the verb w of fmt.Errorf). The
  errors the code tests for with errors.Is, errors.As and apierrors.IsNotFound are constructors:
  the two sentinels and the categorised error of internal/controller/errors.go. A panic, which
  the controller runtime recovers and reports as an error, is a constructor too.
\<close>

datatype errorCategory = errKube | errCloudflare | errConfig | errFinalizer

datatype goerror =
    Err string
  | NotFound
  | NoKindMatch
  | ErrTunnelNotFound
  | Wrap string goerror
  | ControllerError errorCategory goerror
  | Panic string

type_synonym 'a result = "goerror + 'a"

fun apierrors_IsNotFound :: "goerror \<Rightarrow> bool" where
  "apierrors_IsNotFound NotFound = True"
| "apierrors_IsNotFound (Wrap _ e) = apierrors_IsNotFound e"
| "apierrors_IsNotFound (ControllerError _ e) = apierrors_IsNotFound e"
| "apierrors_IsNotFound _ = False"

fun bind_result :: "'a result \<Rightarrow> ('a \<Rightarrow> 'b result) \<Rightarrow> 'b result" where
  "bind_result (Inl e) f = Inl e"
| "bind_result (Inr x) f = f x"

lemma bind_result_Inr_iff: "bind_result r f = Inr y \<longleftrightarrow> (\<exists>x. r = Inr x \<and> f x = Inr y)"
  by (cases r) auto

lemma bind_result_Inl_iff:
  "bind_result r f = Inl e \<longleftrightarrow> r = Inl e \<or> (\<exists>x. r = Inr x \<and> f x = Inl e)"
  by (cases r) auto

section \<open>Pointers\<close>

text \<open>Reading a pointer with a default, and the nil test written as a field merge.\<close>

fun deref_or :: "'a \<Rightarrow> 'a option \<Rightarrow> 'a" where
  "deref_or d None = d"
| "deref_or d (Some x) = x"

fun or_else :: "'a option \<Rightarrow> 'a option \<Rightarrow> 'a option" where
  "or_else None y = y"
| "or_else (Some x) y = Some x"

lemma or_else_None_right [simp]: "or_else x None = x"
  by (cases x) auto

lemma or_else_self [simp]: "or_else x x = x"
  by (cases x) auto

lemma or_else_assoc: "or_else (or_else x y) z = or_else x (or_else y z)"
  by (cases x) auto

lemma or_else_idem [simp]: "or_else x (or_else x y) = or_else x y"
  by (cases x) auto

section \<open>Package strings\<close>

definition HasPrefix :: "string \<Rightarrow> string \<Rightarrow> bool" where
  "HasPrefix s p \<longleftrightarrow> take (length p) s = p"

definition HasSuffix :: "string \<Rightarrow> string \<Rightarrow> bool" where
  "HasSuffix s p \<longleftrightarrow> length p \<le> length s \<and> drop (length s - length p) s = p"

definition TrimPrefix :: "string \<Rightarrow> string \<Rightarrow> string" where
  "TrimPrefix s p = (if HasPrefix s p then drop (length p) s else s)"

definition TrimSuffix :: "string \<Rightarrow> string \<Rightarrow> string" where
  "TrimSuffix s p = (if HasSuffix s p then take (length s - length p) s else s)"

definition TrimRight :: "string \<Rightarrow> string \<Rightarrow> string" where
  "TrimRight s cutset = rev (dropWhile (\<lambda>c. c \<in> set cutset) (rev s))"

definition is_space :: "char \<Rightarrow> bool" where
  "is_space c \<longleftrightarrow> c \<in> set [CHR 0x09, CHR 0x0A, CHR 0x0B, CHR 0x0C, CHR 0x0D, CHR '' '']"

definition TrimSpace :: "string \<Rightarrow> string" where
  "TrimSpace s = rev (dropWhile is_space (rev (dropWhile is_space s)))"

definition lower_char :: "char \<Rightarrow> char" where
  "lower_char c =
     (let n = (of_char c :: nat) in if 65 \<le> n \<and> n \<le> 90 then char_of (n + 32) else c)"

definition ToLower :: "string \<Rightarrow> string" where
  "ToLower s = map lower_char s"

definition EqualFold :: "string \<Rightarrow> string \<Rightarrow> bool" where
  "EqualFold s t \<longleftrightarrow> ToLower s = ToLower t"

text \<open>strings.ReplaceAll with a one-byte old string.\<close>

definition ReplaceAll1 :: "string \<Rightarrow> char \<Rightarrow> string \<Rightarrow> string" where
  "ReplaceAll1 s old new = concat (map (\<lambda>c. if c = old then new else [c]) s)"

text \<open>regexp.QuoteMeta puts a backslash before every metacharacter.\<close>

definition backslash :: char where
  "backslash = CHR 0x5C"

definition is_meta :: "char \<Rightarrow> bool" where
  "is_meta c \<longleftrightarrow> c = backslash \<or> c \<in> set ''.+*?()|[]{}^$''"

definition QuoteMeta :: "string \<Rightarrow> string" where
  "QuoteMeta s = concat (map (\<lambda>c. if is_meta c then [backslash, c] else [c]) s)"

text \<open>The verb d of fmt.Sprintf.\<close>

fun digits_of_nat :: "nat \<Rightarrow> string" where
  "digits_of_nat n =
     (if n < 10 then [char_of (48 + n)] else digits_of_nat (n div 10) @ [char_of (48 + n mod 10)])"

declare digits_of_nat.simps [simp del]

definition itoa :: "int \<Rightarrow> string" where
  "itoa i = (if i < 0 then ''-'' @ digits_of_nat (nat (- i)) else digits_of_nat (nat i))"

text \<open>The verb q of fmt.Sprintf on printable text without quotes and backslashes.\<close>

definition quoted :: "string \<Rightarrow> string" where
  "quoted s = CHR 0x22 # s @ [CHR 0x22]"

subsection \<open>Their laws\<close>

lemma HasPrefix_iff [go_strings]: "HasPrefix s p \<longleftrightarrow> prefix p s"
  unfolding HasPrefix_def
  by (metis append_eq_conv_conj append_take_drop_id prefix_def)

lemma HasSuffix_iff [go_strings]: "HasSuffix s p \<longleftrightarrow> suffix p s"
proof
  assume "HasSuffix s p"
  then have "s = take (length s - length p) s @ p"
    unfolding HasSuffix_def by (metis append_take_drop_id)
  then show "suffix p s" by (auto simp: suffix_def)
next
  assume "suffix p s"
  then obtain zs where "s = zs @ p" by (auto simp: suffix_def)
  then show "HasSuffix s p" by (simp add: HasSuffix_def)
qed

lemma TrimPrefix_append [simp]: "TrimPrefix (p @ s) p = s"
  by (simp add: TrimPrefix_def HasPrefix_def)

lemma TrimSuffix_append [simp]: "TrimSuffix (s @ p) p = s"
  by (simp add: TrimSuffix_def HasSuffix_def)

lemma TrimPrefix_other: "\<not> HasPrefix s p \<Longrightarrow> TrimPrefix s p = s"
  by (simp add: TrimPrefix_def)

lemma HasPrefix_obtain:
  assumes "HasPrefix s p"
  obtains r where "s = p @ r"
  using assms by (auto simp: HasPrefix_iff prefix_def)

lemma HasSuffix_obtain:
  assumes "HasSuffix s p"
  obtains r where "s = r @ p"
  using assms by (auto simp: HasSuffix_iff suffix_def)

text \<open>Two suffixes of one string are comparable.\<close>

lemma suffix_comparable: "suffix a s \<Longrightarrow> suffix b s \<Longrightarrow> suffix a b \<or> suffix b a"
  by (meson suffix_same_cases)

lemma lower_char_idem [simp]: "lower_char (lower_char c) = lower_char c"
  by (auto simp: lower_char_def Let_def)

lemma lower_char_dot [simp]: "lower_char c = CHR ''.'' \<longleftrightarrow> c = CHR ''.''"
proof -
  have "char_of (of_char c + 32 :: nat) \<noteq> CHR ''.''" if "65 \<le> (of_char c :: nat)" "of_char c \<le> (90 :: nat)"
  proof
    assume "char_of (of_char c + 32 :: nat) = CHR ''.''"
    then have "of_char (char_of (of_char c + 32 :: nat)) = (of_char (CHR ''.'') :: nat)"
      by (rule arg_cong)
    with that show False by simp
  qed
  then show ?thesis by (auto simp: lower_char_def Let_def)
qed

lemma ToLower_idem [simp]: "ToLower (ToLower s) = ToLower s"
  by (simp add: ToLower_def)

lemma length_ToLower [simp]: "length (ToLower s) = length s"
  by (simp add: ToLower_def)

lemma ToLower_append [simp]: "ToLower (s @ t) = ToLower s @ ToLower t"
  by (simp add: ToLower_def)

lemma ToLower_Nil_iff [simp]: "ToLower s = [] \<longleftrightarrow> s = []"
  by (simp add: ToLower_def)

end
