(* ===== verification/Ordering.thy ===== *)
theory Ordering
  imports Prelude
begin

text \<open>
  The ordering interface of the development. Two components order things by a hand-written
  comparison: the ingress rules (morePrecedent, handed to sort.SliceStable) and the attached
  policies (policyOlderThan, handed to a loop that keeps the best element seen). Both need the
  comparison to be a strict weak order; the locale \<open>strict_weak\<close> states that contract and proves
  once what a stable sort and a best-element loop deliver under it.
\<close>

section \<open>sort.SliceStable\<close>

text \<open>
  The library documents SliceStable as a stable sort for a strict weak order. The insertion
  sort below is one; lemma \<open>stable_unique\<close> shows that the contract leaves no other result.
\<close>

fun stable_insert :: "('a \<Rightarrow> 'a \<Rightarrow> bool) \<Rightarrow> 'a \<Rightarrow> 'a list \<Rightarrow> 'a list" where
  "stable_insert lt x [] = [x]"
| "stable_insert lt x (y # ys) =
     (if lt y x then y # stable_insert lt x ys else x # y # ys)"

fun SliceStable :: "('a \<Rightarrow> 'a \<Rightarrow> bool) \<Rightarrow> 'a list \<Rightarrow> 'a list" where
  "SliceStable lt [] = []"
| "SliceStable lt (x # xs) = stable_insert lt x (SliceStable lt xs)"

lemma mset_stable_insert [simp]: "mset (stable_insert lt x ys) = add_mset x (mset ys)"
  by (induction ys) auto

lemma mset_SliceStable [simp]: "mset (SliceStable lt xs) = mset xs"
  by (induction xs) auto

lemma set_SliceStable [simp]: "set (SliceStable lt xs) = set xs"
  by (metis mset_SliceStable set_mset_mset)

lemma set_stable_insert [simp]: "set (stable_insert lt x ys) = insert x (set ys)"
  by (metis mset_stable_insert set_mset_add_mset_insert set_mset_mset)

lemma length_SliceStable [simp]: "length (SliceStable lt xs) = length xs"
  by (metis mset_SliceStable size_mset)

section \<open>The loop that keeps the best candidate\<close>

text \<open>
  The loop shape of findAccessConfigForTarget and originPolicyForTarget: skip the elements
  that are not candidates, replace the winner when there is none or the element beats it.
\<close>

fun keep_better :: "('a \<Rightarrow> 'a \<Rightarrow> bool) \<Rightarrow> ('a \<Rightarrow> bool) \<Rightarrow> 'a \<Rightarrow> 'a option \<Rightarrow> 'a option" where
  "keep_better better cand p None = (if cand p then Some p else None)"
| "keep_better better cand p (Some w) =
     (if cand p \<and> better p w then Some p else Some w)"

fun pick_best :: "('a \<Rightarrow> 'a \<Rightarrow> bool) \<Rightarrow> ('a \<Rightarrow> bool) \<Rightarrow> 'a list \<Rightarrow> 'a option \<Rightarrow> 'a option" where
  "pick_best better cand [] w = w"
| "pick_best better cand (p # ps) w = pick_best better cand ps (keep_better better cand p w)"

lemma pick_best_None_iff:
  "pick_best better cand ps w = None \<longleftrightarrow> w = None \<and> (\<forall>p\<in>set ps. \<not> cand p)"
  by (induction ps arbitrary: w) (auto elim!: keep_better.elims split: if_splits)

lemma pick_best_source:
  "pick_best better cand ps w = Some v \<Longrightarrow> w = Some v \<or> (v \<in> set ps \<and> cand v)"
proof (induction ps arbitrary: w)
  case Nil
  then show ?case by simp
next
  case (Cons p ps)
  then show ?case by (cases w) (auto split: if_splits)
qed

section \<open>Strict weak orders\<close>

locale strict_weak =
  fixes lt :: "'a \<Rightarrow> 'a \<Rightarrow> bool"
  assumes irrefl: "\<not> lt x x"
    and trans: "lt x y \<Longrightarrow> lt y z \<Longrightarrow> lt x z"
    and neg_trans: "\<not> lt x y \<Longrightarrow> \<not> lt y z \<Longrightarrow> \<not> lt x z"
begin

abbreviation no_later :: "'a \<Rightarrow> 'a \<Rightarrow> bool" where
  "no_later x y \<equiv> \<not> lt y x"

definition tie :: "'a \<Rightarrow> 'a \<Rightarrow> bool" where
  "tie x y \<longleftrightarrow> \<not> lt x y \<and> \<not> lt y x"

lemma asym: "lt x y \<Longrightarrow> \<not> lt y x"
  using irrefl trans by blast

lemma tie_refl [simp]: "tie x x"
  by (simp add: tie_def irrefl)

lemma tie_less: "tie x y \<Longrightarrow> lt z x \<longleftrightarrow> lt z y"
  unfolding tie_def using neg_trans by blast

lemma sorted_stable_insert:
  "sorted_wrt no_later ys \<Longrightarrow> sorted_wrt no_later (stable_insert lt x ys)"
proof (induction ys)
  case Nil
  then show ?case by simp
next
  case (Cons y ys)
  show ?case
  proof (cases "lt y x")
    case True
    with Cons show ?thesis by (simp add: asym)
  next
    case False
    have "\<not> lt z x" if "z \<in> set ys" for z
      using that Cons.prems neg_trans[of z y x] False by simp
    with False Cons.prems show ?thesis by simp
  qed
qed

lemma sorted_SliceStable: "sorted_wrt no_later (SliceStable lt xs)"
  by (induction xs) (auto intro: sorted_stable_insert)

lemma filter_stable_insert:
  "filter (tie z) (stable_insert lt x ys) = filter (tie z) (x # ys)"
proof (induction ys)
  case Nil
  then show ?case by simp
next
  case (Cons y ys)
  have "\<not> (tie z x \<and> tie z y)" if "lt y x"
    using that unfolding tie_def using neg_trans by blast
  with Cons show ?case by auto
qed

lemma stable_SliceStable: "filter (tie z) (SliceStable lt xs) = filter (tie z) xs"
  by (induction xs) (simp_all add: filter_stable_insert)

lemma tie_memI: "filter (tie x) (x # xs) = filter (tie x) ys \<Longrightarrow> x \<in> set ys"
  by (metis filter_is_subset list.set_intros(1) filter.simps(2) subsetD tie_refl)

text \<open>Sortedness and stability determine the list: the contract has one implementation.\<close>

lemma stable_unique:
  assumes "sorted_wrt no_later xs" and "sorted_wrt no_later ys"
    and "\<And>z. filter (tie z) xs = filter (tie z) ys"
  shows "xs = ys"
  using assms
proof (induction xs arbitrary: ys)
  case Nil
  show ?case
  proof (cases ys)
    case (Cons y ys')
    with Nil(3)[of y] show ?thesis by simp
  qed simp
next
  case (Cons x xs)
  from Cons.prems(3)[of x] have x: "x \<in> set ys"
    by (rule tie_memI)
  then obtain y ys' where ys: "ys = y # ys'" by (cases ys) auto
  from Cons.prems(3)[of y] ys have y: "y \<in> set (x # xs)"
    by (intro tie_memI[of y]) simp
  from x y Cons.prems(1,2) ys have t: "tie x y"
    by (auto simp: tie_def irrefl)
  with Cons.prems(3)[of x] ys have xy: "x = y" by simp
  have "filter (tie z) xs = filter (tie z) ys'" for z
    using Cons.prems(3)[of z] ys xy by (auto split: if_splits)
  with Cons.IH[of ys'] Cons.prems(1,2) ys xy show ?case by simp
qed

lemma SliceStable_unique:
  assumes "sorted_wrt no_later ys" and "\<And>z. filter (tie z) ys = filter (tie z) xs"
  shows "ys = SliceStable lt xs"
  by (rule stable_unique) (use assms sorted_SliceStable stable_SliceStable in auto)

text \<open>First match over the sorted list: nothing that also matches comes before it.\<close>

lemma sorted_find_best:
  "sorted_wrt no_later xs \<Longrightarrow> find P xs = Some r \<Longrightarrow> q \<in> set xs \<Longrightarrow> P q \<Longrightarrow> \<not> lt q r"
  by (induction xs) (auto simp: irrefl split: if_splits)

lemma first_match_best:
  assumes "find P (SliceStable lt xs) = Some r"
  shows "r \<in> set xs" and "P r" and "q \<in> set xs \<Longrightarrow> P q \<Longrightarrow> \<not> lt q r"
proof -
  show "r \<in> set xs" "P r"
    using assms by (auto simp: find_Some_iff) (metis nth_mem set_SliceStable length_SliceStable)
  show "q \<in> set xs \<Longrightarrow> P q \<Longrightarrow> \<not> lt q r"
    using sorted_find_best[OF sorted_SliceStable assms] by simp
qed

lemma pick_best_le:
  "pick_best lt cand ps w = Some v \<Longrightarrow>
     (\<forall>p\<in>set ps. cand p \<longrightarrow> \<not> lt p v) \<and> (\<forall>u. w = Some u \<longrightarrow> \<not> lt u v)"
proof (induction ps arbitrary: w)
  case Nil
  then show ?case by (simp add: irrefl)
next
  case (Cons p ps)
  show ?case
  proof (cases w)
    case None
    with Cons show ?thesis by (auto split: if_splits)
  next
    case (Some u)
    with Cons.prems have "pick_best lt cand ps (if cand p \<and> lt p u then Some p else Some u) = Some v"
      by simp
    note IH = Cons.IH[OF this]
    show ?thesis
    proof (cases "cand p \<and> lt p u")
      case True
      with IH have "\<not> lt p v" "\<forall>q\<in>set ps. cand q \<longrightarrow> \<not> lt q v" by auto
      moreover from this True have "\<not> lt u v" using trans[of p u v] by blast
      ultimately show ?thesis using Some by simp
    next
      case False
      with IH have "\<not> lt u v" "\<forall>q\<in>set ps. cand q \<longrightarrow> \<not> lt q v" by auto
      moreover from this False have "cand p \<longrightarrow> \<not> lt p v" using neg_trans[of p u v] by blast
      ultimately show ?thesis using Some by simp
    qed
  qed
qed

lemma pick_best_spec:
  assumes "pick_best lt cand ps None = Some v"
  shows "v \<in> set ps" and "cand v" and "p \<in> set ps \<Longrightarrow> cand p \<Longrightarrow> \<not> lt p v"
  using pick_best_source[OF assms] pick_best_le[OF assms] by auto

end

text \<open>A comparison by a key into a linear order is a strict weak order.\<close>

lemma strict_weak_key: "strict_weak (\<lambda>x y. (key x :: 'k :: linorder) < key y)"
  by unfold_locales auto

end
