(* ===== verification/CfTypes.thy ===== *)
theory CfTypes
  imports Prelude
begin

text \<open>
  The domain types of package internal/cloudflare (types.go, builtrule.go) and the field merge
  of origin settings (merge.go). Pointers to scalars are options; a pointer to an OriginRequest is
  an option of the record. Go's time.Duration and time.Time are integers counting nanoseconds.
\<close>

type_synonym Duration = int
type_synonym Time = int

section \<open>types.go\<close>

record Tunnel =
  Tunnel_ID :: string
  Tunnel_Name :: string

record Zone =
  Zone_ID :: string
  Zone_Name :: string

record DNSRecord =
  rec_ID :: string
  rec_Name :: string
  rec_Type :: string
  rec_Content :: string
  rec_Proxied :: bool
  rec_Comment :: string

record DNSChanges =
  Creates :: "DNSRecord list"
  Updates :: "DNSRecord list"
  Deletes :: "DNSRecord list"

definition no_changes :: DNSChanges where
  "no_changes = \<lparr>Creates = [], Updates = [], Deletes = []\<rparr>"

definition Empty :: "DNSChanges \<Rightarrow> bool" where
  "Empty c \<longleftrightarrow> length (Creates c) = 0 \<and> length (Updates c) = 0 \<and> length (Deletes c) = 0"

definition NormalizeDNSName :: "string \<Rightarrow> string" where
  "NormalizeDNSName name = ToLower (TrimSuffix (TrimSpace name) ''.'')"

record AccessConfig =
  Required :: bool
  TeamName :: string
  AudTag :: "string list"

record OriginRequest =
  ConnectTimeout :: "Duration option"
  TLSTimeout :: "Duration option"
  TCPKeepAlive :: "Duration option"
  NoHappyEyeballs :: "bool option"
  KeepAliveConnections :: "int option"
  KeepAliveTimeout :: "Duration option"
  HTTPHostHeader :: "string option"
  OriginServerName :: "string option"
  NoTLSVerify :: "bool option"
  DisableChunkedEncoding :: "bool option"
  ProxyType :: "string option"
  HTTP2Origin :: "bool option"
  MatchSNIToHost :: "bool option"
  Access :: "AccessConfig option"

text \<open>The zero value of the struct, written \<^verbatim>\<open>&OriginRequest{}\<close> in the code.\<close>

definition zero_origin :: OriginRequest where
  "zero_origin = \<lparr>ConnectTimeout = None, TLSTimeout = None, TCPKeepAlive = None,
     NoHappyEyeballs = None, KeepAliveConnections = None, KeepAliveTimeout = None,
     HTTPHostHeader = None, OriginServerName = None, NoTLSVerify = None,
     DisableChunkedEncoding = None, ProxyType = None, HTTP2Origin = None,
     MatchSNIToHost = None, Access = None\<rparr>"

record IngressRule =
  Hostname :: string
  Path :: string
  Service :: string
  rule_Origin :: "OriginRequest option"

record ResolvedBackend =
  rb_Service :: string
  rb_Origin :: "OriginRequest option"

record BackendRef =
  RouteNamespace :: string
  RouteKind :: string
  ref_Group :: string
  ref_Kind :: string
  ref_Namespace :: string
  ref_Name :: string
  ref_Port :: "int option"

text \<open>
  A BackendResolver returns a pair of a value and ok; ok false is \<^const>\<open>None\<close> (the ref is left to
  the native Service path).
\<close>

type_synonym BackendResolver = "BackendRef \<Rightarrow> ResolvedBackend option"

definition NilResolver :: BackendResolver where
  "NilResolver ref = None"

section \<open>builtrule.go\<close>

datatype pathKind = pathNone | pathRegex | pathPrefix | pathExact

fun iota :: "pathKind \<Rightarrow> int" where
  "iota pathNone = 0"
| "iota pathRegex = 1"
| "iota pathPrefix = 2"
| "iota pathExact = 3"

lemma iota_inject [simp]: "iota k = iota l \<longleftrightarrow> k = l"
  by (cases k; cases l) auto

instantiation pathKind :: linorder
begin

definition less_eq_pathKind :: "pathKind \<Rightarrow> pathKind \<Rightarrow> bool" where
  "less_eq_pathKind k l \<longleftrightarrow> iota k \<le> iota l"

definition less_pathKind :: "pathKind \<Rightarrow> pathKind \<Rightarrow> bool" where
  "less_pathKind k l \<longleftrightarrow> iota k < iota l"

instance
  by intro_classes (auto simp: less_eq_pathKind_def less_pathKind_def)

end

record MatchSpecificity =
  HostnameExact :: bool
  HostnameLen :: int
  PathKind :: pathKind
  PrefixLen :: int
  MethodMatch :: bool
  HeaderCount :: int
  QueryCount :: int

text \<open>BuiltRule embeds the ingress rule; the embedded struct is the field \<open>built_rule\<close>.\<close>

record BuiltRule =
  built_rule :: IngressRule
  br_RouteKind :: string
  br_RouteNamespace :: string
  br_RouteName :: string
  br_RouteCreated :: Time
  br_RuleIndex :: int
  Specificity :: MatchSpecificity
  UnsupportedMatch :: bool

definition ToIngressRules :: "BuiltRule list \<Rightarrow> IngressRule list" where
  "ToIngressRules rules = map built_rule rules"

section \<open>merge.go\<close>

fun MergeOriginRequest ::
  "OriginRequest option \<Rightarrow> OriginRequest option \<Rightarrow> OriginRequest option" where
  "MergeOriginRequest base None = base"
| "MergeOriginRequest None (Some override) = Some override"
| "MergeOriginRequest (Some base) (Some override) = Some
     \<lparr>ConnectTimeout = or_else (ConnectTimeout base) (ConnectTimeout override),
      TLSTimeout = or_else (TLSTimeout base) (TLSTimeout override),
      TCPKeepAlive = or_else (TCPKeepAlive base) (TCPKeepAlive override),
      NoHappyEyeballs = or_else (NoHappyEyeballs base) (NoHappyEyeballs override),
      KeepAliveConnections = or_else (KeepAliveConnections base) (KeepAliveConnections override),
      KeepAliveTimeout = or_else (KeepAliveTimeout base) (KeepAliveTimeout override),
      HTTPHostHeader = or_else (HTTPHostHeader base) (HTTPHostHeader override),
      OriginServerName = or_else (OriginServerName base) (OriginServerName override),
      NoTLSVerify = or_else (NoTLSVerify base) (NoTLSVerify override),
      DisableChunkedEncoding = or_else (DisableChunkedEncoding base) (DisableChunkedEncoding override),
      ProxyType = or_else (ProxyType base) (ProxyType override),
      HTTP2Origin = or_else (HTTP2Origin base) (HTTP2Origin override),
      MatchSNIToHost = or_else (MatchSNIToHost base) (MatchSNIToHost override),
      Access = or_else (Access base) (Access override)\<rparr>"

lemma MergeOriginRequest_None_left [simp]: "MergeOriginRequest None r = r"
  by (cases r) auto

lemma MergeOriginRequest_None_iff [simp]:
  "MergeOriginRequest b r = None \<longleftrightarrow> b = None \<and> r = None"
  by (cases b; cases r) auto

lemma MergeOriginRequest_zero_left [simp]: "MergeOriginRequest (Some zero_origin) (Some r) = Some r"
  by (simp add: zero_origin_def)

lemma MergeOriginRequest_idem [simp]:
  "MergeOriginRequest b (MergeOriginRequest b r) = MergeOriginRequest b r"
  by (cases b; cases r) auto

text \<open>
  Layering is associative: filling a rule from a route policy that was itself filled from a
  Gateway policy gives the same as filling it from the two in turn.
\<close>

lemma MergeOriginRequest_assoc:
  "MergeOriginRequest (MergeOriginRequest a b) c = MergeOriginRequest a (MergeOriginRequest b c)"
  by (cases a; cases b; cases c) (simp_all add: or_else_assoc)

section \<open>DNS names\<close>

lemma TrimSuffix_dot_cases:
  "TrimSuffix s ''.'' = (if s \<noteq> [] \<and> last s = CHR ''.'' then butlast s else s)"
  by (cases s rule: rev_cases) (auto simp: TrimSuffix_def HasSuffix_def)

text \<open>
  Normalisation is not idempotent on every string (each call strips one dot); it is on names
  that are already free of a final dot and of surrounding space, such as its own result on
  an admissible hostname.
\<close>

definition trimmed_name :: "string \<Rightarrow> bool" where
  "trimmed_name s \<longleftrightarrow> TrimSpace s = s \<and> TrimSuffix s ''.'' = s"

lemma NormalizeDNSName_trimmed: "trimmed_name s \<Longrightarrow> NormalizeDNSName s = ToLower s"
  by (simp add: NormalizeDNSName_def trimmed_name_def)

lemma NormalizeDNSName_lower [simp]: "ToLower (NormalizeDNSName s) = NormalizeDNSName s"
  by (simp add: NormalizeDNSName_def)

end
