(* ===== verification/Precedence.thy ===== *)
theory Precedence
  imports Ordering CfTypes "HOL-Library.Product_Lexorder"
begin

text \<open>
  internal/cloudflare/precedence.go: the tie-break order of ingress rules and the stable sort
  by it. The comparison is shown to be the lexicographic order of one key, hence a strict weak
  order; the interpretation of \<open>strict_weak\<close> then gives what SortByPrecedence promises.
\<close>

definition morePrecedent :: "BuiltRule \<Rightarrow> BuiltRule \<Rightarrow> bool" where
  "morePrecedent a b =
     (let as = Specificity a; bs = Specificity b in
      if HostnameExact as \<noteq> HostnameExact bs then HostnameExact as
      else if HostnameLen as \<noteq> HostnameLen bs then HostnameLen as > HostnameLen bs
      else if PathKind as \<noteq> PathKind bs then PathKind as > PathKind bs
      else if PrefixLen as \<noteq> PrefixLen bs then PrefixLen as > PrefixLen bs
      else if MethodMatch as \<noteq> MethodMatch bs then MethodMatch as
      else if HeaderCount as \<noteq> HeaderCount bs then HeaderCount as > HeaderCount bs
      else if QueryCount as \<noteq> QueryCount bs then QueryCount as > QueryCount bs
      else if br_RouteCreated a \<noteq> br_RouteCreated b then br_RouteCreated a < br_RouteCreated b
      else if br_RouteNamespace a \<noteq> br_RouteNamespace b
        then br_RouteNamespace a < br_RouteNamespace b
      else if br_RouteName a \<noteq> br_RouteName b then br_RouteName a < br_RouteName b
      else br_RuleIndex a < br_RuleIndex b)"

definition SortByPrecedence :: "BuiltRule list \<Rightarrow> BuiltRule list" where
  "SortByPrecedence rules = SliceStable morePrecedent rules"

section \<open>The precedence key\<close>

text \<open>
  The tie-break order of the Gateway API as one tuple, smaller meaning earlier: exact
  hostnames, longer hostnames, path class, longer literal, method, header and query counts,
  then age, namespace, name and rule index.
\<close>

definition prec_key ::
  "BuiltRule \<Rightarrow> bool \<times> int \<times> int \<times> int \<times> bool \<times> int \<times> int \<times> int \<times> string \<times> string \<times> int" where
  "prec_key r =
     (let s = Specificity r in
      (\<not> HostnameExact s, - HostnameLen s, - iota (PathKind s), - PrefixLen s,
       \<not> MethodMatch s, - HeaderCount s, - QueryCount s,
       br_RouteCreated r, br_RouteNamespace r, br_RouteName r, br_RuleIndex r))"

lemma lex_step:
  "((x :: 'x :: linorder), (u :: 'u :: linorder)) < (y, v) \<longleftrightarrow> (if x \<noteq> y then x < y else u < v)"
  by auto

lemma lex_bool: "(if (\<not> a) \<noteq> (\<not> b) then (\<not> a) < (\<not> b) else P) \<longleftrightarrow> (if a \<noteq> b then a else P)"
  by auto

lemma lex_minus:
  "(if - x \<noteq> - y then - x < - y else P) \<longleftrightarrow> (if x \<noteq> y then x > y else P)" for x y :: int
  by simp

lemma lex_kind: "(if iota k \<noteq> iota l then iota k > iota l else P) \<longleftrightarrow> (if k \<noteq> l then k > l else P)"
  by (simp add: less_pathKind_def)

lemma morePrecedent_key: "morePrecedent a b \<longleftrightarrow> prec_key a < prec_key b"
  unfolding morePrecedent_def prec_key_def Let_def lex_step lex_bool lex_minus lex_kind ..

interpretation prec: strict_weak morePrecedent
  unfolding strict_weak_def morePrecedent_key by auto

text \<open>Rules that tie agree in every dimension of the order.\<close>

lemma prec_tie_iff: "prec.tie a b \<longleftrightarrow> prec_key a = prec_key b"
  by (auto simp: prec.tie_def morePrecedent_key)

lemma prec_key_eq_iff:
  "prec_key a = prec_key b \<longleftrightarrow>
     Specificity a = Specificity b \<and> br_RouteCreated a = br_RouteCreated b \<and>
     br_RouteNamespace a = br_RouteNamespace b \<and> br_RouteName a = br_RouteName b \<and>
     br_RuleIndex a = br_RuleIndex b"
  by (cases "Specificity a"; cases "Specificity b") (auto simp: prec_key_def)

lemmas prec_sort_facts = prec.sorted_SliceStable prec.stable_SliceStable prec.first_match_best

text \<open>Appending a catch-all leaves the first match of the rules before it alone.\<close>

lemma find_append_Some: "find P xs = Some r \<Longrightarrow> find P (xs @ ys) = Some r"
  by (induction xs) auto

lemma find_append_None: "find P xs = None \<Longrightarrow> find P (xs @ ys) = find P ys"
  by (induction xs) auto

lemma find_map: "find P (map f xs) = map_option f (find (P \<circ> f) xs)"
  by (induction xs) auto

section \<open>Properties\<close>

text \<open>A rule for a hostname, with the specificity of its hostname only.\<close>

definition sample_built :: "string \<Rightarrow> bool \<Rightarrow> BuiltRule" where
  "sample_built host exact =
     \<lparr>built_rule = \<lparr>Hostname = host, Path = '''', Service = ''http_status:503'', rule_Origin = None\<rparr>,
      br_RouteKind = ''HTTPRoute'', br_RouteNamespace = ''apps'', br_RouteName = ''web'',
      br_RouteCreated = 0, br_RuleIndex = 0,
      Specificity = \<lparr>HostnameExact = exact, HostnameLen = int (length host), PathKind = pathNone,
        PrefixLen = 0, MethodMatch = False, HeaderCount = 0, QueryCount = 0\<rparr>,
      UnsupportedMatch = False\<rparr>"

text \<open>
  C20. SortByPrecedence is the stable sort by the Gateway API order and nothing else: it keeps
  the multiset of rules, every rule stands before all rules it outranks, rules that agree in
  every dimension keep their build order, and any list with the last two properties is the
  one it returns.
\<close>

theorem SortByPrecedence_characterised:
  "mset (SortByPrecedence rules) = mset rules \<and>
   sorted_wrt (\<lambda>a b. \<not> morePrecedent b a) (SortByPrecedence rules) \<and>
   (\<forall>z. filter (\<lambda>r. prec_key z = prec_key r) (SortByPrecedence rules) =
        filter (\<lambda>r. prec_key z = prec_key r) rules) \<and>
   (\<forall>ys. sorted_wrt (\<lambda>a b. \<not> morePrecedent b a) ys \<and>
        (\<forall>z. filter (\<lambda>r. prec_key z = prec_key r) ys =
             filter (\<lambda>r. prec_key z = prec_key r) rules)
      \<longrightarrow> ys = SortByPrecedence rules)"
  unfolding SortByPrecedence_def
  using prec.stable_SliceStable prec.sorted_SliceStable prec.SliceStable_unique
  by (auto simp: prec_tie_iff[abs_def])

theorem SortByPrecedence_characterised_witness:
  "SortByPrecedence [sample_built ''.example.com'' False, sample_built ''a.example.com'' True] =
     [sample_built ''a.example.com'' True, sample_built ''.example.com'' False]"
proof -
  let ?w = "sample_built ''.example.com'' False" and ?e = "sample_built ''a.example.com'' True"
  have "sorted_wrt (\<lambda>a b. \<not> morePrecedent b a) [?e, ?w]"
    by (simp add: morePrecedent_def sample_built_def)
  moreover have "prec_key ?w \<noteq> prec_key ?e"
    by (simp add: prec_key_def sample_built_def)
  then have "filter (\<lambda>r. prec_key z = prec_key r) [?e, ?w] = filter (\<lambda>r. prec_key z = prec_key r) [?w, ?e]" for z
    by simp
  ultimately show ?thesis
    using SortByPrecedence_characterised[of "[?w, ?e]"] by metis
qed

end
