(* ===== verification/GatewayApi.thy ===== *)
theory GatewayApi
  imports CfTypes "HOL-Library.Word"
begin

text \<open>
  The Kubernetes and Gateway API objects the controller reads and writes, with the fields it
  uses. Their Go declarations live in k8s.io/api, sigs.k8s.io/gateway-api and api/v1alpha1; string-typed
  enumerations stay strings, since the code compares them as strings and has default branches
  for values it does not know. Pointers are options. A map that is only looked up is a partial
  function; one that is ranged over is the list of its entries.
\<close>

section \<open>Names of the API\<close>

definition GroupName :: string where
  "GroupName = ''gateway.networking.k8s.io''"

definition xBackendGroup :: string where
  "xBackendGroup = ''gateway.networking.x-k8s.io''"

section \<open>Metadata and conditions\<close>

record ObjectMeta =
  Name :: string
  Namespace :: string
  UID :: string
  Generation :: int
  CreationTimestamp :: Time
  Annotations :: "string \<rightharpoonup> string"
  DeletionTimestamp :: "Time option"
  Finalizers :: "string list"

datatype ConditionStatus = ConditionTrue | ConditionFalse | ConditionUnknown

record Condition =
  cond_Type :: string
  Status :: ConditionStatus
  ObservedGeneration :: int
  LastTransitionTime :: Time
  Reason :: string
  Message :: string

section \<open>References\<close>

record ParentReference =
  pr_Group :: "string option"
  pr_Kind :: "string option"
  pr_Namespace :: "string option"
  pr_Name :: string
  pr_SectionName :: "string option"
  pr_Port :: "int option"

record BackendObjectReference =
  bo_Group :: "string option"
  bo_Kind :: "string option"
  bo_Name :: string
  bo_Namespace :: "string option"
  bo_Port :: "int option"

record LocalPolicyTargetReference =
  tr_Group :: string
  tr_Kind :: string
  tr_Name :: string

section \<open>Gateways\<close>

record LabelSelectorRequirement =
  Key :: string
  Operator :: string
  Values :: "string list"

record LabelSelector =
  MatchLabels :: "(string \<times> string) list"
  MatchExpressions :: "LabelSelectorRequirement list"

record RouteNamespaces =
  From :: "string option"
  Selector :: "LabelSelector option"

record RouteGroupKind =
  gk_Group :: "string option"
  gk_Kind :: string

record AllowedRoutes =
  Namespaces :: "RouteNamespaces option"
  Kinds :: "RouteGroupKind list"

record Listener =
  l_Name :: string
  l_Hostname :: "string option"
  l_Port :: int
  Protocol :: string
  l_AllowedRoutes :: "AllowedRoutes option"

record ListenerStatus =
  ls_Name :: string
  AttachedRoutes :: "32 word"
  SupportedKinds :: "RouteGroupKind list"
  ls_Conditions :: "Condition list"

record GatewayStatus =
  gs_Conditions :: "Condition list"
  Addresses :: "(string \<times> string) list"
  gs_Listeners :: "ListenerStatus list"

text \<open>
  The parametersRef of a GatewayClass may name a namespace; the one of a Gateway's
  infrastructure is local, its namespace stays \<^const>\<open>None\<close>.
\<close>

record ParametersReference =
  par_Group :: string
  par_Kind :: string
  par_Name :: string
  par_Namespace :: "string option"

record GatewayInfrastructure =
  inf_Labels :: "(string \<times> string) list"
  inf_Annotations :: "(string \<times> string) list"
  inf_ParametersRef :: "ParametersReference option"

record Gateway =
  gw_meta :: ObjectMeta
  GatewayClassName :: string
  Listeners :: "Listener list"
  Infrastructure :: "GatewayInfrastructure option"
  gw_Status :: GatewayStatus

record GatewayClass =
  gc_Name :: string
  gc_Generation :: int
  gc_ControllerName :: string
  gc_ParametersRef :: "ParametersReference option"
  gc_Conditions :: "Condition list"

section \<open>Routes\<close>

text \<open>
  The four route kinds share their metadata, parentRefs, hostnames and parent status and
  differ in their rules. A TCPRoute has no hostnames; its field stays empty. Of a backendRef only
  the embedded BackendObjectReference is read.
\<close>

record RouteParentStatus =
  ParentRef :: ParentReference
  ps_ControllerName :: string
  ps_Conditions :: "Condition list"

record 'rule Route =
  rt_meta :: ObjectMeta
  ParentRefs :: "ParentReference list"
  Hostnames :: "string list"
  Rules :: "'rule list"
  Parents :: "RouteParentStatus list"

record HTTPPathMatch =
  pm_Type :: "string option"
  pm_Value :: "string option"

record HTTPRouteMatch =
  hm_Path :: "HTTPPathMatch option"
  hm_Headers :: "(string \<times> string) list"
  hm_QueryParams :: "(string \<times> string) list"
  hm_Method :: "string option"

text \<open>
  URLRewrite and RequestHeaderModifier are pointers to structs; of the first the optional hostname
  is read, of the second the list of headers to set.
\<close>

record HTTPRouteFilter =
  f_Type :: string
  URLRewrite :: "string option option"
  RequestHeaderModifier :: "(string \<times> string) list option"

record HTTPRouteRule =
  hr_Matches :: "HTTPRouteMatch list"
  hr_Filters :: "HTTPRouteFilter list"
  hr_BackendRefs :: "BackendObjectReference list"
  hr_Timeouts :: "string option option"

record GRPCMethodMatch =
  mm_Type :: "string option"
  mm_Service :: "string option"
  mm_Method :: "string option"

record GRPCRouteMatch =
  gm_Method :: "GRPCMethodMatch option"
  gm_Headers :: "(string \<times> string) list"

record GRPCRouteRule =
  gr_Matches :: "GRPCRouteMatch list"
  gr_BackendRefs :: "BackendObjectReference list"

text \<open>The rules of TLSRoute and TCPRoute carry backendRefs only.\<close>

record StreamRouteRule =
  sr_BackendRefs :: "BackendObjectReference list"

type_synonym HTTPRoute = "HTTPRouteRule Route"
type_synonym GRPCRoute = "GRPCRouteRule Route"
type_synonym TLSRoute = "StreamRouteRule Route"
type_synonym TCPRoute = "StreamRouteRule Route"

abbreviation rt_Name :: "'r Route \<Rightarrow> string" where
  "rt_Name r \<equiv> Name (rt_meta r)"

abbreviation rt_Namespace :: "'r Route \<Rightarrow> string" where
  "rt_Namespace r \<equiv> Namespace (rt_meta r)"

section \<open>Policies\<close>

record AncestorStatus =
  AncestorRef :: ParentReference
  as_ControllerName :: string
  as_Conditions :: "Condition list"

section \<open>Backends\<close>

record ReferenceGrantFrom =
  gf_Group :: string
  gf_Kind :: string
  gf_Namespace :: string

record ReferenceGrantTo =
  gt_Group :: string
  gt_Kind :: string
  gt_Name :: "string option"

record ReferenceGrant =
  grant_From :: "ReferenceGrantFrom list"
  grant_To :: "ReferenceGrantTo list"

record ServicePort =
  sp_Port :: int
  sp_Protocol :: string

record TLSValidation =
  CACertificateRefs :: "string list"
  SubjectAltNames :: "string list"
  WellKnownCACertificates :: "string option"
  v_Hostname :: string

record BackendTLS =
  Mode :: string
  Validation :: "TLSValidation option"

record XBackend =
  xb_meta :: ObjectMeta
  xb_Type :: string
  ExternalHostname :: "string option"
  PortNumber :: int
  xb_Protocol :: "string option"
  xb_TLS :: "BackendTLS option"
  xb_Ancestors :: "AncestorStatus list"

end
