(* ===== verification/GoTime.thy ===== *)
theory GoTime
  imports Complex_Main CfTypes
begin

text \<open>
  The parts of Go's package time that the controller uses: time.ParseDuration (the
  BackendRequest timeout of an HTTPRoute rule) and Duration.Seconds (the unit of the Cloudflare
  API). Both go through float64, so the rounding of a rational to the nearest double is written
  out. uint64 sums are reduced modulo 2 ^ 64 as the language does.
\<close>

section \<open>float64\<close>

fun bitlen :: "nat \<Rightarrow> nat" where
  "bitlen n = (if n = 0 then 0 else Suc (bitlen (n div 2)))"

declare bitlen.simps [simp del]

definition pow2 :: "int \<Rightarrow> rat" where
  "pow2 e = (if 0 \<le> e then 2 ^ nat e else 1 / 2 ^ nat (- e))"

text \<open>The exponent of a positive rational: the largest power of two not above it.\<close>

definition ilog2 :: "rat \<Rightarrow> int" where
  "ilog2 x =
     (let (p, q) = quotient_of x; k = int (bitlen (nat p)) - int (bitlen (nat q))
      in if pow2 k \<le> x then k else k - 1)"

definition round_half_even :: "rat \<Rightarrow> int" where
  "round_half_even y =
     (let f = \<lfloor>y\<rfloor>; d = y - of_int f
      in if d < 1 / 2 then f else if 1 / 2 < d then f + 1 else if even f then f else f + 1)"

text \<open>
  Rounding to a double with 53 significant bits. The magnitudes met here stay between
  2 ^ -64 and 2 ^ 106, far inside the range of normal doubles.
\<close>

definition f64 :: "rat \<Rightarrow> rat" where
  "f64 x =
     (if x = 0 then 0
      else let u = pow2 (ilog2 \<bar>x\<bar> - 52) in sgn x * of_int (round_half_even (\<bar>x\<bar> / u)) * u)"

text \<open>Conversion of a float to an integer type drops the fraction.\<close>

definition trunc_rat :: "rat \<Rightarrow> int" where
  "trunc_rat x = (if x < 0 then - \<lfloor>- x\<rfloor> else \<lfloor>x\<rfloor>)"

section \<open>ParseDuration\<close>

definition Nanosecond :: nat where "Nanosecond = 1"
definition Millisecond :: nat where "Millisecond = 1000000"
definition Second :: nat where "Second = 1000000000"
definition Minute :: nat where "Minute = 60000000000"
definition Hour :: nat where "Hour = 3600000000000"

lemmas duration_units = Nanosecond_def Millisecond_def Second_def Minute_def Hour_def

text \<open>Both spellings of the micro sign are two UTF-8 bytes.\<close>

definition unitMap :: "string \<Rightarrow> nat option" where
  "unitMap u =
     (if u = ''ns'' then Some Nanosecond
      else if u = ''us'' \<or> u = [CHR 0xC2, CHR 0xB5, CHR ''s''] \<or> u = [CHR 0xCE, CHR 0xBC, CHR ''s'']
        then Some 1000
      else if u = ''ms'' then Some Millisecond
      else if u = ''s'' then Some Second
      else if u = ''m'' then Some Minute
      else if u = ''h'' then Some Hour
      else None)"

definition is_digit :: "char \<Rightarrow> bool" where
  "is_digit c \<longleftrightarrow> 48 \<le> (of_char c :: nat) \<and> (of_char c :: nat) \<le> 57"

definition digit_val :: "char \<Rightarrow> nat" where
  "digit_val c = of_char c - 48"

fun leadingInt :: "nat \<Rightarrow> string \<Rightarrow> (nat \<times> string) option" where
  "leadingInt x [] = Some (x, [])"
| "leadingInt x (c # s) =
     (if \<not> is_digit c then Some (x, c # s)
      else if x > 2 ^ 63 div 10 then None
      else let x' = x * 10 + digit_val c in if x' > 2 ^ 63 then None else leadingInt x' s)"

fun leadingFraction :: "nat \<Rightarrow> nat \<Rightarrow> bool \<Rightarrow> string \<Rightarrow> nat \<times> nat \<times> string" where
  "leadingFraction x scale overflow [] = (x, scale, [])"
| "leadingFraction x scale overflow (c # s) =
     (if \<not> is_digit c then (x, scale, c # s)
      else if overflow then leadingFraction x scale True s
      else if x > (2 ^ 63 - 1) div 10 then leadingFraction x scale True s
      else let y = x * 10 + digit_val c in
        if y > 2 ^ 63 then leadingFraction x scale True s
        else leadingFraction y (scale * 10) False s)"

definition unit_char :: "char \<Rightarrow> bool" where
  "unit_char c \<longleftrightarrow> c \<noteq> CHR ''.'' \<and> \<not> is_digit c"

text \<open>The scaled fraction, added in float64: uint64(float64(f) * (float64(unit) / scale)).\<close>

definition scaled_fraction :: "nat \<Rightarrow> nat \<Rightarrow> nat \<Rightarrow> nat" where
  "scaled_fraction f scale unit =
     nat (trunc_rat (f64 (f64 (of_nat f) * f64 (f64 (of_nat unit) / f64 (of_nat scale)))))"

text \<open>
  One pass of the loop body in its three steps: the number with its optional fraction (at
  least one digit in all), the unit, and the value in nanoseconds with its overflow checks.
\<close>

definition parse_fraction :: "string \<Rightarrow> nat \<times> nat \<times> bool \<times> string" where
  "parse_fraction s =
     (case s of
        [] \<Rightarrow> (0, 1, False, s)
      | d # r \<Rightarrow>
        if d = CHR ''.''
        then let (f, scale, s') = leadingFraction 0 1 False r
             in (f, scale, length s' \<noteq> length r, s')
        else (0, 1, False, s))"

definition parse_number :: "string \<Rightarrow> (nat \<times> nat \<times> nat \<times> string) option" where
  "parse_number s =
     (if s = [] \<or> \<not> (hd s = CHR ''.'' \<or> is_digit (hd s)) then None
      else case leadingInt 0 s of None \<Rightarrow> None
      | Some (v, s1) \<Rightarrow>
        let pre = length s1 \<noteq> length s; (f, scale, post, s2) = parse_fraction s1
        in if \<not> pre \<and> \<not> post then None else Some (v, f, scale, s2))"

definition parse_unit :: "string \<Rightarrow> (nat \<times> string) option" where
  "parse_unit s =
     (let u = takeWhile unit_char s
      in if u = [] then None
         else case unitMap u of None \<Rightarrow> None | Some unit \<Rightarrow> Some (unit, dropWhile unit_char s))"

definition component_value :: "nat \<Rightarrow> nat \<Rightarrow> nat \<Rightarrow> nat \<Rightarrow> nat option" where
  "component_value v f scale unit =
     (if v > 2 ^ 63 div unit then None
      else if f > 0
        then let v2 = v * unit + scaled_fraction f scale unit
             in if v2 > 2 ^ 63 then None else Some v2
      else Some (v * unit))"

definition parse_component :: "string \<Rightarrow> (nat \<times> string) option" where
  "parse_component s =
     (case parse_number s of None \<Rightarrow> None
      | Some (v, f, scale, s2) \<Rightarrow>
        (case parse_unit s2 of None \<Rightarrow> None
         | Some (unit, s3) \<Rightarrow>
           (case component_value v f scale unit of None \<Rightarrow> None | Some w \<Rightarrow> Some (w, s3))))"

lemma leadingInt_length: "leadingInt x s = Some (v, r) \<Longrightarrow> length r \<le> length s"
  by (induction x s rule: leadingInt.induct) (auto simp: Let_def split: if_splits)

lemma leadingFraction_length: "leadingFraction x sc ov s = (f, sc', r) \<Longrightarrow> length r \<le> length s"
  by (induction x sc ov s rule: leadingFraction.induct) (auto simp: Let_def split: if_splits)

lemma parse_fraction_length: "parse_fraction s = (f, sc, p, r) \<Longrightarrow> length r \<le> length s"
  by (auto simp: parse_fraction_def dest!: leadingFraction_length
      split: list.splits if_splits prod.splits)

lemma parse_number_length: "parse_number s = Some (v, f, sc, r) \<Longrightarrow> length r \<le> length s"
  by (auto simp: parse_number_def Let_def dest!: leadingInt_length parse_fraction_length
      split: option.splits if_splits prod.splits)

lemma parse_unit_length: "parse_unit s = Some (u, r) \<Longrightarrow> length r < length s"
  by (cases s)
     (auto simp: parse_unit_def Let_def less_Suc_eq_le length_dropWhile_le
      split: option.splits if_splits)

lemma parse_component_shorter:
  "parse_component s = Some (v, r) \<Longrightarrow> length r < length s"
  by (auto simp: parse_component_def dest!: parse_number_length parse_unit_length
      split: option.splits prod.splits)

function parse_loop :: "nat \<Rightarrow> string \<Rightarrow> nat option" where
  "parse_loop d s =
     (if s = [] then Some d
      else case parse_component s of None \<Rightarrow> None
      | Some (v, r) \<Rightarrow>
        let d' = (d + v) mod 2 ^ 64 in if d' > 2 ^ 63 then None else parse_loop d' r)"
  by pat_completeness auto
termination
  by (relation "measure (\<lambda>(d, s). length s)") (auto dest: parse_component_shorter)

declare parse_loop.simps [simp del]

definition bad_duration :: "Duration result" where
  "bad_duration = Inl (Err ''time: invalid duration'')"

definition ParseDuration :: "string \<Rightarrow> Duration result" where
  "ParseDuration orig =
     (let (neg, s) =
        (case orig of [] \<Rightarrow> (False, [])
         | c # r \<Rightarrow> if c = CHR ''-'' \<or> c = CHR ''+'' then (c = CHR ''-'', r) else (False, c # r))
      in if s = ''0'' then Inr 0
         else if s = [] then bad_duration
         else case parse_loop 0 s of None \<Rightarrow> bad_duration
         | Some d \<Rightarrow>
           if neg then Inr (- int d)
           else if d > 2 ^ 63 - 1 then bad_duration else Inr (int d))"

text \<open>internal/cloudflare/ingress.go: the wrapper used for Gateway API durations.\<close>

definition parseGatewayDuration :: "string \<Rightarrow> Duration result" where
  "parseGatewayDuration s =
     (case ParseDuration s of
        Inl err \<Rightarrow> Inl (Wrap (''parsing gateway duration '' @ s) err)
      | Inr d \<Rightarrow> Inr d)"

section \<open>Seconds\<close>

text \<open>
  Duration.Seconds divides with truncation and adds the fraction in float64; Go's division and
  remainder of int64 round towards zero.
\<close>

definition quot_trunc :: "int \<Rightarrow> int \<Rightarrow> int" where
  "quot_trunc a b = sgn a * sgn b * (\<bar>a\<bar> div \<bar>b\<bar>)"

definition rem_trunc :: "int \<Rightarrow> int \<Rightarrow> int" where
  "rem_trunc a b = a - b * quot_trunc a b"

definition Seconds :: "Duration \<Rightarrow> rat" where
  "Seconds d =
     (let sec = quot_trunc d (int Second); nsec = rem_trunc d (int Second)
      in f64 (f64 (of_int sec) + f64 (f64 (of_int nsec) / 1000000000)))"

section \<open>Gateway API durations\<close>

text \<open>
  The admission pattern of a Gateway API duration is one to four components, each of one to
  five digits and a unit h, m, s or ms. A component is a pair of its digits and its unit.
\<close>

definition gw_component :: "string \<times> string \<Rightarrow> bool" where
  "gw_component c \<longleftrightarrow>
     fst c \<noteq> [] \<and> length (fst c) \<le> 5 \<and> list_all is_digit (fst c) \<and>
     snd c \<in> set [''h'', ''m'', ''s'', ''ms'']"

definition gw_render :: "(string \<times> string) list \<Rightarrow> string" where
  "gw_render cs = concat (map (\<lambda>(ds, u). ds @ u) cs)"

definition digits_val :: "nat \<Rightarrow> string \<Rightarrow> nat" where
  "digits_val x ds = foldl (\<lambda>x c. x * 10 + digit_val c) x ds"

definition component_nanos :: "string \<times> string \<Rightarrow> nat" where
  "component_nanos c = digits_val 0 (fst c) * deref_or 0 (unitMap (snd c))"

lemma digit_val_le: "is_digit c \<Longrightarrow> digit_val c \<le> 9"
  by (auto simp: is_digit_def digit_val_def)

lemma digits_val_Nil [simp]: "digits_val x [] = x"
  by (simp add: digits_val_def)

lemma digits_val_Cons [simp]: "digits_val x (c # ds) = digits_val (x * 10 + digit_val c) ds"
  by (simp add: digits_val_def)

lemma digits_val_bound:
  "list_all is_digit ds \<Longrightarrow> x < b \<Longrightarrow> digits_val x ds < b * 10 ^ length ds"
proof (induction ds arbitrary: x b)
  case Nil
  then show ?case by simp
next
  case (Cons c ds)
  have "x * 10 + digit_val c < b * 10"
    using digit_val_le[of c] Cons.prems by simp
  from Cons.IH[OF _ this] Cons.prems show ?case by (simp add: algebra_simps)
qed

lemma leadingInt_digits:
  "list_all is_digit ds \<Longrightarrow> r = [] \<or> \<not> is_digit (hd r) \<Longrightarrow> x < b \<Longrightarrow> b * 10 ^ length ds \<le> 10 ^ 10 \<Longrightarrow>
     leadingInt x (ds @ r) = Some (digits_val x ds, r)"
proof (induction ds arbitrary: x b)
  case Nil
  then show ?case by (cases r) auto
next
  case (Cons c ds)
  have lt: "x * 10 + digit_val c < b * 10"
    using digit_val_le[of c] Cons.prems by simp
  have "b * 10 \<le> b * 10 ^ length (c # ds)" by simp
  with Cons.prems(4) have b: "b * 10 \<le> 10 ^ 10" by (rule le_trans[rotated])
  have "b * 10 * 10 ^ length ds \<le> 10 ^ 10" using Cons.prems(4) by (simp add: mult.assoc)
  with Cons.IH[OF _ Cons.prems(2) lt] Cons.prems(1)
  have IH: "leadingInt (x * 10 + digit_val c) (ds @ r) = Some (digits_val x (c # ds), r)" by simp
  from lt b have "x * 10 + digit_val c < 10 ^ 10" by linarith
  then have "x * 10 + digit_val c \<le> 2 ^ 63" "x \<le> 2 ^ 63 div 10" by simp_all
  with IH Cons.prems(1) show ?case by (simp add: Let_def)
qed

lemma unit_chars:
  "u \<in> set [''h'', ''m'', ''s'', ''ms''] \<Longrightarrow>
     u \<noteq> [] \<and> list_all unit_char u \<and> \<not> is_digit (hd u) \<and> hd u \<noteq> CHR ''.'' \<and>
     (\<exists>n. unitMap u = Some n \<and> 0 < n \<and> n \<le> Hour)"
  by (auto simp: unit_char_def is_digit_def unitMap_def duration_units)

lemma parse_unit_gw:
  assumes "u \<in> set [''h'', ''m'', ''s'', ''ms'']" "r = [] \<or> is_digit (hd r)"
  shows "parse_unit (u @ r) = map_option (\<lambda>n. (n, r)) (unitMap u)"
proof -
  have "takeWhile unit_char (u @ r) = u" "dropWhile unit_char (u @ r) = r"
    using unit_chars[OF assms(1)] assms(2)
    by (cases r; auto simp: list_all_iff unit_char_def takeWhile_append dropWhile_append)+
  with unit_chars[OF assms(1)] show ?thesis
    by (auto simp: parse_unit_def Let_def split: option.splits)
qed

lemma parse_component_gw:
  assumes c: "gw_component (ds, u)" and r: "r = [] \<or> is_digit (hd r)"
  shows "parse_component (ds @ u @ r) = Some (component_nanos (ds, u), r)"
    and "component_nanos (ds, u) \<le> 99999 * Hour"
proof -
  from c have ds: "ds \<noteq> []" "length ds \<le> 5" "list_all is_digit ds"
    and u: "u \<in> set [''h'', ''m'', ''s'', ''ms'']"
    by (auto simp: gw_component_def)
  from unit_chars[OF u] obtain n where n: "unitMap u = Some n" "0 < n" "n \<le> Hour"
    and hu: "u \<noteq> []" "\<not> is_digit (hd u)" "hd u \<noteq> CHR ''.''" by auto
  have pow: "(10 :: nat) ^ length ds \<le> 10 ^ 5" by (rule power_increasing) (use ds in auto)
  have v: "digits_val 0 ds < 1 * 10 ^ length ds" by (rule digits_val_bound[OF ds(3)]) simp
  with pow have v5: "digits_val 0 ds \<le> 99999" by simp
  have num: "leadingInt 0 (ds @ u @ r) = Some (digits_val 0 ds, u @ r)"
    by (rule leadingInt_digits[OF ds(3), where b = 1]) (use hu pow in auto)
  have "hd (ds @ u @ r) = hd ds" "is_digit (hd ds)" using ds by (cases ds; simp)+
  with num ds hu have number: "parse_number (ds @ u @ r) = Some (digits_val 0 ds, 0, 1, u @ r)"
    by (cases u) (auto simp: parse_number_def parse_fraction_def Let_def)
  have "2 ^ 63 div Hour \<le> 2 ^ 63 div n" using n by (intro div_le_mono2)
  with v5 have le: "\<not> 2 ^ 63 div n < digits_val 0 ds" by (simp add: Hour_def)
  with number n show "parse_component (ds @ u @ r) = Some (component_nanos (ds, u), r)"
    by (simp add: parse_component_def component_value_def parse_unit_gw[OF u r] component_nanos_def)
  show "component_nanos (ds, u) \<le> 99999 * Hour"
    using mult_le_mono[OF v5 n(3)] n(1) by (simp add: component_nanos_def)
qed

lemma gw_render_head:
  "list_all gw_component cs \<Longrightarrow> gw_render cs = [] \<or> is_digit (hd (gw_render cs))"
proof (cases cs)
  case (Cons c cs')
  moreover assume "list_all gw_component cs"
  ultimately show ?thesis
    by (cases c; cases "fst c") (auto simp: gw_render_def gw_component_def)
qed (simp add: gw_render_def)

lemma parse_loop_gw:
  "list_all gw_component cs \<Longrightarrow> d + length cs * (99999 * Hour) < 2 ^ 63 \<Longrightarrow>
     parse_loop d (gw_render cs) = Some (d + sum_list (map component_nanos cs))"
proof (induction cs arbitrary: d)
  case Nil
  show ?case by (simp add: gw_render_def parse_loop.simps)
next
  case (Cons c cs)
  obtain ds u where c: "c = (ds, u)" by (cases c)
  let ?n = "component_nanos c"
  from Cons.prems(1) have gw: "gw_component (ds, u)" "list_all gw_component cs" by (auto simp: c)
  note pc = parse_component_gw[OF gw(1) gw_render_head[OF gw(2)]]
  have r: "gw_render (c # cs) = ds @ u @ gw_render cs" "ds \<noteq> []"
    using gw(1) by (auto simp: gw_render_def c gw_component_def)
  have small: "d + ?n + length cs * (99999 * Hour) < 2 ^ 63"
    using Cons.prems(2) pc(2) by (simp add: c algebra_simps)
  then have "(d + ?n) mod 2 ^ 64 = d + ?n" "\<not> 2 ^ 63 < d + ?n" by auto
  with Cons.IH[OF gw(2) small] pc(1) r show ?case
    by (subst parse_loop.simps) (simp add: Let_def c algebra_simps)
qed

text \<open>
  C16. The timeouts that Gateway API admission lets through are parsed exactly: any duration of
  one to four components of at most five digits and a unit h, m, s or ms is accepted by
  parseGatewayDuration, without overflow or rounding, and denotes the sum of its components
  in nanoseconds.
\<close>

theorem parseGatewayDuration_admitted:
  assumes "list_all gw_component cs" and "cs \<noteq> []" and "length cs \<le> 4"
  shows "parseGatewayDuration (gw_render cs) = Inr (int (sum_list (map component_nanos cs)))"
proof -
  have "length cs * (99999 * Hour) \<le> 4 * (99999 * Hour)" by (rule mult_le_mono1[OF assms(3)])
  then have bound: "0 + length cs * (99999 * Hour) < 2 ^ 63" by (simp add: Hour_def)
  have loop: "parse_loop 0 (gw_render cs) = Some (sum_list (map component_nanos cs))"
    using parse_loop_gw[OF assms(1) bound] by simp
  have "sum_list (map component_nanos cs) \<le> length cs * (99999 * Hour)"
    using assms(1) by (induction cs) (auto dest!: parse_component_gw(2)[where r = "[]"])
  with bound have le: "\<not> 2 ^ 63 - 1 < sum_list (map component_nanos cs)" by simp
  obtain ds u cs' where cs: "cs = (ds, u) # cs'" using assms(2) by (cases cs) auto
  then have "\<exists>c s. gw_render cs = c # s \<and> is_digit c \<and> s \<noteq> []"
    using assms(1) by (cases ds) (auto simp: gw_render_def gw_component_def)
  then obtain c s where "gw_render cs = c # s" "is_digit c" "s \<noteq> []" by blast
  moreover from this(2) have "c \<noteq> CHR ''-''" "c \<noteq> CHR ''+''" by (auto simp: is_digit_def)
  ultimately show ?thesis
    using loop le by (auto simp: parseGatewayDuration_def ParseDuration_def Let_def)
qed

theorem parseGatewayDuration_admitted_witness:
  "parseGatewayDuration ''1h30s'' = Inr 3630000000000"
  using parseGatewayDuration_admitted [of "[(''1'', ''h''), (''30'', ''s'')]"]
  by (simp add: gw_component_def gw_render_def component_nanos_def is_digit_def unitMap_def
      digit_val_def duration_units)

end
