(* ===== verification/Ingress.thy ===== *)
theory Ingress
  imports GatewayApi GoTime
begin

text \<open>
  internal/cloudflare/ingress.go: conversion of the four route kinds into built ingress rules.
  The loops over routes, rules, hostnames and matches append to one slice, so each is the
  concatenation of what its iterations produce; \<open>enum\<close> pairs a rule with its index.
\<close>

section \<open>Backend references\<close>

record refIdentity =
  id_group :: string
  id_kind :: string
  id_name :: string
  id_namespace :: string
  id_port :: "int option"

definition identFromBackendObjectRef :: "BackendObjectReference \<Rightarrow> string \<Rightarrow> refIdentity" where
  "identFromBackendObjectRef r routeNS =
     \<lparr>id_group = deref_or '''' (bo_Group r),
      id_kind = deref_or ''Service'' (bo_Kind r),
      id_name = bo_Name r,
      id_namespace = deref_or routeNS (bo_Namespace r),
      id_port = bo_Port r\<rparr>"

definition service_url :: "string \<Rightarrow> string \<Rightarrow> string \<Rightarrow> int \<Rightarrow> string" where
  "service_url scheme name namespace port =
     scheme @ ''://'' @ name @ ''.'' @ namespace @ '':'' @ itoa port"

definition resolver_ref :: "refIdentity \<Rightarrow> string \<Rightarrow> string \<Rightarrow> BackendRef" where
  "resolver_ref i routeNS routeKind =
     \<lparr>RouteNamespace = routeNS, RouteKind = routeKind, ref_Group = id_group i,
      ref_Kind = id_kind i, ref_Namespace = id_namespace i, ref_Name = id_name i,
      ref_Port = id_port i\<rparr>"

text \<open>The result is the service URL, the origin delta and the flag external.\<close>

definition resolveServiceAndOrigin ::
  "refIdentity \<Rightarrow> string \<Rightarrow> string \<Rightarrow> BackendResolver \<Rightarrow> string \<Rightarrow> int \<Rightarrow> bool
     \<Rightarrow> string \<times> OriginRequest option \<times> bool" where
  "resolveServiceAndOrigin i routeNS routeKind resolve scheme defaultPort portRequired =
     (case resolve (resolver_ref i routeNS routeKind) of
        Some rb \<Rightarrow>
          if rb_Service rb = ''''
          then if routeKind = ''HTTPRoute'' then (''http_status:500'', None, True)
               else (''http_status:503'', None, True)
          else (rb_Service rb, rb_Origin rb, True)
      | None \<Rightarrow>
          (case id_port i of
             Some p \<Rightarrow> (service_url scheme (id_name i) (id_namespace i) p, None, False)
           | None \<Rightarrow>
               if portRequired then (''http_status:503'', None, False)
               else (service_url scheme (id_name i) (id_namespace i) defaultPort, None, False)))"

definition backendRefToTCPService ::
  "BackendObjectReference list \<Rightarrow> string \<Rightarrow> BackendResolver \<Rightarrow> string \<times> OriginRequest option \<times> bool" where
  "backendRefToTCPService refs routeNS resolve =
     (case refs of [] \<Rightarrow> (''http_status:503'', None, False)
      | r # _ \<Rightarrow> resolveServiceAndOrigin (identFromBackendObjectRef r routeNS) routeNS ''TCPRoute''
                   resolve ''tcp'' 0 True)"

definition backendRefToService ::
  "BackendObjectReference list \<Rightarrow> string \<Rightarrow> BackendResolver \<Rightarrow> string \<times> OriginRequest option \<times> bool" where
  "backendRefToService refs routeNS resolve =
     (case refs of [] \<Rightarrow> (''http_status:503'', None, False)
      | r # _ \<Rightarrow> resolveServiceAndOrigin (identFromBackendObjectRef r routeNS) routeNS ''HTTPRoute''
                   resolve ''http'' 80 False)"

definition backendRefToTLSService ::
  "BackendObjectReference list \<Rightarrow> string \<Rightarrow> BackendResolver \<Rightarrow> string \<times> OriginRequest option \<times> bool" where
  "backendRefToTLSService refs routeNS resolve =
     (case refs of [] \<Rightarrow> (''http_status:503'', None, False)
      | r # _ \<Rightarrow> resolveServiceAndOrigin (identFromBackendObjectRef r routeNS) routeNS ''TLSRoute''
                   resolve ''https'' 443 False)"

definition grpcBackendRefToService ::
  "BackendObjectReference list \<Rightarrow> string \<Rightarrow> BackendResolver \<Rightarrow> string \<times> OriginRequest option \<times> bool" where
  "grpcBackendRefToService refs routeNS resolve =
     (case refs of [] \<Rightarrow> (''http_status:503'', None, False)
      | r # _ \<Rightarrow> resolveServiceAndOrigin (identFromBackendObjectRef r routeNS) routeNS ''GRPCRoute''
                   resolve ''http'' 80 False)"

section \<open>Matches\<close>

record builtMatch =
  bm_path :: string
  bm_kind :: pathKind
  bm_litLen :: int
  bm_methodMatch :: bool
  bm_headerCount :: int
  bm_queryCount :: int
  bm_unsupported :: bool

definition match_all :: builtMatch where
  "match_all = \<lparr>bm_path = '''', bm_kind = pathNone, bm_litLen = 0, bm_methodMatch = False,
     bm_headerCount = 0, bm_queryCount = 0, bm_unsupported = False\<rparr>"

definition len :: "'a list \<Rightarrow> int" where
  "len xs = int (length xs)"

definition applyPathMatch :: "builtMatch \<Rightarrow> HTTPPathMatch option \<Rightarrow> builtMatch" where
  "applyPathMatch bm p =
     (case p of
        None \<Rightarrow> bm\<lparr>bm_kind := pathNone\<rparr>
      | Some pm \<Rightarrow>
        let value = deref_or ''/'' (pm_Value pm);
            pathType = deref_or ''PathPrefix'' (pm_Type pm)
        in if pathType = ''Exact''
           then bm\<lparr>bm_path := ''^'' @ QuoteMeta value @ ''$'', bm_kind := pathExact,
                   bm_litLen := len value\<rparr>
           else if pathType = ''PathPrefix''
           then (if value = ''/'' then bm\<lparr>bm_kind := pathNone\<rparr>
                 else let prefix = TrimRight value ''/'' in
                   bm\<lparr>bm_path := ''^'' @ QuoteMeta prefix @ ''(/.*)?$'', bm_kind := pathPrefix,
                      bm_litLen := len prefix\<rparr>)
           else if pathType = ''RegularExpression''
           then bm\<lparr>bm_path := value, bm_kind := pathRegex, bm_litLen := len value\<rparr>
           else bm)"

definition http_match :: "HTTPRouteMatch \<Rightarrow> builtMatch" where
  "http_match m =
     (let hc = len (hm_Headers m); qc = len (hm_QueryParams m); mm = hm_Method m \<noteq> None;
          bm = match_all\<lparr>bm_headerCount := hc, bm_queryCount := qc, bm_methodMatch := mm,
                 bm_unsupported := mm \<or> hc > 0 \<or> qc > 0\<rparr>
      in applyPathMatch bm (hm_Path m))"

definition extractMatches :: "HTTPRouteMatch list \<Rightarrow> builtMatch list" where
  "extractMatches matches = (if matches = [] then [match_all] else map http_match matches)"

text \<open>The first filter, in order, that sets the host; a filter that does not falls through.\<close>

fun set_host :: "(string \<times> string) list \<Rightarrow> string option" where
  "set_host [] = None"
| "set_host ((name, value) # hs) = (if EqualFold name ''host'' then Some value else set_host hs)"

fun extractHostRewrite :: "HTTPRouteFilter list \<Rightarrow> string option" where
  "extractHostRewrite [] = None"
| "extractHostRewrite (f # fs) =
     (if f_Type f = ''URLRewrite''
      then (case URLRewrite f of Some (Some h) \<Rightarrow> Some h | _ \<Rightarrow> extractHostRewrite fs)
      else if f_Type f = ''RequestHeaderModifier''
      then (case RequestHeaderModifier f of
              Some hs \<Rightarrow> (case set_host hs of Some v \<Rightarrow> Some v | None \<Rightarrow> extractHostRewrite fs)
            | None \<Rightarrow> extractHostRewrite fs)
      else extractHostRewrite fs)"

definition grpc_path :: "string \<Rightarrow> string \<Rightarrow> string" where
  "grpc_path svc method =
     (if svc \<noteq> '''' \<and> method \<noteq> '''' then ''^/'' @ svc @ ''/'' @ method @ ''$''
      else if svc \<noteq> '''' then ''^/'' @ svc @ ''/''
      else ''^.*/'' @ method @ ''$'')"

definition escape_dots :: "string \<Rightarrow> string" where
  "escape_dots s = ReplaceAll1 s (CHR ''.'') [backslash, CHR ''.'']"

definition grpcMethodPath :: "GRPCMethodMatch option \<Rightarrow> string" where
  "grpcMethodPath mm =
     (case mm of None \<Rightarrow> ''''
      | Some m \<Rightarrow>
        let matchType = deref_or ''Exact'' (mm_Type m);
            svc = deref_or '''' (mm_Service m); method = deref_or '''' (mm_Method m)
        in if svc = '''' \<and> method = '''' then ''''
           else if matchType = ''Exact'' then grpc_path (escape_dots svc) (escape_dots method)
           else if matchType = ''RegularExpression'' then grpc_path svc method
           else '''')"

definition grpc_match :: "GRPCRouteMatch \<Rightarrow> builtMatch" where
  "grpc_match m =
     (let path = grpcMethodPath (gm_Method m) in
      if path \<noteq> ''''
      then match_all\<lparr>bm_path := path, bm_kind := pathRegex, bm_litLen := len path,
             bm_methodMatch := True\<rparr>
      else match_all)"

definition extractGRPCMatches :: "GRPCRouteMatch list \<Rightarrow> builtMatch list" where
  "extractGRPCMatches matches = (if matches = [] then [match_all] else map grpc_match matches)"

section \<open>Rules\<close>

definition routeNamespace :: "string \<Rightarrow> string" where
  "routeNamespace ns = (if ns = '''' then ''default'' else ns)"

definition hostnameSpecificity :: "string \<Rightarrow> bool \<times> int" where
  "hostnameSpecificity h =
     (if h = '''' then (False, 0)
      else if HasPrefix h ''*'' then (False, len (TrimPrefix h ''*''))
      else (True, len h))"

text \<open>A shallow copy; on values it is the identity.\<close>

definition cloneOriginRequest :: "OriginRequest option \<Rightarrow> OriginRequest option" where
  "cloneOriginRequest r = r"

definition buildOriginRequest :: "string option \<Rightarrow> OriginRequest option" where
  "buildOriginRequest hostRewrite =
     (case hostRewrite of None \<Rightarrow> None
      | Some h \<Rightarrow> Some (zero_origin\<lparr>HTTPHostHeader := Some h\<rparr>))"

text \<open>What is known of a route when one of its rules is expanded.\<close>

record provenance =
  pv_kind :: string
  pv_namespace :: string
  pv_name :: string
  pv_created :: Time
  pv_index :: int

definition emit_rule ::
  "provenance \<Rightarrow> string \<Rightarrow> OriginRequest option \<Rightarrow> string \<Rightarrow> builtMatch \<Rightarrow> BuiltRule" where
  "emit_rule pv service originReq host m =
     \<lparr>built_rule = \<lparr>Hostname = host, Path = bm_path m, Service = service,
                    rule_Origin = cloneOriginRequest originReq\<rparr>,
      br_RouteKind = pv_kind pv, br_RouteNamespace = pv_namespace pv, br_RouteName = pv_name pv,
      br_RouteCreated = pv_created pv, br_RuleIndex = pv_index pv,
      Specificity = \<lparr>HostnameExact = fst (hostnameSpecificity host),
        HostnameLen = snd (hostnameSpecificity host), PathKind = bm_kind m,
        PrefixLen = bm_litLen m, MethodMatch = bm_methodMatch m,
        HeaderCount = bm_headerCount m, QueryCount = bm_queryCount m\<rparr>,
      UnsupportedMatch = bm_unsupported m\<rparr>"

definition fanOutHTTPFamily ::
  "provenance \<Rightarrow> string list \<Rightarrow> string \<Rightarrow> OriginRequest option \<Rightarrow> builtMatch list \<Rightarrow> BuiltRule list" where
  "fanOutHTTPFamily pv hostnames service originReq matches =
     (if hostnames = [] then map (emit_rule pv service originReq '''') matches
      else concat (map (\<lambda>h. map (emit_rule pv service originReq h) matches) hostnames))"

definition enum :: "'a list \<Rightarrow> (int \<times> 'a) list" where
  "enum xs = zip (map int [0..<length xs]) xs"

definition route_provenance :: "string \<Rightarrow> 'r Route \<Rightarrow> int \<Rightarrow> provenance" where
  "route_provenance kind route ri =
     \<lparr>pv_kind = kind, pv_namespace = routeNamespace (rt_Namespace route), pv_name = rt_Name route,
      pv_created = CreationTimestamp (rt_meta route), pv_index = ri\<rparr>"

definition for_rules :: "('r Route \<Rightarrow> int \<times> 'r \<Rightarrow> BuiltRule list) \<Rightarrow> 'r Route list \<Rightarrow> BuiltRule list" where
  "for_rules body routes =
     concat (map (\<lambda>route. concat (map (body route) (enum (Rules route)))) routes)"

text \<open>The origin settings of an HTTP rule: host rewrite, then connect timeout if it parses.\<close>

definition http_rule_origin :: "HTTPRouteRule \<Rightarrow> OriginRequest option" where
  "http_rule_origin rule =
     (let originReq = buildOriginRequest (extractHostRewrite (hr_Filters rule)) in
      case hr_Timeouts rule of
        Some (Some t) \<Rightarrow>
          (case parseGatewayDuration t of
             Inr timeout \<Rightarrow>
               Some ((deref_or zero_origin originReq)\<lparr>ConnectTimeout := Some timeout\<rparr>)
           | Inl _ \<Rightarrow> originReq)
      | _ \<Rightarrow> originReq)"

definition build_http_rule :: "BackendResolver \<Rightarrow> HTTPRoute \<Rightarrow> int \<times> HTTPRouteRule \<Rightarrow> BuiltRule list" where
  "build_http_rule resolve route ir =
     (let (ri, rule) = ir;
          (service, backendOrigin, _) =
            backendRefToService (hr_BackendRefs rule) (routeNamespace (rt_Namespace route)) resolve;
          originReq = MergeOriginRequest (http_rule_origin rule) backendOrigin
      in fanOutHTTPFamily (route_provenance ''HTTPRoute'' route ri) (Hostnames route) service
           originReq (extractMatches (hr_Matches rule)))"

definition BuildIngressRules :: "HTTPRoute list \<Rightarrow> BackendResolver \<Rightarrow> BuiltRule list" where
  "BuildIngressRules routes resolve = for_rules (build_http_rule resolve) routes"

definition build_grpc_rule :: "BackendResolver \<Rightarrow> GRPCRoute \<Rightarrow> int \<times> GRPCRouteRule \<Rightarrow> BuiltRule list" where
  "build_grpc_rule resolve route ir =
     (let (ri, rule) = ir;
          (service, backendOrigin, _) =
            grpcBackendRefToService (gr_BackendRefs rule) (routeNamespace (rt_Namespace route)) resolve;
          originReq = MergeOriginRequest (Some (zero_origin\<lparr>HTTP2Origin := Some True\<rparr>)) backendOrigin
      in fanOutHTTPFamily (route_provenance ''GRPCRoute'' route ri) (Hostnames route) service
           originReq (extractGRPCMatches (gr_Matches rule)))"

definition BuildGRPCIngressRules :: "GRPCRoute list \<Rightarrow> BackendResolver \<Rightarrow> BuiltRule list" where
  "BuildGRPCIngressRules routes resolve = for_rules (build_grpc_rule resolve) routes"

text \<open>
  TLS and TCP rules have no match: the specificity fields that the code leaves at their zero
  value are those of \<^const>\<open>match_all\<close>. A TCP rule leaves the hostname part at zero too,
  which is what hostnameSpecificity gives for the empty hostname.
\<close>

definition build_tls_rule :: "BackendResolver \<Rightarrow> TLSRoute \<Rightarrow> int \<times> StreamRouteRule \<Rightarrow> BuiltRule list" where
  "build_tls_rule resolve route ir =
     (let (ri, rule) = ir;
          (service, backendOrigin, external) =
            backendRefToTLSService (sr_BackendRefs rule) (routeNamespace (rt_Namespace route)) resolve;
          origin = (if external then backendOrigin
                    else Some (zero_origin\<lparr>NoTLSVerify := Some True\<rparr>));
          emit = (\<lambda>host. emit_rule (route_provenance ''TLSRoute'' route ri) service origin host match_all)
      in if Hostnames route = [] then [emit ''''] else map emit (Hostnames route))"

definition BuildTLSIngressRules :: "TLSRoute list \<Rightarrow> BackendResolver \<Rightarrow> BuiltRule list" where
  "BuildTLSIngressRules routes resolve = for_rules (build_tls_rule resolve) routes"

definition build_tcp_rule :: "BackendResolver \<Rightarrow> TCPRoute \<Rightarrow> int \<times> StreamRouteRule \<Rightarrow> BuiltRule list" where
  "build_tcp_rule resolve route ir =
     (let (ri, rule) = ir;
          (service, backendOrigin, _) =
            backendRefToTCPService (sr_BackendRefs rule) (routeNamespace (rt_Namespace route)) resolve
      in [emit_rule (route_provenance ''TCPRoute'' route ri) service backendOrigin '''' match_all])"

definition BuildTCPIngressRules :: "TCPRoute list \<Rightarrow> BackendResolver \<Rightarrow> BuiltRule list" where
  "BuildTCPIngressRules routes resolve = for_rules (build_tcp_rule resolve) routes"

section \<open>Building against a resolver that fails closed\<close>

text \<open>
  The contract the builders rely on: what the resolver leaves to the native Service path is a
  reference that may be served natively, and what it claims with a service URL is an external
  backend that may be served. An empty claim is a refusal. The conclusion is that the service of
  every rule is an error status, the URL of a \<open>native\<close> reference, or an \<open>external\<close> service.
\<close>

locale fail_closed =
  fixes resolve :: BackendResolver and native :: "BackendRef \<Rightarrow> bool"
    and external :: "BackendRef \<Rightarrow> ResolvedBackend \<Rightarrow> bool"
  assumes native_only: "resolve ref = None \<Longrightarrow> native ref"
    and external_only: "resolve ref = Some rb \<Longrightarrow> rb_Service rb \<noteq> '''' \<Longrightarrow> external ref rb"
begin

definition served :: "BackendRef \<Rightarrow> string \<Rightarrow> bool" where
  "served ref service \<longleftrightarrow> service \<in> set [''http_status:500'', ''http_status:503''] \<or>
     (native ref \<and> (\<exists>scheme p. p = deref_or p (ref_Port ref) \<and>
        service = service_url scheme (ref_Name ref) (ref_Namespace ref) p)) \<or>
     (\<exists>rb. external ref rb \<and> service = rb_Service rb)"

lemma resolved_served:
  assumes "resolveServiceAndOrigin i ns kind resolve scheme dp req = (service, o', ext)"
  shows "served (resolver_ref i ns kind) service"
proof (cases "resolve (resolver_ref i ns kind)")
  case None
  show ?thesis
  proof (cases "id_port i")
    case Some
    then show ?thesis
      using assms None native_only[OF None]
      by (auto simp: resolveServiceAndOrigin_def served_def resolver_ref_def)
  next
    case inner: None
    then have "service = ''http_status:503'' \<or>
        service = service_url scheme (id_name i) (id_namespace i) dp"
      using assms None by (auto simp: resolveServiceAndOrigin_def split: if_splits)
    then show ?thesis
      using native_only[OF None] inner by (auto simp: served_def resolver_ref_def)
  qed
next
  case (Some rb)
  show ?thesis
  proof (cases "rb_Service rb = ''''")
    case True
    then show ?thesis using assms Some
      by (auto simp: resolveServiceAndOrigin_def served_def split: if_splits)
  next
    case False
    then show ?thesis using assms Some external_only[OF Some False]
      by (auto simp: resolveServiceAndOrigin_def served_def)
  qed
qed

text \<open>The first backendRef of a rule decides; a rule without one answers 503.\<close>

definition served_first :: "BackendObjectReference list \<Rightarrow> string \<Rightarrow> string \<Rightarrow> string \<Rightarrow> bool" where
  "served_first refs ns kind service \<longleftrightarrow>
     (case refs of [] \<Rightarrow> service = ''http_status:503''
      | r # _ \<Rightarrow> served (resolver_ref (identFromBackendObjectRef r ns) ns kind) service)"

lemma fan_out_service:
  "b \<in> set (fanOutHTTPFamily pv hs service o' ms) \<Longrightarrow>
     Service (built_rule b) = service \<and> br_RouteKind b = pv_kind pv \<and> br_RouteNamespace b = pv_namespace pv \<and>
     br_RouteName b = pv_name pv"
  by (auto simp: fanOutHTTPFamily_def emit_rule_def split: if_splits)

lemma for_rules_mem:
  assumes "b \<in> set (for_rules body routes)"
  obtains route ri rule where "route \<in> set routes" "rule \<in> set (Rules route)" "b \<in> set (body route (ri, rule))"
  using assms by (auto simp: for_rules_def enum_def dest: set_zip_rightD)

lemma http_rules_served:
  assumes "b \<in> set (BuildIngressRules routes resolve)"
  shows "\<exists>route rule. route \<in> set routes \<and> rule \<in> set (Rules route) \<and> br_RouteName b = rt_Name route \<and>
    served_first (hr_BackendRefs rule) (routeNamespace (rt_Namespace route)) ''HTTPRoute'' (Service (built_rule b))"
proof -
  obtain route ri rule where m: "route \<in> set routes" "rule \<in> set (Rules route)"
      "b \<in> set (build_http_rule resolve route (ri, rule))"
    using assms unfolding BuildIngressRules_def by (rule for_rules_mem)
  obtain service o' ext where s: "backendRefToService (hr_BackendRefs rule)
      (routeNamespace (rt_Namespace route)) resolve = (service, o', ext)"
    by (rule prod_cases3)
  have "served_first (hr_BackendRefs rule) (routeNamespace (rt_Namespace route)) ''HTTPRoute'' service"
    using s by (auto simp: backendRefToService_def served_first_def split: list.splits intro: resolved_served)
  moreover have "Service (built_rule b) = service \<and> br_RouteName b = rt_Name route"
    using m(3) fan_out_service by (fastforce simp: build_http_rule_def s Let_def route_provenance_def)
  ultimately show ?thesis using m by blast
qed

lemma grpc_rules_served:
  assumes "b \<in> set (BuildGRPCIngressRules routes resolve)"
  shows "\<exists>route rule. route \<in> set routes \<and> rule \<in> set (Rules route) \<and> br_RouteName b = rt_Name route \<and>
    served_first (gr_BackendRefs rule) (routeNamespace (rt_Namespace route)) ''GRPCRoute'' (Service (built_rule b))"
proof -
  obtain route ri rule where m: "route \<in> set routes" "rule \<in> set (Rules route)"
      "b \<in> set (build_grpc_rule resolve route (ri, rule))"
    using assms unfolding BuildGRPCIngressRules_def by (rule for_rules_mem)
  obtain service o' ext where s: "grpcBackendRefToService (gr_BackendRefs rule)
      (routeNamespace (rt_Namespace route)) resolve = (service, o', ext)"
    by (rule prod_cases3)
  have "served_first (gr_BackendRefs rule) (routeNamespace (rt_Namespace route)) ''GRPCRoute'' service"
    using s by (auto simp: grpcBackendRefToService_def served_first_def split: list.splits intro: resolved_served)
  moreover have "Service (built_rule b) = service \<and> br_RouteName b = rt_Name route"
    using m(3) fan_out_service by (fastforce simp: build_grpc_rule_def s Let_def route_provenance_def)
  ultimately show ?thesis using m by blast
qed

lemma tls_rules_served:
  assumes "b \<in> set (BuildTLSIngressRules routes resolve)"
  shows "\<exists>route rule. route \<in> set routes \<and> rule \<in> set (Rules route) \<and> br_RouteName b = rt_Name route \<and>
    served_first (sr_BackendRefs rule) (routeNamespace (rt_Namespace route)) ''TLSRoute'' (Service (built_rule b))"
proof -
  obtain route ri rule where m: "route \<in> set routes" "rule \<in> set (Rules route)"
      "b \<in> set (build_tls_rule resolve route (ri, rule))"
    using assms unfolding BuildTLSIngressRules_def by (rule for_rules_mem)
  obtain service o' ext where s: "backendRefToTLSService (sr_BackendRefs rule)
      (routeNamespace (rt_Namespace route)) resolve = (service, o', ext)"
    by (rule prod_cases3)
  have "served_first (sr_BackendRefs rule) (routeNamespace (rt_Namespace route)) ''TLSRoute'' service"
    using s by (auto simp: backendRefToTLSService_def served_first_def split: list.splits intro: resolved_served)
  moreover have "Service (built_rule b) = service \<and> br_RouteName b = rt_Name route"
    using m(3) by (auto simp: build_tls_rule_def s Let_def route_provenance_def emit_rule_def split: if_splits)
  ultimately show ?thesis using m by blast
qed

lemma tcp_rules_served:
  assumes "b \<in> set (BuildTCPIngressRules routes resolve)"
  shows "\<exists>route rule. route \<in> set routes \<and> rule \<in> set (Rules route) \<and> br_RouteName b = rt_Name route \<and>
    served_first (sr_BackendRefs rule) (routeNamespace (rt_Namespace route)) ''TCPRoute'' (Service (built_rule b))"
proof -
  obtain route ri rule where m: "route \<in> set routes" "rule \<in> set (Rules route)"
      "b \<in> set (build_tcp_rule resolve route (ri, rule))"
    using assms unfolding BuildTCPIngressRules_def by (rule for_rules_mem)
  obtain service o' ext where s: "backendRefToTCPService (sr_BackendRefs rule)
      (routeNamespace (rt_Namespace route)) resolve = (service, o', ext)"
    by (rule prod_cases3)
  have "served_first (sr_BackendRefs rule) (routeNamespace (rt_Namespace route)) ''TCPRoute'' service"
    using s by (auto simp: backendRefToTCPService_def served_first_def split: list.splits intro: resolved_served)
  moreover have "Service (built_rule b) = service \<and> br_RouteName b = rt_Name route"
    using m(3) by (auto simp: build_tcp_rule_def s Let_def route_provenance_def emit_rule_def)
  ultimately show ?thesis using m by blast
qed

end

end
