(* ===== verification/PathRegex.thy ===== *)
theory PathRegex
  imports Ingress
begin

text \<open>
  What the path patterns mean. Cloudflare reads the path of an ingress rule as a Go regular
  expression and matches it anywhere in the request path. This theory models package regexp on
  the syntax that applyPathMatch and grpcMethodPath emit for literal values (anchors, escaped and plain literals,
  the dot with a star, an optional group; anything else is outside the subset and parses to
  \<^const>\<open>None\<close>), and shows that the emitted patterns mean the path and method matches of the Gateway API.
\<close>

section \<open>A subset of package regexp\<close>

datatype item = Bol | Eol | Lit char | Any | Star item | Opt "item list"

text \<open>
  A parser with one unit of fuel per byte and nesting level. It returns the items up to the end
  of the input or an unmatched closing bracket. A star applies to a single-byte item, a question
  mark to a group.
\<close>

definition single :: "char \<Rightarrow> item option" where
  "single c =
     (if c = CHR ''.'' then Some Any
      else if is_meta c then None
      else Some (Lit c))"

fun starred :: "item \<Rightarrow> string \<Rightarrow> item \<times> string" where
  "starred i [] = (i, [])"
| "starred i (c # s) = (if c = CHR ''*'' then (Star i, s) else (i, c # s))"

fun parse_items :: "nat \<Rightarrow> string \<Rightarrow> (item list \<times> string) option" where
  "parse_items 0 s = None"
| "parse_items (Suc n) [] = Some ([], [])"
| "parse_items (Suc n) (c # s) =
     (let continue = (\<lambda>its s'. map_option (\<lambda>(is, r). (its @ is, r)) (parse_items n s')) in
      if c = CHR '')'' then Some ([], c # s)
      else if c = CHR ''^'' then continue [Bol] s
      else if c = CHR ''$'' then continue [Eol] s
      else if c = backslash
        then (case s of [] \<Rightarrow> None
              | d # s' \<Rightarrow> if is_meta d then (case starred (Lit d) s' of (i, r) \<Rightarrow> continue [i] r) else None)
      else if c = CHR ''(''
        then (case parse_items n s of
                Some (body, d # r) \<Rightarrow>
                  (case r of
                     q # r' \<Rightarrow> if q = CHR ''?'' then continue [Opt body] r'
                               else if q \<in> set ''*+{'' then None else continue body r
                   | [] \<Rightarrow> Some (body, []))
              | _ \<Rightarrow> None)
      else (case single c of None \<Rightarrow> None
            | Some i \<Rightarrow> (case starred i s of (i', r) \<Rightarrow> continue [i'] r)))"

definition parse_regex :: "string \<Rightarrow> item list option" where
  "parse_regex pat =
     (case parse_items (Suc (length pat)) pat of Some (its, []) \<Rightarrow> Some its | _ \<Rightarrow> None)"

text \<open>
  Matching with backtracking: the items still to match, whether the position is the start of
  the text, and the rest of the text. The dot does not match a line feed.
\<close>

fun item_size :: "item \<Rightarrow> nat" where
  "item_size (Opt is) = Suc (Suc (sum_list (map item_size is)))"
| "item_size (Star i) = Suc (Suc (item_size i))"
| "item_size _ = 1"

definition items_size :: "item list \<Rightarrow> nat" where
  "items_size is = sum_list (map item_size is)"

fun accepts :: "item \<Rightarrow> char \<Rightarrow> bool" where
  "accepts (Lit c) d = (c = d)"
| "accepts Any d = (d \<noteq> CHR 0x0A)"
| "accepts _ d = False"

function match_here :: "item list \<Rightarrow> bool \<Rightarrow> string \<Rightarrow> bool" where
  "match_here [] start s = True"
| "match_here (Bol # k) start s = (start \<and> match_here k start s)"
| "match_here (Eol # k) start s = (s = [] \<and> match_here k start s)"
| "match_here (Lit c # k) start s =
     (case s of [] \<Rightarrow> False | d # s' \<Rightarrow> accepts (Lit c) d \<and> match_here k False s')"
| "match_here (Any # k) start s =
     (case s of [] \<Rightarrow> False | d # s' \<Rightarrow> accepts Any d \<and> match_here k False s')"
| "match_here (Star i # k) start s =
     (match_here k start s \<or>
      (case s of [] \<Rightarrow> False | d # s' \<Rightarrow> accepts i d \<and> match_here (Star i # k) False s'))"
| "match_here (Opt is # k) start s = (match_here (is @ k) start s \<or> match_here k start s)"
  by pat_completeness auto
termination
  by (relation "measures [\<lambda>(is, start, s). length s, \<lambda>(is, start, s). items_size is]")
     (auto simp: items_size_def)

text \<open>regexp.MatchString: the pattern may match at any position.\<close>

definition MatchString :: "string \<Rightarrow> string \<Rightarrow> bool option" where
  "MatchString pat s =
     map_option (\<lambda>its. list_ex (\<lambda>i. match_here its (i = 0) (drop i s)) [0..<Suc (length s)])
       (parse_regex pat)"

section \<open>Parsing what the code emits\<close>

lemma parse_plain: "\<not> is_meta c \<Longrightarrow> starred (Lit c) s = (Lit c, s) \<Longrightarrow>
    parse_items (Suc n) (c # s) = map_option (\<lambda>(is, r). (Lit c # is, r)) (parse_items n s)"
  by (auto simp: is_meta_def single_def Let_def)

lemma starred_other: "s = [] \<or> hd s \<noteq> CHR ''*'' \<Longrightarrow> starred i s = (i, s)"
  by (cases s) auto

lemma QuoteMeta_Cons: "QuoteMeta (c # v) = (if is_meta c then [backslash, c] else [c]) @ QuoteMeta v"
  by (simp add: QuoteMeta_def)

lemma QuoteMeta_Nil [simp]: "QuoteMeta [] = []"
  by (simp add: QuoteMeta_def)

lemma QuoteMeta_hd: "rest = [] \<or> hd rest \<noteq> CHR ''*'' \<Longrightarrow>
    QuoteMeta v @ rest = [] \<or> hd (QuoteMeta v @ rest) \<noteq> CHR ''*''"
  by (cases v) (auto simp: QuoteMeta_Cons is_meta_def backslash_def)

lemma parse_QuoteMeta:
  assumes "rest = [] \<or> hd rest \<noteq> CHR ''*''"
  shows "parse_items (length (QuoteMeta v) + k) rest = Some (its, r) \<Longrightarrow>
    (\<And>n. k \<le> n \<Longrightarrow> parse_items n rest = Some (its, r)) \<Longrightarrow>
    parse_items (length (QuoteMeta v) + k) (QuoteMeta v @ rest) = Some (map Lit v @ its, r)"
proof (induction v arbitrary: k)
  case Nil
  then show ?case by simp
next
  case (Cons c v)
  note st = starred_other[OF QuoteMeta_hd[OF assms]]
  show ?case
  proof (cases "is_meta c")
    case True
    have "parse_items (length (QuoteMeta v) + Suc k) (QuoteMeta v @ rest) = Some (map Lit v @ its, r)"
      by (rule Cons.IH) (use Cons.prems(2) in auto)
    with True st show ?thesis
      by (simp add: QuoteMeta_Cons Let_def backslash_def)
  next
    case False
    have "parse_items (length (QuoteMeta v) + k) (QuoteMeta v @ rest) = Some (map Lit v @ its, r)"
      by (rule Cons.IH) (use Cons.prems(2) in auto)
    with False st parse_plain[of c "QuoteMeta v @ rest" "length (QuoteMeta v) + k"]
    show ?thesis by (simp add: QuoteMeta_Cons)
  qed
qed

lemma parse_dollar: "2 \<le> n \<Longrightarrow> parse_items n ''$'' = Some ([Eol], [])"
  unfolding le_iff_add by (auto simp: eval_nat_numeral)

lemma parse_exact: "parse_regex (''^'' @ QuoteMeta v @ ''$'') = Some (Bol # map Lit v @ [Eol])"
proof -
  have "parse_items (length (QuoteMeta v) + 2) (QuoteMeta v @ ''$'') = Some (map Lit v @ [Eol], [])"
    by (rule parse_QuoteMeta) (auto simp: parse_dollar)
  then show ?thesis by (simp add: parse_regex_def numeral_2_eq_2)
qed

definition tail_items :: "item list" where
  "tail_items = [Opt [Lit (CHR ''/''), Star Any], Eol]"

lemma parse_tail: "8 \<le> n \<Longrightarrow> parse_items n ''(/.*)?$'' = Some (tail_items, [])"
  unfolding le_iff_add
  by (auto simp: eval_nat_numeral tail_items_def backslash_def is_meta_def single_def Let_def)

lemma parse_prefix: "parse_regex (''^'' @ QuoteMeta v @ ''(/.*)?$'') = Some (Bol # map Lit v @ tail_items)"
proof -
  have "parse_items (length (QuoteMeta v) + 8) (QuoteMeta v @ ''(/.*)?$'') = Some (map Lit v @ tail_items, [])"
    by (rule parse_QuoteMeta) (auto simp: parse_tail)
  then show ?thesis by (simp add: parse_regex_def eval_nat_numeral)
qed

section \<open>Meaning of what the code emits\<close>

lemma match_literals:
  "match_here (map Lit v @ k) start s \<longleftrightarrow>
     (if v = [] then match_here k start s else (\<exists>r. s = v @ r \<and> match_here k False r))"
  by (induction v arbitrary: s start) (auto split: list.splits)

lemma match_star_any:
  "CHR 0x0A \<notin> set s \<Longrightarrow> match_here [Star Any, Eol] start s"
  by (induction s arbitrary: start) auto

lemma anchored_only:
  "list_ex (\<lambda>i. match_here (Bol # k) (i = 0) (drop i s)) [0..<Suc (length s)] \<longleftrightarrow> match_here k True s"
  by (auto simp: list_ex_iff)

lemma match_tail:
  "CHR 0x0A \<notin> set s \<Longrightarrow> match_here tail_items start s \<longleftrightarrow> s = [] \<or> hd s = CHR ''/''"
  by (cases s) (auto simp: tail_items_def match_star_any simp del: match_here.simps(6))

lemma MatchString_exact: "MatchString (''^'' @ QuoteMeta v @ ''$'') s = Some (s = v)"
  by (simp only: MatchString_def parse_exact option.map anchored_only match_literals) auto

lemma MatchString_prefix:
  assumes "CHR 0x0A \<notin> set s"
  shows "MatchString (''^'' @ QuoteMeta v @ ''(/.*)?$'') s = Some (s = v \<or> HasPrefix s (v @ ''/''))"
proof -
  have "match_here (map Lit v @ tail_items) True s \<longleftrightarrow> (\<exists>r. s = v @ r \<and> (r = [] \<or> hd r = CHR ''/''))"
    using assms by (auto simp: match_literals match_tail)
  also have "\<dots> \<longleftrightarrow> s = v \<or> HasPrefix s (v @ ''/'')"
    by (auto simp: HasPrefix_iff prefix_def) (metis append_Cons append_Nil list.collapse)
  finally show ?thesis
    by (simp only: MatchString_def parse_prefix option.map anchored_only)
qed

section \<open>The Gateway API's reading of a path prefix\<close>

text \<open>
  A PathPrefix match compares element by element, the path split at slashes, and ignores
  trailing slashes of the value.
\<close>

fun path_elements :: "string \<Rightarrow> string list" where
  "path_elements [] = [[]]"
| "path_elements (c # s) =
     (if c = CHR ''/'' then [] # path_elements s
      else (case path_elements s of [] \<Rightarrow> [[c]] | e # es \<Rightarrow> (c # e) # es))"

lemma path_elements_ne [simp]: "path_elements s \<noteq> []"
  by (cases s) (auto split: list.splits)

lemma path_elements_append:
  "path_elements (a @ CHR ''/'' # b) = path_elements a @ path_elements b"
  by (induction a) (auto split: list.splits)

fun join_path :: "string list \<Rightarrow> string" where
  "join_path [] = []"
| "join_path [e] = e"
| "join_path (e # es) = e @ CHR ''/'' # join_path es"

lemma join_path_Cons: "join_path (e # es) = e @ (if es = [] then [] else CHR ''/'' # join_path es)"
  by (cases es) auto

lemma join_elements [simp]: "join_path (path_elements s) = s"
  by (induction s) (auto simp: join_path_Cons split: list.splits)

lemma join_path_append:
  "es \<noteq> [] \<Longrightarrow> fs \<noteq> [] \<Longrightarrow> join_path (es @ fs) = join_path es @ CHR ''/'' # join_path fs"
  by (induction es) (auto simp: join_path_Cons)

lemma elements_prefix_iff:
  "prefix (path_elements a) (path_elements b) \<longleftrightarrow> b = a \<or> HasPrefix b (a @ ''/'')"
proof
  assume "prefix (path_elements a) (path_elements b)"
  then obtain es where es: "path_elements b = path_elements a @ es" by (auto simp: prefix_def)
  have "b = join_path (path_elements a @ es)" by (metis es join_elements)
  then show "b = a \<or> HasPrefix b (a @ ''/'')"
    by (cases "es = []") (auto simp: join_path_append HasPrefix_iff)
next
  assume "b = a \<or> HasPrefix b (a @ ''/'')"
  then show "prefix (path_elements a) (path_elements b)"
    by (auto simp: HasPrefix_iff prefix_def path_elements_append)
qed

definition gateway_path_match :: "string \<Rightarrow> string \<Rightarrow> string \<Rightarrow> bool" where
  "gateway_path_match pathType value path \<longleftrightarrow>
     (if pathType = ''Exact'' then path = value
      else value = ''/'' \<or> prefix (path_elements (TrimRight value ''/'')) (path_elements path))"

text \<open>How a rule's path is read: an empty path matches every request.\<close>

definition rule_path_matches :: "string \<Rightarrow> string \<Rightarrow> bool option" where
  "rule_path_matches pat path = (if pat = '''' then Some True else MatchString pat path)"

text \<open>
  C17. The path patterns mean what the HTTPRoute says. For an Exact match and for a PathPrefix
  match with any value (regular-expression metacharacters included), the pattern that
  applyPathMatch emits is a valid expression, and it accepts a request path without line feeds
  exactly when the Gateway API's match does: equality for Exact, element-wise prefix for
  PathPrefix, so that /foo admits /foo and /foo/bar but not /foobar.
\<close>

theorem applyPathMatch_pattern_meaning:
  assumes "pathType = ''Exact'' \<or> pathType = ''PathPrefix''" and "CHR 0x0A \<notin> set path"
  shows "rule_path_matches
      (bm_path (applyPathMatch match_all (Some \<lparr>pm_Type = Some pathType, pm_Value = Some value\<rparr>))) path
    = Some (gateway_path_match pathType value path)"
  using assms(1)
proof
  assume "pathType = ''Exact''"
  then show ?thesis
    by (auto simp: applyPathMatch_def rule_path_matches_def gateway_path_match_def MatchString_exact
        simp del: append.simps)
next
  assume "pathType = ''PathPrefix''"
  then show ?thesis
    by (auto simp: applyPathMatch_def rule_path_matches_def gateway_path_match_def match_all_def
        Let_def MatchString_prefix[OF assms(2)] elements_prefix_iff simp del: append.simps)
qed

theorem applyPathMatch_pattern_meaning_witness:
  "rule_path_matches
      (bm_path (applyPathMatch match_all
        (Some \<lparr>pm_Type = Some ''PathPrefix'', pm_Value = Some ''/a.b/''\<rparr>))) ''/a.b/c'' = Some True"
  using applyPathMatch_pattern_meaning [of "''PathPrefix''" "''/a.b/c''" "''/a.b/''"]
  by (simp add: gateway_path_match_def TrimRight_def)

section \<open>gRPC methods\<close>

text \<open>
  The names that admission allows in an Exact method match: letters, digits and
  underscores, with dots in the name of a service.
\<close>

definition grpc_name :: "string \<Rightarrow> bool" where
  "grpc_name s \<longleftrightarrow> list_all (\<lambda>c. c \<noteq> CHR ''/'' \<and> c \<noteq> CHR 0x0A \<and> (\<not> is_meta c \<or> c = CHR ''.'')) s"

lemma escape_dots_Cons: "escape_dots (c # s) = (if c = CHR ''.'' then [backslash, CHR ''.''] else [c]) @ escape_dots s"
  by (simp add: escape_dots_def ReplaceAll1_def)

lemma escape_dots_QuoteMeta: "grpc_name s \<Longrightarrow> escape_dots s = QuoteMeta s"
proof (induction s)
  case Nil
  then show ?case by (simp add: escape_dots_def ReplaceAll1_def)
next
  case (Cons c s)
  then show ?case by (auto simp: grpc_name_def escape_dots_Cons QuoteMeta_Cons is_meta_def)
qed

lemma QuoteMeta_append: "QuoteMeta (a @ b) = QuoteMeta a @ QuoteMeta b"
  by (simp add: QuoteMeta_def)

lemma QuoteMeta_slash [simp]: "QuoteMeta ''/'' = ''/''"
  by (simp add: QuoteMeta_def is_meta_def backslash_def)

lemma MatchString_open: "MatchString (''^'' @ QuoteMeta v) s = Some (HasPrefix s v)"
proof -
  have "parse_items (length (QuoteMeta v) + 1) (QuoteMeta v @ []) = Some (map Lit v @ [], [])"
    by (rule parse_QuoteMeta) (auto simp: Suc_le_eq gr0_conv_Suc)
  then have "parse_regex (''^'' @ QuoteMeta v) = Some (Bol # map Lit v @ [])"
    by (simp add: parse_regex_def)
  then show ?thesis
    unfolding MatchString_def
    by (simp only: option.map anchored_only match_literals) (auto simp: HasPrefix_iff prefix_def)
qed

lemma match_star:
  "CHR 0x0A \<notin> set s \<Longrightarrow> match_here (Star Any # map Lit (c # v) @ [Eol]) start s \<longleftrightarrow> suffix (c # v) s"
proof (induction s arbitrary: start)
  case (Cons d s)
  have "match_here (map Lit (c # v) @ [Eol]) start (d # s) \<longleftrightarrow> d # s = c # v"
    unfolding match_literals by auto
  then show ?case using Cons by (auto simp: suffix_Cons simp del: list.map)
qed (simp add: match_literals)

lemma MatchString_suffix:
  assumes "CHR 0x0A \<notin> set s"
  shows "MatchString (''^.*'' @ QuoteMeta (c # v) @ ''$'') s = Some (suffix (c # v) s)"
proof -
  have "parse_items (length (QuoteMeta (c # v)) + 3) (QuoteMeta (c # v) @ ''$'') = Some (map Lit (c # v) @ [Eol], [])"
    by (rule parse_QuoteMeta) (auto simp: parse_dollar)
  then have "parse_regex (''^.*'' @ QuoteMeta (c # v) @ ''$'') = Some (Bol # Star Any # map Lit (c # v) @ [Eol])"
    by (simp add: parse_regex_def single_def is_meta_def backslash_def numeral_3_eq_3 del: list.map)
  then show ?thesis
    unfolding MatchString_def by (simp only: option.map anchored_only match_star[OF assms])
qed

text \<open>
  A name of a match as the API reads it: absent or empty, it admits every name. The path of a call is the
  service and the method, each behind a slash.
\<close>

definition grpc_admits :: "string option \<Rightarrow> string \<Rightarrow> bool" where
  "grpc_admits wanted name \<longleftrightarrow> deref_or '''' wanted = '''' \<or> deref_or '''' wanted = name"

definition call_path :: "string \<Rightarrow> string \<Rightarrow> string" where
  "call_path svc method = ''/'' @ svc @ ''/'' @ method"

lemma grpc_slash: "grpc_name s \<Longrightarrow> CHR ''/'' \<notin> set s" "grpc_name s \<Longrightarrow> CHR 0x0A \<notin> set s"
  by (auto simp: grpc_name_def list_all_iff)

lemma split_at_slash:
  "CHR ''/'' \<notin> set a \<Longrightarrow> CHR ''/'' \<notin> set b \<Longrightarrow> a @ CHR ''/'' # x = b @ CHR ''/'' # y \<longleftrightarrow> a = b \<and> x = y"
  by (induction a arbitrary: b) (auto simp: Cons_eq_append_conv, (case_tac b; auto)+)

lemma last_element:
  assumes "CHR ''/'' \<notin> set m" "CHR ''/'' \<notin> set n"
  shows "suffix (CHR ''/'' # n) (s @ CHR ''/'' # m) \<longleftrightarrow> n = m"
proof
  assume "suffix (CHR ''/'' # n) (s @ CHR ''/'' # m)"
  then obtain zs where "s @ CHR ''/'' # m = zs @ CHR ''/'' # n" by (auto simp: suffix_def)
  then have "rev (s @ CHR ''/'' # m) = rev (zs @ CHR ''/'' # n)" by simp
  then have "rev m @ CHR ''/'' # rev s = rev n @ CHR ''/'' # rev zs" by simp
  then show "n = m" using split_at_slash[of "rev m" "rev n" "rev s" "rev zs"] assms by simp
qed (simp add: suffix_def)

lemma grpc_path_meaning:
  assumes "grpc_name s" "grpc_name m" "grpc_name service" "grpc_name method"
  shows "rule_path_matches (if s = '''' \<and> m = '''' then '''' else grpc_path (QuoteMeta s) (QuoteMeta m))
      (call_path service method) = Some ((s = '''' \<or> s = service) \<and> (m = '''' \<or> m = method))"
proof -
  have none: "QuoteMeta v = '''' \<longleftrightarrow> v = ''''" for v by (cases v) (auto simp: QuoteMeta_Cons)
  note noslash = grpc_slash(1)[OF assms(1)] grpc_slash(1)[OF assms(2)]
    grpc_slash(1)[OF assms(3)] grpc_slash(1)[OF assms(4)]
  have lf: "CHR 0x0A \<notin> set (call_path service method)"
    using grpc_slash(2)[OF assms(3)] grpc_slash(2)[OF assms(4)] by (simp add: call_path_def)
  have quoted: "''/'' @ QuoteMeta s @ ''/'' @ QuoteMeta m = QuoteMeta (''/'' @ s @ ''/'' @ m)"
      "''/'' @ QuoteMeta s @ ''/'' = QuoteMeta (''/'' @ s @ ''/'')" "''/'' @ QuoteMeta m = QuoteMeta (''/'' @ m)"
    by (simp_all only: QuoteMeta_append QuoteMeta_slash)
  consider (any) "s = ''''" "m = ''''" | (both) "s \<noteq> ''''" "m \<noteq> ''''" | (svc) "s \<noteq> ''''" "m = ''''"
    | (mth) "s = ''''" "m \<noteq> ''''" by blast
  then show ?thesis
  proof cases
    case any
    then show ?thesis by (simp add: rule_path_matches_def)
  next
    case both
    then have p: "grpc_path (QuoteMeta s) (QuoteMeta m) = ''^'' @ QuoteMeta (''/'' @ s @ ''/'' @ m) @ ''$''"
      using quoted(1) by (simp add: grpc_path_def none)
    have "call_path service method = ''/'' @ s @ ''/'' @ m \<longleftrightarrow> s = service \<and> m = method"
      using split_at_slash[OF noslash(3,1)] by (auto simp: call_path_def)
    then show ?thesis using both unfolding p by (simp add: rule_path_matches_def MatchString_exact del: append.simps)
  next
    case svc
    then have p: "grpc_path (QuoteMeta s) (QuoteMeta m) = ''^'' @ QuoteMeta (''/'' @ s @ ''/'')"
      using quoted(2) by (simp add: grpc_path_def none)
    have "HasPrefix (call_path service method) (''/'' @ s @ ''/'') \<longleftrightarrow> s = service"
      using split_at_slash[OF noslash(3,1)] by (auto simp: call_path_def HasPrefix_iff prefix_def)
    then show ?thesis using svc unfolding p by (simp add: rule_path_matches_def MatchString_open del: append.simps)
  next
    case mth
    then have p: "grpc_path (QuoteMeta s) (QuoteMeta m) = ''^.*'' @ QuoteMeta (CHR ''/'' # m) @ ''$''"
      using quoted(3) by (simp add: grpc_path_def none)
    have "suffix (CHR ''/'' # m) (call_path service method) \<longleftrightarrow> m = method"
      using last_element[OF noslash(4,2), of "''/'' @ service"] by (simp add: call_path_def)
    then show ?thesis using mth unfolding p by (simp add: rule_path_matches_def MatchString_suffix[OF lf] del: append.simps)
  qed
qed

text \<open>
  C18. gRPC method patterns mean what the GRPCRoute says. For an Exact method match with names
  that admission allows, whichever of service and method is given, the pattern that grpcMethodPath
  emits is a valid expression, and it accepts the path of a call exactly when the match does: the service
  is the wanted one or none is wanted, and so is the method. A dot in a service name stands for a dot
  only, and a service is never taken for another of which it is a prefix.
\<close>

theorem grpcMethodPath_pattern_meaning:
  assumes "matchType = None \<or> matchType = Some ''Exact''"
    and "grpc_name (deref_or '''' wantedService)" and "grpc_name (deref_or '''' wantedMethod)"
    and "grpc_name service" and "grpc_name method"
  shows "rule_path_matches (grpcMethodPath
      (Some \<lparr>mm_Type = matchType, mm_Service = wantedService, mm_Method = wantedMethod\<rparr>)) (call_path service method)
    = Some (grpc_admits wantedService service \<and> grpc_admits wantedMethod method)"
proof -
  let ?s = "deref_or '''' wantedService" and ?m = "deref_or '''' wantedMethod"
  have "grpcMethodPath (Some \<lparr>mm_Type = matchType, mm_Service = wantedService, mm_Method = wantedMethod\<rparr>) =
      (if ?s = '''' \<and> ?m = '''' then '''' else grpc_path (QuoteMeta ?s) (QuoteMeta ?m))"
    using assms(1-3) by (auto simp: grpcMethodPath_def Let_def escape_dots_QuoteMeta)
  then show ?thesis using grpc_path_meaning[OF assms(2-5)] by (simp add: grpc_admits_def)
qed

theorem grpcMethodPath_pattern_meaning_witness:
  "rule_path_matches (grpcMethodPath (Some \<lparr>mm_Type = None, mm_Service = Some ''a.B'', mm_Method = None\<rparr>))
     (call_path ''a.B'' ''Get'') = Some True \<and>
   rule_path_matches (grpcMethodPath (Some \<lparr>mm_Type = None, mm_Service = Some ''a.B'', mm_Method = None\<rparr>))
     (call_path ''axB'' ''Get'') = Some False"
  using grpcMethodPath_pattern_meaning[of None "Some ''a.B''" None "''a.B''" "''Get''"]
    grpcMethodPath_pattern_meaning[of None "Some ''a.B''" None "''axB''" "''Get''"]
  by (simp add: grpc_name_def is_meta_def backslash_def grpc_admits_def)

text \<open>
  For a RegularExpression match the names are spliced in without a group, so that an alternation
  in a name splits the whole pattern: this one accepts every path that begins with \<^verbatim>\<open>/A\<close>.
\<close>

lemma grpc_alternation_not_grouped:
  "grpcMethodPath (Some \<lparr>mm_Type = Some ''RegularExpression'', mm_Service = Some ''A|B'', mm_Method = Some ''Get''\<rparr>) =
     ''^/A|B/Get$''"
  by (simp add: grpcMethodPath_def grpc_path_def)

end
