(* ===== verification/Token.thy ===== *)
theory Token
  imports CfTypes "HOL-Library.Word"
begin

text \<open>
  BuildTunnelToken of internal/cloudflare/ingress.go and the parts of Go's encoding packages it
  calls: base64.StdEncoding and json.Marshal on a struct of three strings. Bytes are 8-bit words.
  The main result is that the token carries its three parts: it decodes to the JSON text, and the
  secret's field decodes to the secret.
\<close>

type_synonym byte = "8 word"

section \<open>base64.StdEncoding\<close>

definition alphabet :: string where
  "alphabet = ''ABCDEFGHIJKLMNOPQRSTUVWXYZabcdefghijklmnopqrstuvwxyz0123456789+/''"

definition sextet :: "nat \<Rightarrow> char" where
  "sextet n = alphabet ! (n mod 64)"

text \<open>
  EncodeToString: three bytes give four characters; a final group of one or two bytes is padded.
\<close>

fun EncodeToString :: "byte list \<Rightarrow> string" where
  "EncodeToString (a # b # c # rest) =
     (let v = unat a * 65536 + unat b * 256 + unat c in
      [sextet (v div 262144), sextet (v div 4096), sextet (v div 64), sextet v] @ EncodeToString rest)"
| "EncodeToString [a, b] =
     (let v = unat a * 65536 + unat b * 256 in
      [sextet (v div 262144), sextet (v div 4096), sextet (v div 64), CHR ''=''])"
| "EncodeToString [a] =
     (let v = unat a * 65536 in [sextet (v div 262144), sextet (v div 4096), CHR ''='', CHR ''=''])"
| "EncodeToString [] = []"

text \<open>DecodeString on padded input without line breaks, as the reader of a token applies it.\<close>

fun index_in :: "'a list \<Rightarrow> 'a \<Rightarrow> nat option" where
  "index_in [] x = None"
| "index_in (y # ys) x = (if x = y then Some 0 else map_option Suc (index_in ys x))"

definition unsextet :: "char \<Rightarrow> nat option" where
  "unsextet c = index_in alphabet c"

fun DecodeString :: "string \<Rightarrow> byte list option" where
  "DecodeString [] = Some []"
| "DecodeString (p # q # r # s # rest) =
     (case (unsextet p, unsextet q) of
        (Some i, Some j) \<Rightarrow>
          if r = CHR ''='' then
            if s = CHR ''='' \<and> rest = []
            then Some [word_of_nat ((i * 262144 + j * 4096) div 65536)] else None
          else (case unsextet r of None \<Rightarrow> None | Some k \<Rightarrow>
            if s = CHR ''='' then
              if rest = [] then
                let v = i * 262144 + j * 4096 + k * 64 in
                Some [word_of_nat (v div 65536), word_of_nat (v div 256 mod 256)]
              else None
            else (case (unsextet s, DecodeString rest) of
                (Some l, Some bs) \<Rightarrow>
                  let v = i * 262144 + j * 4096 + k * 64 + l in
                  Some (word_of_nat (v div 65536) # word_of_nat (v div 256 mod 256)
                    # word_of_nat (v mod 256) # bs)
              | _ \<Rightarrow> None))
      | _ \<Rightarrow> None)"
| "DecodeString _ = None"

lemma index_in_nth: "distinct ys \<Longrightarrow> i < length ys \<Longrightarrow> index_in ys (ys ! i) = Some i"
proof (induction ys arbitrary: i)
  case (Cons y ys)
  then show ?case by (cases i) (auto simp: nth_mem)
qed simp

lemma alphabet_facts: "distinct alphabet" "length alphabet = 64" "CHR ''='' \<notin> set alphabet"
  unfolding alphabet_def by code_simp+

lemma unsextet_sextet [simp]: "unsextet (sextet n) = Some (n mod 64)"
  using alphabet_facts by (simp add: unsextet_def sextet_def index_in_nth)

lemma sextet_not_pad [simp]: "sextet n \<noteq> CHR ''=''"
proof
  assume "sextet n = CHR ''=''"
  moreover have "sextet n \<in> set alphabet"
    using alphabet_facts(2) by (simp add: sextet_def)
  ultimately show False using alphabet_facts(3) by simp
qed

lemma sextets_join:
  fixes v :: nat
  shows "v div 64 * 64 + v mod 64 = v"
    and "v div 4096 * 4096 + v div 64 mod 64 * 64 + v mod 64 = v"
    and "v div 262144 * 262144 + v div 4096 mod 64 * 4096 + v div 64 mod 64 * 64 + v mod 64 = v"
proof -
  have d: "v div 4096 = v div 64 div 64" "v div 262144 = v div 4096 div 64"
    by (simp_all add: div_mult2_eq[symmetric])
  show a: "v div 64 * 64 + v mod 64 = v" by simp
  have "v div 4096 * 64 + v div 64 mod 64 = v div 64" unfolding d by simp
  with a show b: "v div 4096 * 4096 + v div 64 mod 64 * 64 + v mod 64 = v" by linarith
  have "v div 262144 * 64 + v div 4096 mod 64 = v div 4096" unfolding d(2) by simp
  with b show "v div 262144 * 262144 + v div 4096 mod 64 * 4096 + v div 64 mod 64 * 64 + v mod 64 = v"
    by linarith
qed

lemma byte_bound: "unat (a :: byte) < 256"
  using unsigned_less[of a, where ?'a = nat] by simp

lemma bytes_split:
  fixes a b c :: nat
  assumes "b < 256" and "c < 256"
  shows "(a * 65536 + b * 256 + c) div 65536 = a" "(a * 65536 + b * 256 + c) div 256 mod 256 = b"
    "(a * 65536 + b * 256 + c) mod 256 = c"
proof -
  have v: "a * 65536 + b * 256 + c = c + (b + a * 256) * 256" by simp
  have d: "(a * 65536 + b * 256 + c) div 256 = b + a * 256"
    unfolding v using assms(2) by (subst div_mult_self1) simp_all
  show "(a * 65536 + b * 256 + c) mod 256 = c"
    unfolding v using assms(2) by (subst mod_mult_self1) simp
  show "(a * 65536 + b * 256 + c) div 256 mod 256 = b" unfolding d using assms(1) by simp
  have "(a * 65536 + b * 256 + c) div 65536 = (a * 65536 + b * 256 + c) div 256 div 256"
    by (simp add: div_mult2_eq[symmetric])
  then show "(a * 65536 + b * 256 + c) div 65536 = a" unfolding d using assms(1) by simp
qed

lemma sextets_exact:
  fixes v :: nat
  assumes "v < 16777216"
  shows "v div 262144 mod 64 * 262144 + v div 4096 mod 64 * 4096 + v div 64 mod 64 * 64 + v mod 64 = v"
  using sextets_join(3)[of v] assms by (simp add: less_mult_imp_div_less)

lemma Encode_Decode: "DecodeString (EncodeToString bs) = Some bs"
proof (induction bs rule: EncodeToString.induct)
  case (1 a b c rest)
  let ?v = "unat a * 65536 + unat b * 256 + unat c"
  have v: "?v < 16777216" using byte_bound[of a] byte_bound[of b] byte_bound[of c] by linarith
  have "?v div 65536 = unat a" "?v div 256 mod 256 = unat b" "?v mod 256 = unat c"
    using bytes_split[OF byte_bound byte_bound] by simp_all
  then show ?case using 1 sextets_exact[OF v] by (simp add: Let_def)
next
  case (2 a b)
  define v where "v = unat a * 65536 + unat b * 256"
  have v: "v < 16777216" using byte_bound[of a] byte_bound[of b] by (simp add: v_def)
  have "v = (unat a * 1024 + unat b * 4) * 64" by (simp add: v_def)
  then have z: "v mod 64 = 0" by simp
  have e: "v div 262144 mod 64 * 262144 + v div 4096 mod 64 * 4096 + v div 64 mod 64 * 64 = v"
    using sextets_exact[OF v] unfolding z mult_zero_left add_0_right .
  have "v div 65536 = unat a" "v div 256 mod 256 = unat b"
    using bytes_split[OF byte_bound, of 0] by (simp_all add: v_def)
  then show ?case using e by (simp add: Let_def v_def[symmetric])
next
  case (3 a)
  define v where "v = unat a * 65536"
  have v: "v < 16777216" using byte_bound[of a] by (simp add: v_def)
  have "v = unat a * 16 * 64 * 64" by (simp add: v_def)
  then have z: "v mod 64 = 0" "v div 64 mod 64 = 0" by simp_all
  have e: "v div 262144 mod 64 * 262144 + v div 4096 mod 64 * 4096 = v"
    using sextets_exact[OF v] unfolding z mult_zero_left add_0_right .
  have e': "v div 262144 * 262144 + v div 4096 mod 64 * 4096 = v"
    using sextets_join(3)[of v] unfolding z mult_zero_left add_0_right .
  have "v div 65536 = unat a" by (simp add: v_def)
  then show ?case using e e' by (simp add: Let_def v_def[symmetric])
qed simp

section \<open>json.Marshal of a map from strings to strings\<close>

text \<open>
  Object keys come out sorted. Strings are escaped as encoding/json does with HTML escaping on;
  bytes from 0x80 pass unchanged, which is right for UTF-8 text without the line separators
  U+2028 and U+2029.
\<close>

definition hex_digit :: "nat \<Rightarrow> char" where
  "hex_digit n = ''0123456789abcdef'' ! (n mod 16)"

definition quote :: char where
  "quote = CHR 0x22"

definition json_char :: "char \<Rightarrow> string" where
  "json_char c =
     (if c = quote \<or> c = backslash then [backslash, c]
      else if c = CHR 0x08 then [backslash, CHR ''b''] else if c = CHR 0x0C then [backslash, CHR ''f'']
      else if c = CHR 0x0A then [backslash, CHR ''n''] else if c = CHR 0x0D then [backslash, CHR ''r'']
      else if c = CHR 0x09 then [backslash, CHR ''t'']
      else if (of_char c :: nat) < 32 \<or> c \<in> set ''<>&''
      then [backslash, CHR ''u'', CHR ''0'', CHR ''0'', hex_digit (of_char c div 16), hex_digit (of_char c)]
      else [c])"

definition json_string :: "string \<Rightarrow> string" where
  "json_string s = quote # concat (map json_char s) @ [quote]"

definition json_entry :: "string \<Rightarrow> string \<Rightarrow> string" where
  "json_entry k v = json_string k @ '':'' @ json_string v"

definition token_json :: "string \<Rightarrow> string \<Rightarrow> string \<Rightarrow> string" where
  "token_json a s t = ''{'' @ json_entry ''a'' a @ '','' @ json_entry ''s'' s @ '','' @ json_entry ''t'' t @ ''}''"

definition bytes_of :: "string \<Rightarrow> byte list" where
  "bytes_of s = map (\<lambda>c. word_of_nat (of_char c)) s"

definition string_of_bytes :: "byte list \<Rightarrow> string" where
  "string_of_bytes bs = map (\<lambda>b. char_of (unat b)) bs"

lemma string_of_bytes_of [simp]: "string_of_bytes (bytes_of s) = s"
proof -
  have "char_of (unat (word_of_nat (of_char c) :: byte)) = (c :: char)" for c
  proof -
    have "(of_char c :: nat) < 256" by (rule nat_of_char_less_256)
    then show ?thesis by (simp add: unat_of_nat)
  qed
  then show ?thesis by (simp add: string_of_bytes_def bytes_of_def o_def)
qed

section \<open>BuildTunnelToken\<close>

definition BuildTunnelToken :: "string \<Rightarrow> string \<Rightarrow> byte list \<Rightarrow> string" where
  "BuildTunnelToken accountID tunnelID secret =
     EncodeToString (bytes_of (token_json accountID (EncodeToString secret) tunnelID))"

text \<open>
  C21. The tunnel token carries what it was built from. For account and tunnel identifiers of
  letters, digits and hyphens, the token decodes as base64 to the JSON object whose members a and
  t are those identifiers and whose member s is a base64 text, and that text decodes to the
  secret's bytes. The characters of base64 need no escaping in JSON.
\<close>

definition plain_char :: "char \<Rightarrow> bool" where
  "plain_char c \<longleftrightarrow> c \<in> set alphabet \<or> c \<in> set ''-=''"

lemma plain_chars: "list_all (\<lambda>c. json_char c = [c]) (alphabet @ ''-='')"
  unfolding alphabet_def by code_simp

lemma json_char_plain: "plain_char c \<Longrightarrow> json_char c = [c]"
  using plain_chars by (auto simp: plain_char_def list_all_iff)

lemma json_string_plain: "list_all plain_char s \<Longrightarrow> json_string s = quote # s @ [quote]"
proof -
  assume "list_all plain_char s"
  then have "concat (map json_char s) = s"
    by (induction s) (simp_all add: json_char_plain)
  then show ?thesis by (simp add: json_string_def)
qed

lemma Encode_plain: "list_all plain_char (EncodeToString bs)"
proof -
  have "plain_char (sextet n)" for n
    using alphabet_facts(2) by (simp add: plain_char_def sextet_def)
  moreover have "plain_char (CHR ''='')" by (simp add: plain_char_def)
  ultimately show ?thesis by (induction bs rule: EncodeToString.induct) (simp_all add: Let_def)
qed

theorem BuildTunnelToken_roundtrip:
  assumes "list_all plain_char accountID" and "list_all plain_char tunnelID"
  shows "map_option string_of_bytes (DecodeString (BuildTunnelToken accountID tunnelID secret)) =
      Some (''{'' @ quote # ''a'' @ quote # '':'' @ quote # accountID @ quote # '',''
        @ quote # ''s'' @ quote # '':'' @ quote # EncodeToString secret @ quote # '',''
        @ quote # ''t'' @ quote # '':'' @ quote # tunnelID @ quote # ''}'') \<and>
    DecodeString (EncodeToString secret) = Some secret"
proof -
  have keys: "list_all plain_char ''a''" "list_all plain_char ''s''" "list_all plain_char ''t''"
    by code_simp+
  have j: "token_json accountID (EncodeToString secret) tunnelID =
      ''{'' @ quote # ''a'' @ quote # '':'' @ quote # accountID @ quote # '',''
        @ quote # ''s'' @ quote # '':'' @ quote # EncodeToString secret @ quote # '',''
        @ quote # ''t'' @ quote # '':'' @ quote # tunnelID @ quote # ''}''"
    by (simp only: token_json_def json_entry_def json_string_plain[OF assms(1)]
        json_string_plain[OF assms(2)] json_string_plain[OF Encode_plain] json_string_plain[OF keys(1)]
        json_string_plain[OF keys(2)] json_string_plain[OF keys(3)] append.simps append_assoc)
  show ?thesis
    by (simp only: BuildTunnelToken_def Encode_Decode j option.map string_of_bytes_of simp_thms)
qed

theorem BuildTunnelToken_roundtrip_witness:
  "map_option string_of_bytes (DecodeString (BuildTunnelToken ''ab'' ''c-1'' [0, 255])) =
     Some (''{'' @ quote # ''a'' @ quote # '':'' @ quote # ''ab'' @ quote # '',''
        @ quote # ''s'' @ quote # '':'' @ quote # ''AP8='' @ quote # '',''
        @ quote # ''t'' @ quote # '':'' @ quote # ''c-1'' @ quote # ''}'')"
proof -
  have p: "list_all plain_char ''ab''" "list_all plain_char ''c-1''" by code_simp+
  have e: "EncodeToString [0, 255] = ''AP8=''" by (simp add: sextet_def alphabet_def)
  show ?thesis
    using conjunct1[OF BuildTunnelToken_roundtrip[OF p, of "[0, 255]"]] unfolding e .
qed

end
