(* ===== verification/Client.thy ===== *)
theory Client
  imports GoTime Token
begin

text \<open>
  internal/cloudflare/client.go: the Cloudflare API client. The SDK (cloudflare-go, not part of
  the repository) is a record of functions over an abstract remote state \<open>'s\<close>: a listing gives
  the items its iterator yields and the error it ends with, a call that changes the remote
  state returns the new one. APIClient is the interface the controller is written against;
  \<open>client\<close> is its implementation over an SDK.
\<close>

section \<open>Parameters sent to the SDK\<close>

text \<open>A field that is set with cf.F is \<^const>\<open>Some\<close>; one left out of the request is \<^const>\<open>None\<close>.\<close>

record V7Access =
  v7_AUDTag :: "string list"
  v7_TeamName :: string
  v7_Required :: bool

record V7OriginRequest =
  v7_ConnectTimeout :: "int option"
  v7_TLSTimeout :: "int option"
  v7_TCPKeepAlive :: "int option"
  v7_MatchSnItoHost :: "bool option"
  v7_NoHappyEyeballs :: "bool option"
  v7_KeepAliveConnections :: "int option"
  v7_KeepAliveTimeout :: "int option"
  v7_HTTPHostHeader :: "string option"
  v7_OriginServerName :: "string option"
  v7_NoTLSVerify :: "bool option"
  v7_DisableChunkedEncoding :: "bool option"
  v7_ProxyType :: "string option"
  v7_HTTP2Origin :: "bool option"
  v7_Access :: "V7Access option"

record V7Ingress =
  v7_Service :: string
  v7_Hostname :: "string option"
  v7_Path :: "string option"
  v7_OriginRequest :: "V7OriginRequest option"

record CNAMERecordParam =
  cn_Name :: string
  cn_TTL :: int
  cn_Content :: string
  cn_Proxied :: bool
  cn_Comment :: "string option"

record RecordBatchParams =
  bp_ZoneID :: string
  bp_Deletes :: "string list option"
  bp_Patches :: "(string \<times> CNAMERecordParam) list option"
  bp_Posts :: "CNAMERecordParam list option"

definition durationSeconds :: "Duration \<Rightarrow> int" where
  "durationSeconds d = (let s = trunc_rat (Seconds d) in if s = 0 \<and> d > 0 then 1 else s)"

definition toV7OriginRequest :: "OriginRequest \<Rightarrow> V7OriginRequest" where
  "toV7OriginRequest o' =
     \<lparr>v7_ConnectTimeout = map_option durationSeconds (ConnectTimeout o'),
      v7_TLSTimeout = map_option durationSeconds (TLSTimeout o'),
      v7_TCPKeepAlive = map_option durationSeconds (TCPKeepAlive o'),
      v7_MatchSnItoHost = MatchSNIToHost o',
      v7_NoHappyEyeballs = NoHappyEyeballs o',
      v7_KeepAliveConnections = KeepAliveConnections o',
      v7_KeepAliveTimeout = map_option durationSeconds (KeepAliveTimeout o'),
      v7_HTTPHostHeader = HTTPHostHeader o',
      v7_OriginServerName = OriginServerName o',
      v7_NoTLSVerify = NoTLSVerify o',
      v7_DisableChunkedEncoding = DisableChunkedEncoding o',
      v7_ProxyType = ProxyType o',
      v7_HTTP2Origin = HTTP2Origin o',
      v7_Access = map_option (\<lambda>a. \<lparr>v7_AUDTag = AudTag a, v7_TeamName = TeamName a,
                                    v7_Required = Required a\<rparr>) (Access o')\<rparr>"

definition set_if_nonempty :: "string \<Rightarrow> string option" where
  "set_if_nonempty s = (if s \<noteq> '''' then Some s else None)"

definition toV7Rule :: "IngressRule \<Rightarrow> V7Ingress" where
  "toV7Rule r =
     \<lparr>v7_Service = Service r, v7_Hostname = set_if_nonempty (Hostname r),
      v7_Path = set_if_nonempty (Path r),
      v7_OriginRequest = map_option toV7OriginRequest (rule_Origin r)\<rparr>"

definition toV7Ingress :: "IngressRule list \<Rightarrow> V7Ingress list" where
  "toV7Ingress rules = map toV7Rule rules"

definition cnameRecordParam :: "DNSRecord \<Rightarrow> CNAMERecordParam" where
  "cnameRecordParam r =
     \<lparr>cn_Name = rec_Name r, cn_TTL = 1, cn_Content = rec_Content r, cn_Proxied = rec_Proxied r,
      cn_Comment = set_if_nonempty (rec_Comment r)\<rparr>"

definition set_if_any :: "'a list \<Rightarrow> 'a list option" where
  "set_if_any xs = (if length xs > 0 then Some xs else None)"

definition toV7BatchParams :: "string \<Rightarrow> DNSChanges \<Rightarrow> RecordBatchParams" where
  "toV7BatchParams zoneID c =
     \<lparr>bp_ZoneID = zoneID,
      bp_Deletes = set_if_any (map rec_ID (Deletes c)),
      bp_Patches = set_if_any (map (\<lambda>r. (rec_ID r, cnameRecordParam r)) (Updates c)),
      bp_Posts = set_if_any (map cnameRecordParam (Creates c))\<rparr>"

section \<open>Chunking\<close>

text \<open>The closure's captured variables out, cur and n are the state of the loops.\<close>

type_synonym chunks = "DNSChanges list \<times> DNSChanges \<times> int"

definition dnsBatchChunkSize :: int where
  "dnsBatchChunkSize = 100"

fun flush :: "chunks \<Rightarrow> chunks" where
  "flush (out, cur, n) = (if \<not> Empty cur then (out @ [cur], no_changes, 0) else (out, cur, n))"

fun chunk_step :: "(DNSRecord \<Rightarrow> DNSChanges \<Rightarrow> DNSChanges) \<Rightarrow> int \<Rightarrow> DNSRecord \<Rightarrow> chunks \<Rightarrow> chunks" where
  "chunk_step add chunkSize r (out, cur, n) =
     (let cur = add r cur; n = n + 1 in if n \<ge> chunkSize then flush (out, cur, n) else (out, cur, n))"

definition add_delete :: "DNSRecord \<Rightarrow> DNSChanges \<Rightarrow> DNSChanges" where
  "add_delete r c = c\<lparr>Deletes := Deletes c @ [r]\<rparr>"

definition add_update :: "DNSRecord \<Rightarrow> DNSChanges \<Rightarrow> DNSChanges" where
  "add_update r c = c\<lparr>Updates := Updates c @ [r]\<rparr>"

definition add_create :: "DNSRecord \<Rightarrow> DNSChanges \<Rightarrow> DNSChanges" where
  "add_create r c = c\<lparr>Creates := Creates c @ [r]\<rparr>"

definition chunkDNSChanges :: "DNSChanges \<Rightarrow> int \<Rightarrow> DNSChanges list" where
  "chunkDNSChanges changes chunkSize =
     (if chunkSize \<le> 0 then [changes]
      else let st = fold (chunk_step add_delete chunkSize) (Deletes changes) ([], no_changes, 0);
               st = fold (chunk_step add_update chunkSize) (Updates changes) st;
               st = fold (chunk_step add_create chunkSize) (Creates changes) st
           in fst (flush st))"

section \<open>The SDK and the client interface\<close>

record 's SDK =
  cloudflared_new :: "'s \<Rightarrow> string \<Rightarrow> string \<Rightarrow> string \<Rightarrow> Tunnel result \<times> 's"
  cloudflared_list :: "'s \<Rightarrow> string \<Rightarrow> string \<Rightarrow> bool \<Rightarrow> Tunnel list \<times> goerror option"
  cloudflared_delete :: "'s \<Rightarrow> string \<Rightarrow> string \<Rightarrow> goerror option \<times> 's"
  configurations_update :: "'s \<Rightarrow> string \<Rightarrow> string \<Rightarrow> V7Ingress list \<Rightarrow> goerror option \<times> 's"
  zones_list :: "'s \<Rightarrow> string \<Rightarrow> Zone list \<times> goerror option"
  records_list :: "'s \<Rightarrow> string \<Rightarrow> DNSRecord list \<times> goerror option"
  records_batch :: "'s \<Rightarrow> RecordBatchParams \<Rightarrow> goerror option \<times> 's"

record 's APIClient =
  api_CreateTunnel :: "'s \<Rightarrow> string \<Rightarrow> byte list \<Rightarrow> Tunnel result \<times> 's"
  api_GetTunnelByName :: "'s \<Rightarrow> string \<Rightarrow> Tunnel result"
  api_DeleteTunnel :: "'s \<Rightarrow> string \<Rightarrow> goerror option \<times> 's"
  api_UpdateTunnelConfiguration :: "'s \<Rightarrow> string \<Rightarrow> IngressRule list \<Rightarrow> goerror option \<times> 's"
  api_AccountID :: string
  api_ListZones :: "'s \<Rightarrow> Zone list result"
  api_ListDNSRecords :: "'s \<Rightarrow> string \<Rightarrow> DNSRecord list result"
  api_ApplyDNSChanges :: "'s \<Rightarrow> string \<Rightarrow> DNSChanges \<Rightarrow> goerror option \<times> 's"

section \<open>The client's operations\<close>

definition CreateTunnel :: "'s SDK \<Rightarrow> string \<Rightarrow> 's \<Rightarrow> string \<Rightarrow> byte list \<Rightarrow> Tunnel result \<times> 's" where
  "CreateTunnel sdk accountID s name secret =
     (case cloudflared_new sdk s accountID name (EncodeToString secret) of
        (Inl e, s') \<Rightarrow> (Inl (Wrap ''creating tunnel'' e), s')
      | (Inr t, s') \<Rightarrow> (Inr \<lparr>Tunnel_ID = Tunnel_ID t, Tunnel_Name = Tunnel_Name t\<rparr>, s'))"

text \<open>The loop returns at the first tunnel of that name, before the iterator's error is read.\<close>

definition GetTunnelByName :: "'s SDK \<Rightarrow> string \<Rightarrow> 's \<Rightarrow> string \<Rightarrow> Tunnel result" where
  "GetTunnelByName sdk accountID s name =
     (let (tunnels, err) = cloudflared_list sdk s accountID name False in
      case find (\<lambda>t. Tunnel_Name t = name) tunnels of
        Some t \<Rightarrow> Inr \<lparr>Tunnel_ID = Tunnel_ID t, Tunnel_Name = Tunnel_Name t\<rparr>
      | None \<Rightarrow> (case err of Some e \<Rightarrow> Inl (Wrap ''listing tunnels'' e) | None \<Rightarrow> Inl ErrTunnelNotFound))"

definition DeleteTunnel :: "'s SDK \<Rightarrow> string \<Rightarrow> 's \<Rightarrow> string \<Rightarrow> goerror option \<times> 's" where
  "DeleteTunnel sdk accountID s tid =
     (let (err, s') = cloudflared_delete sdk s tid accountID in
      (map_option (Wrap (''deleting tunnel '' @ tid)) err, s'))"

definition UpdateTunnelConfiguration ::
  "'s SDK \<Rightarrow> string \<Rightarrow> 's \<Rightarrow> string \<Rightarrow> IngressRule list \<Rightarrow> goerror option \<times> 's" where
  "UpdateTunnelConfiguration sdk accountID s tunnelID ingress =
     (let (err, s') = configurations_update sdk s tunnelID accountID (toV7Ingress ingress) in
      (map_option (Wrap (''updating tunnel '' @ tunnelID @ '' configuration'')) err, s'))"

definition ListZones :: "'s SDK \<Rightarrow> string \<Rightarrow> 's \<Rightarrow> Zone list result" where
  "ListZones sdk accountID s =
     (case zones_list sdk s accountID of
        (_, Some e) \<Rightarrow> Inl (Wrap ''listing zones'' e)
      | (zs, None) \<Rightarrow>
          Inr (map (\<lambda>z. \<lparr>Zone_ID = Zone_ID z, Zone_Name = NormalizeDNSName (Zone_Name z)\<rparr>) zs))"

definition read_record :: "DNSRecord \<Rightarrow> DNSRecord" where
  "read_record r =
     \<lparr>rec_ID = rec_ID r, rec_Name = NormalizeDNSName (rec_Name r), rec_Type = ''CNAME'',
      rec_Content = NormalizeDNSName (rec_Content r), rec_Proxied = rec_Proxied r,
      rec_Comment = rec_Comment r\<rparr>"

definition ListDNSRecords :: "'s SDK \<Rightarrow> 's \<Rightarrow> string \<Rightarrow> DNSRecord list result" where
  "ListDNSRecords sdk s zoneID =
     (case records_list sdk s zoneID of
        (_, Some e) \<Rightarrow> Inl (Wrap (''listing DNS records for zone '' @ zoneID) e)
      | (rs, None) \<Rightarrow> Inr (map read_record rs))"

fun apply_chunks :: "'s SDK \<Rightarrow> string \<Rightarrow> DNSChanges list \<Rightarrow> 's \<Rightarrow> goerror option \<times> 's" where
  "apply_chunks sdk zoneID [] s = (None, s)"
| "apply_chunks sdk zoneID (chunk # chunks) s =
     (case records_batch sdk s (toV7BatchParams zoneID chunk) of
        (Some e, s') \<Rightarrow> (Some (Wrap (''applying DNS batch for zone '' @ zoneID) e), s')
      | (None, s') \<Rightarrow> apply_chunks sdk zoneID chunks s')"

definition ApplyDNSChanges :: "'s SDK \<Rightarrow> 's \<Rightarrow> string \<Rightarrow> DNSChanges \<Rightarrow> goerror option \<times> 's" where
  "ApplyDNSChanges sdk s zoneID changes =
     (if Empty changes then (None, s)
      else apply_chunks sdk zoneID (chunkDNSChanges changes dnsBatchChunkSize) s)"

definition client :: "'s SDK \<Rightarrow> string \<Rightarrow> 's APIClient" where
  "client sdk accountID =
     \<lparr>api_CreateTunnel = CreateTunnel sdk accountID,
      api_GetTunnelByName = GetTunnelByName sdk accountID,
      api_DeleteTunnel = DeleteTunnel sdk accountID,
      api_UpdateTunnelConfiguration = UpdateTunnelConfiguration sdk accountID,
      api_AccountID = accountID,
      api_ListZones = ListZones sdk accountID,
      api_ListDNSRecords = ListDNSRecords sdk,
      api_ApplyDNSChanges = ApplyDNSChanges sdk\<rparr>"

section \<open>Chunks are the change set, in order\<close>

text \<open>A change set as the sequence of mutations it stands for.\<close>

datatype mutation = Del DNSRecord | Upd DNSRecord | Cre DNSRecord

definition mutations :: "DNSChanges \<Rightarrow> mutation list" where
  "mutations c = map Del (Deletes c) @ map Upd (Updates c) @ map Cre (Creates c)"

lemma mutations_Empty: "Empty c \<longleftrightarrow> mutations c = []"
  by (auto simp: Empty_def mutations_def)

lemma mutations_no_changes [simp]: "mutations no_changes = []"
  by (simp add: mutations_def no_changes_def)

lemma mutations_add:
  "Updates c = [] \<Longrightarrow> Creates c = [] \<Longrightarrow> mutations (add_delete r c) = mutations c @ [Del r]"
  "Creates c = [] \<Longrightarrow> mutations (add_update r c) = mutations c @ [Upd r]"
  "mutations (add_create r c) = mutations c @ [Cre r]"
  by (simp_all add: mutations_def add_delete_def add_update_def add_create_def)

lemma add_fields [simp]:
  "Updates no_changes = []" "Creates no_changes = []" "Deletes no_changes = []"
  "Updates (add_delete r c) = Updates c" "Creates (add_delete r c) = Creates c"
  "Creates (add_update r c) = Creates c"
  by (simp_all add: no_changes_def add_delete_def add_update_def)

text \<open>
  The loop invariant: closed chunks are exactly full, the open one is short of full and counted
  by n, and together they hold what was processed.
\<close>

definition chunk_inv :: "int \<Rightarrow> mutation list \<Rightarrow> chunks \<Rightarrow> bool" where
  "chunk_inv chunkSize sofar st \<longleftrightarrow>
     (case st of (out, cur, n) \<Rightarrow>
        concat (map mutations out) @ mutations cur = sofar \<and>
        n = int (length (mutations cur)) \<and> n < chunkSize \<and>
        list_all (\<lambda>c. int (length (mutations c)) = chunkSize) out)"

lemma chunk_step_inv:
  assumes "chunk_inv chunkSize sofar (out, cur, n)" and "mutations (add r cur) = mutations cur @ [m]"
  shows "chunk_inv chunkSize (sofar @ [m]) (chunk_step add chunkSize r (out, cur, n))"
  using assms by (auto simp: chunk_inv_def mutations_Empty Let_def split: if_splits)

lemma chunk_fold_inv:
  assumes "chunk_inv chunkSize sofar st" and "P no_changes" and "P (fst (snd st))"
    and "\<And>r c. P c \<Longrightarrow> mutations (add r c) = mutations c @ [f r] \<and> P (add r c)"
  shows "chunk_inv chunkSize (sofar @ map f rs) (fold (chunk_step add chunkSize) rs st) \<and>
    P (fst (snd (fold (chunk_step add chunkSize) rs st)))"
  using assms(1,3)
proof (induction rs arbitrary: sofar st)
  case (Cons r rs)
  obtain out cur n where st: "st = (out, cur, n)" by (cases st)
  have "P cur" using Cons.prems(2) st by simp
  then have m: "mutations (add r cur) = mutations cur @ [f r]" and p: "P (add r cur)"
    using assms(4) by blast+
  have "chunk_inv chunkSize (sofar @ [f r]) (chunk_step add chunkSize r st)"
    using chunk_step_inv[where add = add and r = r and m = "f r"] m Cons.prems(1) st by simp
  moreover have "P (fst (snd (chunk_step add chunkSize r st)))"
    using p assms(2) by (simp add: st Let_def)
  ultimately show ?case using Cons.IH[of "sofar @ [f r]"] by simp
qed simp

lemma chunkDNSChanges_inv:
  assumes "0 < chunkSize"
  obtains out cur n where "chunk_inv chunkSize (mutations c) (out, cur, n)"
    and "chunkDNSChanges c chunkSize = fst (flush (out, cur, n))"
proof -
  let ?s0 = "([], no_changes, 0) :: chunks"
  let ?s1 = "fold (chunk_step add_delete chunkSize) (Deletes c) ?s0"
  let ?s2 = "fold (chunk_step add_update chunkSize) (Updates c) ?s1"
  let ?s3 = "fold (chunk_step add_create chunkSize) (Creates c) ?s2"
  have 1: "chunk_inv chunkSize (map Del (Deletes c)) ?s1 \<and>
      (Updates (fst (snd ?s1)) = [] \<and> Creates (fst (snd ?s1)) = [])"
    using chunk_fold_inv[of chunkSize "[]" ?s0 "\<lambda>c. Updates c = [] \<and> Creates c = []" add_delete Del "Deletes c"]
      assms by (simp add: chunk_inv_def mutations_add)
  have 2: "chunk_inv chunkSize (map Del (Deletes c) @ map Upd (Updates c)) ?s2 \<and>
      Creates (fst (snd ?s2)) = []"
    using 1 chunk_fold_inv[of chunkSize "map Del (Deletes c)" ?s1 "\<lambda>c. Creates c = []" add_update Upd "Updates c"]
    by (simp add: mutations_add)
  have 3: "chunk_inv chunkSize (mutations c) ?s3"
    using 2 chunk_fold_inv[of chunkSize "map Del (Deletes c) @ map Upd (Updates c)" ?s2 "\<lambda>c. True"
        add_create Cre "Creates c"]
    by (simp add: mutations_add) (simp add: mutations_def)
  obtain out cur n where s3: "?s3 = (out, cur, n)" by (cases ?s3)
  show thesis
    using that[of out cur n] 3 assms s3 by (simp add: chunkDNSChanges_def Let_def)
qed

lemma chunks_concat:
  assumes "0 < chunkSize"
  shows "concat (map mutations (chunkDNSChanges c chunkSize)) = mutations c"
proof -
  obtain out cur n where "chunk_inv chunkSize (mutations c) (out, cur, n)"
    "chunkDNSChanges c chunkSize = fst (flush (out, cur, n))"
    using chunkDNSChanges_inv[OF assms] .
  then show ?thesis by (auto simp: chunk_inv_def mutations_Empty)
qed

text \<open>
  C25. Chunking a change set loses, duplicates and reorders nothing. For a positive size the
  chunks, read one after the other, are exactly the deletes, then the updates, then the creates;
  every chunk holds between one and size mutations, and every chunk but the last holds exactly
  size, so no fewer requests would do.
\<close>

theorem chunkDNSChanges_exact:
  assumes "0 < chunkSize"
  shows "concat (map mutations (chunkDNSChanges c chunkSize)) = mutations c \<and>
    list_all (\<lambda>b. 0 < length (mutations b) \<and> int (length (mutations b)) \<le> chunkSize)
      (chunkDNSChanges c chunkSize) \<and>
    list_all (\<lambda>b. int (length (mutations b)) = chunkSize) (butlast (chunkDNSChanges c chunkSize))"
proof -
  obtain out cur n where inv: "chunk_inv chunkSize (mutations c) (out, cur, n)"
    and eq: "chunkDNSChanges c chunkSize = fst (flush (out, cur, n))"
    using chunkDNSChanges_inv[OF assms] .
  have full: "list_all (\<lambda>b. int (length (mutations b)) = chunkSize) out"
    using inv by (simp add: chunk_inv_def)
  then have "list_all (\<lambda>b. 0 < length (mutations b) \<and> int (length (mutations b)) \<le> chunkSize) out"
    using assms by (auto simp: list_all_iff)
  moreover have "list_all (\<lambda>b. int (length (mutations b)) = chunkSize) (butlast out)"
    using full by (auto simp: list_all_iff dest: in_set_butlastD)
  ultimately show ?thesis
    using inv full by (auto simp: eq chunk_inv_def mutations_Empty)
qed

definition sample_record :: "string \<Rightarrow> DNSRecord" where
  "sample_record name = \<lparr>rec_ID = name, rec_Name = name, rec_Type = ''CNAME'', rec_Content = ''t'',
     rec_Proxied = True, rec_Comment = ''o''\<rparr>"

theorem chunkDNSChanges_exact_witness:
  "map mutations (chunkDNSChanges \<lparr>Creates = [sample_record ''c''], Updates = [],
      Deletes = [sample_record ''a'', sample_record ''b'']\<rparr> 2) =
    [[Del (sample_record ''a''), Del (sample_record ''b'')], [Cre (sample_record ''c'')]] \<and>
   list_all (\<lambda>b. 0 < length (mutations b) \<and> int (length (mutations b)) \<le> 2)
     (chunkDNSChanges \<lparr>Creates = [sample_record ''c''], Updates = [],
      Deletes = [sample_record ''a'', sample_record ''b'']\<rparr> 2)"
proof (rule conjI)
  show "map mutations (chunkDNSChanges \<lparr>Creates = [sample_record ''c''], Updates = [],
      Deletes = [sample_record ''a'', sample_record ''b'']\<rparr> 2) =
    [[Del (sample_record ''a''), Del (sample_record ''b'')], [Cre (sample_record ''c'')]]"
    by (simp add: chunkDNSChanges_def Let_def Empty_def no_changes_def add_delete_def add_create_def
        mutations_def)
qed (rule chunkDNSChanges_exact[of 2, THEN conjunct2, THEN conjunct1], simp)

section \<open>What the controller relies on\<close>

text \<open>
  The contract of a DNS writer over a batch endpoint. A batch carries parts of the change set
  only, so whatever each such batch keeps of the remote state, the whole application keeps,
  failures included; an empty change set sends nothing; records are read with their
  ownership comment untouched.
\<close>

definition part_of :: "DNSChanges \<Rightarrow> DNSChanges \<Rightarrow> bool" where
  "part_of b c \<longleftrightarrow> set (mutations b) \<subseteq> set (mutations c)"

lemma part_of_iff:
  "part_of b c \<longleftrightarrow> set (Deletes b) \<subseteq> set (Deletes c) \<and> set (Updates b) \<subseteq> set (Updates c) \<and>
     set (Creates b) \<subseteq> set (Creates c)"
  by (auto simp: part_of_def mutations_def)

locale dns_writer =
  fixes batch :: "'s \<Rightarrow> string \<Rightarrow> DNSChanges \<Rightarrow> goerror option \<times> 's"
    and put :: "'s \<Rightarrow> string \<Rightarrow> DNSChanges \<Rightarrow> goerror option \<times> 's"
  assumes put_empty: "Empty c \<Longrightarrow> put s z c = (None, s)"
    and put_keeps: "(\<And>s b. P s \<Longrightarrow> part_of b c \<Longrightarrow> P (snd (batch s z b))) \<Longrightarrow> P s \<Longrightarrow> P (snd (put s z c))"
begin

text \<open>
  A pass over zones that plans each zone's changes from the state it finds keeps what every
  batch of a planned change set keeps.
\<close>

lemma planned_keeps:
  assumes "\<And>s t z c b. z \<in> set zs \<Longrightarrow> P s \<Longrightarrow> plan s z = Some c \<Longrightarrow> P t \<Longrightarrow> part_of b c
      \<Longrightarrow> P (snd (batch t z b))" and "P s"
  shows "P (fold (\<lambda>z s. case plan s z of None \<Rightarrow> s | Some c \<Rightarrow> snd (put s z c)) zs s)"
  using assms
proof (induction zs arbitrary: s)
  case (Cons z zs)
  have "P (case plan s z of None \<Rightarrow> s | Some c \<Rightarrow> snd (put s z c))"
  proof (cases "plan s z")
    case (Some c)
    have step: "\<And>t b. P t \<Longrightarrow> part_of b c \<Longrightarrow> P (snd (batch t z b))"
      using Cons.prems(1)[of z s c] Cons.prems(2) Some by simp
    show ?thesis using put_keeps[where P = P, OF step Cons.prems(2)] Some by simp
  qed (simp add: Cons.prems(2))
  moreover have "\<And>s t y c b. y \<in> set zs \<Longrightarrow> P s \<Longrightarrow> plan s y = Some c \<Longrightarrow> P t \<Longrightarrow> part_of b c
      \<Longrightarrow> P (snd (batch t y b))"
    by (rule Cons.prems(1)) simp_all
  ultimately show ?case using Cons.IH by simp
qed simp

end

definition sdk_batch :: "'s SDK \<Rightarrow> 's \<Rightarrow> string \<Rightarrow> DNSChanges \<Rightarrow> goerror option \<times> 's" where
  "sdk_batch sdk s zoneID b = records_batch sdk s (toV7BatchParams zoneID b)"

lemma apply_chunks_keeps:
  assumes "\<And>s b. P s \<Longrightarrow> b \<in> set bs \<Longrightarrow> P (snd (sdk_batch sdk s z b))" and "P s"
  shows "P (snd (apply_chunks sdk z bs s))"
  using assms
proof (induction bs arbitrary: s)
  case (Cons b bs)
  obtain e s' where r: "records_batch sdk s (toV7BatchParams z b) = (e, s')" by fastforce
  have "P s'" using Cons.prems(1)[of s b] Cons.prems(2) r by (simp add: sdk_batch_def)
  then show ?case using Cons r by (cases e) auto
qed simp

lemma chunk_part_of: "b \<in> set (chunkDNSChanges c dnsBatchChunkSize) \<Longrightarrow> part_of b c"
proof -
  have "0 < dnsBatchChunkSize" by (simp add: dnsBatchChunkSize_def)
  then obtain out cur n where inv: "chunk_inv dnsBatchChunkSize (mutations c) (out, cur, n)"
    and eq: "chunkDNSChanges c dnsBatchChunkSize = fst (flush (out, cur, n))"
    using chunkDNSChanges_inv by metis
  have "mutations c = concat (map mutations out) @ mutations cur"
    using inv by (simp add: chunk_inv_def)
  then have all: "set (mutations c) = (\<Union>x\<in>set out. set (mutations x)) \<union> set (mutations cur)"
    by simp
  assume "b \<in> set (chunkDNSChanges c dnsBatchChunkSize)"
  then have "b \<in> set out \<or> b = cur" by (simp add: eq split: if_splits) blast
  then show ?thesis unfolding part_of_def all by blast
qed

interpretation cf: dns_writer "sdk_batch sdk" "ApplyDNSChanges sdk" for sdk :: "'s SDK"
proof unfold_locales
  show "ApplyDNSChanges sdk s z c = (None, s)" if "Empty c" for c s z
    using that by (simp add: ApplyDNSChanges_def)
  show "P (snd (ApplyDNSChanges sdk s z c))"
    if "\<And>s b. P s \<Longrightarrow> part_of b c \<Longrightarrow> P (snd (sdk_batch sdk s z b))" and "P s" for P c z s
    using that apply_chunks_keeps[of P "chunkDNSChanges c dnsBatchChunkSize" sdk z s] chunk_part_of
    by (auto simp: ApplyDNSChanges_def)
qed

end
