(* ===== verification/Attachment.thy ===== *)
theory Attachment
  imports GatewayApi
begin

text \<open>
  internal/controller/attachment.go and the collect*Routes functions of reconciler.go: which
  routes attach to a Gateway, and the hostnames they keep. The Kubernetes client enters as
  the function \<open>getNS\<close> that fetches a Namespace and yields its labels, and as the outcome of
  listing a route kind. The main lemmas show that hostname intersection is the meet of the
  sets of hosts that its arguments cover, and lift this to whole routes.
\<close>

type_synonym Labels = "string \<rightharpoonup> string"

section \<open>Parent references\<close>

definition parentRefReferencesGateway :: "ParentReference \<Rightarrow> Gateway \<Rightarrow> string \<Rightarrow> bool" where
  "parentRefReferencesGateway ref gw routeNS \<longleftrightarrow>
     deref_or GroupName (pr_Group ref) = GroupName \<and>
     deref_or ''Gateway'' (pr_Kind ref) = ''Gateway'' \<and>
     pr_Name ref = Name (gw_meta gw) \<and>
     deref_or routeNS (pr_Namespace ref) = Namespace (gw_meta gw)"

fun parentRefsSelectListener ::
  "ParentReference list \<Rightarrow> Gateway \<Rightarrow> Listener \<Rightarrow> string \<Rightarrow> bool" where
  "parentRefsSelectListener [] gw l routeNS = False"
| "parentRefsSelectListener (ref # refs) gw l routeNS =
     (if \<not> parentRefReferencesGateway ref gw routeNS
      then parentRefsSelectListener refs gw l routeNS
      else if pr_SectionName ref \<noteq> None \<and> pr_SectionName ref \<noteq> Some (l_Name l)
      then parentRefsSelectListener refs gw l routeNS
      else if pr_Port ref \<noteq> None \<and> pr_Port ref \<noteq> Some (l_Port l)
      then parentRefsSelectListener refs gw l routeNS
      else True)"

section \<open>Hostnames\<close>

definition normalizeHostname :: "string \<Rightarrow> string" where
  "normalizeHostname h = ToLower (TrimSuffix h ''.'')"

definition wildcardMatches :: "string \<Rightarrow> string \<Rightarrow> bool" where
  "wildcardMatches wildcard hostname = HasSuffix hostname (''.'' @ TrimPrefix wildcard ''*.'')"

definition wildcardMoreSpecific :: "string \<Rightarrow> string \<Rightarrow> bool" where
  "wildcardMoreSpecific hostname other =
     HasSuffix (TrimPrefix hostname ''*.'') (''.'' @ TrimPrefix other ''*.'')"

definition intersectHostname :: "string \<Rightarrow> string \<Rightarrow> string \<times> bool" where
  "intersectHostname routeHostname listenerHostname =
     (let route = normalizeHostname routeHostname;
          listener = normalizeHostname listenerHostname;
          routeWildcard = HasPrefix route ''*.'';
          listenerWildcard = HasPrefix listener ''*.''
      in if \<not> routeWildcard \<and> \<not> listenerWildcard then (route, route = listener)
         else if routeWildcard \<and> \<not> listenerWildcard then (listener, wildcardMatches route listener)
         else if \<not> routeWildcard \<and> listenerWildcard then (route, wildcardMatches listener route)
         else if route = listener then (route, True)
         else if wildcardMoreSpecific route listener then (route, True)
         else if wildcardMoreSpecific listener route then (listener, True)
         else ('''', False))"

text \<open>The map seen holds the hostnames already in the slice.\<close>

definition append_unseen :: "string \<Rightarrow> string list \<Rightarrow> string list" where
  "append_unseen h hs = (if h \<in> set hs then hs else hs @ [h])"

fun intersect_loop :: "string \<Rightarrow> string list \<Rightarrow> string list \<Rightarrow> string list" where
  "intersect_loop l [] acc = acc"
| "intersect_loop l (r # rs) acc =
     (let (hostname, ok) = intersectHostname r l in
      intersect_loop l rs (if ok then append_unseen hostname acc else acc))"

definition intersectHostnames :: "string list \<Rightarrow> string option \<Rightarrow> string list \<times> bool" where
  "intersectHostnames routeHostnames listenerHostname =
     (case listenerHostname of
        None \<Rightarrow> (routeHostnames, True)
      | Some l \<Rightarrow>
        if routeHostnames = [] then ([normalizeHostname l], True)
        else let intersection = intersect_loop l routeHostnames [] in
          (intersection, intersection \<noteq> []))"

section \<open>Allowed kinds and namespaces\<close>

definition defaultKindForProtocol :: "string \<Rightarrow> string \<Rightarrow> bool" where
  "defaultKindForProtocol protocol routeKind =
     (if protocol = ''HTTP'' \<or> protocol = ''HTTPS''
      then routeKind = ''HTTPRoute'' \<or> routeKind = ''GRPCRoute''
      else if protocol = ''TLS'' then routeKind = ''TLSRoute''
      else if protocol = ''TCP'' then routeKind = ''TCPRoute''
      else False)"

definition isKindAllowed :: "Listener \<Rightarrow> string \<Rightarrow> bool" where
  "isKindAllowed l routeKind =
     (case l_AllowedRoutes l of
        None \<Rightarrow> defaultKindForProtocol (Protocol l) routeKind
      | Some ar \<Rightarrow>
        if Kinds ar = [] then defaultKindForProtocol (Protocol l) routeKind
        else list_ex (\<lambda>k. gk_Kind k = routeKind \<and>
               (gk_Group k = None \<or> gk_Group k = Some '''' \<or> gk_Group k = Some GroupName)) (Kinds ar))"

fun containsString :: "string list \<Rightarrow> string \<Rightarrow> bool" where
  "containsString [] s = False"
| "containsString (v # vs) s = (if v = s then True else containsString vs s)"

text \<open>Indexing a Go map at an absent key reads the empty string.\<close>

fun match_labels :: "(string \<times> string) list \<Rightarrow> Labels \<Rightarrow> bool" where
  "match_labels [] ls = True"
| "match_labels ((key, val) # ms) ls =
     (if deref_or '''' (ls key) \<noteq> val then False else match_labels ms ls)"

definition expression_rejects :: "LabelSelectorRequirement \<Rightarrow> Labels \<Rightarrow> bool" where
  "expression_rejects expr ls =
     (let labelValue = deref_or '''' (ls (Key expr)); hasLabel = ls (Key expr) \<noteq> None in
      if Operator expr = ''In'' then \<not> hasLabel \<or> \<not> containsString (Values expr) labelValue
      else if Operator expr = ''NotIn'' then hasLabel \<and> containsString (Values expr) labelValue
      else if Operator expr = ''Exists'' then \<not> hasLabel
      else if Operator expr = ''DoesNotExist'' then hasLabel
      else False)"

fun match_expressions :: "LabelSelectorRequirement list \<Rightarrow> Labels \<Rightarrow> bool" where
  "match_expressions [] ls = True"
| "match_expressions (e # es) ls = (if expression_rejects e ls then False else match_expressions es ls)"

definition matchNamespaceSelector ::
  "(string \<Rightarrow> Labels result) \<Rightarrow> string \<Rightarrow> LabelSelector option \<Rightarrow> bool result" where
  "matchNamespaceSelector getNS namespace selector =
     (case selector of
        None \<Rightarrow> Inr True
      | Some sel \<Rightarrow>
        bind_result (getNS namespace) (\<lambda>ls.
          if \<not> match_labels (MatchLabels sel) ls then Inr False
          else Inr (match_expressions (MatchExpressions sel) ls)))"

definition isNamespaceAllowed ::
  "(string \<Rightarrow> Labels result) \<Rightarrow> Listener \<Rightarrow> string \<Rightarrow> string \<Rightarrow> bool result" where
  "isNamespaceAllowed getNS l gwNS routeNS =
     (case l_AllowedRoutes l of
        None \<Rightarrow> Inr (gwNS = routeNS)
      | Some ar \<Rightarrow>
        (case Namespaces ar of
           None \<Rightarrow> Inr (gwNS = routeNS)
         | Some n \<Rightarrow>
           (case From n of
              None \<Rightarrow> Inr (gwNS = routeNS)
            | Some from \<Rightarrow>
              if from = ''All'' then Inr True
              else if from = ''Same'' then Inr (gwNS = routeNS)
              else if from = ''Selector'' then matchNamespaceSelector getNS routeNS (Selector n)
              else Inr False)))"

section \<open>Attachment of a route\<close>

fun check_listeners ::
  "(string \<Rightarrow> Labels result) \<Rightarrow> Gateway \<Rightarrow> string \<Rightarrow> string \<Rightarrow> Listener list \<Rightarrow> bool result" where
  "check_listeners getNS gw routeNS routeKind [] = Inr False"
| "check_listeners getNS gw routeNS routeKind (l # ls) =
     (if \<not> isKindAllowed l routeKind then check_listeners getNS gw routeNS routeKind ls
      else bind_result (isNamespaceAllowed getNS l (Namespace (gw_meta gw)) routeNS) (\<lambda>allowed.
        if allowed then Inr True else check_listeners getNS gw routeNS routeKind ls))"

definition CheckRouteAttachment ::
  "(string \<Rightarrow> Labels result) \<Rightarrow> Gateway \<Rightarrow> string \<Rightarrow> string \<Rightarrow> bool result" where
  "CheckRouteAttachment getNS gw routeNS routeKind =
     check_listeners getNS gw routeNS routeKind (Listeners gw)"

fun attach_loop ::
  "(string \<Rightarrow> Labels result) \<Rightarrow> Gateway \<Rightarrow> ParentReference list \<Rightarrow> string \<Rightarrow> string \<Rightarrow> string list
     \<Rightarrow> Listener list \<Rightarrow> string list \<Rightarrow> (string list \<times> bool) result" where
  "attach_loop getNS gw refs ns kind hostnames [] effective = Inr (effective, effective \<noteq> [])"
| "attach_loop getNS gw refs ns kind hostnames (l # ls) effective =
     (if \<not> parentRefsSelectListener refs gw l ns \<or> \<not> isKindAllowed l kind
      then attach_loop getNS gw refs ns kind hostnames ls effective
      else bind_result (isNamespaceAllowed getNS l (Namespace (gw_meta gw)) ns) (\<lambda>allowed.
        if \<not> allowed then attach_loop getNS gw refs ns kind hostnames ls effective
        else let (intersection, ok) = intersectHostnames hostnames (l_Hostname l) in
          if \<not> ok then attach_loop getNS gw refs ns kind hostnames ls effective
          else if intersection = [] then Inr ([], True)
          else attach_loop getNS gw refs ns kind hostnames ls
                 (fold append_unseen intersection effective)))"

definition routeAttachmentHostnames ::
  "(string \<Rightarrow> Labels result) \<Rightarrow> Gateway \<Rightarrow> ParentReference list \<Rightarrow> string \<Rightarrow> string \<Rightarrow> string list
     \<Rightarrow> (string list \<times> bool) result" where
  "routeAttachmentHostnames getNS gw refs ns kind hostnames =
     attach_loop getNS gw refs ns kind hostnames (Listeners gw) []"

section \<open>Collecting the attached routes\<close>

fun is_NoKindMatch :: "goerror \<Rightarrow> bool" where
  "is_NoKindMatch NoKindMatch = True"
| "is_NoKindMatch (Wrap _ e) = is_NoKindMatch e"
| "is_NoKindMatch (ControllerError _ e) = is_NoKindMatch e"
| "is_NoKindMatch _ = False"

definition isNoMatchError :: "goerror \<Rightarrow> bool" where
  "isNoMatchError e \<longleftrightarrow> apierrors_IsNotFound e \<or> is_NoKindMatch e"

fun collect_loop ::
  "('r Route \<Rightarrow> (string list \<times> bool) result) \<Rightarrow> ('r Route \<Rightarrow> string list \<Rightarrow> 'r Route)
     \<Rightarrow> 'r Route list \<Rightarrow> 'r Route list result" where
  "collect_loop attachment keep [] = Inr []"
| "collect_loop attachment keep (route # routes) =
     bind_result (attachment route) (\<lambda>(hostnames, allowed).
     bind_result (collect_loop attachment keep routes) (\<lambda>attached.
       Inr (if allowed then keep route hostnames # attached else attached)))"

definition collect_attached ::
  "string \<Rightarrow> (string \<Rightarrow> Labels result) \<Rightarrow> Gateway \<Rightarrow> 'r Route list result \<Rightarrow> 'r Route list result" where
  "collect_attached kind getNS gw listed =
     (case listed of
        Inl e \<Rightarrow> if apierrors_IsNotFound e \<or> isNoMatchError e then Inr [] else Inl e
      | Inr routes \<Rightarrow>
        collect_loop (\<lambda>r. routeAttachmentHostnames getNS gw (ParentRefs r) (rt_Namespace r) kind (Hostnames r))
          (\<lambda>r hs. r\<lparr>Hostnames := hs\<rparr>) routes)"

definition collectHTTPRoutes ::
  "(string \<Rightarrow> Labels result) \<Rightarrow> Gateway \<Rightarrow> HTTPRoute list result \<Rightarrow> HTTPRoute list result" where
  "collectHTTPRoutes = collect_attached ''HTTPRoute''"

definition collectTLSRoutes ::
  "(string \<Rightarrow> Labels result) \<Rightarrow> Gateway \<Rightarrow> TLSRoute list result \<Rightarrow> TLSRoute list result" where
  "collectTLSRoutes = collect_attached ''TLSRoute''"

definition collectGRPCRoutes ::
  "(string \<Rightarrow> Labels result) \<Rightarrow> Gateway \<Rightarrow> GRPCRoute list result \<Rightarrow> GRPCRoute list result" where
  "collectGRPCRoutes = collect_attached ''GRPCRoute''"

definition collectTCPRoutes ::
  "(string \<Rightarrow> Labels result) \<Rightarrow> Gateway \<Rightarrow> TCPRoute list result \<Rightarrow> TCPRoute list result" where
  "collectTCPRoutes getNS gw listed =
     (case listed of
        Inl e \<Rightarrow> if apierrors_IsNotFound e \<or> isNoMatchError e then Inr [] else Inl e
      | Inr routes \<Rightarrow>
        collect_loop (\<lambda>r. routeAttachmentHostnames getNS gw (ParentRefs r) (rt_Namespace r) ''TCPRoute'' [])
          (\<lambda>r hs. r) routes)"

section \<open>Hostnames as sets of hosts\<close>

text \<open>
  The hosts a normalised hostname covers: a wildcard covers what ends in a dot and its suffix, any
  other hostname covers itself.
\<close>

definition covers :: "string \<Rightarrow> string \<Rightarrow> bool" where
  "covers p h \<longleftrightarrow> (if HasPrefix p ''*.'' then HasSuffix h (''.'' @ TrimPrefix p ''*.'') else p = h)"

lemma wildcard_meet:
  assumes "HasPrefix a ''*.''" and "HasPrefix b ''*.''" and "covers a h" and "covers b h"
  shows "a = b \<or> wildcardMoreSpecific a b \<or> wildcardMoreSpecific b a"
proof -
  obtain sa where a: "a = ''*.'' @ sa" using assms(1) by (rule HasPrefix_obtain)
  obtain sb where b: "b = ''*.'' @ sb" using assms(2) by (rule HasPrefix_obtain)
  have "suffix (''.'' @ sa) h" and "suffix (''.'' @ sb) h"
    using assms(3,4) by (auto simp: covers_def a b HasSuffix_iff TrimPrefix_def HasPrefix_def)
  then have "suffix (''.'' @ sa) (''.'' @ sb) \<or> suffix (''.'' @ sb) (''.'' @ sa)"
    by (rule suffix_comparable)
  then show ?thesis
    by (auto simp: a b wildcardMoreSpecific_def HasSuffix_iff suffix_Cons TrimPrefix_def HasPrefix_def)
qed

lemma wildcardMoreSpecific_covers:
  assumes "HasPrefix a ''*.''" and "HasPrefix b ''*.''" and "wildcardMoreSpecific a b" and "covers a h"
  shows "covers b h"
proof -
  obtain sa where a: "a = ''*.'' @ sa" using assms(1) by (rule HasPrefix_obtain)
  obtain sb where b: "b = ''*.'' @ sb" using assms(2) by (rule HasPrefix_obtain)
  have "suffix (''.'' @ sb) sa" and "suffix (''.'' @ sa) h"
    using assms(3,4)
    by (auto simp: a b wildcardMoreSpecific_def covers_def HasSuffix_iff TrimPrefix_def HasPrefix_def)
  then have "suffix (''.'' @ sb) h"
    by (metis suffix_appendD suffix_order.trans)
  then show ?thesis by (simp add: b covers_def HasSuffix_iff TrimPrefix_def HasPrefix_def)
qed

lemma intersectHostname_covers:
  "(snd (intersectHostname r l) \<and> covers (fst (intersectHostname r l)) h) \<longleftrightarrow>
     covers (normalizeHostname r) h \<and> covers (normalizeHostname l) h"
proof -
  define a b where "a = normalizeHostname r" and "b = normalizeHostname l"
  have both: "HasPrefix a ''*.'' \<Longrightarrow> HasPrefix b ''*.'' \<Longrightarrow> covers a h \<Longrightarrow> covers b h \<Longrightarrow>
      a = b \<or> wildcardMoreSpecific a b \<or> wildcardMoreSpecific b a"
    by (rule wildcard_meet)
  note up = wildcardMoreSpecific_covers[of a b h] wildcardMoreSpecific_covers[of b a h]
  show ?thesis
    unfolding intersectHostname_def a_def[symmetric] b_def[symmetric] Let_def
    using both up
    by (cases "HasPrefix a ''*.''"; cases "HasPrefix b ''*.''")
      (auto simp: covers_def wildcardMatches_def)
qed

section \<open>Attachment as a set of hosts\<close>

text \<open>
  A list of hostnames admits every host when it is empty, as in the Gateway API; a listener
  without a hostname admits every host. A hostname is read modulo one trailing dot and case.
\<close>

definition admits :: "string list \<Rightarrow> string \<Rightarrow> bool" where
  "admits hs h \<longleftrightarrow> hs = [] \<or> list_ex (\<lambda>p. covers (normalizeHostname p) h) hs"

definition listener_admits :: "Listener \<Rightarrow> string \<Rightarrow> bool" where
  "listener_admits l h \<longleftrightarrow> (case l_Hostname l of None \<Rightarrow> True | Some p \<Rightarrow> covers (normalizeHostname p) h)"

definition attachable ::
  "(string \<Rightarrow> Labels result) \<Rightarrow> Gateway \<Rightarrow> ParentReference list \<Rightarrow> string \<Rightarrow> string \<Rightarrow> Listener \<Rightarrow> bool" where
  "attachable getNS gw refs ns kind l \<longleftrightarrow>
     parentRefsSelectListener refs gw l ns \<and> isKindAllowed l kind \<and>
     isNamespaceAllowed getNS l (Namespace (gw_meta gw)) ns = Inr True"

definition settled :: "string \<Rightarrow> bool" where
  "settled p \<longleftrightarrow> normalizeHostname (normalizeHostname p) = normalizeHostname p"

lemma last_lower_dot: "HasSuffix (ToLower s) ''.'' \<longleftrightarrow> HasSuffix s ''.''"
  by (cases s rule: rev_cases) (auto simp: HasSuffix_iff ToLower_def suffix_def)

lemma settled_single_dot: "\<not> HasSuffix p ''..'' \<Longrightarrow> settled p"
proof -
  assume no: "\<not> HasSuffix p ''..''"
  have "\<not> HasSuffix (TrimSuffix p ''.'') ''.''"
  proof (cases "HasSuffix p ''.''")
    case True
    then obtain r where r: "p = r @ ''.''" by (rule HasSuffix_obtain)
    have "\<not> HasSuffix r ''.''"
    proof
      assume "HasSuffix r ''.''"
      then obtain q where "r = q @ ''.''" by (rule HasSuffix_obtain)
      with r no show False by (simp add: HasSuffix_iff suffix_def)
    qed
    then show ?thesis by (simp add: r)
  next
    case False
    then show ?thesis by (simp add: TrimSuffix_def)
  qed
  then have "\<not> HasSuffix (normalizeHostname p) ''.''"
    by (simp add: normalizeHostname_def last_lower_dot)
  then show "settled p"
    by (simp add: settled_def normalizeHostname_def TrimSuffix_def)
qed

lemma settled_normal: "settled p \<Longrightarrow> settled (normalizeHostname p)"
  by (simp add: settled_def)

lemma set_append_unseen [simp]: "set (append_unseen h hs) = insert h (set hs)"
  by (auto simp: append_unseen_def)

lemma set_fold_unseen [simp]: "set (fold append_unseen hs acc) = set hs \<union> set acc"
  by (induction hs arbitrary: acc) auto

lemma intersect_loop_member:
  "x \<in> set (intersect_loop l rs acc) \<longleftrightarrow>
     x \<in> set acc \<or> (\<exists>r \<in> set rs. intersectHostname r l = (x, True))"
proof (induction rs arbitrary: acc)
  case (Cons r rs)
  obtain p k where i: "intersectHostname r l = (p, k)" by fastforce
  show ?case by (cases k) (auto simp: i Cons.IH)
qed simp

lemma intersectHostname_fst:
  "snd (intersectHostname r l) \<Longrightarrow>
     fst (intersectHostname r l) = normalizeHostname r \<or> fst (intersectHostname r l) = normalizeHostname l"
  by (auto simp: intersectHostname_def Let_def split: if_splits)

lemma intersectHostname_normal:
  assumes "settled r" and "settled l" and "snd (intersectHostname r l)"
  shows "normalizeHostname (fst (intersectHostname r l)) = fst (intersectHostname r l)"
  using intersectHostname_fst[OF assms(3)] assms(1,2) by (auto simp: settled_def)

lemma intersect_loop_covers:
  assumes "\<forall>r \<in> set rs. settled r" and "settled l"
  shows "(\<exists>p \<in> set (intersect_loop l rs []). covers (normalizeHostname p) h) \<longleftrightarrow>
     covers (normalizeHostname l) h \<and> (\<exists>r \<in> set rs. covers (normalizeHostname r) h)"
proof -
  have one: "snd (intersectHostname r l) \<and> covers (normalizeHostname (fst (intersectHostname r l))) h
      \<longleftrightarrow> covers (normalizeHostname r) h \<and> covers (normalizeHostname l) h" if "r \<in> set rs" for r
    using intersectHostname_covers[of r l h] intersectHostname_normal[of r l] assms that by auto
  have pair: "(\<exists>p. intersectHostname r l = (p, True) \<and> covers (normalizeHostname p) h)
      \<longleftrightarrow> covers (normalizeHostname r) h \<and> covers (normalizeHostname l) h" if "r \<in> set rs" for r
    using one[OF that] by (cases "intersectHostname r l") auto
  have "(\<exists>p \<in> set (intersect_loop l rs []). covers (normalizeHostname p) h) \<longleftrightarrow>
      (\<exists>r \<in> set rs. \<exists>p. intersectHostname r l = (p, True) \<and> covers (normalizeHostname p) h)"
    unfolding Bex_def intersect_loop_member by simp blast
  then show ?thesis using pair by auto
qed

lemma intersectHostnames_admits:
  assumes "\<forall>r \<in> set hs. settled r" and "\<And>p. l_Hostname l = Some p \<Longrightarrow> settled p"
    and i: "intersectHostnames hs (l_Hostname l) = (common, ok)"
  shows "(ok \<and> admits common h) \<longleftrightarrow> listener_admits l h \<and> admits hs h"
proof (cases "l_Hostname l")
  case None
  then show ?thesis using i by (simp add: intersectHostnames_def listener_admits_def)
next
  case (Some p)
  show ?thesis
  proof (cases "hs = []")
    case True
    then show ?thesis
      using i assms(2)[OF Some] Some
      by (simp add: intersectHostnames_def listener_admits_def admits_def settled_def split: if_splits)
        (auto simp: settled_def)
  next
    case False
    then show ?thesis
      using i Some intersect_loop_covers[OF assms(1) assms(2)[OF Some], of h]
      by (auto simp: intersectHostnames_def listener_admits_def admits_def list_ex_iff Let_def)
  qed
qed

lemma intersectHostnames_all:
  "intersectHostnames hs l = ([], True) \<Longrightarrow> l = None \<and> hs = []"
  by (auto simp: intersectHostnames_def Let_def split: option.splits if_splits)

lemma attach_loop_admits:
  assumes "\<forall>r \<in> set hs. settled r" and "\<forall>l \<in> set ls. \<forall>p. l_Hostname l = Some p \<longrightarrow> settled p"
    and "attach_loop getNS gw refs ns kind hs ls eff = Inr (res, ok)"
  shows "(ok \<and> admits res h) \<longleftrightarrow>
    list_ex (\<lambda>p. covers (normalizeHostname p) h) eff \<or>
    (\<exists>l \<in> set ls. attachable getNS gw refs ns kind l \<and> listener_admits l h \<and> admits hs h)"
  using assms(2,3)
proof (induction ls arbitrary: eff)
  case Nil
  then show ?case by (auto simp: admits_def)
next
  case (Cons l ls)
  note IH = Cons.IH[OF _ , of eff]
  show ?case
  proof (cases "attachable getNS gw refs ns kind l")
    case False
    then have "attach_loop getNS gw refs ns kind hs ls eff = Inr (res, ok)"
      using Cons.prems(2)
      by (auto simp: attachable_def bind_result_Inr_iff split: if_splits)
    with False Cons show ?thesis by auto
  next
    case True
    obtain common k where i: "intersectHostnames hs (l_Hostname l) = (common, k)" by fastforce
    have adm: "(k \<and> admits common h) \<longleftrightarrow> listener_admits l h \<and> admits hs h"
      using intersectHostnames_admits[OF assms(1) _ i] Cons.prems(1) by auto
    consider "\<not> k" | "k" "common = []" | "k" "common \<noteq> []" by blast
    then show ?thesis
    proof cases
      case 1
      then have "attach_loop getNS gw refs ns kind hs ls eff = Inr (res, ok)"
        using Cons.prems(2) True i by (simp add: attachable_def)
      with 1 adm Cons show ?thesis by auto
    next
      case 2
      then have "res = [] \<and> ok" using Cons.prems(2) True i by (simp add: attachable_def)
      moreover have "listener_admits l h \<and> admits hs h" using adm 2 by (simp add: admits_def)
      ultimately show ?thesis using True by (auto simp: admits_def)
    next
      case 3
      then have "attach_loop getNS gw refs ns kind hs ls (fold append_unseen common eff) = Inr (res, ok)"
        using Cons.prems(2) True i by (simp add: attachable_def)
      then have "(ok \<and> admits res h) \<longleftrightarrow>
          list_ex (\<lambda>p. covers (normalizeHostname p) h) (fold append_unseen common eff) \<or>
          (\<exists>l \<in> set ls. attachable getNS gw refs ns kind l \<and> listener_admits l h \<and> admits hs h)"
        using Cons.IH Cons.prems(1) by auto
      moreover have "list_ex (\<lambda>p. covers (normalizeHostname p) h) (fold append_unseen common eff) \<longleftrightarrow>
          list_ex (\<lambda>p. covers (normalizeHostname p) h) eff \<or> (listener_admits l h \<and> admits hs h)"
        using adm 3 by (auto simp: list_ex_iff admits_def)
      ultimately show ?thesis using True by auto
    qed
  qed
qed

section \<open>Properties\<close>

text \<open>
  C19. Attachment is intersection of host sets. When no hostname of the route or of a listener
  ends in two dots, and attachment returns without a lookup error, the route is attached with
  hostnames that admit a host exactly when some listener that its parentRefs select, whose
  kinds and namespaces allow it, admits that host, and the route's own hostnames admit it. So no
  host outside a listener is ever served for a route, and none inside both is lost.
\<close>

theorem routeAttachmentHostnames_meet:
  assumes "\<forall>p \<in> set hostnames. \<not> HasSuffix p ''..''"
    and "\<forall>l \<in> set (Listeners gw). \<forall>p. l_Hostname l = Some p \<longrightarrow> \<not> HasSuffix p ''..''"
    and "routeAttachmentHostnames getNS gw refs ns kind hostnames = Inr (effective, ok)"
  shows "(ok \<and> admits effective h) \<longleftrightarrow>
    (\<exists>l \<in> set (Listeners gw). attachable getNS gw refs ns kind l \<and> listener_admits l h \<and> admits hostnames h)"
  using attach_loop_admits[of hostnames "Listeners gw" getNS gw refs ns kind "[]" effective ok h]
    assms settled_single_dot by (simp add: routeAttachmentHostnames_def)

text \<open>A sample Gateway with an open wildcard listener and a same-namespace one.\<close>

definition sample_meta :: "string \<Rightarrow> string \<Rightarrow> ObjectMeta" where
  "sample_meta ns name = \<lparr>Name = name, Namespace = ns, UID = ''u'', Generation = 1,
     CreationTimestamp = 0, Annotations = (\<lambda>_. None), DeletionTimestamp = None, Finalizers = []\<rparr>"

definition sample_listener :: "string \<Rightarrow> string \<Rightarrow> string option \<Rightarrow> Listener" where
  "sample_listener name from hostname =
     \<lparr>l_Name = name, l_Hostname = hostname, l_Port = 443, Protocol = ''HTTPS'',
      l_AllowedRoutes = Some \<lparr>Namespaces = Some \<lparr>From = Some from, Selector = None\<rparr>, Kinds = []\<rparr>\<rparr>"

definition sample_gateway :: Gateway where
  "sample_gateway =
     \<lparr>gw_meta = sample_meta ''infra'' ''edge'', GatewayClassName = ''cloudflare'',
      Listeners = [sample_listener ''own'' ''Same'' None,
                   sample_listener ''open'' ''All'' (Some ''*.Example.com'')],
      Infrastructure = None, gw_Status = \<lparr>gs_Conditions = [], Addresses = [], gs_Listeners = []\<rparr>\<rparr>"

definition sample_ref :: ParentReference where
  "sample_ref = \<lparr>pr_Group = None, pr_Kind = None, pr_Namespace = Some ''infra'', pr_Name = ''edge'',
     pr_SectionName = None, pr_Port = None\<rparr>"

lemmas sample_gateway_simps = sample_gateway_def sample_listener_def sample_meta_def sample_ref_def

theorem routeAttachmentHostnames_meet_witness:
  "routeAttachmentHostnames (\<lambda>_. Inl NotFound) sample_gateway [sample_ref] ''apps'' ''HTTPRoute''
       [''a.example.com'', ''b.example.org''] = Inr ([''a.example.com''], True) \<and>
   (\<exists>l \<in> set (Listeners sample_gateway).
      attachable (\<lambda>_. Inl NotFound) sample_gateway [sample_ref] ''apps'' ''HTTPRoute'' l \<and>
      listener_admits l ''a.example.com'' \<and> admits [''a.example.com'', ''b.example.org''] ''a.example.com'')"
proof -
  have run: "routeAttachmentHostnames (\<lambda>_. Inl NotFound) sample_gateway [sample_ref] ''apps'' ''HTTPRoute''
      [''a.example.com'', ''b.example.org''] = Inr ([''a.example.com''], True)"
    by code_simp
  have dots: "\<forall>p \<in> set [''a.example.com'', ''b.example.org'']. \<not> HasSuffix p ''..''"
    by code_simp
  have ldots: "\<forall>l \<in> set (Listeners sample_gateway). \<forall>p. l_Hostname l = Some p \<longrightarrow> \<not> HasSuffix p ''..''"
    by (simp add: sample_gateway_simps HasSuffix_def)
  have here: "admits [''a.example.com''] ''a.example.com''" by code_simp
  show ?thesis
    using run here routeAttachmentHostnames_meet[OF dots ldots run, of "''a.example.com''"] by simp
qed

lemma selects_references:
  "parentRefsSelectListener refs gw l ns \<Longrightarrow> \<exists>ref \<in> set refs. parentRefReferencesGateway ref gw ns"
  by (induction refs gw l ns rule: parentRefsSelectListener.induct) (auto split: if_splits)

lemma attach_loop_attachable:
  assumes "attach_loop getNS gw refs ns kind hs ls eff = Inr (res, ok)" and "ok" and "eff = []"
  shows "\<exists>l \<in> set ls. attachable getNS gw refs ns kind l"
  using assms
proof (induction ls arbitrary: eff)
  case (Cons l ls)
  show ?case
  proof (cases "attachable getNS gw refs ns kind l")
    case False
    then have "attach_loop getNS gw refs ns kind hs ls eff = Inr (res, ok)"
      using Cons.prems(1) by (auto simp: attachable_def bind_result_Inr_iff split: if_splits)
    with Cons show ?thesis by auto
  qed simp
qed simp

definition opts_in :: "(string \<Rightarrow> Labels result) \<Rightarrow> string \<Rightarrow> Listener \<Rightarrow> bool" where
  "opts_in getNS ns l \<longleftrightarrow>
     (case l_AllowedRoutes l of None \<Rightarrow> False
      | Some ar \<Rightarrow> (case Namespaces ar of None \<Rightarrow> False
        | Some n \<Rightarrow> From n = Some ''All'' \<or>
            (From n = Some ''Selector'' \<and> matchNamespaceSelector getNS ns (Selector n) = Inr True)))"

lemma isNamespaceAllowed_foreign:
  "isNamespaceAllowed getNS l gwNS ns = Inr True \<Longrightarrow> gwNS \<noteq> ns \<Longrightarrow> opts_in getNS ns l"
  by (auto simp: isNamespaceAllowed_def opts_in_def split: option.splits if_splits)

text \<open>
  C10. Namespace isolation. A route of another namespace is attached only when one of its
  parentRefs names the Gateway and its namespace explicitly, and one of the listeners that its
  parentRefs select opts in with from: All or with a Selector that its Namespace satisfies.
\<close>

theorem foreign_route_needs_opt_in:
  assumes "routeAttachmentHostnames getNS gw refs ns kind hostnames = Inr (effective, True)"
    and "ns \<noteq> Namespace (gw_meta gw)"
  shows "list_ex (\<lambda>ref. pr_Namespace ref = Some (Namespace (gw_meta gw)) \<and>
            pr_Name ref = Name (gw_meta gw)) refs \<and>
         list_ex (\<lambda>l. parentRefsSelectListener refs gw l ns \<and> isKindAllowed l kind \<and> opts_in getNS ns l)
            (Listeners gw)"
proof -
  obtain l where l: "l \<in> set (Listeners gw)" "attachable getNS gw refs ns kind l"
    using attach_loop_attachable[of getNS gw refs ns kind hostnames "Listeners gw" "[]"] assms(1)
    by (auto simp: routeAttachmentHostnames_def)
  then have "opts_in getNS ns l"
    using isNamespaceAllowed_foreign assms(2) unfolding attachable_def by metis
  moreover obtain ref where ref: "ref \<in> set refs" "parentRefReferencesGateway ref gw ns"
    using l selects_references unfolding attachable_def by blast
  moreover have "pr_Namespace ref = Some (Namespace (gw_meta gw)) \<and>
      pr_Name ref = Name (gw_meta gw)"
    using ref(2) assms(2) by (cases "pr_Namespace ref") (auto simp: parentRefReferencesGateway_def)
  ultimately show ?thesis using l by (auto simp: list_ex_iff attachable_def)
qed

theorem foreign_route_needs_opt_in_witness:
  "list_ex (\<lambda>l. parentRefsSelectListener [sample_ref] sample_gateway l ''apps'' \<and>
      isKindAllowed l ''GRPCRoute'' \<and> opts_in (\<lambda>_. Inl NotFound) ''apps'' l) (Listeners sample_gateway)"
proof -
  have run: "routeAttachmentHostnames (\<lambda>_. Inl NotFound) sample_gateway [sample_ref] ''apps'' ''GRPCRoute'' []
      = Inr ([''*.example.com''], True)"
    by code_simp
  show ?thesis using foreign_route_needs_opt_in[OF run] by (simp add: sample_gateway_simps)
qed

definition label_requirement :: "LabelSelectorRequirement \<Rightarrow> Labels \<Rightarrow> bool" where
  "label_requirement e ls \<longleftrightarrow>
     (if Operator e = ''In'' then (case ls (Key e) of None \<Rightarrow> False | Some v \<Rightarrow> v \<in> set (Values e))
      else if Operator e = ''NotIn'' then (case ls (Key e) of None \<Rightarrow> True | Some v \<Rightarrow> v \<notin> set (Values e))
      else if Operator e = ''Exists'' then ls (Key e) \<noteq> None
      else ls (Key e) = None)"

lemma containsString_iff [simp]: "containsString vs s \<longleftrightarrow> s \<in> set vs"
  by (induction vs s rule: containsString.induct) auto

lemma match_labels_iff:
  "list_all (\<lambda>(k, v). v \<noteq> '''') ms \<Longrightarrow> match_labels ms ls \<longleftrightarrow> list_all (\<lambda>(k, v). ls k = Some v) ms"
proof (induction ms ls rule: match_labels.induct)
  case (2 key val ms ls)
  then show ?case by (cases "ls key") auto
qed simp

lemma match_expressions_iff:
  "list_all (\<lambda>e. Operator e \<in> {''In'', ''NotIn'', ''Exists'', ''DoesNotExist''}) es \<Longrightarrow>
     match_expressions es ls \<longleftrightarrow> list_all (\<lambda>e. label_requirement e ls) es"
proof (induction es ls rule: match_expressions.induct)
  case (2 e es ls)
  have "expression_rejects e ls \<longleftrightarrow> \<not> label_requirement e ls"
    using 2(2) by (cases "ls (Key e)") (auto simp: expression_rejects_def label_requirement_def)
  then show ?case using 2 by auto
qed simp

text \<open>
  C24. Label selectors. On selectors whose operators are the four that the API defines and
  whose matchLabels values are not empty, the decision on a Namespace that could be fetched is
  the documented one: every matchLabels entry is present with its value, and every expression
  holds. (An empty matchLabels value is different: see the sample below.)
\<close>

theorem matchNamespaceSelector_documented:
  assumes "getNS ns = Inr labels"
    and "list_all (\<lambda>(k, v). v \<noteq> '''') (MatchLabels sel)"
    and "list_all (\<lambda>e. Operator e \<in> {''In'', ''NotIn'', ''Exists'', ''DoesNotExist''}) (MatchExpressions sel)"
  shows "matchNamespaceSelector getNS ns (Some sel) =
    Inr (list_all (\<lambda>(k, v). labels k = Some v) (MatchLabels sel) \<and>
         list_all (\<lambda>e. label_requirement e labels) (MatchExpressions sel))"
  using assms by (simp add: matchNamespaceSelector_def match_labels_iff match_expressions_iff)

theorem matchNamespaceSelector_documented_witness:
  "matchNamespaceSelector (\<lambda>_. Inr [''team'' \<mapsto> ''web'']) ''apps''
     (Some \<lparr>MatchLabels = [(''team'', ''web'')],
            MatchExpressions = [\<lparr>Key = ''env'', Operator = ''NotIn'', Values = [''dev'']\<rparr>]\<rparr>) = Inr True"
  by (subst matchNamespaceSelector_documented[where labels = "[''team'' \<mapsto> ''web'']"])
    (simp_all add: label_requirement_def)

text \<open>
  With an empty matchLabels value the code admits a Namespace that lacks the label altogether,
  because indexing an absent key of a Go map yields the empty string.
\<close>

lemma empty_label_value_admits_unlabelled:
  "matchNamespaceSelector (\<lambda>_. Inr Map.empty) ''apps''
     (Some \<lparr>MatchLabels = [(''shared'', '''')], MatchExpressions = []\<rparr>) = Inr True"
  by (simp add: matchNamespaceSelector_def)

text \<open>
  CheckRouteAttachment, which looks at kinds and namespaces only, admits a route exactly when
  some listener allows it; its answer agrees with routeAttachmentHostnames on refusals.
\<close>

lemma check_listeners_Inr:
  "check_listeners getNS gw ns kind ls = Inr ok \<Longrightarrow>
     ok \<longleftrightarrow> (\<exists>l \<in> set ls. isKindAllowed l kind \<and>
       isNamespaceAllowed getNS l (Namespace (gw_meta gw)) ns = Inr True)"
  by (induction ls) (auto simp: bind_result_Inr_iff split: if_splits)

lemma routeAttachmentHostnames_checked:
  assumes "CheckRouteAttachment getNS gw ns kind = Inr False"
    and "routeAttachmentHostnames getNS gw refs ns kind hostnames = Inr (effective, ok)"
  shows "\<not> ok"
  using attach_loop_attachable[of getNS gw refs ns kind hostnames "Listeners gw" "[]" effective ok]
    check_listeners_Inr[of getNS gw ns kind "Listeners gw" False] assms
  by (auto simp: CheckRouteAttachment_def routeAttachmentHostnames_def attachable_def)

end
