(* ===== verification/Dns.thy ===== *)
theory Dns
  imports Client Attachment
begin

text \<open>
  internal/controller/dns.go: publishing the hostnames of a Gateway's routes as proxied CNAME
  records. The plan for a zone is a pure function of the desired and the current records;
  reconcileDNS and teardownDNS run it zone by zone over the client interface, threading the
  remote state and the first error. Log output is left out. The results are ownership safety
  (records without this Gateway's comment are never touched), convergence of the plan, and the
  choice of the longest matching zone.
\<close>

section \<open>Ownership\<close>

definition annotationDNSManaged :: string where
  "annotationDNSManaged = ''cloudflared-gateway.jan0ski.net/dns-managed''"

definition ownerCommentPrefix :: string where
  "ownerCommentPrefix = ''cloudflared-gateway:owner=''"

definition cfargotunnelSuffix :: string where
  "cfargotunnelSuffix = ''.cfargotunnel.com''"

definition ownerComment :: "Gateway \<Rightarrow> string" where
  "ownerComment gw = ownerCommentPrefix @ UID (gw_meta gw)"

definition gatewayDNSEnabled :: "Gateway \<Rightarrow> bool" where
  "gatewayDNSEnabled gw \<longleftrightarrow>
     \<not> EqualFold (deref_or '''' (Annotations (gw_meta gw) annotationDNSManaged)) ''false''"

section \<open>Hostnames and zones\<close>

definition add_hostnames :: "string list \<Rightarrow> string list \<Rightarrow> string list" where
  "add_hostnames hostnames out =
     fold (\<lambda>h out. let name = NormalizeDNSName h in
       if name = '''' then out else append_unseen name out) hostnames out"

definition collectRouteHostnames ::
  "HTTPRoute list \<Rightarrow> GRPCRoute list \<Rightarrow> TLSRoute list \<Rightarrow> string list" where
  "collectRouteHostnames httpRoutes grpcRoutes tlsRoutes =
     fold add_hostnames (map Hostnames httpRoutes @ map Hostnames grpcRoutes @ map Hostnames tlsRoutes) []"

definition serves :: "Zone \<Rightarrow> string \<Rightarrow> bool" where
  "serves z hostname \<longleftrightarrow>
     Zone_Name z \<noteq> '''' \<and> (hostname = Zone_Name z \<or> HasSuffix hostname (''.'' @ Zone_Name z))"

fun match_zone_loop :: "string \<Rightarrow> Zone list \<Rightarrow> Zone option \<Rightarrow> Zone option" where
  "match_zone_loop hostname [] best = best"
| "match_zone_loop hostname (z # zs) best =
     match_zone_loop hostname zs
       (if serves z hostname then
          (case best of None \<Rightarrow> Some z
           | Some b \<Rightarrow> if length (Zone_Name z) > length (Zone_Name b) then Some z else Some b)
        else best)"

text \<open>The pair of a zone and found is an option.\<close>

definition matchZone :: "string \<Rightarrow> Zone list \<Rightarrow> Zone option" where
  "matchZone hostname zones = match_zone_loop hostname zones None"

section \<open>The plan for a zone\<close>

definition index_step :: "string \<Rightarrow> DNSRecord \<Rightarrow> (string \<rightharpoonup> DNSRecord) \<Rightarrow> (string \<rightharpoonup> DNSRecord)" where
  "index_step owner r currentByName =
     (case currentByName (rec_Name r) of
        Some existing \<Rightarrow>
          if rec_Comment existing = owner then currentByName else currentByName(rec_Name r \<mapsto> r)
      | None \<Rightarrow> currentByName(rec_Name r \<mapsto> r))"

definition index_records :: "string \<Rightarrow> DNSRecord list \<Rightarrow> (string \<rightharpoonup> DNSRecord)" where
  "index_records owner current = fold (index_step owner) current Map.empty"

definition plan_step ::
  "string \<Rightarrow> (string \<rightharpoonup> DNSRecord) \<Rightarrow> DNSRecord \<Rightarrow> DNSChanges \<times> string list \<Rightarrow> DNSChanges \<times> string list" where
  "plan_step owner currentByName d st =
     (let (changes, conflicts) = st in
      case currentByName (rec_Name d) of
        None \<Rightarrow> (changes\<lparr>Creates := Creates changes @ [d]\<rparr>, conflicts)
      | Some cur \<Rightarrow>
          if rec_Comment cur \<noteq> owner then (changes, conflicts @ [rec_Name d])
          else if rec_Content cur \<noteq> rec_Content d \<or> rec_Proxied cur \<noteq> rec_Proxied d
          then (changes\<lparr>Updates := Updates changes @ [d\<lparr>rec_ID := rec_ID cur\<rparr>]\<rparr>, conflicts)
          else (changes, conflicts))"

definition planDNSChanges ::
  "DNSRecord list \<Rightarrow> DNSRecord list \<Rightarrow> string \<Rightarrow> DNSChanges \<times> string list" where
  "planDNSChanges desired current owner =
     (let currentByName = index_records owner current;
          (changes, conflicts) = fold (plan_step owner currentByName) desired (no_changes, []);
          desiredNames = map rec_Name desired
      in (changes\<lparr>Deletes := filter (\<lambda>r. rec_Comment r = owner \<and> rec_Name r \<notin> set desiredNames) current\<rparr>,
          conflicts))"

section \<open>reconcileDNS and teardownDNS\<close>

definition desired_step ::
  "Zone list \<Rightarrow> string \<Rightarrow> string \<Rightarrow> string \<Rightarrow> (string \<Rightarrow> DNSRecord list) \<Rightarrow> (string \<Rightarrow> DNSRecord list)" where
  "desired_step zones target owner h desiredByZone =
     (let name = NormalizeDNSName h in
      if name = '''' then desiredByZone
      else if HasPrefix name ''*.'' then desiredByZone
      else (case matchZone name zones of
              None \<Rightarrow> desiredByZone
            | Some zone \<Rightarrow>
                desiredByZone(Zone_ID zone := desiredByZone (Zone_ID zone) @
                  [\<lparr>rec_ID = '''', rec_Name = name, rec_Type = ''CNAME'', rec_Content = target,
                    rec_Proxied = True, rec_Comment = owner\<rparr>])))"

definition conflict_error :: "Gateway \<Rightarrow> Zone \<Rightarrow> string \<Rightarrow> goerror" where
  "conflict_error gw zone name =
     Err (''DNS record '' @ quoted name @ '' in zone '' @ quoted (Zone_Name zone) @
          '' is not managed by Gateway '' @ Namespace (gw_meta gw) @ ''/'' @ Name (gw_meta gw))"

definition dns_zone_step ::
  "'s APIClient \<Rightarrow> Gateway \<Rightarrow> (string \<Rightarrow> DNSRecord list) \<Rightarrow> string \<Rightarrow> Zone
     \<Rightarrow> goerror option \<times> 's \<Rightarrow> goerror option \<times> 's" where
  "dns_zone_step api gw desiredByZone owner zone st =
     (let (firstErr, s) = st in
      case api_ListDNSRecords api s (Zone_ID zone) of
        Inl e \<Rightarrow>
          (or_else firstErr (Some (Wrap (''listing DNS records in zone '' @ quoted (Zone_Name zone)) e)), s)
      | Inr current \<Rightarrow>
          let (changes, conflicts) = planDNSChanges (desiredByZone (Zone_ID zone)) current owner;
              firstErr = fold (\<lambda>name err. or_else err (Some (conflict_error gw zone name))) conflicts firstErr
          in if Empty changes then (firstErr, s)
             else (case api_ApplyDNSChanges api s (Zone_ID zone) changes of
                     (Some e, s') \<Rightarrow>
                       (or_else firstErr
                          (Some (Wrap (''applying DNS changes in zone '' @ quoted (Zone_Name zone)) e)), s')
                   | (None, s') \<Rightarrow> (firstErr, s')))"

definition reconcileDNS ::
  "'s APIClient \<Rightarrow> bool \<Rightarrow> Gateway \<Rightarrow> string \<Rightarrow> string list \<Rightarrow> 's \<Rightarrow> goerror option \<times> 's" where
  "reconcileDNS api manageDNS gw tunnelID hostnames s =
     (if \<not> manageDNS \<or> \<not> gatewayDNSEnabled gw \<or> tunnelID = '''' then (None, s)
      else case api_ListZones api s of
          Inl e \<Rightarrow> (Some (Wrap ''listing zones'' e), s)
        | Inr zones \<Rightarrow>
            let owner = ownerComment gw;
                target = NormalizeDNSName (tunnelID @ cfargotunnelSuffix);
                desiredByZone = fold (desired_step zones target owner) hostnames (\<lambda>_. [])
            in fold (dns_zone_step api gw desiredByZone owner) zones (None, s))"

definition teardown_zone_step ::
  "'s APIClient \<Rightarrow> string \<Rightarrow> Zone \<Rightarrow> goerror option \<times> 's \<Rightarrow> goerror option \<times> 's" where
  "teardown_zone_step api owner z st =
     (let (firstErr, s) = st in
      case api_ListDNSRecords api s (Zone_ID z) of
        Inl e \<Rightarrow> (or_else firstErr (Some e), s)
      | Inr current \<Rightarrow>
          let changes = no_changes\<lparr>Deletes := filter (\<lambda>r. rec_Comment r = owner) current\<rparr>
          in if Empty changes then (firstErr, s)
             else (case api_ApplyDNSChanges api s (Zone_ID z) changes of
                     (Some e, s') \<Rightarrow> (or_else firstErr (Some e), s')
                   | (None, s') \<Rightarrow> (firstErr, s')))"

definition teardownDNS :: "'s APIClient \<Rightarrow> bool \<Rightarrow> Gateway \<Rightarrow> 's \<Rightarrow> goerror option \<times> 's" where
  "teardownDNS api manageDNS gw s =
     (if \<not> manageDNS then (None, s)
      else case api_ListZones api s of
          Inl e \<Rightarrow> (Some (Wrap ''listing zones'' e), s)
        | Inr zones \<Rightarrow> fold (teardown_zone_step api (ownerComment gw)) zones (None, s))"

section \<open>The longest zone\<close>

definition best_zone :: "string \<Rightarrow> Zone list \<Rightarrow> Zone option \<Rightarrow> bool" where
  "best_zone h zs best \<longleftrightarrow>
     (case best of
        None \<Rightarrow> filter (\<lambda>z. serves z h) zs = []
      | Some b \<Rightarrow> b \<in> set zs \<and> serves b h \<and>
          list_all (\<lambda>z. length (Zone_Name z) \<le> length (Zone_Name b)) (filter (\<lambda>z. serves z h) zs))"

lemma match_zone_loop_best:
  "best_zone h seen best \<Longrightarrow> best_zone h (seen @ zs) (match_zone_loop h zs best)"
proof (induction zs arbitrary: seen best)
  case (Cons z zs)
  have "best_zone h (seen @ [z])
      (if serves z h then
         (case best of None \<Rightarrow> Some z
          | Some b \<Rightarrow> if length (Zone_Name z) > length (Zone_Name b) then Some z else Some b)
       else best)"
    using Cons.prems by (cases best) (auto simp: best_zone_def list_all_iff)
  then show ?case using Cons.IH[of "seen @ [z]"] by simp
qed simp

lemma serves_same_length:
  "serves y h \<Longrightarrow> serves z h \<Longrightarrow> length (Zone_Name y) = length (Zone_Name z) \<Longrightarrow> Zone_Name y = Zone_Name z"
proof -
  have suf: "serves x h \<Longrightarrow> suffix (Zone_Name x) h" for x
    by (auto simp: serves_def HasSuffix_iff suffix_Cons intro: suffix_ConsD)
  assume "serves y h" "serves z h" and len: "length (Zone_Name y) = length (Zone_Name z)"
  then have "suffix (Zone_Name y) (Zone_Name z) \<or> suffix (Zone_Name z) (Zone_Name y)"
    using suf suffix_comparable by blast
  then show ?thesis using len by (auto simp: suffix_def)
qed

text \<open>
  matchZone picks the longest zone. It finds nothing exactly when no zone with a name serves
  the hostname; otherwise it returns one of the zones, that serves the hostname, and whose name
  no other zone serving the hostname exceeds, and every one that is as long has the same name.
\<close>

lemma matchZone_longest:
  "(case matchZone h zones of
      None \<Rightarrow> filter (\<lambda>z. serves z h) zones = []
    | Some b \<Rightarrow> b \<in> set zones \<and> serves b h \<and>
        list_all (\<lambda>z. length (Zone_Name z) \<le> length (Zone_Name b)) (filter (\<lambda>z. serves z h) zones) \<and>
        list_all (\<lambda>z. Zone_Name z = Zone_Name b)
          (filter (\<lambda>z. serves z h \<and> length (Zone_Name z) = length (Zone_Name b)) zones))"
proof -
  have "best_zone h zones (matchZone h zones)"
    using match_zone_loop_best[of h "[]" None zones] by (simp add: matchZone_def best_zone_def)
  then show ?thesis
    by (auto simp: best_zone_def list_all_iff split: option.splits dest: serves_same_length)
qed

section \<open>The plan, by cases\<close>

lemma index_records_Some:
  assumes "index_records owner current n = Some r"
  shows "r \<in> set current \<and> rec_Name r = n"
proof -
  have "fold (index_step owner) rs m n = Some r \<Longrightarrow>
      m n = Some r \<or> (r \<in> set rs \<and> rec_Name r = n)" for rs m
    by (induction rs arbitrary: m)
      (auto simp: index_step_def split: option.splits if_splits, (metis fun_upd_apply option.inject)+)
  from this[of current Map.empty] assms show ?thesis by (simp add: index_records_def)
qed

lemma index_records_None:
  "index_records owner current n = None \<longleftrightarrow> n \<notin> rec_Name ` set current"
proof -
  have "fold (index_step owner) rs m n = None \<longleftrightarrow> m n = None \<and> n \<notin> rec_Name ` set rs" for rs m
    by (induction rs arbitrary: m) (auto simp: index_step_def split: option.splits if_splits)
  from this[of current Map.empty] show ?thesis by (simp add: index_records_def)
qed

text \<open>An owned record of a name, when there is one, is the one indexed.\<close>

lemma index_records_owned:
  assumes "r \<in> set current" and "rec_Comment r = owner"
  shows "\<exists>q. index_records owner current (rec_Name r) = Some q \<and> rec_Comment q = owner"
proof -
  have one: "(\<exists>q. m n = Some q \<and> rec_Comment q = owner) \<Longrightarrow>
      \<exists>q. index_step owner a m n = Some q \<and> rec_Comment q = owner" for a m n
    by (auto simp: index_step_def split: option.splits)
  have keep: "(\<exists>q. m n = Some q \<and> rec_Comment q = owner) \<Longrightarrow>
      \<exists>q. fold (index_step owner) rs m n = Some q \<and> rec_Comment q = owner" for rs m n
    by (induction rs arbitrary: m) (simp_all add: one)
  obtain xs ys where c: "current = xs @ r # ys" using split_list[OF assms(1)] by blast
  have "\<exists>q. index_step owner r (fold (index_step owner) xs Map.empty) (rec_Name r) = Some q \<and>
      rec_Comment q = owner"
    using assms(2) by (auto simp: index_step_def split: option.splits)
  then show ?thesis unfolding index_records_def c by (simp add: keep)
qed

definition to_create :: "string \<Rightarrow> DNSRecord list \<Rightarrow> DNSRecord \<Rightarrow> bool" where
  "to_create owner current d \<longleftrightarrow> index_records owner current (rec_Name d) = None"

definition in_conflict :: "string \<Rightarrow> DNSRecord list \<Rightarrow> DNSRecord \<Rightarrow> bool" where
  "in_conflict owner current d \<longleftrightarrow>
     (case index_records owner current (rec_Name d) of None \<Rightarrow> False | Some c \<Rightarrow> rec_Comment c \<noteq> owner)"

definition differs :: "DNSRecord \<Rightarrow> DNSRecord \<Rightarrow> bool" where
  "differs c d \<longleftrightarrow> rec_Content c \<noteq> rec_Content d \<or> rec_Proxied c \<noteq> rec_Proxied d"

definition to_update :: "string \<Rightarrow> DNSRecord list \<Rightarrow> DNSRecord \<Rightarrow> bool" where
  "to_update owner current d \<longleftrightarrow>
     (case index_records owner current (rec_Name d) of None \<Rightarrow> False
      | Some c \<Rightarrow> rec_Comment c = owner \<and> differs c d)"

definition with_current_ID :: "string \<Rightarrow> DNSRecord list \<Rightarrow> DNSRecord \<Rightarrow> DNSRecord" where
  "with_current_ID owner current d =
     (case index_records owner current (rec_Name d) of None \<Rightarrow> d | Some c \<Rightarrow> d\<lparr>rec_ID := rec_ID c\<rparr>)"

definition to_delete :: "string \<Rightarrow> DNSRecord list \<Rightarrow> DNSRecord \<Rightarrow> bool" where
  "to_delete owner desired r \<longleftrightarrow> rec_Comment r = owner \<and> rec_Name r \<notin> rec_Name ` set desired"

lemmas plan_cases = to_create_def in_conflict_def to_update_def with_current_ID_def to_delete_def differs_def

lemma plan_fold:
  "fold (plan_step owner (index_records owner current)) ds (changes, conflicts) =
     (changes\<lparr>Creates := Creates changes @ filter (to_create owner current) ds,
              Updates := Updates changes @
                map (with_current_ID owner current) (filter (to_update owner current) ds)\<rparr>,
      conflicts @ map rec_Name (filter (in_conflict owner current) ds))"
  by (induction ds arbitrary: changes conflicts)
    (auto simp: plan_step_def plan_cases split: option.splits)

lemma planDNSChanges_eq:
  "planDNSChanges desired current owner =
     (\<lparr>Creates = filter (to_create owner current) desired,
       Updates = map (with_current_ID owner current) (filter (to_update owner current) desired),
       Deletes = filter (to_delete owner desired) current\<rparr>,
      map rec_Name (filter (in_conflict owner current) desired))"
  by (simp add: planDNSChanges_def plan_fold no_changes_def Let_def to_delete_def[abs_def])

lemma planned_parts:
  "list_all (\<lambda>r. r \<in> set current \<and> rec_Comment r = owner \<and> rec_Name r \<notin> rec_Name ` set desired)
     (Deletes (fst (planDNSChanges desired current owner))) \<and>
   list_all (\<lambda>u. list_ex (\<lambda>r. rec_Comment r = owner \<and> rec_ID u = rec_ID r \<and> rec_Name u = rec_Name r) current \<and>
       list_ex (\<lambda>d. u = d\<lparr>rec_ID := rec_ID u\<rparr>) desired)
     (Updates (fst (planDNSChanges desired current owner))) \<and>
   list_all (\<lambda>d. d \<in> set desired \<and> rec_Name d \<notin> rec_Name ` set current)
     (Creates (fst (planDNSChanges desired current owner))) \<and>
   set (snd (planDNSChanges desired current owner)) =
     {n \<in> rec_Name ` set desired. n \<in> rec_Name ` set current \<and>
        filter (\<lambda>r. rec_Name r = n \<and> rec_Comment r = owner) current = []}"
proof -
  have upd: "list_ex (\<lambda>r. rec_Comment r = owner \<and> rec_ID u = rec_ID r \<and> rec_Name u = rec_Name r) current \<and>
      list_ex (\<lambda>d. u = d\<lparr>rec_ID := rec_ID u\<rparr>) desired"
    if "d \<in> set desired" "to_update owner current d" "u = with_current_ID owner current d" for u d
    using that index_records_Some[of owner current "rec_Name d"]
    by (fastforce simp: plan_cases list_ex_iff split: option.splits)
  have con: "in_conflict owner current d \<longleftrightarrow> rec_Name d \<in> rec_Name ` set current \<and>
      filter (\<lambda>r. rec_Name r = rec_Name d \<and> rec_Comment r = owner) current = []" for d
  proof (cases "index_records owner current (rec_Name d)")
    case None
    then show ?thesis using index_records_None[of owner current "rec_Name d"] by (simp add: in_conflict_def)
  next
    case (Some c)
    note c = index_records_Some[OF Some]
    have "rec_Comment c = owner \<longleftrightarrow>
        filter (\<lambda>r. rec_Name r = rec_Name d \<and> rec_Comment r = owner) current \<noteq> []"
      using c index_records_owned[of _ current owner] Some by (fastforce simp: filter_empty_conv)
    moreover have "rec_Name d \<in> rec_Name ` set current" using c by (metis imageI)
    ultimately show ?thesis using Some by (simp add: in_conflict_def)
  qed
  show ?thesis
    unfolding planDNSChanges_eq
    using upd by (auto simp: list_all_iff to_delete_def to_create_def index_records_None con)
qed

text \<open>
  A plan touches only what it may. Everything deleted is a current record with the owner's
  comment whose name is not desired; every update carries the identifier and the name of a
  current record with the owner's comment, and the content of a desired record; everything created
  is a desired record whose name no current record has; and the names reported as conflicts are
  exactly the desired names held by current records none of which is the owner's.
\<close>

lemma planDNSChanges_touches_only_owned:
  "list_all (\<lambda>r. r \<in> set current \<and> rec_Comment r = owner \<and> rec_Name r \<notin> rec_Name ` set desired)
     (Deletes (fst (planDNSChanges desired current owner))) \<and>
   list_all (\<lambda>u. list_ex (\<lambda>r. rec_Comment r = owner \<and> rec_ID u = rec_ID r \<and> rec_Name u = rec_Name r) current \<and>
       list_ex (\<lambda>d. u = d\<lparr>rec_ID := rec_ID u\<rparr>) desired)
     (Updates (fst (planDNSChanges desired current owner))) \<and>
   list_all (\<lambda>d. d \<in> set desired \<and> rec_Name d \<notin> rec_Name ` set current)
     (Creates (fst (planDNSChanges desired current owner))) \<and>
   set (snd (planDNSChanges desired current owner)) =
     {n \<in> rec_Name ` set desired. n \<in> rec_Name ` set current \<and>
        filter (\<lambda>r. rec_Name r = n \<and> rec_Comment r = owner) current = []}"
  by (rule planned_parts)

section \<open>Convergence\<close>

text \<open>
  What a zone holds after a plan has been carried out, as the batch endpoint documents it: the
  deleted records are gone, the updated ones have the update's fields, the others are unchanged,
  and each created record is there under an identifier of its own. The order of a
  listing is not fixed.
\<close>

definition patched :: "DNSRecord list \<Rightarrow> DNSRecord \<Rightarrow> DNSRecord" where
  "patched us r = (case find (\<lambda>u. rec_ID u = rec_ID r) us of None \<Rightarrow> r | Some u \<Rightarrow> u)"

definition carried_out :: "DNSChanges \<Rightarrow> DNSRecord list \<Rightarrow> (DNSRecord \<Rightarrow> string) \<Rightarrow> DNSRecord list \<Rightarrow> bool" where
  "carried_out c before newID after \<longleftrightarrow>
     set after = set (map (patched (Updates c)) (filter (\<lambda>r. rec_ID r \<notin> rec_ID ` set (Deletes c)) before) @
       map (\<lambda>d. d\<lparr>rec_ID := newID d\<rparr>) (Creates c))"

lemma carried_out_cases:
  assumes "carried_out c before newID after" and "q \<in> set after"
  obtains r where "r \<in> set before" "rec_ID r \<notin> rec_ID ` set (Deletes c)" "q = patched (Updates c) r"
  | e where "e \<in> set (Creates c)" "q = e\<lparr>rec_ID := newID e\<rparr>"
  using assms by (auto simp: carried_out_def)

text \<open>A zone as the service keeps it: at most one CNAME record per name, identifiers unique.\<close>

definition zone_wf :: "DNSRecord list \<Rightarrow> bool" where
  "zone_wf rs \<longleftrightarrow> distinct (map rec_Name rs) \<and> distinct (map rec_ID rs)"

lemma zone_wf_name: "zone_wf rs \<Longrightarrow> r \<in> set rs \<Longrightarrow> q \<in> set rs \<Longrightarrow> rec_Name r = rec_Name q \<Longrightarrow> r = q"
  by (auto simp: zone_wf_def distinct_map inj_on_def)

lemma zone_wf_ID: "zone_wf rs \<Longrightarrow> r \<in> set rs \<Longrightarrow> q \<in> set rs \<Longrightarrow> rec_ID r = rec_ID q \<Longrightarrow> r = q"
  by (auto simp: zone_wf_def distinct_map inj_on_def)

lemma update_of:
  assumes wf: "zone_wf current" and names: "distinct (map rec_Name desired)"
    and u: "u \<in> set (Updates (fst (planDNSChanges desired current owner)))"
    and r: "r \<in> set current" and id: "rec_ID u = rec_ID r"
  shows "rec_Name u = rec_Name r \<and> rec_Comment r = owner \<and>
    (\<exists>d \<in> set desired. rec_Name d = rec_Name r \<and> to_update owner current d \<and> u = d\<lparr>rec_ID := rec_ID r\<rparr>)"
proof -
  obtain d where d: "d \<in> set desired" "to_update owner current d" "u = with_current_ID owner current d"
    using u by (auto simp: planDNSChanges_eq)
  then obtain q where q: "index_records owner current (rec_Name d) = Some q" "rec_Comment q = owner"
      "u = d\<lparr>rec_ID := rec_ID q\<rparr>"
    by (auto simp: to_update_def with_current_ID_def split: option.splits)
  have "q \<in> set current" "rec_Name q = rec_Name d" using index_records_Some[OF q(1)] by auto
  moreover from this have "q = r" using zone_wf_ID[OF wf] r id q(3) by simp
  ultimately show ?thesis using d(1,2) q by (metis DNSRecord.select_convs(2) DNSRecord.update_convs(1) DNSRecord.surjective)
qed

lemma patched_cases:
  obtains "patched us r = r" "filter (\<lambda>u. rec_ID u = rec_ID r) us = []"
  | u where "patched us r = u" "u \<in> set us" "rec_ID u = rec_ID r"
proof (cases "find (\<lambda>u. rec_ID u = rec_ID r) us")
  case None
  moreover from this have "filter (\<lambda>u. rec_ID u = rec_ID r) us = []"
    by (simp add: find_None_iff filter_empty_conv)
  ultimately show thesis using that(1) by (simp add: patched_def)
next
  case (Some u)
  then have "u \<in> set us" "rec_ID u = rec_ID r" by (auto simp: find_Some_iff)
  with Some show thesis using that(2) by (simp add: patched_def)
qed

lemma patched_name:
  assumes "zone_wf current" and "distinct (map rec_Name desired)" and "r \<in> set current"
  shows "rec_Name (patched (Updates (fst (planDNSChanges desired current owner))) r) = rec_Name r"
  by (rule patched_cases[of "Updates (fst (planDNSChanges desired current owner))" r])
    (use update_of[OF assms(1,2) _ assms(3)] in auto)

text \<open>Where a desired name stands after the plan, and which records it can belong to.\<close>

lemma after_desired:
  assumes wf: "zone_wf current" and names: "distinct (map rec_Name desired)"
    and ours: "\<forall>d \<in> set desired. rec_Comment d = owner"
    and co: "carried_out (fst (planDNSChanges desired current owner)) current newID after"
    and d: "d \<in> set desired" and q: "q \<in> set after" and n: "rec_Name q = rec_Name d"
  shows "if in_conflict owner current d then rec_Comment q \<noteq> owner
    else rec_Comment q = owner \<and> \<not> differs q d"
proof -
  let ?c = "fst (planDNSChanges desired current owner)"
  have inj: "e = d" if "e \<in> set desired" "rec_Name e = rec_Name d" for e
    using that d names by (auto simp: distinct_map inj_on_def)
  show ?thesis
    using co q
  proof (cases rule: carried_out_cases)
    case (1 r)
    have rn: "rec_Name r = rec_Name d" using patched_name[OF wf names 1(1)] 1(3) n by simp
    obtain k where k: "index_records owner current (rec_Name d) = Some k"
      using index_records_None[of owner current "rec_Name d"] 1(1) rn
      by (metis imageI not_None_eq)
    have "k = r" using index_records_Some[OF k] zone_wf_name[OF wf] 1(1) rn by auto
    note k = k[unfolded this]
    show ?thesis
    proof (rule patched_cases[of "Updates ?c" r])
      assume p: "patched (Updates ?c) r = r" and none: "filter (\<lambda>u. rec_ID u = rec_ID r) (Updates ?c) = []"
      have "\<not> to_update owner current d"
      proof
        assume "to_update owner current d"
        then have "with_current_ID owner current d \<in> set (Updates ?c)"
          using d by (simp add: planDNSChanges_eq)
        then show False using none k by (auto simp: filter_empty_conv with_current_ID_def)
      qed
      then show ?thesis using k p 1(3) by (simp add: in_conflict_def to_update_def)
    next
      fix u assume "patched (Updates ?c) r = u" "u \<in> set (Updates ?c)" "rec_ID u = rec_ID r"
      then have "\<exists>e \<in> set desired. rec_Name e = rec_Name r \<and> to_update owner current e \<and>
          q = e\<lparr>rec_ID := rec_ID r\<rparr>" and "rec_Comment r = owner"
        using update_of[OF wf names _ 1(1), of u owner] 1(3) by auto
      then have "q = d\<lparr>rec_ID := rec_ID r\<rparr>" using inj rn by auto
      then show ?thesis using ours d k \<open>rec_Comment r = owner\<close>
        by (simp add: in_conflict_def differs_def)
    qed
  next
    case (2 e)
    then have e: "e \<in> set desired" "to_create owner current e" by (auto simp: planDNSChanges_eq)
    moreover have "rec_Name e = rec_Name d" using 2(2) n by simp
    ultimately have "e = d" using inj by simp
    then show ?thesis using 2(2) e(2) ours d
      by (simp add: in_conflict_def to_create_def differs_def)
  qed
qed

lemma after_present:
  assumes wf: "zone_wf current" and names: "distinct (map rec_Name desired)"
    and co: "carried_out (fst (planDNSChanges desired current owner)) current newID after"
    and d: "d \<in> set desired"
  shows "rec_Name d \<in> rec_Name ` set after"
proof (cases "index_records owner current (rec_Name d)")
  case None
  then have "d\<lparr>rec_ID := newID d\<rparr> \<in> set after"
    using co d by (auto simp: carried_out_def planDNSChanges_eq to_create_def)
  then have "rec_Name (d\<lparr>rec_ID := newID d\<rparr>) \<in> rec_Name ` set after" by (rule imageI)
  then show ?thesis by simp
next
  case (Some r)
  let ?c = "fst (planDNSChanges desired current owner)"
  have r: "r \<in> set current" "rec_Name r = rec_Name d" using index_records_Some[OF Some] by auto
  have "rec_ID r \<notin> rec_ID ` set (Deletes ?c)"
  proof
    assume "rec_ID r \<in> rec_ID ` set (Deletes ?c)"
    then obtain q where q: "q \<in> set current" "to_delete owner desired q" "rec_ID q = rec_ID r"
      by (auto simp: planDNSChanges_eq)
    then have "q = r" using zone_wf_ID[OF wf] r(1) by blast
    with q(2) r d show False by (auto simp: to_delete_def)
  qed
  then have "patched (Updates ?c) r \<in> set after" using co r(1) by (auto simp: carried_out_def)
  then show ?thesis using patched_name[OF wf names r(1)] r(2) by (metis imageI)
qed

lemma after_deletes:
  assumes wf: "zone_wf current" and names: "distinct (map rec_Name desired)"
    and co: "carried_out (fst (planDNSChanges desired current owner)) current newID after"
    and q: "q \<in> set after"
  shows "\<not> to_delete owner desired q"
proof
  let ?c = "fst (planDNSChanges desired current owner)"
  assume del: "to_delete owner desired q"
  show False
    using co q
  proof (cases rule: carried_out_cases)
    case (1 r)
    show False
    proof (rule patched_cases[of "Updates ?c" r])
      assume "patched (Updates ?c) r = r"
      then show False using 1 del by (auto simp: planDNSChanges_eq)
    next
      fix u assume "patched (Updates ?c) r = u" "u \<in> set (Updates ?c)" "rec_ID u = rec_ID r"
      then obtain e where "e \<in> set desired" "rec_Name e = rec_Name r" "q = e\<lparr>rec_ID := rec_ID r\<rparr>"
        using update_of[OF wf names _ 1(1), of u owner] 1(3) by auto
      moreover from this have "rec_Name q = rec_Name e" by simp
      ultimately have "rec_Name q \<in> rec_Name ` set desired" by (metis imageI)
      then show False using del by (auto simp: to_delete_def)
    qed
  next
    case (2 e)
    then show False using del by (auto simp: planDNSChanges_eq to_delete_def)
  qed
qed

text \<open>
  C12. The plan converges in one step. Take a zone with unique names and identifiers and desired
  records with distinct names and the owner's comment. Whatever zone results from carrying out
  the plan, planning again finds nothing to change, and reports the same conflicts. So a second
  reconciliation sends no request.
\<close>

theorem planDNSChanges_converges:
  assumes "zone_wf current" and "distinct (map rec_Name desired)"
    and "\<forall>d \<in> set desired. rec_Comment d = owner"
    and "carried_out (fst (planDNSChanges desired current owner)) current newID after"
  shows "Empty (fst (planDNSChanges desired after owner)) \<and>
    snd (planDNSChanges desired after owner) = snd (planDNSChanges desired current owner)"
proof -
  have idx: "\<exists>q. index_records owner after (rec_Name d) = Some q \<and>
      (if in_conflict owner current d then rec_Comment q \<noteq> owner
       else rec_Comment q = owner \<and> \<not> differs q d)" if "d \<in> set desired" for d
    using after_present[OF assms(1,2,4) that] after_desired[OF assms that] index_records_Some
      index_records_None by (metis not_None_eq)
  have "\<not> to_create owner after d" "\<not> to_update owner after d"
      "in_conflict owner after d \<longleftrightarrow> in_conflict owner current d" if "d \<in> set desired" for d
    using idx[OF that] by (auto simp: to_create_def to_update_def in_conflict_def split: if_splits)
  then have "filter (to_create owner after) desired = []" "filter (to_update owner after) desired = []"
      "filter (in_conflict owner after) desired = filter (in_conflict owner current) desired"
    by (auto simp: filter_empty_conv intro: filter_cong)
  moreover have "filter (to_delete owner desired) after = []"
    using after_deletes[OF assms(1,2,4)] by (simp add: filter_empty_conv)
  ultimately show ?thesis by (simp add: planDNSChanges_eq Empty_def)
qed

definition cname :: "string \<Rightarrow> string \<Rightarrow> string \<Rightarrow> string \<Rightarrow> DNSRecord" where
  "cname i name content comment = \<lparr>rec_ID = i, rec_Name = name, rec_Type = ''CNAME'',
     rec_Content = content, rec_Proxied = True, rec_Comment = comment\<rparr>"

lemmas plan_run = planDNSChanges_def index_records_def index_step_def plan_step_def no_changes_def
  cname_def Let_def

theorem planDNSChanges_converges_witness:
  "planDNSChanges [cname '''' ''a'' ''t'' ''o'', cname '''' ''b'' ''t'' ''o'', cname '''' ''c'' ''t'' ''o'']
     [cname ''1'' ''a'' ''old'' ''o'', cname ''2'' ''b'' ''x'' ''human'', cname ''3'' ''d'' ''t'' ''o''] ''o'' =
   (\<lparr>Creates = [cname '''' ''c'' ''t'' ''o''], Updates = [cname ''1'' ''a'' ''t'' ''o''],
      Deletes = [cname ''3'' ''d'' ''t'' ''o'']\<rparr>, [''b'']) \<and>
   Empty (fst (planDNSChanges [cname '''' ''a'' ''t'' ''o'', cname '''' ''b'' ''t'' ''o'', cname '''' ''c'' ''t'' ''o'']
     [cname ''1'' ''a'' ''t'' ''o'', cname ''2'' ''b'' ''x'' ''human'', cname ''9'' ''c'' ''t'' ''o''] ''o''))"
    (is "planDNSChanges ?ds ?now ''o'' = ?plan \<and> Empty (fst (planDNSChanges ?ds ?then ''o''))")
proof -
  have plan: "planDNSChanges ?ds ?now ''o'' = ?plan" by (simp add: plan_run)
  have co: "carried_out (fst (planDNSChanges ?ds ?now ''o'')) ?now (\<lambda>_. ''9'') ?then"
    unfolding plan by (simp add: carried_out_def patched_def cname_def)
  have "Empty (fst (planDNSChanges ?ds ?then ''o''))"
    using planDNSChanges_converges[OF _ _ _ co] by (simp add: zone_wf_def cname_def)
  with plan show ?thesis by blast
qed

section \<open>Ownership safety of the remote state\<close>

text \<open>
  What Cloudflare documents of its record endpoints, for the records \<open>held s z\<close> that zone z has in
  remote state s: a listing shows held records only, an identifier names one record of a zone,
  and a batch, successful or not, keeps every record of another zone and every record of
  its own zone whose identifier it does not mention.
\<close>

definition batch_ids :: "RecordBatchParams \<Rightarrow> string set" where
  "batch_ids p = set (deref_or [] (bp_Deletes p)) \<union> fst ` set (deref_or [] (bp_Patches p))"

definition documented_dns :: "'s SDK \<Rightarrow> ('s \<Rightarrow> string \<Rightarrow> DNSRecord set) \<Rightarrow> bool" where
  "documented_dns sdk held \<longleftrightarrow>
     (\<forall>s z. set (fst (records_list sdk s z)) \<subseteq> held s z) \<and>
     (\<forall>s z r q. r \<in> held s z \<and> q \<in> held s z \<and> rec_ID r = rec_ID q \<longrightarrow> r = q) \<and>
     (\<forall>s p z r. r \<in> held s z \<and> (z \<noteq> bp_ZoneID p \<or> rec_ID r \<notin> batch_ids p) \<longrightarrow>
        r \<in> held (snd (records_batch sdk s p)) z)"

lemma documented_list: "documented_dns sdk held \<Longrightarrow> set (fst (records_list sdk s z)) \<subseteq> held s z"
  by (simp add: documented_dns_def)

lemma documented_ID:
  "documented_dns sdk held \<Longrightarrow> r \<in> held s z \<Longrightarrow> q \<in> held s z \<Longrightarrow> rec_ID r = rec_ID q \<Longrightarrow> r = q"
  unfolding documented_dns_def by blast

lemma documented_batch:
  "documented_dns sdk held \<Longrightarrow> r \<in> held s z \<Longrightarrow> z \<noteq> bp_ZoneID p \<or> rec_ID r \<notin> batch_ids p
     \<Longrightarrow> r \<in> held (snd (records_batch sdk s p)) z"
  unfolding documented_dns_def by blast

definition zone_plan ::
  "'s SDK \<Rightarrow> (string \<Rightarrow> DNSRecord list) \<Rightarrow> string \<Rightarrow> 's \<Rightarrow> string \<Rightarrow> DNSChanges option" where
  "zone_plan sdk desiredByZone owner s zid =
     (case ListDNSRecords sdk s zid of Inl _ \<Rightarrow> None
      | Inr current \<Rightarrow>
          let c = fst (planDNSChanges (desiredByZone zid) current owner) in if Empty c then None else Some c)"

definition zone_run ::
  "'s SDK \<Rightarrow> (string \<Rightarrow> DNSRecord list) \<Rightarrow> string \<Rightarrow> string \<Rightarrow> 's \<Rightarrow> 's" where
  "zone_run sdk desiredByZone owner zid s =
     (case zone_plan sdk desiredByZone owner s zid of None \<Rightarrow> s
      | Some c \<Rightarrow> snd (ApplyDNSChanges sdk s zid c))"

lemma dns_zone_step_run:
  "snd (dns_zone_step (client sdk acc) gw D owner z st) = zone_run sdk D owner (Zone_ID z) (snd st)"
  by (auto simp: dns_zone_step_def zone_run_def zone_plan_def client_def Let_def
      split: sum.splits prod.splits option.splits)

lemma planDNSChanges_nothing:
  "planDNSChanges [] current owner = (no_changes\<lparr>Deletes := filter (\<lambda>r. rec_Comment r = owner) current\<rparr>, [])"
  by (simp add: planDNSChanges_def no_changes_def)

lemma teardown_zone_step_run:
  "snd (teardown_zone_step (client sdk acc) owner z st) = zone_run sdk (\<lambda>_. []) owner (Zone_ID z) (snd st)"
  by (auto simp: teardown_zone_step_def zone_run_def zone_plan_def client_def Let_def
      planDNSChanges_nothing split: sum.splits prod.splits option.splits)

lemma fold_snd:
  assumes "\<And>z st. snd (f z st) = g (h z) (snd st)"
  shows "snd (fold f zs st) = fold g (map h zs) (snd st)"
  by (induction zs arbitrary: st) (simp_all add: assms)

lemma deref_set_if_any: "deref_or [] (set_if_any xs) = xs"
  by (simp add: set_if_any_def)

lemma batch_ids_params:
  "batch_ids (toV7BatchParams z b) = rec_ID ` set (Deletes b) \<union> rec_ID ` set (Updates b)"
  by (simp add: batch_ids_def toV7BatchParams_def deref_set_if_any image_image)

lemma planned_ids_owned:
  assumes "i \<in> rec_ID ` set (Deletes (fst (planDNSChanges ds current owner))) \<union>
      rec_ID ` set (Updates (fst (planDNSChanges ds current owner)))"
  shows "\<exists>r \<in> set current. rec_ID r = i \<and> rec_Comment r = owner"
proof -
  consider (del) r where "r \<in> set current" "to_delete owner ds r" "rec_ID r = i"
    | (upd) d where "d \<in> set ds" "to_update owner current d" "rec_ID (with_current_ID owner current d) = i"
    using assms by (auto simp: planDNSChanges_eq)
  then show ?thesis
  proof cases
    case del
    then show ?thesis by (auto simp: to_delete_def)
  next
    case upd
    then obtain q where "index_records owner current (rec_Name d) = Some q" "rec_Comment q = owner"
        "rec_ID q = i"
      by (auto simp: to_update_def with_current_ID_def split: option.splits)
    then show ?thesis using index_records_Some by blast
  qed
qed

lemma listed_held:
  assumes "documented_dns sdk held" and "ListDNSRecords sdk s z = Inr current" and "r \<in> set current"
  obtains q where "q \<in> held s z" "rec_ID q = rec_ID r" "rec_Comment q = rec_Comment r"
proof -
  obtain rs err where rl: "records_list sdk s z = (rs, err)" by fastforce
  have "current = map read_record rs"
    using assms(2) by (cases err) (simp_all add: ListDNSRecords_def rl)
  then have "r \<in> read_record ` set rs" using assms(3) by simp
  then obtain q where q: "q \<in> set rs" "r = read_record q" by (rule imageE)
  have "q \<in> held s z" using documented_list[OF assms(1), of s z] q(1) unfolding rl fst_conv by (rule subsetD)
  moreover have "rec_ID r = rec_ID q" "rec_Comment r = rec_Comment q"
    unfolding q(2) read_record_def by simp_all
  ultimately show thesis using that by metis
qed

lemma zone_run_keeps_foreign:
  assumes doc: "documented_dns sdk held" and r: "r \<in> held s z" and foreign: "rec_Comment r \<noteq> owner"
  shows "r \<in> held (fold (zone_run sdk D owner) zids s) z"
proof -
  have "r \<in> held (fold (\<lambda>zid s. case zone_plan sdk D owner s zid of None \<Rightarrow> s
      | Some c \<Rightarrow> snd (ApplyDNSChanges sdk s zid c)) zids s) z"
  proof (rule cf.planned_keeps[where P = "\<lambda>t. r \<in> held t z"])
    fix u t zid c b
    assume u: "r \<in> held u z" and p: "zone_plan sdk D owner u zid = Some c" and t: "r \<in> held t z"
      and b: "part_of b c"
    obtain current where l: "ListDNSRecords sdk u zid = Inr current"
      and c: "c = fst (planDNSChanges (D zid) current owner)"
      using p by (auto simp: zone_plan_def Let_def split: sum.splits if_splits)
    have "z \<noteq> zid \<or> rec_ID r \<notin> batch_ids (toV7BatchParams zid b)"
    proof (rule disjCI)
      assume mentioned: "\<not> rec_ID r \<notin> batch_ids (toV7BatchParams zid b)"
      then have "rec_ID r \<in> rec_ID ` set (Deletes c) \<union> rec_ID ` set (Updates c)"
        using b unfolding batch_ids_params part_of_iff by blast
      then obtain q where q: "q \<in> set current" "rec_ID q = rec_ID r" "rec_Comment q = owner"
        using planned_ids_owned c by blast
      obtain k where "k \<in> held u zid" "rec_ID k = rec_ID q" "rec_Comment k = rec_Comment q"
        using listed_held[OF doc l q(1)] .
      then show "z \<noteq> zid"
        using documented_ID[OF doc u, of k] q foreign by metis
    qed
    then show "r \<in> held (snd (sdk_batch sdk t zid b)) z"
      using documented_batch[OF doc t, of "toV7BatchParams zid b"]
      by (simp add: sdk_batch_def toV7BatchParams_def)
  qed (rule r)
  then show ?thesis by (simp add: zone_run_def[abs_def])
qed

lemmas dns_runs =
  fold_snd[where h = Zone_ID and g = "zone_run sdk D owner" for sdk D owner, OF dns_zone_step_run]
  fold_snd[where h = Zone_ID and g = "zone_run sdk (\<lambda>_. []) owner" for sdk owner, OF teardown_zone_step_run]

text \<open>
  Records of others survive. For any SDK that behaves as documented, a record of any zone
  whose comment is not this Gateway's owner comment is still there, unchanged, after reconcileDNS
  and after teardownDNS, whatever the routes, and whatever listings and batches fail midway.
\<close>

lemma dns_keeps_foreign_records:
  assumes "documented_dns sdk held" and "r \<in> held s z" and "rec_Comment r \<noteq> ownerComment gw"
  shows "r \<in> held (snd (reconcileDNS (client sdk acc) manageDNS gw tunnelID hostnames s)) z \<and>
    r \<in> held (snd (teardownDNS (client sdk acc) manageDNS gw s)) z"
  using assms zone_run_keeps_foreign[OF assms]
  by (auto simp: reconcileDNS_def teardownDNS_def Let_def dns_runs split: sum.splits)

text \<open>An in-memory service that behaves as documented: a record per zone and identifier.\<close>

type_synonym cloud = "string \<Rightarrow> string \<Rightarrow> DNSRecord option"

definition param_record :: "string \<Rightarrow> CNAMERecordParam \<Rightarrow> DNSRecord" where
  "param_record i c = \<lparr>rec_ID = i, rec_Name = cn_Name c, rec_Type = ''CNAME'', rec_Content = cn_Content c,
     rec_Proxied = cn_Proxied c, rec_Comment = deref_or '''' (cn_Comment c)\<rparr>"

definition sample_batch :: "cloud \<Rightarrow> RecordBatchParams \<Rightarrow> cloud" where
  "sample_batch s p = s(bp_ZoneID p := (\<lambda>i.
     if i \<in> set (deref_or [] (bp_Deletes p)) then None
     else case map_of (deref_or [] (bp_Patches p)) i of
         Some c \<Rightarrow> Some (param_record i c)
       | None \<Rightarrow> (case s (bp_ZoneID p) i of Some r \<Rightarrow> Some r
           | None \<Rightarrow> map_option (param_record i) (find (\<lambda>c. cn_Name c = i) (deref_or [] (bp_Posts p))))))"

definition sample_sdk :: "cloud SDK" where
  "sample_sdk =
     \<lparr>cloudflared_new = (\<lambda>s _ name _. (Inr \<lparr>Tunnel_ID = ''t1'', Tunnel_Name = name\<rparr>, s)),
      cloudflared_list = (\<lambda>s _ _ _. ([], None)),
      cloudflared_delete = (\<lambda>s _ _. (None, s)),
      configurations_update = (\<lambda>s _ _ _. (None, s)),
      zones_list = (\<lambda>s _. ([\<lparr>Zone_ID = ''z1'', Zone_Name = ''example.com''\<rparr>], None)),
      records_list = (\<lambda>s z. (concat (map (\<lambda>i. case s z i of None \<Rightarrow> []
          | Some r \<Rightarrow> if rec_ID r = i then [r] else []) [''1'', ''2'', ''a.example.com'']), None)),
      records_batch = (\<lambda>s p. (None, sample_batch s p))\<rparr>"

definition sample_held :: "cloud \<Rightarrow> string \<Rightarrow> DNSRecord set" where
  "sample_held s z = {r. s z (rec_ID r) = Some r}"

lemma sample_documented: "documented_dns sample_sdk sample_held"
proof -
  have "r \<in> sample_held (sample_batch s p) z"
    if "r \<in> sample_held s z" "z \<noteq> bp_ZoneID p \<or> rec_ID r \<notin> batch_ids p" for s p z r
  proof (cases "z = bp_ZoneID p")
    case True
    then have "rec_ID r \<notin> set (deref_or [] (bp_Deletes p))"
        "map_of (deref_or [] (bp_Patches p)) (rec_ID r) = None"
      using that(2) by (auto simp: batch_ids_def map_of_eq_None_iff)
    then show ?thesis using that(1) True by (simp add: sample_held_def sample_batch_def)
  next
    case False
    then show ?thesis using that(1) by (simp add: sample_held_def sample_batch_def)
  qed
  moreover have "set (fst (records_list sample_sdk s z)) \<subseteq> sample_held s z" for s z
    by (auto simp: sample_sdk_def sample_held_def split: option.splits if_splits)
  moreover have "r = q" if "r \<in> sample_held s z" "q \<in> sample_held s z" "rec_ID r = rec_ID q" for s z r q
    using that by (simp add: sample_held_def)
  ultimately show ?thesis by (auto simp: documented_dns_def sample_sdk_def)
qed

definition sample_cloud :: cloud where
  "sample_cloud = (\<lambda>_ _. None)(''z1'' := (\<lambda>_. None)
     (''1'' := Some (cname ''1'' ''a.example.com'' ''elsewhere'' ''human''),
      ''2'' := Some (cname ''2'' ''old.example.com'' ''t.cfargotunnel.com'' ''cloudflared-gateway:owner=u'')))"

lemma dns_keeps_foreign_records_witness:
  "cname ''1'' ''a.example.com'' ''elsewhere'' ''human'' \<in> sample_held
     (snd (reconcileDNS (client sample_sdk ''acc'') True sample_gateway ''t'' [''a.example.com''] sample_cloud))
     ''z1''"
  using dns_keeps_foreign_records[OF sample_documented,
      of "cname ''1'' ''a.example.com'' ''elsewhere'' ''human''" sample_cloud "''z1''" sample_gateway]
  by (simp add: sample_held_def sample_cloud_def cname_def ownerComment_def ownerCommentPrefix_def
      sample_gateway_simps)

section \<open>Where records point\<close>

text \<open>
  The states that calls applying DNS changes lead to, when all they create or update points at one
  target.
\<close>

inductive pointed_changes :: "'s APIClient \<Rightarrow> string \<Rightarrow> 's \<Rightarrow> 's \<Rightarrow> bool" for api :: "'s APIClient" and target :: string and s :: 's where
  nothing: "pointed_changes api target s s"
| applied: "pointed_changes api target s t \<Longrightarrow> list_all (\<lambda>d. rec_Content d = target) (Creates c @ Updates c) \<Longrightarrow>
    pointed_changes api target s (snd (api_ApplyDNSChanges api t z c))"

definition tunnel_target :: "string \<Rightarrow> string" where
  "tunnel_target tunnelID = NormalizeDNSName (tunnelID @ cfargotunnelSuffix)"

lemma planned_content:
  assumes "list_all (\<lambda>d. rec_Content d = target) desired"
  shows "list_all (\<lambda>d. rec_Content d = target)
    (Creates (fst (planDNSChanges desired current owner)) @ Updates (fst (planDNSChanges desired current owner)))"
  using assms by (auto simp: planDNSChanges_eq list_all_iff with_current_ID_def split: option.split)

lemma desired_content:
  "list_all (\<lambda>d. rec_Content d = target) (fold (desired_step zones target owner) hostnames (\<lambda>_. []) z)"
proof -
  have "list_all (\<lambda>d. rec_Content d = target) (fold (desired_step zones target owner) hostnames D z)"
    if "\<And>z. list_all (\<lambda>d. rec_Content d = target) (D z)" for D
    using that
  proof (induction hostnames arbitrary: D)
    case (Cons h hs)
    have "list_all (\<lambda>d. rec_Content d = target) (desired_step zones target owner h D y)" for y
      using Cons.prems by (simp add: desired_step_def Let_def split: option.split)
    then show ?case using Cons.IH by simp
  qed simp
  then show ?thesis by simp
qed

text \<open>All that reconcileDNS creates or updates points at the tunnel it was called for.\<close>

lemma reconcileDNS_pointed:
  "pointed_changes api (tunnel_target tunnelID) s (snd (reconcileDNS api manageDNS gw tunnelID hostnames s))"
proof -
  have "pointed_changes api target s (snd (fold (dns_zone_step api gw D owner) zones st))"
    if "pointed_changes api target s (snd st)" and D: "\<And>z. list_all (\<lambda>d. rec_Content d = target) (D z)" for target D owner zones st
    using that(1)
  proof (induction zones arbitrary: st)
    case (Cons z zones)
    have "snd (dns_zone_step api gw D owner z st) = snd st \<or>
        (\<exists>current. snd (dns_zone_step api gw D owner z st) =
          snd (api_ApplyDNSChanges api (snd st) (Zone_ID z) (fst (planDNSChanges (D (Zone_ID z)) current owner))))"
      by (cases st) (auto simp: dns_zone_step_def Let_def split_beta split: sum.split option.split)
    then have "pointed_changes api target s (snd (dns_zone_step api gw D owner z st))"
      using Cons.prems pointed_changes.applied[OF Cons.prems planned_content[OF D]] by auto
    then show ?case using Cons.IH by simp
  qed simp
  from this[OF _ desired_content] show ?thesis
    by (simp add: reconcileDNS_def Let_def tunnel_target_def pointed_changes.nothing split: sum.split)
qed

section \<open>What a teardown leaves\<close>

text \<open>
  What the zones hold, by identifier of the zone: the listing of zones names every one that holds
  records, a listing of records is complete, deletions that succeed are carried out, and changes to a zone leave
  the others alone.
\<close>

definition documented_zones :: "'s APIClient \<Rightarrow> ('s \<Rightarrow> string \<Rightarrow> DNSRecord set) \<Rightarrow> bool" where
  "documented_zones api held \<longleftrightarrow>
     (\<forall>s zones z. api_ListZones api s = Inr zones \<and> held s z \<noteq> {} \<longrightarrow> z \<in> Zone_ID ` set zones) \<and>
     (\<forall>s z rs. api_ListDNSRecords api s z = Inr rs \<longrightarrow> set rs = held s z) \<and>
     (\<forall>s z c s'. api_ApplyDNSChanges api s z c = (None, s') \<and> Creates c = [] \<and> Updates c = [] \<longrightarrow>
        held s' z = {r \<in> held s z. rec_ID r \<notin> rec_ID ` set (Deletes c)}) \<and>
     (\<forall>s z y c. y \<noteq> z \<longrightarrow> held (snd (api_ApplyDNSChanges api s z c)) y = held s y)"

lemma documented_zonesD:
  assumes "documented_zones api held"
  shows "api_ListZones api s = Inr zones \<Longrightarrow> held s z \<noteq> {} \<Longrightarrow> z \<in> Zone_ID ` set zones"
    and "api_ListDNSRecords api s z = Inr rs \<Longrightarrow> set rs = held s z"
    and "api_ApplyDNSChanges api s z c = (None, s') \<Longrightarrow> Creates c = [] \<Longrightarrow> Updates c = [] \<Longrightarrow>
      held s' z = {r \<in> held s z. rec_ID r \<notin> rec_ID ` set (Deletes c)}"
    and "y \<noteq> z \<Longrightarrow> api_ApplyDNSChanges api s z c = (e, s') \<Longrightarrow> held s' y = held s y"
  using assms unfolding documented_zones_def by (blast, blast, blast, metis snd_conv)

definition disowned :: "string \<Rightarrow> DNSRecord set \<Rightarrow> bool" where
  "disowned owner records \<longleftrightarrow> (\<forall>r \<in> records. rec_Comment r \<noteq> owner)"

lemma teardown_zone_step_disowns:
  assumes doc: "documented_zones api held" and run: "teardown_zone_step api owner z (e, s) = (None, s')"
  shows "e = None \<and> disowned owner (held s' (Zone_ID z)) \<and> (\<forall>y. held s' y \<subseteq> held s y)"
proof -
  obtain current where l: "api_ListDNSRecords api s (Zone_ID z) = Inr current"
    using run by (cases "api_ListDNSRecords api s (Zone_ID z)"; cases e) (auto simp: teardown_zone_step_def)
  let ?c = "no_changes\<lparr>Deletes := filter (\<lambda>r. rec_Comment r = owner) current\<rparr>"
  have held: "set current = held s (Zone_ID z)" by (rule documented_zonesD(2)[OF doc l])
  show ?thesis
  proof (cases "Empty ?c")
    case True
    then have "filter (\<lambda>r. rec_Comment r = owner) current = []" by (simp add: Empty_def no_changes_def)
    then have "disowned owner (held s (Zone_ID z))" by (auto simp: disowned_def filter_empty_conv simp flip: held)
    moreover have "e = None" "s' = s" using run l True by (simp_all add: teardown_zone_step_def Let_def)
    ultimately show ?thesis by simp
  next
    case False
    then have a: "api_ApplyDNSChanges api s (Zone_ID z) ?c = (None, s')" and e: "e = None"
      using run l by (cases e; auto simp: teardown_zone_step_def Let_def split: prod.splits option.splits)+
    have after: "held s' (Zone_ID z) = {r \<in> held s (Zone_ID z). rec_ID r \<notin> rec_ID ` set (Deletes ?c)}"
      by (rule documented_zonesD(3)[OF doc a]) (simp_all add: no_changes_def)
    then have "disowned owner (held s' (Zone_ID z))" by (auto simp: disowned_def simp flip: held)
    moreover have "held s' y \<subseteq> held s y" for y
      using after documented_zonesD(4)[OF doc _ a, of y] by (cases "y = Zone_ID z") auto
    ultimately show ?thesis using e by blast
  qed
qed

text \<open>A teardown that succeeds leaves no record of this owner in any zone.\<close>

lemma teardownDNS_disowns:
  assumes doc: "documented_zones api held" and run: "teardownDNS api True gw s = (None, s')"
  shows "disowned (ownerComment gw) (held s' z)"
proof -
  have steps: "fst st = None \<and> (\<forall>y. held s' y \<subseteq> held (snd st) y) \<and>
      (\<forall>z \<in> set zones. disowned owner (held s' (Zone_ID z)))"
    if "fold (teardown_zone_step api owner) zones st = (None, s')" for zones st owner
    using that
  proof (induction zones arbitrary: st)
    case (Cons z zones)
    obtain e t where st: "st = (e, t)" by (cases st)
    obtain e' t' where one: "teardown_zone_step api owner z (e, t) = (e', t')" by fastforce
    have rest: "e' = None \<and> (\<forall>y. held s' y \<subseteq> held t' y) \<and> (\<forall>z \<in> set zones. disowned owner (held s' (Zone_ID z)))"
      using Cons.IH[of "(e', t')"] Cons.prems one st by simp
    then have "e = None \<and> disowned owner (held t' (Zone_ID z)) \<and> (\<forall>y. held t' y \<subseteq> held t y)"
      using teardown_zone_step_disowns[OF doc, of owner z e t t'] one by simp
    then show ?case using rest st by (auto simp: disowned_def; blast)
  qed simp
  obtain zones where l: "api_ListZones api s = Inr zones"
    and f: "fold (teardown_zone_step api (ownerComment gw)) zones (None, s) = (None, s')"
    using run by (auto simp: teardownDNS_def split: sum.splits)
  show ?thesis
  proof (cases "held s z = {}")
    case True
    then show ?thesis using steps[OF f] by (auto simp: disowned_def)
  next
    case False
    then have "z \<in> Zone_ID ` set zones" by (rule documented_zonesD(1)[OF doc l])
    then show ?thesis using steps[OF f] by auto
  qed
qed

text \<open>
  The client keeps these promises over an SDK that documents them of its own calls; a batch that succeeds
  carries out its deletions.
\<close>

definition documented_batches :: "'s SDK \<Rightarrow> string \<Rightarrow> ('s \<Rightarrow> string \<Rightarrow> DNSRecord set) \<Rightarrow> bool" where
  "documented_batches sdk accountID held \<longleftrightarrow>
     (\<forall>s zs z. zones_list sdk s accountID = (zs, None) \<and> held s z \<noteq> {} \<longrightarrow> z \<in> Zone_ID ` set zs) \<and>
     (\<forall>s z rs. records_list sdk s z = (rs, None) \<longrightarrow> set rs = held s z) \<and>
     (\<forall>s p s'. records_batch sdk s p = (None, s') \<and> bp_Posts p = None \<and> bp_Patches p = None \<longrightarrow>
        held s' (bp_ZoneID p) = {r \<in> held s (bp_ZoneID p). rec_ID r \<notin> set (deref_or [] (bp_Deletes p))}) \<and>
     (\<forall>s p y. y \<noteq> bp_ZoneID p \<longrightarrow> held (snd (records_batch sdk s p)) y = held s y)"

lemma documented_batchesD:
  assumes "documented_batches sdk accountID held"
  shows "zones_list sdk s accountID = (zs, None) \<Longrightarrow> held s z \<noteq> {} \<Longrightarrow> z \<in> Zone_ID ` set zs"
    and "records_list sdk s z = (rs, None) \<Longrightarrow> set rs = held s z"
    and "records_batch sdk s p = (None, s') \<Longrightarrow> bp_Posts p = None \<Longrightarrow> bp_Patches p = None \<Longrightarrow>
      held s' (bp_ZoneID p) = {r \<in> held s (bp_ZoneID p). rec_ID r \<notin> set (deref_or [] (bp_Deletes p))}"
    and "y \<noteq> bp_ZoneID p \<Longrightarrow> held (snd (records_batch sdk s p)) y = held s y"
  using assms unfolding documented_batches_def by blast+

lemma toV7BatchParams_fields:
  "bp_ZoneID (toV7BatchParams z b) = z" "set (deref_or [] (bp_Deletes (toV7BatchParams z b))) = rec_ID ` set (Deletes b)"
  "Creates b = [] \<Longrightarrow> bp_Posts (toV7BatchParams z b) = None" "Updates b = [] \<Longrightarrow> bp_Patches (toV7BatchParams z b) = None"
  by (simp_all add: toV7BatchParams_def deref_set_if_any set_if_any_def)

lemma apply_chunks_deletes:
  assumes doc: "documented_batches sdk acc held"
  shows "apply_chunks sdk z bs s = (None, s') \<Longrightarrow> list_all (\<lambda>b. Creates b = [] \<and> Updates b = []) bs \<Longrightarrow>
    held s' z = {r \<in> held s z. rec_ID r \<notin> (\<Union>b\<in>set bs. rec_ID ` set (Deletes b))}"
proof (induction bs arbitrary: s)
  case (Cons b bs)
  obtain t where b: "records_batch sdk s (toV7BatchParams z b) = (None, t)" and rest: "apply_chunks sdk z bs t = (None, s')"
    using Cons.prems(1) by (auto split: prod.splits option.splits)
  have "held t z = {r \<in> held s z. rec_ID r \<notin> rec_ID ` set (Deletes b)}"
    using documented_batchesD(3)[OF doc b] Cons.prems(2) by (simp add: toV7BatchParams_fields)
  then show ?case using Cons.IH[OF rest] Cons.prems(2) by auto
qed simp

lemma apply_chunks_elsewhere:
  assumes "documented_batches sdk acc held" and "y \<noteq> z"
  shows "held (snd (apply_chunks sdk z bs s)) y = held s y"
proof (rule apply_chunks_keeps[where P = "\<lambda>t. held t y = held s y"])
  fix t b assume "held t y = held s y"
  then show "held (snd (sdk_batch sdk t z b)) y = held s y"
    using documented_batchesD(4)[OF assms(1), of y "toV7BatchParams z b" t] assms(2)
    by (simp add: sdk_batch_def toV7BatchParams_fields)
qed simp

lemma client_documented_zones:
  assumes doc: "documented_batches sdk acc held"
  shows "documented_zones (client sdk acc) (\<lambda>s z. read_record ` held s z)"
proof -
  have zones: "z \<in> Zone_ID ` set zones" if "ListZones sdk acc s = Inr zones" "held s z \<noteq> {}" for s zones z
    using that documented_batchesD(1)[OF doc _ that(2)]
    by (auto simp: ListZones_def image_image split: prod.splits option.splits)
  have listing: "set rs = read_record ` held s z" if "ListDNSRecords sdk s z = Inr rs" for s z rs
    using that documented_batchesD(2)[OF doc] by (auto simp: ListDNSRecords_def split: prod.splits option.splits)
  have deletes: "read_record ` held s' z = {r \<in> read_record ` held s z. rec_ID r \<notin> rec_ID ` set (Deletes c)}"
    if a: "ApplyDNSChanges sdk s z c = (None, s')" and c: "Creates c = []" "Updates c = []" for s z c s'
  proof (cases "Empty c")
    case True
    then show ?thesis using a by (simp add: ApplyDNSChanges_def Empty_def)
  next
    case False
    let ?bs = "chunkDNSChanges c dnsBatchChunkSize"
    have run: "apply_chunks sdk z ?bs s = (None, s')" using a False by (simp add: ApplyDNSChanges_def)
    have parts: "list_all (\<lambda>b. Creates b = [] \<and> Updates b = []) ?bs"
      using chunk_part_of c by (force simp: list_all_iff part_of_iff)
    have "concat (map mutations ?bs) = mutations c" by (rule chunks_concat) (simp add: dnsBatchChunkSize_def)
    from arg_cong[OF this, of set]
    have "(\<Union>b\<in>set ?bs. set (mutations b)) = set (mutations c)" unfolding set_concat set_map image_image .
    then have "{d. Del d \<in> (\<Union>b\<in>set ?bs. set (mutations b))} = {d. Del d \<in> set (mutations c)}" by (rule arg_cong)
    moreover have "{d. Del d \<in> set (mutations b)} = set (Deletes b)" for b by (auto simp: mutations_def)
    ultimately have "(\<Union>b\<in>set ?bs. set (Deletes b)) = set (Deletes c)" by (simp add: Collect_bex_eq)
    from arg_cong[OF this, of "image rec_ID"]
    have "(\<Union>b\<in>set ?bs. rec_ID ` set (Deletes b)) = rec_ID ` set (Deletes c)" unfolding image_UN .
    with apply_chunks_deletes[OF doc run parts] show ?thesis by (auto simp: read_record_def)
  qed
  have others: "held (snd (ApplyDNSChanges sdk s z c)) y = held s y" if "y \<noteq> z" for s z c y
    using apply_chunks_elsewhere[OF doc that] by (simp add: ApplyDNSChanges_def)
  show ?thesis
    unfolding documented_zones_def using zones by (simp add: client_def listing deletes others) blast
qed

text \<open>An SDK over the records of one zone that keeps them.\<close>

definition listed_sdk :: "DNSRecord list SDK" where
  "listed_sdk =
     \<lparr>cloudflared_new = (\<lambda>s _ name _. (Inr \<lparr>Tunnel_ID = ''t1'', Tunnel_Name = name\<rparr>, s)),
      cloudflared_list = (\<lambda>s _ _ _. ([], None)), cloudflared_delete = (\<lambda>s _ _. (None, s)),
      configurations_update = (\<lambda>s _ _ _. (None, s)),
      zones_list = (\<lambda>s _. ([\<lparr>Zone_ID = ''z1'', Zone_Name = ''example.com''\<rparr>], None)),
      records_list = (\<lambda>s z. if z = ''z1'' then (s, None) else ([], Some (Err ''no such zone''))),
      records_batch = (\<lambda>s p. if bp_ZoneID p = ''z1''
        then (None, filter (\<lambda>r. rec_ID r \<notin> set (deref_or [] (bp_Deletes p))) s @
          map (\<lambda>c. param_record (cn_Name c) c) (deref_or [] (bp_Posts p)))
        else (Some (Err ''no such zone''), s))\<rparr>"

lemma listed_sdk_documented:
  "documented_batches listed_sdk acc (\<lambda>s z. if z = ''z1'' then set s else {})"
  by (auto simp: documented_batches_def listed_sdk_def split: if_splits)

lemma listed_sdk_teardown:
  "disowned ''o'' (set (snd (fold (teardown_zone_step (client listed_sdk ''acc'') ''o'') [\<lparr>Zone_ID = ''z1'', Zone_Name = ''example.com''\<rparr>]
     (None, [cname ''1'' ''a.example.com'' ''t'' ''o'', cname ''2'' ''b.example.com'' ''x'' ''human'']))))"
  unfolding disowned_def by code_simp

end
