(* ===== verification/Status.thy ===== *)
theory Status
  imports GatewayApi
begin

text \<open>
  internal/controller/status.go and the condition helpers of policy.go: the status that the
  controller writes on GatewayClasses, Gateways, routes and policies. A patch function returns
  the object it sends to the API server and the server's answer (the parameter \<open>update\<close>); the
  clock reading of metav1.Now is the parameter \<open>now\<close>, one per patch. The locale \<open>keyed_list\<close> is the
  contract of the in-place upserts; the main result is that repeating a patch at any later time
  changes nothing, so timestamps do not thrash.
\<close>

definition ControllerName :: string where
  "ControllerName = ''jan0ski.net/cloudflared-gateway''"

section \<open>Upserts into a keyed list\<close>

text \<open>
  Looking a key up after a write gives the written element for its key and the old one for
  any other, and a write keeps the order of the keys, appending a new one. The laws hold
  for the elements that the controller writes, those with \<open>valid\<close>.
\<close>

locale keyed_list =
  fixes key :: "'a \<Rightarrow> 'k" and valid :: "'a \<Rightarrow> bool" and put :: "'a \<Rightarrow> 'a list \<Rightarrow> 'a list"
  assumes find_put: "valid y \<Longrightarrow> find (\<lambda>x. key x = k) (put y xs) =
      (if k = key y then Some y else find (\<lambda>x. key x = k) xs)"
    and keys_put: "valid y \<Longrightarrow> map key (put y xs) =
      (if key y \<in> set (map key xs) then map key xs else map key xs @ [key y])"
begin

lemma distinct_put: "valid y \<Longrightarrow> distinct (map key xs) \<Longrightarrow> distinct (map key (put y xs))"
  unfolding keys_put by simp

lemma find_other: "k \<notin> set (map key xs) \<Longrightarrow> find (\<lambda>x. key x = k) xs = None"
  by (auto simp: find_None_iff)

lemma keyed_ext:
  assumes "map key xs = map key ys" and "distinct (map key xs)"
    and "\<And>k. find (\<lambda>x. key x = k) xs = find (\<lambda>x. key x = k) ys"
  shows "xs = ys"
  using assms
proof (induction xs arbitrary: ys)
  case (Cons x xs)
  then obtain y ys' where ys: "ys = y # ys'" by (cases ys) auto
  have xy: "x = y" using Cons.prems(1) Cons.prems(3)[of "key x"] ys by simp
  have keys: "map key xs = map key ys'" using Cons.prems(1) ys by simp
  have "find (\<lambda>z. key z = k) xs = find (\<lambda>z. key z = k) ys'" for k
  proof (cases "key x = k")
    case True
    then have "k \<notin> set (map key xs)" using Cons.prems(2) by auto
    moreover from this have "k \<notin> set (map key ys')" unfolding keys .
    ultimately show ?thesis using find_other by metis
  next
    case False
    then show ?thesis using Cons.prems(3)[of k] ys xy by simp
  qed
  then show ?case using Cons.IH[OF keys] Cons.prems(2) ys xy by simp
qed simp

lemma put_put:
  assumes "valid y" "valid z" and "distinct (map key xs)" and "key y = key z"
  shows "put y (put z xs) = put y xs"
proof (rule keyed_ext)
  show "map key (put y (put z xs)) = map key (put y xs)"
    unfolding keys_put[OF assms(1)] keys_put[OF assms(2)] using assms(4) by simp
  show "distinct (map key (put y (put z xs)))" by (intro distinct_put assms)
  show "find (\<lambda>x. key x = k) (put y (put z xs)) = find (\<lambda>x. key x = k) (put y xs)" for k
    using assms by (simp add: find_put)
qed

lemma put_same:
  assumes "valid y" and "distinct (map key xs)" and "find (\<lambda>x. key x = key y) xs = Some y"
  shows "put y xs = xs"
proof (rule keyed_ext)
  have "y \<in> set xs" using assms(3) by (auto simp: find_Some_iff)
  then show "map key (put y xs) = map key xs" unfolding keys_put[OF assms(1)] by simp
  show "distinct (map key (put y xs))" by (intro distinct_put assms)
  show "find (\<lambda>x. key x = k) (put y xs) = find (\<lambda>x. key x = k) xs" for k
    using assms by (simp add: find_put)
qed

end

section \<open>Conditions\<close>

fun transitionTime :: "Time \<Rightarrow> Condition list \<Rightarrow> string \<Rightarrow> ConditionStatus \<Rightarrow> Time" where
  "transitionTime now [] condType newStatus = now"
| "transitionTime now (c # cs) condType newStatus =
     (if cond_Type c = condType \<and> Status c = newStatus then LastTransitionTime c
      else transitionTime now cs condType newStatus)"

fun setCondition :: "Condition list \<Rightarrow> Condition \<Rightarrow> Condition list" where
  "setCondition [] condition = [condition]"
| "setCondition (c # cs) condition =
     (if cond_Type c = cond_Type condition then condition # cs else c # setCondition cs condition)"

interpretation conds: keyed_list cond_Type "\<lambda>_. True" "\<lambda>c cs. setCondition cs c"
proof unfold_locales
  show "find (\<lambda>x. cond_Type x = k) (setCondition xs y) =
      (if k = cond_Type y then Some y else find (\<lambda>x. cond_Type x = k) xs)" for k xs y
    by (induction xs y rule: setCondition.induct) auto
  show "map cond_Type (setCondition xs y) =
      (if cond_Type y \<in> set (map cond_Type xs) then map cond_Type xs else map cond_Type xs @ [cond_Type y])"
    for xs y
    by (induction xs y rule: setCondition.induct) auto
qed

section \<open>Parent status of a route\<close>

definition parent_of_gateway :: "string \<Rightarrow> string \<Rightarrow> RouteParentStatus \<Rightarrow> bool" where
  "parent_of_gateway gwName gwNS p \<longleftrightarrow>
     pr_Name (ParentRef p) = gwName \<and> ps_ControllerName p = ControllerName \<and>
     (pr_Namespace (ParentRef p) = None \<or> pr_Namespace (ParentRef p) = Some gwNS)"

fun find_time :: "Condition list \<Rightarrow> string \<Rightarrow> ConditionStatus \<Rightarrow> Time option" where
  "find_time [] condType newStatus = None"
| "find_time (c # cs) condType newStatus =
     (if cond_Type c = condType \<and> Status c = newStatus then Some (LastTransitionTime c)
      else find_time cs condType newStatus)"

fun routeCondTransitionTime ::
  "Time \<Rightarrow> RouteParentStatus list \<Rightarrow> string \<Rightarrow> string \<Rightarrow> string \<Rightarrow> ConditionStatus \<Rightarrow> Time" where
  "routeCondTransitionTime now [] gwName gwNS condType newStatus = now"
| "routeCondTransitionTime now (p # ps) gwName gwNS condType newStatus =
     (if \<not> parent_of_gateway gwName gwNS p
      then routeCondTransitionTime now ps gwName gwNS condType newStatus
      else (case find_time (ps_Conditions p) condType newStatus of
              Some t \<Rightarrow> t
            | None \<Rightarrow> routeCondTransitionTime now ps gwName gwNS condType newStatus))"

definition routeTransitionTime ::
  "Time \<Rightarrow> RouteParentStatus list \<Rightarrow> string \<Rightarrow> string \<Rightarrow> ConditionStatus \<Rightarrow> Time" where
  "routeTransitionTime now parents gwName gwNS newStatus =
     routeCondTransitionTime now parents gwName gwNS ''Accepted'' newStatus"

fun setParentStatus ::
  "RouteParentStatus list \<Rightarrow> RouteParentStatus \<Rightarrow> string \<Rightarrow> string \<Rightarrow> RouteParentStatus list" where
  "setParentStatus [] status gwName gwNS = [status]"
| "setParentStatus (s # ss) status gwName gwNS =
     (if pr_Name (ParentRef s) = gwName \<and> pr_Namespace (ParentRef s) = Some gwNS \<and>
         ps_ControllerName s = ps_ControllerName status
      then status # ss else s # setParentStatus ss status gwName gwNS)"

definition parent_key :: "RouteParentStatus \<Rightarrow> string \<times> string option \<times> string" where
  "parent_key s = (pr_Name (ParentRef s), pr_Namespace (ParentRef s), ps_ControllerName s)"

definition put_parent :: "RouteParentStatus \<Rightarrow> RouteParentStatus list \<Rightarrow> RouteParentStatus list" where
  "put_parent s ss = setParentStatus ss s (pr_Name (ParentRef s)) (deref_or '''' (pr_Namespace (ParentRef s)))"

definition has_namespace :: "RouteParentStatus \<Rightarrow> bool" where
  "has_namespace s \<longleftrightarrow> pr_Namespace (ParentRef s) \<noteq> None"

text \<open>The controller always passes the name and the namespace that the new entry carries.\<close>

lemma setParentStatus_put:
  "pr_Name (ParentRef s) = gwName \<Longrightarrow> pr_Namespace (ParentRef s) = Some gwNS \<Longrightarrow>
     setParentStatus ss s gwName gwNS = put_parent s ss"
  by (simp add: put_parent_def)

lemma put_parent_simps:
  "put_parent s [] = [s]"
  "has_namespace s \<Longrightarrow> put_parent s (p # ps) =
     (if parent_key p = parent_key s then s # ps else p # put_parent s ps)"
  by (auto simp: put_parent_def has_namespace_def parent_key_def)

interpretation parents: keyed_list parent_key has_namespace put_parent
proof unfold_locales
  show "find (\<lambda>x. parent_key x = k) (put_parent y xs) =
      (if k = parent_key y then Some y else find (\<lambda>x. parent_key x = k) xs)" if "has_namespace y" for k xs y
    using that by (induction xs) (auto simp: put_parent_simps)
  show "map parent_key (put_parent y xs) =
      (if parent_key y \<in> set (map parent_key xs) then map parent_key xs
       else map parent_key xs @ [parent_key y])" if "has_namespace y" for xs y
    using that by (induction xs) (auto simp: put_parent_simps)
qed

section \<open>GatewayClass status\<close>

definition status_of :: "bool \<Rightarrow> ConditionStatus" where
  "status_of b = (if b then ConditionTrue else ConditionFalse)"

definition PatchGatewayClassStatus ::
  "(GatewayClass \<Rightarrow> goerror option) \<Rightarrow> Time \<Rightarrow> GatewayClass \<Rightarrow> bool \<Rightarrow> string \<Rightarrow> string
     \<Rightarrow> goerror option \<times> GatewayClass" where
  "PatchGatewayClassStatus update now gc accepted reason message =
     (let status = status_of accepted;
          gc' = gc\<lparr>gc_Conditions := setCondition (gc_Conditions gc)
            \<lparr>cond_Type = ''Accepted'', Status = status, ObservedGeneration = gc_Generation gc,
             LastTransitionTime = transitionTime now (gc_Conditions gc) ''Accepted'' status,
             Reason = reason, Message = message\<rparr>\<rparr>
      in (update gc', gc'))"

section \<open>Gateway status\<close>

record ListenerRouteCount =
  lc_Name :: string
  lc_Protocol :: string
  Count :: "32 word"

definition route_group_kind :: "string \<Rightarrow> RouteGroupKind" where
  "route_group_kind kind = \<lparr>gk_Group = Some GroupName, gk_Kind = kind\<rparr>"

definition supportedKindsForProtocol :: "string \<Rightarrow> RouteGroupKind list" where
  "supportedKindsForProtocol protocol =
     (if protocol = ''HTTP'' then [route_group_kind ''HTTPRoute'', route_group_kind ''GRPCRoute'']
      else if protocol = ''HTTPS''
      then [route_group_kind ''HTTPRoute'', route_group_kind ''GRPCRoute'', route_group_kind ''TLSRoute'']
      else if protocol = ''TLS'' then [route_group_kind ''TLSRoute'']
      else if protocol = ''TCP'' then [route_group_kind ''TCPRoute'']
      else [])"

fun listenerTransitionTime ::
  "Time \<Rightarrow> ListenerStatus list \<Rightarrow> string \<Rightarrow> string \<Rightarrow> ConditionStatus \<Rightarrow> Time" where
  "listenerTransitionTime now [] name condType newStatus = now"
| "listenerTransitionTime now (l # ls) name condType newStatus =
     (if ls_Name l \<noteq> name then listenerTransitionTime now ls name condType newStatus
      else (case find_time (ls_Conditions l) condType newStatus of
              Some t \<Rightarrow> t
            | None \<Rightarrow> listenerTransitionTime now ls name condType newStatus))"

definition listener_condition ::
  "Time \<Rightarrow> int \<Rightarrow> ListenerStatus list \<Rightarrow> string \<Rightarrow> string \<Rightarrow> ConditionStatus \<Rightarrow> string \<Rightarrow> string \<Rightarrow> Condition" where
  "listener_condition now generation prev name condType status reason message =
     \<lparr>cond_Type = condType, Status = status, ObservedGeneration = generation,
      LastTransitionTime = listenerTransitionTime now prev name condType status,
      Reason = reason, Message = message\<rparr>"

definition listener_status ::
  "Time \<Rightarrow> int \<Rightarrow> ListenerStatus list \<Rightarrow> ListenerRouteCount \<Rightarrow> ListenerStatus" where
  "listener_status now generation prev lc =
     (let supportedKinds = supportedKindsForProtocol (lc_Protocol lc);
          cond = listener_condition now generation prev (lc_Name lc)
      in \<lparr>ls_Name = lc_Name lc, AttachedRoutes = Count lc, SupportedKinds = supportedKinds,
          ls_Conditions =
            (if length supportedKinds = 0
             then [cond ''Accepted'' ConditionFalse ''UnsupportedProtocol''
                     (''Protocol '' @ CHR 0x22 # lc_Protocol lc @ CHR 0x22 # '' is not supported''),
                   cond ''Programmed'' ConditionFalse ''Invalid''
                     ''Listener is not programmed: unsupported protocol'',
                   cond ''ResolvedRefs'' ConditionFalse ''InvalidRouteKinds''
                     ''No supported route kinds for protocol'']
             else [cond ''Accepted'' ConditionTrue ''Accepted'' ''Listener is accepted'',
                   cond ''Programmed'' ConditionTrue ''Programmed'' ''Listener is programmed'',
                   cond ''ResolvedRefs'' ConditionTrue ''ResolvedRefs'' ''All references resolved''])\<rparr>)"

definition category_prefix :: "errorCategory \<Rightarrow> string" where
  "category_prefix c = (case c of
     errKube \<Rightarrow> ''Kubernetes API error'' | errCloudflare \<Rightarrow> ''Cloudflare API error''
   | errConfig \<Rightarrow> ''configuration error'' | errFinalizer \<Rightarrow> ''finalizer error'')"

fun error_text :: "goerror \<Rightarrow> string" where
  "error_text (Err m) = m"
| "error_text NotFound = ''not found''"
| "error_text NoKindMatch = ''no matches for kind''"
| "error_text ErrTunnelNotFound = ''tunnel not found''"
| "error_text (Wrap m e) = m @ '': '' @ error_text e"
| "error_text (ControllerError c e) = category_prefix c @ '': '' @ error_text e"
| "error_text (Panic m) = ''panic: '' @ m"

definition gateway_condition ::
  "Time \<Rightarrow> Gateway \<Rightarrow> string \<Rightarrow> ConditionStatus \<Rightarrow> string \<Rightarrow> string \<Rightarrow> Condition" where
  "gateway_condition now gw condType status reason message =
     \<lparr>cond_Type = condType, Status = status, ObservedGeneration = Generation (gw_meta gw),
      LastTransitionTime = transitionTime now (gs_Conditions (gw_Status gw)) condType status,
      Reason = reason, Message = message\<rparr>"

definition PatchGatewayStatus ::
  "(Gateway \<Rightarrow> goerror option) \<Rightarrow> Time \<Rightarrow> Gateway \<Rightarrow> string \<Rightarrow> ListenerRouteCount list \<Rightarrow> goerror option
     \<Rightarrow> goerror option \<times> Gateway" where
  "PatchGatewayStatus update now gw tunnelID listenerCounts dnsErr =
     (let st = gw_Status gw;
          acceptedCond = gateway_condition now gw ''Accepted'' ConditionTrue ''Accepted'' ''Gateway is accepted'';
          programmedCond =
            (case dnsErr of
               None \<Rightarrow> gateway_condition now gw ''Programmed'' ConditionTrue ''Programmed'' ''Tunnel is configured''
             | Some e \<Rightarrow> gateway_condition now gw ''Programmed'' ConditionFalse ''DNSNotReady''
                 (''Tunnel is configured but DNS records are not ready: '' @ error_text e));
          st' = \<lparr>gs_Conditions = setCondition (setCondition (gs_Conditions st) acceptedCond) programmedCond,
                 Addresses = (if tunnelID \<noteq> '''' then [(''Hostname'', tunnelID @ ''.cfargotunnel.com'')]
                              else Addresses st),
                 gs_Listeners = map (listener_status now (Generation (gw_meta gw)) (gs_Listeners st)) listenerCounts\<rparr>;
          gw' = gw\<lparr>gw_Status := st'\<rparr>
      in (update gw', gw'))"

section \<open>Reasons for unresolved references\<close>

text \<open>The reasons of xbackend.go are strings, the empty string meaning resolved.\<close>

definition reasonResolvedOK :: string where "reasonResolvedOK = ''''"
definition reasonXBackendDisabled :: string where "reasonXBackendDisabled = ''XBackendDisabled''"
definition reasonUnsupportedKind :: string where "reasonUnsupportedKind = ''UnsupportedKind''"
definition reasonBackendNotFound :: string where "reasonBackendNotFound = ''BackendNotFound''"
definition reasonRefNotPermitted :: string where "reasonRefNotPermitted = ''RefNotPermitted''"
definition reasonIncompatibleRouteKind :: string where "reasonIncompatibleRouteKind = ''IncompatibleRouteKind''"
definition reasonUnsupportedProtocol :: string where "reasonUnsupportedProtocol = ''UnsupportedProtocol''"
definition reasonUnsupportedCACerts :: string where "reasonUnsupportedCACerts = ''UnsupportedCACerts''"
definition reasonUnsupportedTLSValidation :: string where "reasonUnsupportedTLSValidation = ''UnsupportedTLSValidation''"
definition reasonInvalidBackendPort :: string where "reasonInvalidBackendPort = ''InvalidBackendPort''"

lemmas reason_defs = reasonResolvedOK_def reasonXBackendDisabled_def reasonUnsupportedKind_def
  reasonBackendNotFound_def reasonRefNotPermitted_def reasonIncompatibleRouteKind_def
  reasonUnsupportedProtocol_def reasonUnsupportedCACerts_def reasonUnsupportedTLSValidation_def
  reasonInvalidBackendPort_def

record ResolvedRefsResult =
  res_OK :: bool
  res_Reason :: string
  res_Message :: string

definition unresolved :: "string \<Rightarrow> string \<Rightarrow> ResolvedRefsResult" where
  "unresolved reason message = \<lparr>res_OK = False, res_Reason = reason, res_Message = message\<rparr>"

definition resolvedRefsResultFor :: "string \<Rightarrow> ResolvedRefsResult" where
  "resolvedRefsResultFor reason =
     (if reason = reasonResolvedOK
      then \<lparr>res_OK = True, res_Reason = ''ResolvedRefs'', res_Message = ''All references resolved''\<rparr>
      else if reason = reasonXBackendDisabled then unresolved ''InvalidKind''
        ''XBackend support is disabled; install its experimental CRD and set experimental.backends.enabled=true or --enable-experimental-backends''
      else if reason = reasonUnsupportedKind then unresolved ''InvalidKind''
        ''Backend refers to a kind this controller cannot route to; use a Service or an XBackend''
      else if reason = reasonBackendNotFound then unresolved ''BackendNotFound''
        ''Referenced backend does not exist or Service does not expose the referenced TCP port''
      else if reason = reasonRefNotPermitted then unresolved ''RefNotPermitted''
        ''Cross-namespace backend reference is not permitted by any ReferenceGrant''
      else if reason = reasonIncompatibleRouteKind then unresolved ''IncompatibleRouteKind''
        ''Referenced XBackend's protocol and TLS mode do not match the transport this route kind carries''
      else if reason = reasonInvalidBackendPort then unresolved reasonInvalidBackendPort
        ''Set XBackend.spec.port.number to a value from 1 through 65535 and omit backendRef.port on routes; migrate spec.port.port to spec.port.number when upgrading from v1.6''
      else if reason = reasonUnsupportedProtocol then unresolved ''UnsupportedProtocol''
        ''Referenced XBackend uses a protocol or TLS mode Cloudflare tunnels cannot serve''
      else if reason = reasonUnsupportedCACerts then unresolved ''UnsupportedCACerts''
        ''Referenced XBackend pins custom caCertificateRefs, which are not supported; use wellKnownCACertificates: System''
      else if reason = reasonUnsupportedTLSValidation then unresolved ''UnsupportedTLSValidation''
        ''Referenced XBackend requires unsupported subjectAltNames or CA trust; use hostname validation with system CAs''
      else unresolved ''InvalidBackend'' ''Referenced backend could not be resolved'')"

section \<open>Route status\<close>

definition accessPolicyAffectedConditionType :: string where
  "accessPolicyAffectedConditionType = ''cloudflare.jan0ski.net/CloudflareAccessPolicyAffected''"

definition originPolicyAffectedConditionType :: string where
  "originPolicyAffectedConditionType = ''cloudflare.jan0ski.net/CloudflareOriginPolicyAffected''"

definition route_condition ::
  "Time \<Rightarrow> int \<Rightarrow> RouteParentStatus list \<Rightarrow> string \<Rightarrow> string \<Rightarrow> string \<Rightarrow> ConditionStatus \<Rightarrow> string \<Rightarrow> string
     \<Rightarrow> Condition" where
  "route_condition now generation existing gwName gwNS condType status reason message =
     \<lparr>cond_Type = condType, Status = status, ObservedGeneration = generation,
      LastTransitionTime = routeCondTransitionTime now existing gwName gwNS condType status,
      Reason = reason, Message = message\<rparr>"

definition resolvedRefsRouteCondition ::
  "Time \<Rightarrow> ResolvedRefsResult \<Rightarrow> int \<Rightarrow> RouteParentStatus list \<Rightarrow> string \<Rightarrow> string \<Rightarrow> Condition" where
  "resolvedRefsRouteCondition now res generation existing gwName gwNS =
     route_condition now generation existing gwName gwNS ''ResolvedRefs'' (status_of (res_OK res))
       (res_Reason res) (res_Message res)"

definition partiallyInvalidRouteCondition ::
  "Time \<Rightarrow> int \<Rightarrow> RouteParentStatus list \<Rightarrow> string \<Rightarrow> string \<Rightarrow> Condition" where
  "partiallyInvalidRouteCondition now generation existing gwName gwNS =
     route_condition now generation existing gwName gwNS ''PartiallyInvalid'' ConditionTrue
       ''UnsupportedValue''
       ''Some matches use method, header, or query-param dimensions Cloudflare tunnels cannot enforce; routing falls back to hostname and path''"

definition policyAffectedRouteCondition ::
  "Time \<Rightarrow> string \<Rightarrow> string \<Rightarrow> int \<Rightarrow> RouteParentStatus list \<Rightarrow> string \<Rightarrow> string \<Rightarrow> Condition" where
  "policyAffectedRouteCondition now condType kind generation parents gwName gwNS =
     route_condition now generation parents gwName gwNS condType ConditionTrue
       ''PolicyAffected'' (''Object is affected by a '' @ kind)"

text \<open>
  The four patch functions have the same body but for partiallyInvalid, which TLS and TCP routes
  do not have.
\<close>

definition route_parent_status ::
  "Time \<Rightarrow> 'r Route \<Rightarrow> string \<Rightarrow> string \<Rightarrow> bool \<Rightarrow> bool \<Rightarrow> bool \<Rightarrow> bool \<Rightarrow> ResolvedRefsResult \<Rightarrow> RouteParentStatus" where
  "route_parent_status now route gwName gwNS accepted accessAffected originAffected partiallyInvalid resolvedRefs =
     (let generation = Generation (rt_meta route); existing = Parents route; status = status_of accepted
      in \<lparr>ParentRef = \<lparr>pr_Group = Some GroupName, pr_Kind = Some ''Gateway'', pr_Namespace = Some gwNS,
                       pr_Name = gwName, pr_SectionName = None, pr_Port = None\<rparr>,
          ps_ControllerName = ControllerName,
          ps_Conditions =
            [\<lparr>cond_Type = ''Accepted'', Status = status, ObservedGeneration = generation,
              LastTransitionTime = routeTransitionTime now existing gwName gwNS status,
              Reason = (if accepted then ''Accepted'' else ''NotAllowedByListeners''),
              Message = (if accepted then ''Route is accepted'' else ''Route is not allowed by listeners'')\<rparr>]
            @ (if accessAffected then [policyAffectedRouteCondition now accessPolicyAffectedConditionType
                 ''CloudflareAccessPolicy'' generation existing gwName gwNS] else [])
            @ (if originAffected then [policyAffectedRouteCondition now originPolicyAffectedConditionType
                 ''CloudflareOriginPolicy'' generation existing gwName gwNS] else [])
            @ (if partiallyInvalid then [partiallyInvalidRouteCondition now generation existing gwName gwNS] else [])
            @ [resolvedRefsRouteCondition now resolvedRefs generation existing gwName gwNS]\<rparr>)"

definition patch_route_status ::
  "('r Route \<Rightarrow> goerror option) \<Rightarrow> Time \<Rightarrow> 'r Route \<Rightarrow> string \<Rightarrow> string \<Rightarrow> bool \<Rightarrow> bool \<Rightarrow> bool \<Rightarrow> bool
     \<Rightarrow> ResolvedRefsResult \<Rightarrow> goerror option \<times> 'r Route" where
  "patch_route_status update now route gwName gwNS accepted accessAffected originAffected partiallyInvalid resolvedRefs =
     (let status = route_parent_status now route gwName gwNS accepted accessAffected originAffected
            partiallyInvalid resolvedRefs;
          route' = route\<lparr>Parents := setParentStatus (Parents route) status gwName gwNS\<rparr>
      in (update route', route'))"

definition PatchHTTPRouteStatus ::
  "(HTTPRoute \<Rightarrow> goerror option) \<Rightarrow> Time \<Rightarrow> HTTPRoute \<Rightarrow> string \<Rightarrow> string \<Rightarrow> bool \<Rightarrow> bool \<Rightarrow> bool \<Rightarrow> bool
     \<Rightarrow> ResolvedRefsResult \<Rightarrow> goerror option \<times> HTTPRoute" where
  "PatchHTTPRouteStatus = patch_route_status"

definition PatchGRPCRouteStatus ::
  "(GRPCRoute \<Rightarrow> goerror option) \<Rightarrow> Time \<Rightarrow> GRPCRoute \<Rightarrow> string \<Rightarrow> string \<Rightarrow> bool \<Rightarrow> bool \<Rightarrow> bool \<Rightarrow> bool
     \<Rightarrow> ResolvedRefsResult \<Rightarrow> goerror option \<times> GRPCRoute" where
  "PatchGRPCRouteStatus = patch_route_status"

definition PatchTLSRouteStatus ::
  "(TLSRoute \<Rightarrow> goerror option) \<Rightarrow> Time \<Rightarrow> TLSRoute \<Rightarrow> string \<Rightarrow> string \<Rightarrow> bool \<Rightarrow> bool \<Rightarrow> bool
     \<Rightarrow> ResolvedRefsResult \<Rightarrow> goerror option \<times> TLSRoute" where
  "PatchTLSRouteStatus update now route gwName gwNS accepted accessAffected originAffected resolvedRefs =
     patch_route_status update now route gwName gwNS accepted accessAffected originAffected False resolvedRefs"

definition PatchTCPRouteStatus ::
  "(TCPRoute \<Rightarrow> goerror option) \<Rightarrow> Time \<Rightarrow> TCPRoute \<Rightarrow> string \<Rightarrow> string \<Rightarrow> bool \<Rightarrow> bool \<Rightarrow> bool
     \<Rightarrow> ResolvedRefsResult \<Rightarrow> goerror option \<times> TCPRoute" where
  "PatchTCPRouteStatus update now route gwName gwNS accepted accessAffected originAffected resolvedRefs =
     patch_route_status update now route gwName gwNS accepted accessAffected originAffected False resolvedRefs"

section \<open>Patching twice\<close>

lemma transitionTime_setCondition:
  "condType = cond_Type c \<Longrightarrow> st = Status c \<Longrightarrow>
     transitionTime now (setCondition cs c) condType st = LastTransitionTime c"
  "condType \<noteq> cond_Type c \<Longrightarrow>
     transitionTime now (setCondition cs c) condType st = transitionTime now cs condType st"
  by (induction cs c rule: setCondition.induct) auto

lemma setCondition_present: "find (\<lambda>x. cond_Type x = cond_Type c) cs = Some c \<Longrightarrow> setCondition cs c = cs"
  by (induction cs c rule: setCondition.induct) (auto split: if_splits)

lemma find_time_listeners:
  assumes "\<forall>l \<in> set ls. ls_Name l = name \<longrightarrow> (\<forall>t. find_time (ls_Conditions l) ct st = Some t \<longrightarrow> t = t0)"
    and "\<exists>l \<in> set ls. ls_Name l = name \<and> find_time (ls_Conditions l) ct st \<noteq> None"
  shows "listenerTransitionTime now ls name ct st = t0"
  using assms by (induction ls) (auto split: option.splits)

lemma listener_conditions_time:
  "find_time (ls_Conditions (listener_status now g prev lc)) ct st \<in>
     {None, Some (listenerTransitionTime now prev (lc_Name lc) ct st)}"
  by (simp add: listener_status_def listener_condition_def Let_def)

definition listener_reports :: "ListenerRouteCount \<Rightarrow> string \<Rightarrow> ConditionStatus \<Rightarrow> bool" where
  "listener_reports lc ct st \<longleftrightarrow> ct \<in> set [''Accepted'', ''Programmed'', ''ResolvedRefs''] \<and>
     st = status_of (supportedKindsForProtocol (lc_Protocol lc) \<noteq> [])"

lemma listener_conditions_has:
  "listener_reports lc ct st \<Longrightarrow> find_time (ls_Conditions (listener_status now g prev lc)) ct st =
     Some (listenerTransitionTime now prev (lc_Name lc) ct st)"
  by (auto simp: listener_reports_def listener_status_def listener_condition_def Let_def status_of_def)

lemma listener_time_again:
  assumes "lc \<in> set counts" and "listener_reports lc ct st"
  shows "listenerTransitionTime now2 (map (listener_status now1 g prev) counts) (lc_Name lc) ct st =
    listenerTransitionTime now1 prev (lc_Name lc) ct st"
proof (rule find_time_listeners)
  show "\<forall>l \<in> set (map (listener_status now1 g prev) counts). ls_Name l = lc_Name lc \<longrightarrow>
      (\<forall>t. find_time (ls_Conditions l) ct st = Some t \<longrightarrow>
        t = listenerTransitionTime now1 prev (lc_Name lc) ct st)"
  proof (clarsimp)
    fix k t assume n: "ls_Name (listener_status now1 g prev k) = lc_Name lc"
      and t: "find_time (ls_Conditions (listener_status now1 g prev k)) ct st = Some t"
    have "lc_Name k = lc_Name lc" using n by (simp add: listener_status_def Let_def)
    then show "t = listenerTransitionTime now1 prev (lc_Name lc) ct st"
      using t listener_conditions_time[of now1 g prev k ct st] by simp
  qed
  show "\<exists>l \<in> set (map (listener_status now1 g prev) counts). ls_Name l = lc_Name lc \<and>
      find_time (ls_Conditions l) ct st \<noteq> None"
  proof (rule bexI)
    show "ls_Name (listener_status now1 g prev lc) = lc_Name lc \<and>
        find_time (ls_Conditions (listener_status now1 g prev lc)) ct st \<noteq> None"
      using listener_conditions_has[OF assms(2), of now1 g prev]
      by (simp add: listener_status_def Let_def)
  qed (use assms(1) in simp)
qed

lemma listener_status_again:
  assumes "lc \<in> set counts"
  shows "listener_status now2 g (map (listener_status now1 g prev) counts) lc = listener_status now1 g prev lc"
proof -
  let ?st = "status_of (supportedKindsForProtocol (lc_Protocol lc) \<noteq> [])"
  have "listenerTransitionTime now2 (map (listener_status now1 g prev) counts) (lc_Name lc) ct ?st =
      listenerTransitionTime now1 prev (lc_Name lc) ct ?st"
    if "ct \<in> set [''Accepted'', ''Programmed'', ''ResolvedRefs'']" for ct
    using that by (intro listener_time_again assms) (simp add: listener_reports_def)
  from this[of "''Accepted''"] this[of "''Programmed''"] this[of "''ResolvedRefs''"] show ?thesis
    by (simp add: listener_status_def listener_condition_def Let_def status_of_def split: if_splits)
qed

text \<open>
  C26. Gateway status does not thrash. Patching a Gateway's status, and patching the result again
  at any other time with the same tunnel, listener counts and DNS outcome, gives the same
  object: every timestamp of an unchanged condition is kept, for listeners too, so the second
  update is a no-op.
\<close>

theorem PatchGatewayStatus_stable:
  "snd (PatchGatewayStatus update2 now2 (snd (PatchGatewayStatus update1 now1 gw tid counts dnsErr))
     tid counts dnsErr) = snd (PatchGatewayStatus update1 now1 gw tid counts dnsErr)"
proof -
  obtain s r m where p: "(case dnsErr of
       None \<Rightarrow> gateway_condition n g ''Programmed'' ConditionTrue ''Programmed'' ''Tunnel is configured''
     | Some e \<Rightarrow> gateway_condition n g ''Programmed'' ConditionFalse ''DNSNotReady''
         (''Tunnel is configured but DNS records are not ready: '' @ error_text e)) =
      gateway_condition n g ''Programmed'' s r m" for n g
    by (cases dnsErr) auto
  have listeners: "map (listener_status now2 g (map (listener_status now1 g prev) counts)) counts =
      map (listener_status now1 g prev) counts" for g prev
    using listener_status_again by simp
  define A where "A = gateway_condition now1 gw ''Accepted'' ConditionTrue ''Accepted'' ''Gateway is accepted''"
  define P where "P = gateway_condition now1 gw ''Programmed'' s r m"
  let ?cs = "setCondition (setCondition (gs_Conditions (gw_Status gw)) A) P"
  have types: "cond_Type A = ''Accepted''" "Status A = ConditionTrue" "cond_Type P = ''Programmed''" "Status P = s"
    by (simp_all add: A_def P_def gateway_condition_def)
  have times: "transitionTime now2 ?cs ''Accepted'' ConditionTrue = LastTransitionTime A"
      "transitionTime now2 ?cs ''Programmed'' s = LastTransitionTime P"
    by (simp_all add: transitionTime_setCondition types)
  have again: "gateway_condition now2 (gw\<lparr>gw_Status := st\<rparr>) ''Accepted'' ConditionTrue ''Accepted'' ''Gateway is accepted'' = A"
      "gateway_condition now2 (gw\<lparr>gw_Status := st\<rparr>) ''Programmed'' s r m = P"
    if "gs_Conditions st = ?cs" for st
    using times that by (simp_all add: gateway_condition_def) (simp_all add: A_def P_def gateway_condition_def)
  have "setCondition (setCondition ?cs A) P = ?cs"
    by (simp add: setCondition_present conds.find_put types)
  then show ?thesis
    by (simp add: PatchGatewayStatus_def Let_def p A_def[symmetric] P_def[symmetric] again listeners)
qed

lemma routeCond_again:
  assumes "parent_of_gateway gwName gwNS s" and "pr_Namespace (ParentRef s) = Some gwNS"
    and "find_time (ps_Conditions s) ct st = Some (routeCondTransitionTime now1 ps gwName gwNS ct st)"
  shows "routeCondTransitionTime now2 (setParentStatus ps s gwName gwNS) gwName gwNS ct st =
    routeCondTransitionTime now1 ps gwName gwNS ct st"
  using assms by (induction ps) (auto split: option.splits)

lemma setParentStatus_again:
  "pr_Name (ParentRef s) = gwName \<Longrightarrow> pr_Namespace (ParentRef s) = Some gwNS \<Longrightarrow>
     setParentStatus (setParentStatus ps s gwName gwNS) s gwName gwNS = setParentStatus ps s gwName gwNS"
  by (induction ps) auto

lemma route_parent_status_again:
  fixes route :: "'r Route"
  shows "route_parent_status now2 (route\<lparr>Parents := setParentStatus (Parents route)
      (route_parent_status now1 route gwName gwNS acc aa oa pi res) gwName gwNS\<rparr>) gwName gwNS acc aa oa pi res =
    route_parent_status now1 route gwName gwNS acc aa oa pi res"
proof -
  define s where "s now r = route_parent_status now r gwName gwNS acc aa oa pi res" for now and r :: "'r Route"
  obtain r :: "'r Route" where r: "r = route\<lparr>Parents := setParentStatus (Parents route) (s now1 route) gwName gwNS\<rparr>"
      "Parents r = setParentStatus (Parents route) (s now1 route) gwName gwNS" "rt_meta r = rt_meta route"
    by simp
  have own: "parent_of_gateway gwName gwNS (s now1 route)" "pr_Namespace (ParentRef (s now1 route)) = Some gwNS"
    by (simp_all add: s_def route_parent_status_def parent_of_gateway_def Let_def)
  note conds = s_def route_parent_status_def Let_def policyAffectedRouteCondition_def
    partiallyInvalidRouteCondition_def resolvedRefsRouteCondition_def route_condition_def
    routeTransitionTime_def accessPolicyAffectedConditionType_def originPolicyAffectedConditionType_def
  have time: "routeCondTransitionTime now2 (Parents r) gwName gwNS ct st =
      routeCondTransitionTime now1 (Parents route) gwName gwNS ct st"
    if "find_time (ps_Conditions (s now1 route)) ct st =
      Some (routeCondTransitionTime now1 (Parents route) gwName gwNS ct st)" for ct st
    unfolding r(2) using routeCond_again[OF own that] .
  have "routeCondTransitionTime now2 (Parents r) gwName gwNS ''Accepted'' (status_of acc) =
      routeCondTransitionTime now1 (Parents route) gwName gwNS ''Accepted'' (status_of acc)"
    by (rule time) (simp add: conds)
  moreover have "routeCondTransitionTime now2 (Parents r) gwName gwNS ''ResolvedRefs'' (status_of (res_OK res)) =
      routeCondTransitionTime now1 (Parents route) gwName gwNS ''ResolvedRefs'' (status_of (res_OK res))"
    by (rule time) (simp add: conds)
  moreover have "aa \<Longrightarrow> routeCondTransitionTime now2 (Parents r) gwName gwNS accessPolicyAffectedConditionType ConditionTrue =
      routeCondTransitionTime now1 (Parents route) gwName gwNS accessPolicyAffectedConditionType ConditionTrue"
    by (rule time) (simp add: conds)
  moreover have "oa \<Longrightarrow> routeCondTransitionTime now2 (Parents r) gwName gwNS originPolicyAffectedConditionType ConditionTrue =
      routeCondTransitionTime now1 (Parents route) gwName gwNS originPolicyAffectedConditionType ConditionTrue"
    by (rule time) (simp add: conds)
  moreover have "pi \<Longrightarrow> routeCondTransitionTime now2 (Parents r) gwName gwNS ''PartiallyInvalid'' ConditionTrue =
      routeCondTransitionTime now1 (Parents route) gwName gwNS ''PartiallyInvalid'' ConditionTrue"
    by (rule time) (simp add: conds)
  ultimately have "s now2 r = s now1 route"
    by (simp add: s_def route_parent_status_def Let_def policyAffectedRouteCondition_def
        partiallyInvalidRouteCondition_def resolvedRefsRouteCondition_def route_condition_def routeTransitionTime_def r(3))
  then show ?thesis unfolding r(1) by (simp add: s_def)
qed

text \<open>
  Route status is stable and leaves other parents alone. Patching a route's status for a
  Gateway twice, at any times, gives the same route as patching once; and looking up a parent
  entry by its Gateway name, namespace and controller gives the entry just written for this
  Gateway under this controller, and the entry that was there before for every other.
\<close>

lemma patch_route_status_stable:
  "snd (patch_route_status update2 now2 (snd (patch_route_status update1 now1 route gwName gwNS acc aa oa pi res))
     gwName gwNS acc aa oa pi res) = snd (patch_route_status update1 now1 route gwName gwNS acc aa oa pi res) \<and>
   find (\<lambda>p. parent_key p = k) (Parents (snd (patch_route_status update1 now1 route gwName gwNS acc aa oa pi res))) =
     (if k = (gwName, Some gwNS, ControllerName)
      then Some (route_parent_status now1 route gwName gwNS acc aa oa pi res)
      else find (\<lambda>p. parent_key p = k) (Parents route))"
proof -
  let ?s = "route_parent_status now1 route gwName gwNS acc aa oa pi res"
  have own: "pr_Name (ParentRef ?s) = gwName" "pr_Namespace (ParentRef ?s) = Some gwNS"
      "has_namespace ?s" "parent_key ?s = (gwName, Some gwNS, ControllerName)"
    by (simp_all add: route_parent_status_def Let_def has_namespace_def parent_key_def)
  show ?thesis
    using parents.find_put[OF own(3), of k "Parents route"]
    by (simp add: patch_route_status_def Let_def route_parent_status_again setParentStatus_again[OF own(1,2)]
        setParentStatus_put[OF own(1,2), symmetric] own(4))
qed

end
