(* ===== verification/Policy.thy ===== *)
theory Policy
  imports Status Ordering Ingress "HOL-Library.Product_Lexorder"
begin

text \<open>
  internal/controller/policy.go, accesspolicy.go and originpolicy.go: which attached policy wins
  for a target, what the policies add to the ingress rules, and the ancestor status they get.
  A map from target keys to bool is a predicate. A Status().Update is recorded as a flag beside the
  policy (its error is only logged). The order policyOlderThan interprets \<open>strict_weak\<close>, which
  gives the selection loops their meaning.
\<close>

section \<open>The policy resources\<close>

record AccessPolicy =
  ap_meta :: ObjectMeta
  ap_TargetRefs :: "LocalPolicyTargetReference list"
  ap_TeamName :: string
  ap_Required :: bool
  ap_AudTag :: "string list"
  ap_Ancestors :: "AncestorStatus list"

record OriginPolicy =
  op_meta :: ObjectMeta
  op_TargetRefs :: "LocalPolicyTargetReference list"
  op_ProxyType :: "string option"
  op_DisableChunkedEncoding :: "bool option"
  op_KeepAliveConnections :: "int option"
  op_KeepAliveTimeout :: "Duration option"
  op_NoHappyEyeballs :: "bool option"
  op_TLSTimeout :: "Duration option"
  op_TCPKeepAlive :: "Duration option"
  op_HTTP2Origin :: "bool option"
  op_MatchSNIToHost :: "bool option"
  op_Ancestors :: "AncestorStatus list"

record policyTarget =
  pt_obj :: ObjectMeta
  pt_refs :: "LocalPolicyTargetReference list"

section \<open>Targets\<close>

definition targetKey :: "string \<Rightarrow> string \<Rightarrow> string" where
  "targetKey kind name = kind @ ''/'' @ name"

definition validPolicyTargets ::
  "Gateway \<Rightarrow> HTTPRoute list \<Rightarrow> GRPCRoute list \<Rightarrow> TLSRoute list \<Rightarrow> TCPRoute list \<Rightarrow> string \<Rightarrow> bool" where
  "validPolicyTargets gw http grpc tls tcp key \<longleftrightarrow>
     key \<in> set (targetKey ''Gateway'' (Name (gw_meta gw)) #
       map (\<lambda>r. targetKey ''HTTPRoute'' (rt_Name r)) http @
       map (\<lambda>r. targetKey ''GRPCRoute'' (rt_Name r)) grpc @
       map (\<lambda>r. targetKey ''TLSRoute'' (rt_Name r)) tls @
       map (\<lambda>r. targetKey ''TCPRoute'' (rt_Name r)) tcp)"

fun targetsResource :: "LocalPolicyTargetReference list \<Rightarrow> string \<Rightarrow> string \<Rightarrow> string \<Rightarrow> bool" where
  "targetsResource [] grp kind name = False"
| "targetsResource (ref # refs) grp kind name =
     (if tr_Group ref = grp \<and> tr_Kind ref = kind \<and> tr_Name ref = name then True
      else targetsResource refs grp kind name)"

definition routeKinds :: "string list" where
  "routeKinds = [''HTTPRoute'', ''GRPCRoute'', ''TLSRoute'', ''TCPRoute'']"

definition targetsAnyRoute :: "LocalPolicyTargetReference list \<Rightarrow> bool" where
  "targetsAnyRoute refs = list_ex (\<lambda>ref. list_ex (\<lambda>k. tr_Kind ref = k) routeKinds) refs"

definition addAffectedTargets ::
  "(string \<Rightarrow> bool) \<Rightarrow> LocalPolicyTargetReference list \<Rightarrow> (string \<Rightarrow> bool) \<Rightarrow> (string \<Rightarrow> bool)" where
  "addAffectedTargets affected refs valid =
     fold (\<lambda>ref affected. let key = targetKey (tr_Kind ref) (tr_Name ref) in
       if valid key then affected(key := True) else affected) refs affected"

section \<open>Conflict resolution\<close>

definition policyOlderThan :: "ObjectMeta \<Rightarrow> ObjectMeta \<Rightarrow> bool" where
  "policyOlderThan a b =
     (if CreationTimestamp a \<noteq> CreationTimestamp b then CreationTimestamp a < CreationTimestamp b
      else if Namespace a \<noteq> Namespace b then Namespace a < Namespace b
      else Name a < Name b)"

fun conflicting :: "policyTarget \<Rightarrow> LocalPolicyTargetReference \<Rightarrow> policyTarget list \<Rightarrow> bool" where
  "conflicting self ref [] = False"
| "conflicting self ref (other # all) =
     (if Name (pt_obj other) = Name (pt_obj self) \<and> Namespace (pt_obj other) = Namespace (pt_obj self)
      then conflicting self ref all
      else if targetsResource (pt_refs other) GroupName (tr_Kind ref) (tr_Name ref) \<and>
              policyOlderThan (pt_obj other) (pt_obj self)
      then True else conflicting self ref all)"

fun evaluate_refs ::
  "policyTarget \<Rightarrow> policyTarget list \<Rightarrow> (string \<Rightarrow> bool) \<Rightarrow> LocalPolicyTargetReference list \<Rightarrow> bool
     \<Rightarrow> bool \<times> string \<times> string" where
  "evaluate_refs self all valid [] matchedValid =
     (if \<not> matchedValid
      then (False, ''TargetNotFound'', ''no targetRef matches the Gateway or an attached route'')
      else (True, ''Accepted'', ''Policy is accepted''))"
| "evaluate_refs self all valid (ref # refs) matchedValid =
     (let key = targetKey (tr_Kind ref) (tr_Name ref) in
      if \<not> valid key then evaluate_refs self all valid refs matchedValid
      else if conflicting self ref all
      then (False, ''Conflicted'', ''conflicted by an older policy targeting '' @ key)
      else evaluate_refs self all valid refs True)"

definition evaluatePolicyAcceptance ::
  "policyTarget \<Rightarrow> policyTarget list \<Rightarrow> (string \<Rightarrow> bool) \<Rightarrow> bool \<times> string \<times> string" where
  "evaluatePolicyAcceptance self all valid = evaluate_refs self all valid (pt_refs self) False"

section \<open>Access policies\<close>

definition access_older :: "AccessPolicy \<Rightarrow> AccessPolicy \<Rightarrow> bool" where
  "access_older p q = policyOlderThan (ap_meta p) (ap_meta q)"

definition access_winner :: "AccessPolicy list \<Rightarrow> string \<Rightarrow> string \<Rightarrow> string \<Rightarrow> AccessPolicy option" where
  "access_winner policies grp kind name =
     pick_best access_older (\<lambda>p. targetsResource (ap_TargetRefs p) grp kind name) policies None"

definition findAccessConfigForTarget ::
  "AccessPolicy list \<Rightarrow> string \<Rightarrow> string \<Rightarrow> string \<Rightarrow> AccessConfig option" where
  "findAccessConfigForTarget policies grp kind name =
     (case access_winner policies grp kind name of
        None \<Rightarrow> None
      | Some w \<Rightarrow> Some \<lparr>Required = ap_Required w, TeamName = ap_TeamName w, AudTag = ap_AudTag w\<rparr>)"

definition set_rule_origin :: "OriginRequest option \<Rightarrow> BuiltRule \<Rightarrow> BuiltRule" where
  "set_rule_origin o' r = r\<lparr>built_rule := (built_rule r)\<lparr>rule_Origin := o'\<rparr>\<rparr>"

definition set_access :: "AccessConfig \<Rightarrow> BuiltRule \<Rightarrow> BuiltRule" where
  "set_access cfg r =
     set_rule_origin (Some ((deref_or zero_origin (rule_Origin (built_rule r)))\<lparr>Access := Some cfg\<rparr>)) r"

text \<open>The parameter \<open>listed\<close> is the outcome of listing the policies of the Gateway's namespace.\<close>

definition applyAccessPolicies ::
  "AccessPolicy list result \<Rightarrow> BuiltRule list \<Rightarrow> Gateway \<Rightarrow> BuiltRule list result" where
  "applyAccessPolicies listed rules gw =
     (case listed of
        Inl e \<Rightarrow> Inl (Wrap ''listing CloudflareAccessPolicy resources'' e)
      | Inr policies \<Rightarrow>
        if length policies = 0 then Inr rules
        else let gatewayAccessCfg =
               findAccessConfigForTarget policies GroupName ''Gateway'' (Name (gw_meta gw))
             in Inr (map (\<lambda>r.
               let cfg = (case gatewayAccessCfg of Some c \<Rightarrow> Some c
                 | None \<Rightarrow> findAccessConfigForTarget policies GroupName (br_RouteKind r) (br_RouteName r))
               in case cfg of None \<Rightarrow> r | Some c \<Rightarrow> set_access c r) rules))"

section \<open>Origin policies\<close>

definition originRequestFromPolicy :: "OriginPolicy \<Rightarrow> OriginRequest" where
  "originRequestFromPolicy p =
     zero_origin\<lparr>ProxyType := op_ProxyType p, DisableChunkedEncoding := op_DisableChunkedEncoding p,
       NoHappyEyeballs := op_NoHappyEyeballs p, HTTP2Origin := op_HTTP2Origin p,
       MatchSNIToHost := op_MatchSNIToHost p, KeepAliveConnections := op_KeepAliveConnections p,
       KeepAliveTimeout := op_KeepAliveTimeout p, TLSTimeout := op_TLSTimeout p,
       TCPKeepAlive := op_TCPKeepAlive p\<rparr>"

definition origin_older :: "OriginPolicy \<Rightarrow> OriginPolicy \<Rightarrow> bool" where
  "origin_older p q = policyOlderThan (op_meta p) (op_meta q)"

definition originPolicyForTarget :: "OriginPolicy list \<Rightarrow> string \<Rightarrow> string \<Rightarrow> OriginPolicy option" where
  "originPolicyForTarget policies kind name =
     pick_best origin_older (\<lambda>p. targetsResource (op_TargetRefs p) GroupName kind name) policies None"

definition effectiveOriginRequest ::
  "OriginPolicy list \<Rightarrow> string \<Rightarrow> string \<Rightarrow> string \<Rightarrow> OriginRequest option" where
  "effectiveOriginRequest policies gwName routeKind routeName =
     (let gwCfg = map_option originRequestFromPolicy (originPolicyForTarget policies ''Gateway'' gwName);
          routeCfg = map_option originRequestFromPolicy (originPolicyForTarget policies routeKind routeName)
      in MergeOriginRequest routeCfg gwCfg)"

definition merge_policy :: "OriginRequest option \<Rightarrow> BuiltRule \<Rightarrow> BuiltRule" where
  "merge_policy cfg r =
     (case cfg of None \<Rightarrow> r
      | Some c \<Rightarrow> set_rule_origin
          (MergeOriginRequest (Some (deref_or zero_origin (rule_Origin (built_rule r)))) (Some c)) r)"

fun apply_origin_loop ::
  "OriginPolicy list \<Rightarrow> string \<Rightarrow> (string \<rightharpoonup> OriginRequest option) \<Rightarrow> BuiltRule list \<Rightarrow> BuiltRule list" where
  "apply_origin_loop policies gwName cache [] = []"
| "apply_origin_loop policies gwName cache (r # rs) =
     (let key = br_RouteKind r @ ''/'' @ br_RouteName r in
      case cache key of
        Some cfg \<Rightarrow> merge_policy cfg r # apply_origin_loop policies gwName cache rs
      | None \<Rightarrow>
          let cfg = effectiveOriginRequest policies gwName (br_RouteKind r) (br_RouteName r)
          in merge_policy cfg r # apply_origin_loop policies gwName (cache(key \<mapsto> cfg)) rs)"

definition applyOriginPolicies :: "OriginPolicy list \<Rightarrow> string \<Rightarrow> BuiltRule list \<Rightarrow> BuiltRule list" where
  "applyOriginPolicies policies gwName rules = apply_origin_loop policies gwName Map.empty rules"

section \<open>Ancestor status\<close>

definition maxPolicyAncestors :: nat where
  "maxPolicyAncestors = 16"

definition gatewayAncestorRef :: "Gateway \<Rightarrow> ParentReference" where
  "gatewayAncestorRef gw =
     \<lparr>pr_Group = Some GroupName, pr_Kind = Some ''Gateway'', pr_Namespace = Some (Namespace (gw_meta gw)),
      pr_Name = Name (gw_meta gw), pr_SectionName = None, pr_Port = None\<rparr>"

definition ancestorRefEqual :: "ParentReference \<Rightarrow> ParentReference \<Rightarrow> bool" where
  "ancestorRefEqual a b \<longleftrightarrow>
     pr_Name a = pr_Name b \<and> deref_or '''' (pr_Namespace a) = deref_or '''' (pr_Namespace b)"

definition acceptedCondition :: "Time \<Rightarrow> int \<Rightarrow> bool \<Rightarrow> string \<Rightarrow> string \<Rightarrow> Condition" where
  "acceptedCondition now generation accepted reason message =
     \<lparr>cond_Type = ''Accepted'', Status = status_of accepted, ObservedGeneration = generation,
      LastTransitionTime = now, Reason = reason, Message = message\<rparr>"

definition overriddenCondition :: "Time \<Rightarrow> int \<Rightarrow> bool \<Rightarrow> Condition" where
  "overriddenCondition now generation overridden =
     \<lparr>cond_Type = ''Overridden'', Status = status_of overridden, ObservedGeneration = generation,
      LastTransitionTime = now,
      Reason = (if overridden then ''Overridden'' else ''Accepted''),
      Message = (if overridden
        then ''Gateway-level defaults are overridden by a route-level policy for some routes''
        else ''Policy is not overridden'')\<rparr>"

definition is_ancestor :: "ParentReference \<Rightarrow> string \<Rightarrow> AncestorStatus \<Rightarrow> bool" where
  "is_ancestor ancestor controllerName a \<longleftrightarrow>
     ancestorRefEqual (AncestorRef a) ancestor \<and> as_ControllerName a = controllerName"

fun upsert_ancestor_loop ::
  "Time \<Rightarrow> ParentReference \<Rightarrow> string \<Rightarrow> Condition \<Rightarrow> AncestorStatus list \<Rightarrow> AncestorStatus list option" where
  "upsert_ancestor_loop now ancestor ctl cond [] = None"
| "upsert_ancestor_loop now ancestor ctl cond (a # as) =
     (if is_ancestor ancestor ctl a
      then Some (a\<lparr>as_Conditions := setCondition (as_Conditions a)
             (cond\<lparr>LastTransitionTime := transitionTime now (as_Conditions a) (cond_Type cond) (Status cond)\<rparr>)\<rparr> # as)
      else map_option (\<lambda>as'. a # as') (upsert_ancestor_loop now ancestor ctl cond as))"

definition upsertAncestorCondition ::
  "Time \<Rightarrow> AncestorStatus list \<Rightarrow> ParentReference \<Rightarrow> string \<Rightarrow> Condition \<Rightarrow> AncestorStatus list" where
  "upsertAncestorCondition now ancestors ancestor ctl cond =
     (case upsert_ancestor_loop now ancestor ctl cond ancestors of
        Some as \<Rightarrow> as
      | None \<Rightarrow>
          if length ancestors \<ge> maxPolicyAncestors then ancestors
          else ancestors @ [\<lparr>AncestorRef = ancestor, as_ControllerName = ctl,
                             as_Conditions = setCondition [] cond\<rparr>])"

text \<open>The remaining entries and whether one was removed.\<close>

fun removeAncestor ::
  "AncestorStatus list \<Rightarrow> ParentReference \<Rightarrow> string \<Rightarrow> AncestorStatus list \<times> bool" where
  "removeAncestor [] ancestor ctl = ([], False)"
| "removeAncestor (a # as) ancestor ctl =
     (if is_ancestor ancestor ctl a then (as, True)
      else let (as', removed) = removeAncestor as ancestor ctl in (a # as', removed))"

definition set_affected_condition :: "Time \<Rightarrow> string \<Rightarrow> string \<Rightarrow> bool \<Rightarrow> Gateway \<Rightarrow> Gateway" where
  "set_affected_condition now condType kind affected gw =
     gw\<lparr>gw_Status := (gw_Status gw)\<lparr>gs_Conditions := setCondition (gs_Conditions (gw_Status gw))
       (gateway_condition now gw condType (status_of affected)
         (if affected then ''PolicyAffected'' else ''NoPolicyAttached'')
         (if affected then ''Object is affected by a '' @ kind
          else ''Object is not affected by any '' @ kind))\<rparr>\<rparr>"

definition setGatewayPolicyAffected :: "Time \<Rightarrow> Gateway \<Rightarrow> bool \<Rightarrow> bool \<Rightarrow> Gateway" where
  "setGatewayPolicyAffected now gw accessAffected originAffected =
     set_affected_condition now originPolicyAffectedConditionType ''CloudflareOriginPolicy'' originAffected
       (set_affected_condition now accessPolicyAffectedConditionType ''CloudflareAccessPolicy'' accessAffected gw)"

section \<open>Status of the policies\<close>

definition access_target :: "AccessPolicy \<Rightarrow> policyTarget" where
  "access_target p = \<lparr>pt_obj = ap_meta p, pt_refs = ap_TargetRefs p\<rparr>"

definition origin_target :: "OriginPolicy \<Rightarrow> policyTarget" where
  "origin_target p = \<lparr>pt_obj = op_meta p, pt_refs = op_TargetRefs p\<rparr>"

definition patch_access_policy ::
  "Time \<Rightarrow> Gateway \<Rightarrow> string \<Rightarrow> policyTarget list \<Rightarrow> (string \<Rightarrow> bool) \<Rightarrow> AccessPolicy \<Rightarrow> AccessPolicy \<times> bool" where
  "patch_access_policy now gw ctl all valid p =
     (let ancestor = gatewayAncestorRef gw;
          (accepted, reason, msg) = evaluatePolicyAcceptance (access_target p) all valid
      in if reason = ''TargetNotFound''
         then let (as, removed) = removeAncestor (ap_Ancestors p) ancestor ctl in (p\<lparr>ap_Ancestors := as\<rparr>, removed)
         else (p\<lparr>ap_Ancestors := upsertAncestorCondition now (ap_Ancestors p) ancestor ctl
                  (acceptedCondition now (Generation (ap_meta p)) accepted reason msg)\<rparr>, True))"

definition affected_by ::
  "policyTarget list \<Rightarrow> (string \<Rightarrow> bool) \<Rightarrow> string \<Rightarrow> bool" where
  "affected_by all valid =
     fold (\<lambda>t affected. if fst (evaluatePolicyAcceptance t all valid)
       then addAffectedTargets affected (pt_refs t) valid else affected) all (\<lambda>_. False)"

definition patchAccessPolicyStatuses ::
  "Time \<Rightarrow> AccessPolicy list result \<Rightarrow> Gateway \<Rightarrow> string \<Rightarrow> (string \<Rightarrow> bool)
     \<Rightarrow> ((AccessPolicy \<times> bool) list \<times> (string \<Rightarrow> bool)) result" where
  "patchAccessPolicyStatuses now listed gw ctl valid =
     (case listed of
        Inl e \<Rightarrow> Inl (Wrap ''listing CloudflareAccessPolicy resources'' e)
      | Inr policies \<Rightarrow>
        let all = map access_target policies
        in Inr (map (patch_access_policy now gw ctl all valid) policies, affected_by all valid))"

definition routeOverrideExists :: "policyTarget list \<Rightarrow> (string \<Rightarrow> bool) \<Rightarrow> bool" where
  "routeOverrideExists all valid =
     list_ex (\<lambda>t. targetsAnyRoute (pt_refs t) \<and> fst (evaluatePolicyAcceptance t all valid)) all"

definition patch_origin_policy ::
  "Time \<Rightarrow> Gateway \<Rightarrow> string \<Rightarrow> policyTarget list \<Rightarrow> (string \<Rightarrow> bool) \<Rightarrow> OriginPolicy \<Rightarrow> OriginPolicy \<times> bool" where
  "patch_origin_policy now gw ctl all valid p =
     (let ancestor = gatewayAncestorRef gw;
          (accepted, reason, msg) = evaluatePolicyAcceptance (origin_target p) all valid
      in if reason = ''TargetNotFound''
         then let (as, removed) = removeAncestor (op_Ancestors p) ancestor ctl in (p\<lparr>op_Ancestors := as\<rparr>, removed)
         else let as = upsertAncestorCondition now (op_Ancestors p) ancestor ctl
                    (acceptedCondition now (Generation (op_meta p)) accepted reason msg);
                  as = (if targetsResource (op_TargetRefs p) GroupName ''Gateway'' (Name (gw_meta gw))
                        then upsertAncestorCondition now as ancestor ctl
                          (overriddenCondition now (Generation (op_meta p))
                            (accepted \<and> routeOverrideExists all valid))
                        else as)
              in (p\<lparr>op_Ancestors := as\<rparr>, True))"

definition patchOriginPolicyStatuses ::
  "Time \<Rightarrow> OriginPolicy list \<Rightarrow> Gateway \<Rightarrow> string \<Rightarrow> (string \<Rightarrow> bool)
     \<Rightarrow> (OriginPolicy \<times> bool) list \<times> (string \<Rightarrow> bool)" where
  "patchOriginPolicyStatuses now policies gw ctl valid =
     (let all = map origin_target policies
      in (map (patch_origin_policy now gw ctl all valid) policies, affected_by all valid))"

section \<open>The winner of a target\<close>

definition policy_age :: "ObjectMeta \<Rightarrow> Time \<times> string \<times> string" where
  "policy_age m = (CreationTimestamp m, Namespace m, Name m)"

lemma policyOlderThan_key: "policyOlderThan a b \<longleftrightarrow> policy_age a < policy_age b"
  by (auto simp: policyOlderThan_def policy_age_def)

interpretation older: strict_weak policyOlderThan
  unfolding policyOlderThan_key[abs_def] by (rule strict_weak_key)

interpretation access: strict_weak access_older
  unfolding access_older_def[abs_def] policyOlderThan_key by (rule strict_weak_key)

interpretation origin: strict_weak origin_older
  unfolding origin_older_def[abs_def] policyOlderThan_key by (rule strict_weak_key)

lemma targetsResource_iff:
  "targetsResource refs grp kind name \<longleftrightarrow>
     (\<exists>ref \<in> set refs. tr_Group ref = grp \<and> tr_Kind ref = kind \<and> tr_Name ref = name)"
  by (induction refs grp kind name rule: targetsResource.induct) auto

lemma conflicting_iff:
  "conflicting self ref all \<longleftrightarrow>
     (\<exists>other \<in> set all. (Namespace (pt_obj other), Name (pt_obj other)) \<noteq> (Namespace (pt_obj self), Name (pt_obj self)) \<and>
        targetsResource (pt_refs other) GroupName (tr_Kind ref) (tr_Name ref) \<and>
        policyOlderThan (pt_obj other) (pt_obj self))"
  by (induction self ref all rule: conflicting.induct) auto

lemma evaluate_refs_accepted:
  "fst (evaluate_refs self all valid refs m) \<Longrightarrow> ref \<in> set refs \<Longrightarrow>
     valid (targetKey (tr_Kind ref) (tr_Name ref)) \<Longrightarrow> \<not> conflicting self ref all"
  by (induction self all valid refs m rule: evaluate_refs.induct) (auto simp: Let_def split: if_splits)

lemma accepted_unbeaten:
  assumes "fst (evaluatePolicyAcceptance self all valid)"
    and "targetsResource (pt_refs self) grp kind name" and "valid (targetKey kind name)"
    and "other \<in> set all" and "targetsResource (pt_refs other) GroupName kind name"
    and "(Namespace (pt_obj other), Name (pt_obj other)) \<noteq> (Namespace (pt_obj self), Name (pt_obj self))"
  shows "\<not> policyOlderThan (pt_obj other) (pt_obj self)"
proof -
  obtain ref where ref: "ref \<in> set (pt_refs self)" "tr_Kind ref = kind" "tr_Name ref = name"
    using assms(2) unfolding targetsResource_iff by blast
  have "\<not> conflicting self ref all"
    using evaluate_refs_accepted[OF assms(1)[unfolded evaluatePolicyAcceptance_def] ref(1)] ref assms(3)
    by simp
  then show ?thesis using assms(4-6) ref unfolding conflicting_iff by blast
qed

definition policy_id :: "AccessPolicy \<Rightarrow> string \<times> string" where
  "policy_id p = (Namespace (ap_meta p), Name (ap_meta p))"

lemma access_accepted_wins:
  assumes p: "p \<in> set policies" and ids: "distinct (map policy_id policies)"
    and acc: "fst (evaluatePolicyAcceptance (access_target p) (map access_target policies) valid)"
    and tgt: "targetsResource (ap_TargetRefs p) GroupName kind name" and val: "valid (targetKey kind name)"
  shows "access_winner policies GroupName kind name = Some p"
proof -
  let ?cand = "\<lambda>q. targetsResource (ap_TargetRefs q) GroupName kind name"
  have "access_winner policies GroupName kind name \<noteq> None"
    using p tgt by (auto simp: access_winner_def pick_best_None_iff)
  then obtain w where w: "pick_best access_older ?cand policies None = Some w"
    by (auto simp: access_winner_def)
  note best = access.pick_best_spec[OF w]
  have "w = p"
  proof (rule ccontr)
    assume "w \<noteq> p"
    then have ne: "policy_id w \<noteq> policy_id p"
      using ids best(1) p by (auto simp: distinct_map inj_on_def)
    have "\<not> policyOlderThan (ap_meta w) (ap_meta p)"
      using accepted_unbeaten[OF acc, of GroupName kind name "access_target w"] tgt val best(1,2) ne
      by (simp add: access_target_def policy_id_def)
    moreover have "\<not> policyOlderThan (ap_meta p) (ap_meta w)"
      using best(3)[OF p tgt] by (simp add: access_older_def)
    ultimately have "policy_age (ap_meta w) = policy_age (ap_meta p)"
      unfolding policyOlderThan_key by (metis less_linear)
    with ne show False by (simp add: policy_age_def policy_id_def)
  qed
  with w show ?thesis by (simp add: access_winner_def)
qed

lemma accepted_policy_supplies_config:
  assumes "p \<in> set policies" and "distinct (map policy_id policies)"
    and "fst (evaluatePolicyAcceptance (access_target p) (map access_target policies) valid)"
    and "targetsResource (ap_TargetRefs p) GroupName kind name" and "valid (targetKey kind name)"
  shows "findAccessConfigForTarget policies GroupName kind name =
    Some \<lparr>Required = ap_Required p, TeamName = ap_TeamName p, AudTag = ap_AudTag p\<rparr>"
  by (simp add: findAccessConfigForTarget_def access_accepted_wins[OF assms])

definition sample_target :: "string \<Rightarrow> string \<Rightarrow> LocalPolicyTargetReference" where
  "sample_target kind name = \<lparr>tr_Group = GroupName, tr_Kind = kind, tr_Name = name\<rparr>"

definition sample_policy :: "string \<Rightarrow> Time \<Rightarrow> LocalPolicyTargetReference list \<Rightarrow> AccessPolicy" where
  "sample_policy name created refs =
     \<lparr>ap_meta = \<lparr>Name = name, Namespace = ''infra'', UID = name, Generation = 1,
        CreationTimestamp = created, Annotations = (\<lambda>_. None),
        DeletionTimestamp = None, Finalizers = []\<rparr>,
      ap_TargetRefs = refs, ap_TeamName = name, ap_Required = True, ap_AudTag = [], ap_Ancestors = []\<rparr>"

lemmas sample_policy_simps = sample_policy_def sample_target_def access_target_def policy_id_def
  evaluatePolicyAcceptance_def policyOlderThan_def Let_def

text \<open>
  The converse does not hold for a policy with several targets: here \<open>new\<close> is reported as conflicted,
  because of its first target, yet its configuration is the one pushed for its second.
\<close>

lemma conflicted_policy_still_enforced:
  "fst (snd (evaluatePolicyAcceptance
       (access_target (sample_policy ''new'' 9 [sample_target ''HTTPRoute'' ''web'', sample_target ''HTTPRoute'' ''api'']))
       (map access_target [sample_policy ''old'' 1 [sample_target ''HTTPRoute'' ''web''],
          sample_policy ''new'' 9 [sample_target ''HTTPRoute'' ''web'', sample_target ''HTTPRoute'' ''api'']])
       (\<lambda>_. True))) = ''Conflicted'' \<and>
   findAccessConfigForTarget [sample_policy ''old'' 1 [sample_target ''HTTPRoute'' ''web''],
       sample_policy ''new'' 9 [sample_target ''HTTPRoute'' ''web'', sample_target ''HTTPRoute'' ''api'']]
     GroupName ''HTTPRoute'' ''api'' = Some \<lparr>Required = True, TeamName = ''new'', AudTag = []\<rparr>"
  by (simp add: sample_policy_simps findAccessConfigForTarget_def access_winner_def)

section \<open>Layering of origin settings\<close>

lemma slash_key:
  "CHR ''/'' \<notin> set k \<Longrightarrow> CHR ''/'' \<notin> set k' \<Longrightarrow> k @ ''/'' @ n = k' @ ''/'' @ n' \<longleftrightarrow> k = k' \<and> n = n'"
proof
  assume a: "CHR ''/'' \<notin> set k" "CHR ''/'' \<notin> set k'" and eq: "k @ ''/'' @ n = k' @ ''/'' @ n'"
  have pre: "takeWhile (\<lambda>c. c \<noteq> CHR ''/'') (x @ ''/'' @ y) = x" if "CHR ''/'' \<notin> set x" for x y
    using that by (induction x) auto
  from eq have "takeWhile (\<lambda>c. c \<noteq> CHR ''/'') (k @ ''/'' @ n) = takeWhile (\<lambda>c. c \<noteq> CHR ''/'') (k' @ ''/'' @ n')"
    by (rule arg_cong)
  then have "k = k'" unfolding pre[OF a(1)] pre[OF a(2)] .
  with eq show "k = k' \<and> n = n'" by simp
qed simp

definition cache_ok :: "OriginPolicy list \<Rightarrow> string \<Rightarrow> (string \<rightharpoonup> OriginRequest option) \<Rightarrow> bool" where
  "cache_ok ps gw cache \<longleftrightarrow>
     (\<forall>k n c. CHR ''/'' \<notin> set k \<longrightarrow> cache (k @ ''/'' @ n) = Some c \<longrightarrow> c = effectiveOriginRequest ps gw k n)"

lemma cache_ok_hit:
  "cache_ok ps gw cache \<Longrightarrow> CHR ''/'' \<notin> set k \<Longrightarrow> cache (k @ ''/'' @ n) = Some c \<Longrightarrow>
     c = effectiveOriginRequest ps gw k n"
  unfolding cache_ok_def by blast

lemma cache_ok_update:
  assumes "cache_ok ps gw cache" and "CHR ''/'' \<notin> set k"
  shows "cache_ok ps gw (cache(k @ ''/'' @ n \<mapsto> effectiveOriginRequest ps gw k n))"
  unfolding cache_ok_def
proof (intro allI impI)
  fix k' n' c
  assume k': "CHR ''/'' \<notin> set k'"
    and c: "(cache(k @ ''/'' @ n \<mapsto> effectiveOriginRequest ps gw k n)) (k' @ ''/'' @ n') = Some c"
  show "c = effectiveOriginRequest ps gw k' n'"
  proof (cases "k' @ ''/'' @ n' = k @ ''/'' @ n")
    case True
    then have "k' = k \<and> n' = n" using slash_key[OF k' assms(2)] by blast
    moreover have "c = effectiveOriginRequest ps gw k n" using c unfolding True fun_upd_same by simp
    ultimately show ?thesis by simp
  next
    case False
    have "cache (k' @ ''/'' @ n') = Some c" using c unfolding fun_upd_other[OF False] .
    then show ?thesis by (rule cache_ok_hit[OF assms(1) k'])
  qed
qed

lemma apply_origin_loop_map:
  "cache_ok ps gw cache \<Longrightarrow> list_all (\<lambda>r. CHR ''/'' \<notin> set (br_RouteKind r)) rules \<Longrightarrow>
     apply_origin_loop ps gw cache rules =
     map (\<lambda>r. merge_policy (effectiveOriginRequest ps gw (br_RouteKind r) (br_RouteName r)) r) rules"
proof (induction rules arbitrary: cache)
  case (Cons r rules)
  have kind: "CHR ''/'' \<notin> set (br_RouteKind r)" using Cons.prems(2) by simp
  have rest: "list_all (\<lambda>r. CHR ''/'' \<notin> set (br_RouteKind r)) rules" using Cons.prems(2) by simp
  show ?case
  proof (cases "cache (br_RouteKind r @ ''/'' @ br_RouteName r)")
    case None
    show ?thesis
      using None Cons.IH[OF cache_ok_update[OF Cons.prems(1) kind] rest]
      by (simp only: apply_origin_loop.simps Let_def option.case list.map)
  next
    case (Some c)
    note c = cache_ok_hit[OF Cons.prems(1) kind Some]
    show ?thesis
      using Some Cons.IH[OF Cons.prems(1) rest] unfolding c
      by (simp only: apply_origin_loop.simps Let_def option.case list.map)
  qed
qed simp

lemma merge_policy_layers:
  "merge_policy (effectiveOriginRequest ps gw kind name) r =
     set_rule_origin
       (MergeOriginRequest
         (MergeOriginRequest (rule_Origin (built_rule r))
            (map_option originRequestFromPolicy (originPolicyForTarget ps kind name)))
         (map_option originRequestFromPolicy (originPolicyForTarget ps ''Gateway'' gw))) r"
proof (cases "effectiveOriginRequest ps gw kind name")
  case None
  then show ?thesis by (simp add: merge_policy_def effectiveOriginRequest_def set_rule_origin_def)
next
  case (Some c)
  have "MergeOriginRequest (Some (deref_or zero_origin o')) (Some c) = MergeOriginRequest o' (Some c)" for o'
    by (cases o') (simp_all add: zero_origin_def)
  then show ?thesis
    using Some by (simp add: merge_policy_def MergeOriginRequest_assoc) (simp add: effectiveOriginRequest_def)
qed

text \<open>
  C29. Origin policies layer field by field. For rules whose route kinds contain no slash, as
  the four kinds of the Gateway API, applyOriginPolicies gives each rule, independently of the
  other rules and of the cache, its own origin settings, filled from the winning policy of its
  route, filled from the winning policy of the Gateway; and changes nothing else.
\<close>

theorem applyOriginPolicies_layers:
  assumes "list_all (\<lambda>r. CHR ''/'' \<notin> set (br_RouteKind r)) rules"
  shows "applyOriginPolicies policies gwName rules =
    map (\<lambda>r. set_rule_origin
      (MergeOriginRequest
        (MergeOriginRequest (rule_Origin (built_rule r))
          (map_option originRequestFromPolicy (originPolicyForTarget policies (br_RouteKind r) (br_RouteName r))))
        (map_option originRequestFromPolicy (originPolicyForTarget policies ''Gateway'' gwName))) r) rules"
  unfolding applyOriginPolicies_def
  using apply_origin_loop_map[OF _ assms] by (simp add: cache_ok_def merge_policy_layers)

definition sample_origin_policy :: "string \<Rightarrow> LocalPolicyTargetReference \<Rightarrow> bool option \<Rightarrow> string option \<Rightarrow> OriginPolicy" where
  "sample_origin_policy name ref eyeballs proxy =
     \<lparr>op_meta = \<lparr>Name = name, Namespace = ''infra'', UID = name, Generation = 1, CreationTimestamp = 1,
        Annotations = (\<lambda>_. None),
        DeletionTimestamp = None, Finalizers = []\<rparr>, op_TargetRefs = [ref], op_ProxyType = proxy,
      op_DisableChunkedEncoding = None, op_KeepAliveConnections = None, op_KeepAliveTimeout = None,
      op_NoHappyEyeballs = eyeballs, op_TLSTimeout = None, op_TCPKeepAlive = None,
      op_HTTP2Origin = None, op_MatchSNIToHost = None, op_Ancestors = []\<rparr>"

definition sample_rule :: "string \<Rightarrow> string \<Rightarrow> OriginRequest option \<Rightarrow> BuiltRule" where
  "sample_rule kind name o' =
     \<lparr>built_rule = \<lparr>Hostname = ''h'', Path = '''', Service = ''http://s.n:80'', rule_Origin = o'\<rparr>,
      br_RouteKind = kind, br_RouteNamespace = ''apps'', br_RouteName = name, br_RouteCreated = 0,
      br_RuleIndex = 0,
      Specificity = \<lparr>HostnameExact = True, HostnameLen = 1, PathKind = pathNone, PrefixLen = 0,
        MethodMatch = False, HeaderCount = 0, QueryCount = 0\<rparr>, UnsupportedMatch = False\<rparr>"

theorem applyOriginPolicies_layers_witness:
  "map (rule_Origin \<circ> built_rule)
     (applyOriginPolicies
       [sample_origin_policy ''g'' (sample_target ''Gateway'' ''edge'') (Some True) (Some ''socks''),
        sample_origin_policy ''r'' (sample_target ''HTTPRoute'' ''web'') (Some False) None] ''edge''
       [sample_rule ''HTTPRoute'' ''web'' None, sample_rule ''GRPCRoute'' ''web'' None]) =
   [Some (zero_origin\<lparr>NoHappyEyeballs := Some False, ProxyType := Some ''socks''\<rparr>),
    Some (zero_origin\<lparr>NoHappyEyeballs := Some True, ProxyType := Some ''socks''\<rparr>)]"
proof -
  have "list_all (\<lambda>r. CHR ''/'' \<notin> set (br_RouteKind r))
      [sample_rule ''HTTPRoute'' ''web'' None, sample_rule ''GRPCRoute'' ''web'' None]"
    by (simp add: sample_rule_def)
  from applyOriginPolicies_layers[OF this] show ?thesis
    by (simp add: sample_rule_def sample_origin_policy_def sample_target_def originPolicyForTarget_def
        originRequestFromPolicy_def zero_origin_def set_rule_origin_def)
qed

section \<open>Ancestor entries\<close>

lemma upsert_ancestor_loop_None:
  "upsert_ancestor_loop now anc ctl c as = None \<longleftrightarrow> \<not> list_ex (is_ancestor anc ctl) as"
  by (induction as) auto

lemma upsert_ancestor_loop_length:
  "upsert_ancestor_loop now anc ctl c as = Some as' \<Longrightarrow> length as' = length as"
  by (induction as arbitrary: as') (auto split: if_splits)

lemma upsert_ancestor_loop_others:
  "upsert_ancestor_loop now anc ctl c as = Some as' \<Longrightarrow>
     filter (\<lambda>a. \<not> is_ancestor anc ctl a) as' = filter (\<lambda>a. \<not> is_ancestor anc ctl a) as"
  by (induction as arbitrary: as') (auto simp: is_ancestor_def split: if_splits)

lemma upsert_ancestor_loop_find:
  "upsert_ancestor_loop now anc ctl c as = Some as' \<Longrightarrow>
     \<exists>a. find (is_ancestor anc ctl) as' = Some a \<and>
       find (\<lambda>x. cond_Type x = cond_Type c) (as_Conditions a) = Some (c\<lparr>LastTransitionTime :=
         (case find (is_ancestor anc ctl) as of None \<Rightarrow> LastTransitionTime c
          | Some b \<Rightarrow> transitionTime now (as_Conditions b) (cond_Type c) (Status c))\<rparr>)"
  by (induction as arbitrary: as') (auto simp: is_ancestor_def conds.find_put split: if_splits)

text \<open>
  Writing a policy's ancestor status respects the cap and the other writers. The list never
  grows beyond sixteen entries (or what it already had); entries of other Gateways or controllers
  are untouched and in order; and when this Gateway has an entry, or there is room for one, its
  first entry carries the new condition, with the old transition time if the status is unchanged;
  otherwise the list is left as it was.
\<close>

lemma upsertAncestorCondition_contract:
  "length (upsertAncestorCondition now as (gatewayAncestorRef gw) ctl c) \<le> max maxPolicyAncestors (length as) \<and>
   filter (\<lambda>a. \<not> is_ancestor (gatewayAncestorRef gw) ctl a) (upsertAncestorCondition now as (gatewayAncestorRef gw) ctl c) =
     filter (\<lambda>a. \<not> is_ancestor (gatewayAncestorRef gw) ctl a) as \<and>
   (if list_ex (is_ancestor (gatewayAncestorRef gw) ctl) as \<or> length as < maxPolicyAncestors
    then \<exists>a. find (is_ancestor (gatewayAncestorRef gw) ctl)
             (upsertAncestorCondition now as (gatewayAncestorRef gw) ctl c) = Some a \<and>
           find (\<lambda>x. cond_Type x = cond_Type c) (as_Conditions a) = Some (c\<lparr>LastTransitionTime :=
             (case find (is_ancestor (gatewayAncestorRef gw) ctl) as of None \<Rightarrow> LastTransitionTime c
              | Some b \<Rightarrow> transitionTime now (as_Conditions b) (cond_Type c) (Status c))\<rparr>)
    else upsertAncestorCondition now as (gatewayAncestorRef gw) ctl c = as)"
proof (cases "upsert_ancestor_loop now (gatewayAncestorRef gw) ctl c as")
  case None
  then have none: "\<not> list_ex (is_ancestor (gatewayAncestorRef gw) ctl) as"
    by (simp add: upsert_ancestor_loop_None)
  then have f: "find (is_ancestor (gatewayAncestorRef gw) ctl) as = None"
    by (simp add: find_None_iff list_ex_iff)
  have app: "find P (xs @ ys) = (case find P xs of None \<Rightarrow> find P ys | Some x \<Rightarrow> Some x)" for P xs and ys :: "'x list"
    by (induction xs) auto
  have new: "is_ancestor (gatewayAncestorRef gw) ctl
      \<lparr>AncestorRef = gatewayAncestorRef gw, as_ControllerName = ctl, as_Conditions = [c]\<rparr>"
    by (simp add: is_ancestor_def ancestorRefEqual_def)
  show ?thesis
    using None none f new by (simp add: upsertAncestorCondition_def app)
next
  case (Some as')
  then have "list_ex (is_ancestor (gatewayAncestorRef gw) ctl) as"
    using upsert_ancestor_loop_None[of now "gatewayAncestorRef gw" ctl c as] by simp
  then show ?thesis
    using Some upsert_ancestor_loop_length[OF Some] upsert_ancestor_loop_others[OF Some]
      upsert_ancestor_loop_find[OF Some]
    by (simp add: upsertAncestorCondition_def)
qed

lemma removeAncestor_others:
  "filter (\<lambda>a. \<not> is_ancestor anc ctl a) (fst (removeAncestor as anc ctl)) = filter (\<lambda>a. \<not> is_ancestor anc ctl a) as \<and>
   snd (removeAncestor as anc ctl) = list_ex (is_ancestor anc ctl) as"
  by (induction as) (auto simp: split_beta Let_def)

text \<open>The keys reported as affected are the valid targets of the accepted policies.\<close>

lemma addAffectedTargets_iff:
  "addAffectedTargets affected refs valid key \<longleftrightarrow>
     affected key \<or> (valid key \<and> list_ex (\<lambda>r. targetKey (tr_Kind r) (tr_Name r) = key) refs)"
  unfolding addAffectedTargets_def
  by (induction refs arbitrary: affected) (auto simp: Let_def)

lemma affected_by_iff:
  "affected_by all valid key \<longleftrightarrow> valid key \<and>
     list_ex (\<lambda>t. fst (evaluatePolicyAcceptance t all valid) \<and>
       list_ex (\<lambda>r. targetKey (tr_Kind r) (tr_Name r) = key) (pt_refs t)) all"
proof -
  have "fold (\<lambda>t affected. if fst (evaluatePolicyAcceptance t all valid)
       then addAffectedTargets affected (pt_refs t) valid else affected) ts a key \<longleftrightarrow>
     a key \<or> (valid key \<and> list_ex (\<lambda>t. fst (evaluatePolicyAcceptance t all valid) \<and>
       list_ex (\<lambda>r. targetKey (tr_Kind r) (tr_Name r) = key) (pt_refs t)) ts)" for ts a
    by (induction ts arbitrary: a) (auto simp: addAffectedTargets_iff)
  from this[of all "\<lambda>_. False"] show ?thesis by (simp add: affected_by_def)
qed

end
