(* ===== verification/PolicyStatus.thy ===== *)
theory PolicyStatus
  imports Policy
begin

text \<open>
  The ancestor status of the policies over many reconciliations. Each reconciliation writes the status of every policy
  that concerns the Gateway, and each write is an event that reconciles the Gateway again; what keeps this
  from going on for ever is that a report that has been made is made again as it stands.
\<close>

section \<open>Repeating a report changes nothing\<close>

definition retimed :: "Time \<Rightarrow> Condition \<Rightarrow> Condition" where
  "retimed t c = c\<lparr>LastTransitionTime := t\<rparr>"

lemma retimed_simps [simp]:
  "cond_Type (retimed t c) = cond_Type c" "Status (retimed t c) = Status c"
  "retimed t (retimed t' c) = retimed t c"
  "(retimed t' c)\<lparr>LastTransitionTime := t\<rparr> = retimed t c"
  by (simp_all add: retimed_def)

lemma condition_retimed:
  "acceptedCondition now g ok reason msg = retimed now (acceptedCondition 0 g ok reason msg)"
  "overriddenCondition now g ov = retimed now (overriddenCondition 0 g ov)"
  by (simp_all add: retimed_def acceptedCondition_def overriddenCondition_def)

lemma condition_types [simp]:
  "cond_Type (acceptedCondition now g ok reason msg) = ''Accepted''"
  "cond_Type (overriddenCondition now g ov) = ''Overridden''"
  by (simp_all add: acceptedCondition_def overriddenCondition_def)

text \<open>
  A list of ancestors has settled on a condition when the entry of this Gateway carries it, with
  some transition time, or when there is no entry and no room for one.
\<close>

definition settled :: "ParentReference \<Rightarrow> string \<Rightarrow> Condition \<Rightarrow> AncestorStatus list \<Rightarrow> bool" where
  "settled anc ctl c as \<longleftrightarrow>
     (case find (is_ancestor anc ctl) as of
        None \<Rightarrow> maxPolicyAncestors \<le> length as
      | Some a \<Rightarrow> \<exists>t. find (\<lambda>x. cond_Type x = cond_Type c) (as_Conditions a) = Some (retimed t c))"

lemma transitionTime_found:
  "find (\<lambda>x. cond_Type x = cond_Type c) cs = Some (retimed t c) \<Longrightarrow>
     retimed (transitionTime now cs (cond_Type c) (Status c)) c = retimed t c"
  by (induction cs) (auto simp: retimed_def split: if_splits)

lemma setCondition_found:
  "find (\<lambda>x. cond_Type x = cond_Type c) cs = Some c \<Longrightarrow> setCondition cs c = cs"
  by (induction cs) (auto split: if_splits)

lemma upsert_loop_settled:
  "find (is_ancestor anc ctl) as = Some a \<Longrightarrow>
     find (\<lambda>x. cond_Type x = cond_Type c) (as_Conditions a) = Some (retimed t c) \<Longrightarrow>
     upsert_ancestor_loop now anc ctl (retimed t' c) as = Some as"
  using transitionTime_found[of c "as_Conditions a" t now] setCondition_found[of "retimed t c" "as_Conditions a"]
  by (induction as) (auto split: if_splits)

lemma settled_stays: "settled anc ctl c as \<Longrightarrow> upsertAncestorCondition now as anc ctl (retimed t c) = as"
  using upsert_ancestor_loop_None[of now anc ctl "retimed t c" as]
  by (auto simp: settled_def upsertAncestorCondition_def upsert_loop_settled find_None_iff list_ex_iff
      split: option.splits)

lemma is_ancestor_fresh [simp]: "is_ancestor anc ctl \<lparr>AncestorRef = anc, as_ControllerName = ctl, as_Conditions = cs\<rparr>"
  by (simp add: is_ancestor_def ancestorRefEqual_def)

lemma upsert_loop_finds:
  "find (is_ancestor anc ctl) as = Some a \<Longrightarrow>
     \<exists>as'. upsert_ancestor_loop now anc ctl c as = Some as' \<and>
       find (is_ancestor anc ctl) as' = Some (a\<lparr>as_Conditions := setCondition (as_Conditions a)
         (retimed (transitionTime now (as_Conditions a) (cond_Type c) (Status c)) c)\<rparr>)"
  by (induction as) (auto simp: is_ancestor_def retimed_def split: if_splits)

lemma find_snoc: "find P xs = None \<Longrightarrow> find P (xs @ [x]) = (if P x then Some x else None)"
  by (induction xs) (auto split: if_splits)

lemma upsert_settles: "settled anc ctl c (upsertAncestorCondition now as anc ctl (retimed t c))"
proof (cases "find (is_ancestor anc ctl) as")
  case None
  then have "upsert_ancestor_loop now anc ctl (retimed t c) as = None"
    by (auto simp: upsert_ancestor_loop_None find_None_iff list_ex_iff)
  with None show ?thesis by (auto simp: settled_def upsertAncestorCondition_def find_snoc)
next
  case (Some a)
  then show ?thesis
    using upsert_loop_finds[OF Some, of now "retimed t c"]
    by (auto simp: settled_def upsertAncestorCondition_def conds.find_put)
qed

lemma settled_other_type:
  assumes "settled anc ctl c as" and "cond_Type d \<noteq> cond_Type c"
  shows "settled anc ctl c (upsertAncestorCondition now as anc ctl d)"
proof (cases "find (is_ancestor anc ctl) as")
  case None
  then have "upsert_ancestor_loop now anc ctl d as = None"
    by (auto simp: upsert_ancestor_loop_None find_None_iff list_ex_iff)
  with None assms(1) show ?thesis by (simp add: settled_def upsertAncestorCondition_def)
next
  case (Some a)
  then show ?thesis
    using assms upsert_loop_finds[OF Some, of now d]
    by (auto simp: settled_def upsertAncestorCondition_def conds.find_put)
qed

text \<open>
  The controller never makes a second entry for a Gateway, and with at most one
  entry a removal is complete.
\<close>

definition one_entry :: "ParentReference \<Rightarrow> string \<Rightarrow> AncestorStatus list \<Rightarrow> bool" where
  "one_entry anc ctl as \<longleftrightarrow> length (filter (is_ancestor anc ctl) as) \<le> 1"

lemma removeAncestor_absent: "\<not> list_ex (is_ancestor anc ctl) as \<Longrightarrow> removeAncestor as anc ctl = (as, False)"
  by (induction as) auto

lemma removeAncestor_complete:
  "one_entry anc ctl as \<Longrightarrow> \<not> list_ex (is_ancestor anc ctl) (fst (removeAncestor as anc ctl))"
  by (induction as) (auto simp: one_entry_def split_beta Let_def filter_empty_conv list_ex_iff)

lemma upsert_loop_count:
  "upsert_ancestor_loop now anc ctl c as = Some as' \<Longrightarrow>
     length (filter (is_ancestor anc ctl) as') = length (filter (is_ancestor anc ctl) as)"
  by (induction as arbitrary: as') (auto simp: is_ancestor_def split: if_splits)

lemma one_entry_upsert: "one_entry anc ctl as \<Longrightarrow> one_entry anc ctl (upsertAncestorCondition now as anc ctl c)"
  using upsert_loop_count[of now anc ctl c as] upsert_ancestor_loop_None[of now anc ctl c as]
  by (auto simp: one_entry_def upsertAncestorCondition_def filter_empty_conv list_ex_iff split: option.splits)

lemma removeAncestor_one_entry: "one_entry anc ctl as \<Longrightarrow> one_entry anc ctl (fst (removeAncestor as anc ctl))"
  using removeAncestor_complete[of anc ctl as] by (auto simp: one_entry_def filter_empty_conv list_ex_iff)

lemma patch_access_policy_again:
  assumes "one_entry (gatewayAncestorRef gw) ctl (ap_Ancestors p)" and q: "q = fst (patch_access_policy now gw ctl all valid p)"
  shows "fst (patch_access_policy now' gw ctl all valid q) = q" "access_target q = access_target p"
    "one_entry (gatewayAncestorRef gw) ctl (ap_Ancestors q)"
proof -
  obtain ok reason msg where e: "evaluatePolicyAcceptance (access_target p) all valid = (ok, reason, msg)"
    by (cases "evaluatePolicyAcceptance (access_target p) all valid")
  note stays = settled_stays[OF upsert_settles] and gone = removeAncestor_absent[OF removeAncestor_complete[OF assms(1)]]
  show t: "access_target q = access_target p"
    unfolding q patch_access_policy_def e by (simp add: access_target_def split_beta Let_def)
  show "fst (patch_access_policy now' gw ctl all valid q) = q"
  proof (cases "reason = ''TargetNotFound''")
    case True
    then show ?thesis using t e gone by (simp add: q patch_access_policy_def split_beta Let_def)
  next
    case False
    then show ?thesis using t e stays
      by (simp add: q patch_access_policy_def Let_def condition_retimed[of now] condition_retimed[of now'])
  qed
  show "one_entry (gatewayAncestorRef gw) ctl (ap_Ancestors q)"
    using assms(1) removeAncestor_one_entry[OF assms(1)]
    by (simp add: q patch_access_policy_def e split_beta Let_def one_entry_upsert)
qed

lemma patch_origin_policy_again:
  assumes "one_entry (gatewayAncestorRef gw) ctl (op_Ancestors p)" and q: "q = fst (patch_origin_policy now gw ctl all valid p)"
  shows "fst (patch_origin_policy now' gw ctl all valid q) = q" "origin_target q = origin_target p"
    "one_entry (gatewayAncestorRef gw) ctl (op_Ancestors q)"
proof -
  obtain ok reason msg where e: "evaluatePolicyAcceptance (origin_target p) all valid = (ok, reason, msg)"
    by (cases "evaluatePolicyAcceptance (origin_target p) all valid")
  note gone = removeAncestor_absent[OF removeAncestor_complete[OF assms(1)]]
  let ?anc = "gatewayAncestorRef gw" and ?g = "Generation (op_meta p)"
  let ?a = "acceptedCondition 0 ?g ok reason msg" and ?o = "overriddenCondition 0 ?g (ok \<and> routeOverrideExists all valid)"
  have kept: "settled ?anc ctl ?a (upsertAncestorCondition now (upsertAncestorCondition now as ?anc ctl (retimed now ?a))
      ?anc ctl (retimed now ?o))" for as
    by (rule settled_other_type[OF upsert_settles]) simp
  note stays = settled_stays[OF upsert_settles] settled_stays[OF kept]
  show t: "origin_target q = origin_target p"
    unfolding q patch_origin_policy_def e by (simp add: origin_target_def split_beta Let_def)
  show "fst (patch_origin_policy now' gw ctl all valid q) = q"
  proof (cases "reason = ''TargetNotFound''")
    case True
    then show ?thesis using t e gone by (simp add: q patch_origin_policy_def split_beta Let_def)
  next
    case False
    then show ?thesis using t e stays
      by (simp add: q patch_origin_policy_def Let_def condition_retimed[of now] condition_retimed[of now'])
  qed
  show "one_entry (gatewayAncestorRef gw) ctl (op_Ancestors q)"
    using assms(1) removeAncestor_one_entry[OF assms(1)]
    by (simp add: q patch_origin_policy_def e split_beta Let_def one_entry_upsert)
qed

text \<open>The policies as a pass leaves them, when it finds the policies \<open>ps\<close>.\<close>

definition access_pass ::
  "Gateway \<Rightarrow> string \<Rightarrow> (string \<Rightarrow> bool) \<Rightarrow> AccessPolicy list \<Rightarrow> Time \<Rightarrow> AccessPolicy list" where
  "access_pass gw ctl valid ps now =
     (case patchAccessPolicyStatuses now (Inr ps) gw ctl valid of Inl e \<Rightarrow> ps | Inr (out, affected) \<Rightarrow> map fst out)"

definition origin_pass ::
  "Gateway \<Rightarrow> string \<Rightarrow> (string \<Rightarrow> bool) \<Rightarrow> OriginPolicy list \<Rightarrow> Time \<Rightarrow> OriginPolicy list" where
  "origin_pass gw ctl valid ps now = map fst (fst (patchOriginPolicyStatuses now ps gw ctl valid))"

lemma access_pass_map:
  "access_pass gw ctl valid ps now = map (\<lambda>p. fst (patch_access_policy now gw ctl (map access_target ps) valid p)) ps"
  by (simp add: access_pass_def patchAccessPolicyStatuses_def Let_def)

lemma origin_pass_map:
  "origin_pass gw ctl valid ps now = map (\<lambda>p. fst (patch_origin_policy now gw ctl (map origin_target ps) valid p)) ps"
  by (simp add: origin_pass_def patchOriginPolicyStatuses_def Let_def)

lemma access_pass_again:
  assumes "list_all (\<lambda>p. one_entry (gatewayAncestorRef gw) ctl (ap_Ancestors p)) ps"
  shows "access_pass gw ctl valid (access_pass gw ctl valid ps now) now' = access_pass gw ctl valid ps now"
  using patch_access_policy_again[OF _ refl] assms unfolding access_pass_map list_all_iff
  by (simp add: o_def cong: map_cong)

lemma origin_pass_again:
  assumes "list_all (\<lambda>p. one_entry (gatewayAncestorRef gw) ctl (op_Ancestors p)) ps"
  shows "origin_pass gw ctl valid (origin_pass gw ctl valid ps now) now' = origin_pass gw ctl valid ps now"
  using patch_origin_policy_again[OF _ refl] assms unfolding origin_pass_map list_all_iff
  by (simp add: o_def cong: map_cong)

lemma settled_fold: "(\<And>now'. pass x now' = x) \<Longrightarrow> foldl pass x later = x"
  by (induction later) auto

text \<open>
  C28. Policy status settles in one pass. Every reconciliation writes the status of each policy that
  concerns the Gateway, and the write triggers the watch on policies again. With
  at most one entry of this Gateway per policy, which every pass preserves, the passes that
  follow, at whatever times and however many, write the very objects that the first one
  wrote, transition times included, so the API server sees no change and the loop ends. This holds also
  where the list is full, where the policy is overridden, and where the entry is pruned.
\<close>

theorem policy_status_settles:
  assumes "list_all (\<lambda>p. one_entry (gatewayAncestorRef gw) ctl (ap_Ancestors p)) access"
    and "list_all (\<lambda>p. one_entry (gatewayAncestorRef gw) ctl (op_Ancestors p)) origin"
  shows "foldl (access_pass gw ctl valid) access (now # later) = access_pass gw ctl valid access now \<and>
    foldl (origin_pass gw ctl valid) origin (now # later) = origin_pass gw ctl valid origin now \<and>
    list_all (\<lambda>p. one_entry (gatewayAncestorRef gw) ctl (ap_Ancestors p)) (access_pass gw ctl valid access now) \<and>
    list_all (\<lambda>p. one_entry (gatewayAncestorRef gw) ctl (op_Ancestors p)) (origin_pass gw ctl valid origin now)"
proof (intro conjI)
  show "foldl (access_pass gw ctl valid) access (now # later) = access_pass gw ctl valid access now"
    by (simp add: settled_fold access_pass_again[OF assms(1)])
  show "foldl (origin_pass gw ctl valid) origin (now # later) = origin_pass gw ctl valid origin now"
    by (simp add: settled_fold origin_pass_again[OF assms(2)])
  show "list_all (\<lambda>p. one_entry (gatewayAncestorRef gw) ctl (ap_Ancestors p)) (access_pass gw ctl valid access now)"
    using assms(1) patch_access_policy_again(3)[OF _ refl] by (simp add: access_pass_map list_all_iff)
  show "list_all (\<lambda>p. one_entry (gatewayAncestorRef gw) ctl (op_Ancestors p)) (origin_pass gw ctl valid origin now)"
    using assms(2) patch_origin_policy_again(3)[OF _ refl] by (simp add: origin_pass_map list_all_iff)
qed

definition edge_gateway :: Gateway where
  "edge_gateway =
     \<lparr>gw_meta = \<lparr>Name = ''edge'', Namespace = ''infra'', UID = ''e'', Generation = 1, CreationTimestamp = 0,
        Annotations = (\<lambda>_. None), DeletionTimestamp = None, Finalizers = []\<rparr>,
      GatewayClassName = ''cloudflare'', Listeners = [], Infrastructure = None,
      gw_Status = \<lparr>gs_Conditions = [], Addresses = [], gs_Listeners = []\<rparr>\<rparr>"

theorem policy_status_settles_witness:
  "foldl (origin_pass edge_gateway ''c'' (\<lambda>_. True))
     [sample_origin_policy ''g'' (sample_target ''Gateway'' ''edge'') None None] [5, 9, 12] =
   [(sample_origin_policy ''g'' (sample_target ''Gateway'' ''edge'') None None)\<lparr>op_Ancestors :=
     [\<lparr>AncestorRef = gatewayAncestorRef edge_gateway, as_ControllerName = ''c'',
        as_Conditions = [acceptedCondition 5 1 True ''Accepted'' ''Policy is accepted'', overriddenCondition 5 1 False]\<rparr>]\<rparr>]"
proof -
  let ?p = "sample_origin_policy ''g'' (sample_target ''Gateway'' ''edge'') None None"
  have none: "list_all (\<lambda>p. one_entry (gatewayAncestorRef edge_gateway) ''c'' (ap_Ancestors p)) []" by simp
  have "list_all (\<lambda>p. one_entry (gatewayAncestorRef edge_gateway) ''c'' (op_Ancestors p)) [?p]"
    by (simp add: sample_origin_policy_def one_entry_def)
  from conjunct1[OF conjunct2[OF policy_status_settles[where valid = "\<lambda>_. True" and now = 5 and later = "[9, 12]",
      OF none this]]]
  have "foldl (origin_pass edge_gateway ''c'' (\<lambda>_. True)) [?p] [5, 9, 12] =
      origin_pass edge_gateway ''c'' (\<lambda>_. True) [?p] 5" .
  show ?thesis
    unfolding \<open>foldl _ _ _ = _\<close>
    by (simp add: overriddenCondition_def origin_pass_map patch_origin_policy_def origin_target_def evaluatePolicyAcceptance_def Let_def
        sample_origin_policy_def sample_target_def upsertAncestorCondition_def maxPolicyAncestors_def
        transitionTime.simps edge_gateway_def routeOverrideExists_def targetsAnyRoute_def routeKinds_def)
qed

end
