(* ===== verification/Backends.thy ===== *)
theory Backends
  imports Status Attachment Ingress
begin

text \<open>
  internal/controller/refgrant.go, servicebackend.go and xbackend.go: authorising and resolving the
  backendRefs of the attached routes. The Kubernetes reads are the record \<open>kube\<close> of functions. The
  two collection loops have one shape, \<open>collect_refs\<close>, of which both are instances. The results
  are exact verdicts for collected references, and the interpretation of the locale
  \<open>fail_closed\<close> of the ingress builders: nothing unauthorised or missing is ever served.
\<close>

record kube =
  list_grants :: "string \<Rightarrow> ReferenceGrant list result"
  get_service :: "string \<Rightarrow> string \<Rightarrow> ServicePort list result"
  get_xbackend :: "string \<Rightarrow> string \<Rightarrow> XBackend result"

section \<open>refgrant.go\<close>

fun fromMatches :: "ReferenceGrantFrom list \<Rightarrow> string \<Rightarrow> string \<Rightarrow> bool" where
  "fromMatches [] fromNS fromKind = False"
| "fromMatches (f # fs) fromNS fromKind =
     (if gf_Group f = ''gateway.networking.k8s.io'' \<and> gf_Kind f = fromKind \<and> gf_Namespace f = fromNS
      then True else fromMatches fs fromNS fromKind)"

definition groupMatches :: "string \<Rightarrow> string \<Rightarrow> bool" where
  "groupMatches grantGroup want =
     (if want = '''' then grantGroup = '''' \<or> grantGroup = ''core'' else grantGroup = want)"

fun toMatches :: "ReferenceGrantTo list \<Rightarrow> string \<Rightarrow> string \<Rightarrow> string \<Rightarrow> bool" where
  "toMatches [] toGroup toKind toName = False"
| "toMatches (t # ts) toGroup toKind toName =
     (let kindOK = gt_Kind t = toKind; nameOK = gt_Name t = None \<or> gt_Name t = Some toName in
      if groupMatches (gt_Group t) toGroup \<and> kindOK \<and> nameOK then True
      else toMatches ts toGroup toKind toName)"

fun grant_loop ::
  "ReferenceGrant list \<Rightarrow> string \<Rightarrow> string \<Rightarrow> string \<Rightarrow> string \<Rightarrow> string \<Rightarrow> bool" where
  "grant_loop [] fromNS fromKind toGroup toKind toName = False"
| "grant_loop (g # gs) fromNS fromKind toGroup toKind toName =
     (if \<not> fromMatches (grant_From g) fromNS fromKind
      then grant_loop gs fromNS fromKind toGroup toKind toName
      else if toMatches (grant_To g) toGroup toKind toName then True
      else grant_loop gs fromNS fromKind toGroup toKind toName)"

definition CheckReferenceGrantTo ::
  "kube \<Rightarrow> string \<Rightarrow> string \<Rightarrow> string \<Rightarrow> string \<Rightarrow> string \<Rightarrow> string \<Rightarrow> bool result" where
  "CheckReferenceGrantTo k fromNS fromKind toNS toGroup toKind toName =
     bind_result (list_grants k toNS) (\<lambda>grants.
       Inr (grant_loop grants fromNS fromKind toGroup toKind toName))"

definition CheckReferenceGrant ::
  "kube \<Rightarrow> string \<Rightarrow> string \<Rightarrow> string \<Rightarrow> string \<Rightarrow> string \<Rightarrow> bool result" where
  "CheckReferenceGrant k fromNS fromKind toNS toKind toName =
     CheckReferenceGrantTo k fromNS fromKind toNS '''' toKind toName"

section \<open>Targets\<close>

definition serviceKind :: string where "serviceKind = ''Service''"
definition xBackendKind :: string where "xBackendKind = ''XBackend''"

record backendTarget =
  bt_routeNS :: string
  bt_routeKind :: string
  bt_group :: string
  bt_kind :: string
  bt_ns :: string
  bt_name :: string
  bt_port :: int

definition isXBackend :: "backendTarget \<Rightarrow> bool" where
  "isXBackend t \<longleftrightarrow> bt_group t = xBackendGroup \<and> bt_kind t = xBackendKind"

definition isService :: "backendTarget \<Rightarrow> bool" where
  "isService t \<longleftrightarrow> (bt_group t = '''' \<or> bt_group t = ''core'') \<and> bt_kind t = serviceKind"

text \<open>permitKey, svcKey and xbKey are structs of strings, used as map keys.\<close>

type_synonym permitKey = "string \<times> string \<times> string \<times> string"
type_synonym objKey = "string \<times> string"

definition permit :: "backendTarget \<Rightarrow> permitKey" where
  "permit t = (bt_routeNS t, bt_routeKind t, bt_ns t, bt_name t)"

definition backendRefGroupKind :: "BackendObjectReference \<Rightarrow> string \<times> string" where
  "backendRefGroupKind r = (deref_or '''' (bo_Group r), deref_or serviceKind (bo_Kind r))"

definition isXBackendRef :: "BackendObjectReference \<Rightarrow> bool" where
  "isXBackendRef r \<longleftrightarrow> (let (grp, kind) = backendRefGroupKind r in grp = xBackendGroup \<and> kind = xBackendKind)"

definition targetsFromObjRefs ::
  "string \<Rightarrow> string \<Rightarrow> BackendObjectReference list \<Rightarrow> backendTarget list" where
  "targetsFromObjRefs routeNS routeKind refs =
     map (\<lambda>r. \<lparr>bt_routeNS = routeNS, bt_routeKind = routeKind,
        bt_group = fst (backendRefGroupKind r), bt_kind = snd (backendRefGroupKind r),
        bt_ns = deref_or routeNS (bo_Namespace r), bt_name = bo_Name r,
        bt_port = deref_or 0 (bo_Port r)\<rparr>) refs"

definition httpRouteObjRefs :: "HTTPRoute \<Rightarrow> BackendObjectReference list" where
  "httpRouteObjRefs route = concat (map hr_BackendRefs (Rules route))"

definition grpcRouteObjRefs :: "GRPCRoute \<Rightarrow> BackendObjectReference list" where
  "grpcRouteObjRefs route = concat (map gr_BackendRefs (Rules route))"

definition tlsRouteObjRefs :: "TLSRoute \<Rightarrow> BackendObjectReference list" where
  "tlsRouteObjRefs route = concat (map sr_BackendRefs (Rules route))"

definition tcpRouteObjRefs :: "TCPRoute \<Rightarrow> BackendObjectReference list" where
  "tcpRouteObjRefs route = concat (map sr_BackendRefs (Rules route))"

definition collectBackendTargets ::
  "HTTPRoute list \<Rightarrow> GRPCRoute list \<Rightarrow> TLSRoute list \<Rightarrow> TCPRoute list \<Rightarrow> backendTarget list" where
  "collectBackendTargets http grpc tls tcp =
     concat (map (\<lambda>r. targetsFromObjRefs (rt_Namespace r) ''HTTPRoute'' (httpRouteObjRefs r)) http) @
     concat (map (\<lambda>r. targetsFromObjRefs (rt_Namespace r) ''GRPCRoute'' (grpcRouteObjRefs r)) grpc) @
     concat (map (\<lambda>r. targetsFromObjRefs (rt_Namespace r) ''TLSRoute'' (tlsRouteObjRefs r)) tls) @
     concat (map (\<lambda>r. targetsFromObjRefs (rt_Namespace r) ''TCPRoute'' (tcpRouteObjRefs r)) tcp)"

section \<open>Collecting what the references name\<close>

text \<open>
  The shape of collectServiceBackends and collectReferencedXBackends: skip other targets; for a
  cross-namespace one, ask for a grant once per key and skip it if refused; fetch each object
  once. An object that does not exist is entered as \<open>missing\<close>: a Service as one without
  ports, an XBackend not at all.
\<close>

type_synonym 'v collected = "(objKey \<rightharpoonup> 'v) \<times> (permitKey \<rightharpoonup> bool)"

definition fetch_into ::
  "(string \<Rightarrow> string \<Rightarrow> 'v result) \<Rightarrow> 'v option \<Rightarrow> backendTarget \<Rightarrow> 'v collected \<Rightarrow> 'v collected result" where
  "fetch_into fetch missing t col =
     (let (objs, permitted) = col; key = (bt_ns t, bt_name t) in
      if objs key \<noteq> None then Inr col
      else (case fetch (bt_ns t) (bt_name t) of
              Inr v \<Rightarrow> Inr (objs(key \<mapsto> v), permitted)
            | Inl e \<Rightarrow>
                if apierrors_IsNotFound e then
                  Inr (case missing of None \<Rightarrow> objs | Some v \<Rightarrow> objs(key \<mapsto> v), permitted)
                else Inl e))"

fun collect_refs ::
  "(backendTarget \<Rightarrow> bool) \<Rightarrow> (backendTarget \<Rightarrow> bool result) \<Rightarrow> (string \<Rightarrow> string \<Rightarrow> 'v result)
     \<Rightarrow> 'v option \<Rightarrow> backendTarget list \<Rightarrow> 'v collected \<Rightarrow> 'v collected result" where
  "collect_refs wanted grant fetch missing [] col = Inr col"
| "collect_refs wanted grant fetch missing (t # ts) col =
     (if \<not> wanted t then collect_refs wanted grant fetch missing ts col
      else if bt_routeNS t \<noteq> bt_ns t then
        bind_result (case snd col (permit t) of Some _ \<Rightarrow> Inr col
            | None \<Rightarrow> bind_result (grant t) (\<lambda>ok. Inr (fst col, (snd col)(permit t \<mapsto> ok)))) (\<lambda>col.
          if snd col (permit t) \<noteq> Some True then collect_refs wanted grant fetch missing ts col
          else bind_result (fetch_into fetch missing t col) (collect_refs wanted grant fetch missing ts))
      else bind_result (fetch_into fetch missing t col) (collect_refs wanted grant fetch missing ts))"

record svcBackends =
  ports :: "objKey \<rightharpoonup> ServicePort list"
  sb_permitted :: "permitKey \<rightharpoonup> bool"

record xbBackends =
  fetched :: "objKey \<rightharpoonup> XBackend"
  xb_permitted :: "permitKey \<rightharpoonup> bool"

definition service_grant :: "kube \<Rightarrow> backendTarget \<Rightarrow> bool result" where
  "service_grant k t = CheckReferenceGrant k (bt_routeNS t) (bt_routeKind t) (bt_ns t) serviceKind (bt_name t)"

definition collectServiceBackends :: "kube \<Rightarrow> backendTarget list \<Rightarrow> svcBackends result" where
  "collectServiceBackends k targets =
     bind_result (collect_refs isService (service_grant k) (get_service k) (Some []) targets (Map.empty, Map.empty))
       (\<lambda>(objs, permitted). Inr \<lparr>ports = objs, sb_permitted = permitted\<rparr>)"

definition xbackend_grant :: "kube \<Rightarrow> backendTarget \<Rightarrow> bool result" where
  "xbackend_grant k t =
     CheckReferenceGrantTo k (bt_routeNS t) (bt_routeKind t) (bt_ns t) xBackendGroup xBackendKind (bt_name t)"

definition collectReferencedXBackends :: "kube \<Rightarrow> backendTarget list \<Rightarrow> xbBackends result" where
  "collectReferencedXBackends k targets =
     bind_result (collect_refs isXBackend (xbackend_grant k) (get_xbackend k) None targets (Map.empty, Map.empty))
       (\<lambda>(objs, permitted). Inr \<lparr>fetched = objs, xb_permitted = permitted\<rparr>)"

section \<open>Resolving a reference\<close>

definition has_tcp_port :: "ServicePort list \<Rightarrow> int \<Rightarrow> bool" where
  "has_tcp_port ps p \<longleftrightarrow> list_ex (\<lambda>sp. sp_Port sp = p \<and> (sp_Protocol sp = '''' \<or> sp_Protocol sp = ''TCP'')) ps"

definition resolveServiceRef :: "backendTarget \<Rightarrow> svcBackends option \<Rightarrow> string" where
  "resolveServiceRef t col =
     (case col of None \<Rightarrow> reasonBackendNotFound
      | Some c \<Rightarrow>
        if bt_routeNS t \<noteq> bt_ns t \<and> sb_permitted c (permit t) \<noteq> Some True then reasonRefNotPermitted
        else if has_tcp_port (deref_or [] (ports c (bt_ns t, bt_name t))) (bt_port t) then reasonResolvedOK
        else reasonBackendNotFound)"

definition no_backend :: ResolvedBackend where
  "no_backend = \<lparr>rb_Service = '''', rb_Origin = None\<rparr>"

definition originRequestEmpty :: "OriginRequest \<Rightarrow> bool" where
  "originRequestEmpty o' \<longleftrightarrow>
     HTTP2Origin o' = None \<and> OriginServerName o' = None \<and> NoTLSVerify o' = None \<and> MatchSNIToHost o' = None"

text \<open>The TLS part of translateXBackend: a reason, or the origin with the TLS fields set.\<close>

definition translate_tls :: "BackendTLS option \<Rightarrow> OriginRequest \<Rightarrow> string + OriginRequest" where
  "translate_tls tls origin =
     (case tls of None \<Rightarrow> Inr origin
      | Some t \<Rightarrow>
        if Mode t = ''ClientAndServer'' then Inl reasonUnsupportedProtocol
        else if Mode t = ''ServerOnly'' then
          (case Validation t of None \<Rightarrow> Inl reasonUnsupportedTLSValidation
           | Some v \<Rightarrow>
             if length (CACertificateRefs v) > 0 then Inl reasonUnsupportedCACerts
             else if length (SubjectAltNames v) > 0 \<or>
                (WellKnownCACertificates v \<noteq> None \<and> WellKnownCACertificates v \<noteq> Some ''System'')
             then Inl reasonUnsupportedTLSValidation
             else let origin = origin\<lparr>MatchSNIToHost := Some False\<rparr> in
               Inr (if v_Hostname v \<noteq> '''' then origin\<lparr>OriginServerName := Some (v_Hostname v)\<rparr> else origin))
        else Inr origin)"

definition incompatible :: "string \<Rightarrow> string \<Rightarrow> bool" where
  "incompatible routeKind scheme \<longleftrightarrow>
     (if routeKind = ''HTTPRoute'' \<or> routeKind = ''GRPCRoute'' then scheme = ''tcp''
      else if routeKind = ''TCPRoute'' then scheme \<noteq> ''tcp''
      else if routeKind = ''TLSRoute'' then scheme = ''http''
      else False)"

definition uses_tls :: "XBackend \<Rightarrow> bool" where
  "uses_tls xb \<longleftrightarrow> (case xb_TLS xb of None \<Rightarrow> False | Some t \<Rightarrow> Mode t \<noteq> ''None'')"

definition translateXBackend :: "XBackend \<Rightarrow> string \<Rightarrow> ResolvedBackend \<times> string" where
  "translateXBackend xb routeKind =
     (if xb_Type xb \<noteq> ''ExternalHostname'' \<or> ExternalHostname xb = None
      then (no_backend, reasonUnsupportedProtocol)
      else let host = deref_or '''' (ExternalHostname xb); port = PortNumber xb in
      if port < 1 \<or> port > 65535 then (no_backend, reasonInvalidBackendPort)
      else let proto = deref_or (if routeKind = ''TCPRoute'' then ''TCP'' else ''HTTP'') (xb_Protocol xb) in
      if proto \<notin> set [''HTTP'', ''HTTP11'', ''HTTP2'', ''GRPC'', ''TCP'']
      then (no_backend, reasonUnsupportedProtocol)
      else let usesTLS = uses_tls xb in
      if \<not> usesTLS \<and> (proto = ''HTTP2'' \<or> proto = ''GRPC'') then (no_backend, reasonUnsupportedProtocol)
      else if proto = ''TCP'' \<and> usesTLS then (no_backend, reasonUnsupportedProtocol)
      else let origin = (if proto = ''HTTP2'' \<or> proto = ''GRPC''
                         then zero_origin\<lparr>HTTP2Origin := Some True\<rparr> else zero_origin);
               scheme = (if proto = ''TCP'' then ''tcp'' else if usesTLS then ''https'' else ''http'')
      in case translate_tls (xb_TLS xb) origin of
           Inl reason \<Rightarrow> (no_backend, reason)
         | Inr origin \<Rightarrow>
             if incompatible routeKind scheme then (no_backend, reasonIncompatibleRouteKind)
             else (\<lparr>rb_Service = scheme @ ''://'' @ host @ '':'' @ itoa port,
                    rb_Origin = (if originRequestEmpty origin then None else Some origin)\<rparr>,
                   reasonResolvedOK))"

text \<open>\<open>experimental\<close> is the reconciler's field ExperimentalBackends.\<close>

definition resolveXBackendRef :: "bool \<Rightarrow> backendTarget \<Rightarrow> xbBackends option \<Rightarrow> ResolvedBackend \<times> string" where
  "resolveXBackendRef experimental t col =
     (if \<not> experimental \<or> col = None then (no_backend, reasonXBackendDisabled)
      else let c = the col in
      if bt_routeNS t \<noteq> bt_ns t \<and> xb_permitted c (permit t) \<noteq> Some True then (no_backend, reasonRefNotPermitted)
      else if bt_port t \<noteq> 0 then (no_backend, reasonInvalidBackendPort)
      else (case fetched c (bt_ns t, bt_name t) of
              None \<Rightarrow> (no_backend, reasonBackendNotFound)
            | Some xb \<Rightarrow> translateXBackend xb (bt_routeKind t)))"

definition target_of_ref :: "BackendRef \<Rightarrow> backendTarget" where
  "target_of_ref ref =
     \<lparr>bt_routeNS = RouteNamespace ref, bt_routeKind = RouteKind ref, bt_group = ref_Group ref,
      bt_kind = ref_Kind ref, bt_ns = ref_Namespace ref, bt_name = ref_Name ref,
      bt_port = deref_or 0 (ref_Port ref)\<rparr>"

definition backendResolver :: "bool \<Rightarrow> xbBackends option \<Rightarrow> svcBackends option \<Rightarrow> BackendResolver" where
  "backendResolver experimental xbCol svcCol ref =
     (let t = target_of_ref ref in
      if isXBackend t then Some (fst (resolveXBackendRef experimental t xbCol))
      else if \<not> isService t then Some no_backend
      else if resolveServiceRef t svcCol \<noteq> reasonResolvedOK then Some no_backend
      else None)"

section \<open>The ResolvedRefs verdict of a route\<close>

definition reasonSeverity :: "string \<Rightarrow> int" where
  "reasonSeverity reason =
     (if reason = reasonXBackendDisabled then 7
      else if reason = reasonUnsupportedKind then 6
      else if reason = reasonRefNotPermitted then 5
      else if reason = reasonBackendNotFound then 4
      else if reason = reasonIncompatibleRouteKind then 3
      else if reason = reasonUnsupportedProtocol \<or> reason = reasonInvalidBackendPort then 2
      else if reason = reasonUnsupportedCACerts \<or> reason = reasonUnsupportedTLSValidation then 1
      else 0)"

definition resolveTargetReason ::
  "bool \<Rightarrow> backendTarget \<Rightarrow> xbBackends option \<Rightarrow> svcBackends option \<Rightarrow> string" where
  "resolveTargetReason experimental t xbCol svcCol =
     (if isXBackend t then snd (resolveXBackendRef experimental t xbCol)
      else if isService t then resolveServiceRef t svcCol
      else reasonUnsupportedKind)"

definition worse :: "string \<Rightarrow> string \<Rightarrow> string" where
  "worse reason worst = (if reasonSeverity reason > reasonSeverity worst then reason else worst)"

definition routeResolvedRefs ::
  "bool \<Rightarrow> string \<Rightarrow> string \<Rightarrow> BackendObjectReference list \<Rightarrow> xbBackends option \<Rightarrow> svcBackends option
     \<Rightarrow> ResolvedRefsResult" where
  "routeResolvedRefs experimental routeNS routeKind objRefs xbCol svcCol =
     resolvedRefsResultFor
       (fold (\<lambda>t worst. worse (resolveTargetReason experimental t xbCol svcCol) worst)
          (targetsFromObjRefs routeNS routeKind objRefs) reasonResolvedOK)"

section \<open>What a collection holds\<close>

text \<open>
  The contract of a collection: asking for a grant depends on the permit key only. Then what was
  collected is what the API server says, and every target of the list was looked at.
\<close>

locale collector =
  fixes wanted :: "backendTarget \<Rightarrow> bool" and grant :: "backendTarget \<Rightarrow> bool result"
    and fetch :: "string \<Rightarrow> string \<Rightarrow> 'v result" and missing :: "'v option"
  assumes grant_permit: "permit t = permit u \<Longrightarrow> grant t = grant u"
begin

definition found :: "string \<Rightarrow> string \<Rightarrow> 'v \<Rightarrow> bool" where
  "found ns name v \<longleftrightarrow> fetch ns name = Inr v \<or>
     (\<exists>e. fetch ns name = Inl e \<and> apierrors_IsNotFound e \<and> missing = Some v)"

definition sound :: "'v collected \<Rightarrow> bool" where
  "sound col \<longleftrightarrow> (\<forall>ns name v. fst col (ns, name) = Some v \<longrightarrow> found ns name v) \<and>
     (\<forall>t b. snd col (permit t) = Some b \<longrightarrow> grant t = Inr b)"

definition handled :: "'v collected \<Rightarrow> backendTarget \<Rightarrow> bool" where
  "handled col t \<longleftrightarrow>
     (if bt_routeNS t \<noteq> bt_ns t \<and> snd col (permit t) \<noteq> Some True then snd col (permit t) = Some False
      else fst col (bt_ns t, bt_name t) \<noteq> None \<or>
        (missing = None \<and> (\<exists>e. fetch (bt_ns t) (bt_name t) = Inl e \<and> apierrors_IsNotFound e)))"

definition extends :: "'v collected \<Rightarrow> 'v collected \<Rightarrow> bool" where
  "extends col col' \<longleftrightarrow> fst col \<subseteq>\<^sub>m fst col' \<and> snd col \<subseteq>\<^sub>m snd col'"

lemma extends_refl [simp]: "extends col col"
  by (simp add: extends_def)

lemma extends_trans: "extends a b \<Longrightarrow> extends b c \<Longrightarrow> extends a c"
  unfolding extends_def by (meson map_le_trans)

lemma extends_permitted: "extends col col' \<Longrightarrow> snd col (permit t) = Some b \<Longrightarrow> snd col' (permit t) = Some b"
  unfolding extends_def map_le_def by (metis domI)

lemma extends_object: "extends col col' \<Longrightarrow> fst col k = Some v \<Longrightarrow> fst col' k = Some v"
  unfolding extends_def map_le_def by (metis domI)

lemma handled_extends:
  assumes "handled col t" and "extends col col'"
  shows "handled col' t"
proof (cases "bt_routeNS t \<noteq> bt_ns t \<and> snd col (permit t) \<noteq> Some True")
  case True
  then have "snd col' (permit t) = Some False"
    using assms extends_permitted[OF assms(2)] by (simp add: handled_def)
  then show ?thesis using True by (simp add: handled_def)
next
  case False
  then have "\<not> (bt_routeNS t \<noteq> bt_ns t \<and> snd col' (permit t) \<noteq> Some True)"
    using extends_permitted[OF assms(2), of t True] by auto
  moreover have "fst col (bt_ns t, bt_name t) \<noteq> None \<Longrightarrow> fst col' (bt_ns t, bt_name t) \<noteq> None"
    using extends_object[OF assms(2)] by blast
  ultimately show ?thesis using assms(1) False by (auto simp: handled_def)
qed

lemma fetch_into_step:
  assumes "fetch_into fetch missing t col = Inr col'" and "sound col"
    and "bt_routeNS t = bt_ns t \<or> snd col (permit t) = Some True"
  shows "sound col' \<and> extends col col' \<and> handled col' t"
proof -
  obtain objs perm where col: "col = (objs, perm)" by (cases col)
  show ?thesis
  proof (cases "objs (bt_ns t, bt_name t)")
    case (Some v)
    then have "col' = col" using assms(1) by (simp add: fetch_into_def col)
    then show ?thesis using assms Some by (auto simp: handled_def col)
  next
    case None
    show ?thesis
    proof (cases "fetch (bt_ns t) (bt_name t)")
      case (Inr v)
      then have "col' = (objs((bt_ns t, bt_name t) \<mapsto> v), perm)"
        using assms(1) None by (simp add: fetch_into_def col)
      then show ?thesis
        using assms(2,3) None Inr by (auto simp: sound_def found_def handled_def extends_def col map_le_def)
    next
      case (Inl e)
      then have e: "apierrors_IsNotFound e"
        using assms(1) None by (auto simp: fetch_into_def col split: if_splits)
      then have "col' = (case missing of None \<Rightarrow> objs | Some v \<Rightarrow> objs((bt_ns t, bt_name t) \<mapsto> v), perm)"
        using assms(1) None Inl by (simp add: fetch_into_def col)
      then show ?thesis
        using assms(2,3)[unfolded sound_def found_def] None Inl e
        unfolding sound_def found_def handled_def extends_def col
        by (cases missing) (auto simp: map_le_def)
    qed
  qed
qed

lemma sound_permit:
  assumes "grant t = Inr ok" and "sound col"
  shows "sound (fst col, (snd col)(permit t \<mapsto> ok))"
proof -
  have "grant u = Inr b" if "((snd col)(permit t \<mapsto> ok)) (permit u) = Some b" for u b
  proof (cases "permit u = permit t")
    case True
    then have "grant u = grant t" by (rule grant_permit)
    then show ?thesis using that True assms(1) by simp
  next
    case False
    then show ?thesis using that assms(2) by (simp add: sound_def)
  qed
  then show ?thesis using assms(2) by (simp add: sound_def)
qed

lemma permit_step:
  assumes "(case snd col (permit t) of Some _ \<Rightarrow> Inr col
      | None \<Rightarrow> bind_result (grant t) (\<lambda>ok. Inr (fst col, (snd col)(permit t \<mapsto> ok)))) = Inr col'"
    and "sound col"
  shows "sound col' \<and> extends col col' \<and> snd col' (permit t) \<noteq> None"
proof (cases "snd col (permit t)")
  case None
  then obtain ok where "grant t = Inr ok" "col' = (fst col, (snd col)(permit t \<mapsto> ok))"
    using assms(1) by (auto simp: bind_result_Inr_iff)
  then show ?thesis
    using sound_permit[OF _ assms(2)] None by (auto simp: extends_def map_le_def)
next
  case (Some b)
  then show ?thesis using assms by simp
qed

lemma collect_refs_spec:
  assumes "collect_refs wanted grant fetch missing ts col = Inr col'" and "sound col"
  shows "sound col' \<and> extends col col' \<and> list_all (handled col') (filter wanted ts)"
  using assms
proof (induction ts arbitrary: col)
  case (Cons t ts)
  have rest: "sound col' \<and> extends col col' \<and> list_all (handled col') (filter wanted (t # ts))"
    if "collect_refs wanted grant fetch missing ts c = Inr col'" "sound c" "extends col c" "handled c t" for c
    using Cons.IH[OF that(1,2)] that(3,4) extends_trans handled_extends by auto
  show ?case
  proof (cases "wanted t")
    case False
    then show ?thesis using Cons by simp
  next
    case True
    show ?thesis
    proof (cases "bt_routeNS t = bt_ns t")
      case same: True
      then obtain c where c: "fetch_into fetch missing t col = Inr c"
          "collect_refs wanted grant fetch missing ts c = Inr col'"
        using Cons.prems(1) True by (auto simp: bind_result_Inr_iff)
      then show ?thesis using rest[OF c(2)] fetch_into_step[OF c(1) Cons.prems(2)] same by blast
    next
      case cross: False
      then obtain c1 where c1: "(case snd col (permit t) of Some _ \<Rightarrow> Inr col
            | None \<Rightarrow> bind_result (grant t) (\<lambda>ok. Inr (fst col, (snd col)(permit t \<mapsto> ok)))) = Inr c1"
          and c2: "(if snd c1 (permit t) \<noteq> Some True then collect_refs wanted grant fetch missing ts c1
            else bind_result (fetch_into fetch missing t c1) (collect_refs wanted grant fetch missing ts)) = Inr col'"
        using Cons.prems(1) True by (auto simp: bind_result_Inr_iff)
      note p = permit_step[OF c1 Cons.prems(2)]
      show ?thesis
      proof (cases "snd c1 (permit t) = Some True")
        case True
        then obtain c where c: "fetch_into fetch missing t c1 = Inr c"
            "collect_refs wanted grant fetch missing ts c = Inr col'"
          using c2 by (auto simp: bind_result_Inr_iff)
        then show ?thesis
          using rest[OF c(2)] fetch_into_step[OF c(1)] p True extends_trans by blast
      next
        case False
        then have "handled c1 t" using p cross by (auto simp: handled_def)
        then show ?thesis using rest[of c1] c2 False p by simp
      qed
    qed
  qed
qed simp

lemma sound_empty: "sound (Map.empty, Map.empty)"
  by (simp add: sound_def)

lemmas collected_sound = collect_refs_spec[OF _ sound_empty, THEN conjunct1]
lemmas collected_handled = collect_refs_spec[OF _ sound_empty, THEN conjunct2, THEN conjunct2]

end

interpretation svc: collector isService "service_grant k" "get_service k" "Some []" for k
  by unfold_locales (simp add: service_grant_def permit_def)

interpretation xbc: collector isXBackend "xbackend_grant k" "get_xbackend k" None for k
  by unfold_locales (simp add: xbackend_grant_def permit_def)

section \<open>Verdicts\<close>

lemma collectServiceBackends_refs:
  "collectServiceBackends k targets = Inr col \<Longrightarrow>
     collect_refs isService (service_grant k) (get_service k) (Some []) targets (Map.empty, Map.empty) =
       Inr (ports col, sb_permitted col)"
  by (auto simp: collectServiceBackends_def bind_result_Inr_iff)

lemma collectReferencedXBackends_refs:
  "collectReferencedXBackends k targets = Inr col \<Longrightarrow>
     collect_refs isXBackend (xbackend_grant k) (get_xbackend k) None targets (Map.empty, Map.empty) =
       Inr (fetched col, xb_permitted col)"
  by (auto simp: collectReferencedXBackends_def bind_result_Inr_iff)

text \<open>A reference stays in its namespace or is granted.\<close>

definition authorised :: "(backendTarget \<Rightarrow> bool result) \<Rightarrow> backendTarget \<Rightarrow> bool" where
  "authorised grant t \<longleftrightarrow> bt_routeNS t = bt_ns t \<or> grant t = Inr True"

lemma service_ok:
  assumes "collectServiceBackends k targets = Inr col"
    and "resolveServiceRef t (Some col) = reasonResolvedOK"
  shows "authorised (service_grant k) t \<and>
    (\<exists>ps. get_service k (bt_ns t) (bt_name t) = Inr ps \<and> has_tcp_port ps (bt_port t))"
proof -
  note col = collectServiceBackends_refs[OF assms(1)]
  have perm: "bt_routeNS t = bt_ns t \<or> sb_permitted col (permit t) = Some True"
    and port: "has_tcp_port (deref_or [] (ports col (bt_ns t, bt_name t))) (bt_port t)"
    using assms(2) by (auto simp: resolveServiceRef_def reason_defs split: if_splits)
  have "authorised (service_grant k) t"
    using svc.collected_sound[OF col] perm by (auto simp: svc.sound_def authorised_def)
  moreover obtain ps where ps: "ports col (bt_ns t, bt_name t) = Some ps"
    using port by (cases "ports col (bt_ns t, bt_name t)") (auto simp: has_tcp_port_def)
  moreover have "svc.found k (bt_ns t) (bt_name t) ps"
    using svc.collected_sound[OF col] ps by (simp add: svc.sound_def)
  then have "get_service k (bt_ns t) (bt_name t) = Inr ps"
    using ps port by (auto simp: svc.found_def has_tcp_port_def)
  ultimately show ?thesis using port ps by auto
qed

definition service_verdict :: "kube \<Rightarrow> backendTarget \<Rightarrow> string" where
  "service_verdict k t =
     (if bt_routeNS t \<noteq> bt_ns t \<and> service_grant k t \<noteq> Inr True then reasonRefNotPermitted
      else case get_service k (bt_ns t) (bt_name t) of
          Inr ps \<Rightarrow> if has_tcp_port ps (bt_port t) then reasonResolvedOK else reasonBackendNotFound
        | Inl _ \<Rightarrow> reasonBackendNotFound)"

text \<open>
  C30. The verdict on a Service reference is exact. If collectServiceBackends returns without
  error, then for every Service target of the list, resolveServiceRef reports
  RefNotPermitted exactly when the reference leaves its namespace without a grant, success
  exactly when it is allowed and the Service exists with that TCP port, BackendNotFound otherwise.
\<close>

theorem resolveServiceRef_exact:
  assumes "collectServiceBackends k targets = Inr col" and "t \<in> set targets" and "isService t"
  shows "resolveServiceRef t (Some col) = service_verdict k t"
proof -
  note col = collectServiceBackends_refs[OF assms(1)]
  have h: "svc.handled k (ports col, sb_permitted col) t"
    using svc.collected_handled[OF col] assms(2,3) by (simp add: list_all_iff)
  note s = svc.collected_sound[OF col]
  show ?thesis
  proof (cases "bt_routeNS t \<noteq> bt_ns t \<and> sb_permitted col (permit t) \<noteq> Some True")
    case True
    then have "service_grant k t = Inr False" using h s by (auto simp: svc.handled_def svc.sound_def)
    then show ?thesis using True by (simp add: resolveServiceRef_def service_verdict_def)
  next
    case False
    then have grant: "\<not> (bt_routeNS t \<noteq> bt_ns t \<and> service_grant k t \<noteq> Inr True)"
      using s by (auto simp: svc.sound_def)
    obtain ps where ps: "ports col (bt_ns t, bt_name t) = Some ps"
      using h False by (auto simp: svc.handled_def)
    then have "svc.found k (bt_ns t) (bt_name t) ps" using s by (simp add: svc.sound_def)
    then show ?thesis
      using False grant ps
      by (auto simp: svc.found_def resolveServiceRef_def service_verdict_def has_tcp_port_def)
  qed
qed

text \<open>A cluster with one Service in namespace shop, granted to HTTPRoutes of namespace apps.\<close>

definition sample_kube :: kube where
  "sample_kube =
     \<lparr>list_grants = (\<lambda>ns. Inr (if ns = ''shop''
        then [\<lparr>grant_From = [\<lparr>gf_Group = ''gateway.networking.k8s.io'', gf_Kind = ''HTTPRoute'', gf_Namespace = ''apps''\<rparr>],
               grant_To = [\<lparr>gt_Group = '''', gt_Kind = ''Service'', gt_Name = None\<rparr>]\<rparr>] else [])),
      get_service = (\<lambda>ns name. if ns = ''shop'' \<and> name = ''cart''
        then Inr [\<lparr>sp_Port = 80, sp_Protocol = ''TCP''\<rparr>] else Inl NotFound),
      get_xbackend = (\<lambda>_ _. Inl NotFound)\<rparr>"

definition sample_backend_target :: "string \<Rightarrow> backendTarget" where
  "sample_backend_target kind = \<lparr>bt_routeNS = ''apps'', bt_routeKind = kind, bt_group = '''', bt_kind = ''Service'',
     bt_ns = ''shop'', bt_name = ''cart'', bt_port = 80\<rparr>"

lemmas sample_kube_simps = sample_kube_def sample_backend_target_def service_grant_def
  CheckReferenceGrant_def CheckReferenceGrantTo_def groupMatches_def serviceKind_def isService_def
  collectServiceBackends_def fetch_into_def permit_def

theorem resolveServiceRef_exact_witness:
  "map_sum id (\<lambda>col. map (\<lambda>t. resolveServiceRef t (Some col))
       [sample_backend_target ''HTTPRoute'', sample_backend_target ''GRPCRoute''])
     (collectServiceBackends sample_kube [sample_backend_target ''HTTPRoute'', sample_backend_target ''GRPCRoute'']) =
   Inr [reasonResolvedOK, reasonRefNotPermitted]"
proof -
  let ?ts = "[sample_backend_target ''HTTPRoute'', sample_backend_target ''GRPCRoute'']"
  obtain col where col: "collectServiceBackends sample_kube ?ts = Inr col"
    by (simp add: sample_kube_simps)
  have svc: "isService t" if "t \<in> set ?ts" for t
    using that by (auto simp: sample_kube_simps)
  have "resolveServiceRef t (Some col) = service_verdict sample_kube t" if "t \<in> set ?ts" for t
    by (rule resolveServiceRef_exact[OF col that svc[OF that]])
  then show ?thesis
    unfolding col by (simp add: service_verdict_def) (simp add: sample_kube_simps has_tcp_port_def)
qed

section \<open>External backends\<close>

lemma translate_tls_cases:
  "translate_tls tls origin = Inl reason \<Longrightarrow>
     reason \<in> {reasonUnsupportedProtocol, reasonUnsupportedTLSValidation, reasonUnsupportedCACerts}"
  by (auto simp: translate_tls_def Let_def split: option.splits if_splits)

text \<open>What a served XBackend guarantees, as a predicate on its spec, the route kind and the result.\<close>

definition tls_verified :: "XBackend \<Rightarrow> ResolvedBackend \<Rightarrow> bool" where
  "tls_verified xb rb \<longleftrightarrow>
     (case xb_TLS xb of None \<Rightarrow> True
      | Some t \<Rightarrow>
          if Mode t = ''ServerOnly'' then
            (case Validation t of None \<Rightarrow> False
             | Some v \<Rightarrow> CACertificateRefs v = [] \<and> SubjectAltNames v = [] \<and>
                 WellKnownCACertificates v \<in> {None, Some ''System''} \<and>
                 (case rb_Origin rb of None \<Rightarrow> False
                  | Some o' \<Rightarrow> MatchSNIToHost o' = Some False \<and> NoTLSVerify o' = None \<and>
                      OriginServerName o' = (if v_Hostname v = '''' then None else Some (v_Hostname v))))
          else Mode t \<noteq> ''ClientAndServer'')"

definition served_scheme :: "XBackend \<Rightarrow> string \<Rightarrow> string" where
  "served_scheme xb routeKind =
     (if deref_or (if routeKind = ''TCPRoute'' then ''TCP'' else ''HTTP'') (xb_Protocol xb) = ''TCP'' then ''tcp''
      else if uses_tls xb then ''https'' else ''http'')"

lemma translate_parts:
  "(case translateXBackend xb routeKind of (rb, reason) \<Rightarrow>
     if reason = reasonResolvedOK
     then xb_Type xb = ''ExternalHostname'' \<and> 1 \<le> PortNumber xb \<and> PortNumber xb \<le> 65535 \<and>
       (\<exists>host. ExternalHostname xb = Some host \<and>
          rb_Service rb = served_scheme xb routeKind @ ''://'' @ host @ '':'' @ itoa (PortNumber xb)) \<and>
       (uses_tls xb \<longleftrightarrow> served_scheme xb routeKind = ''https'') \<and>
       tls_verified xb rb \<and> \<not> incompatible routeKind (served_scheme xb routeKind)
     else rb = no_backend)"
proof -
  have tls: "tls_verified xb \<lparr>rb_Service = s, rb_Origin = if originRequestEmpty o2 then None else Some o2\<rparr>"
    if t: "translate_tls (xb_TLS xb) o1 = Inr o2" and o1: "NoTLSVerify o1 = None" "OriginServerName o1 = None"
    for o1 o2 s
  proof (cases "xb_TLS xb")
    case (Some tls)
    show ?thesis
    proof (cases "Mode tls = ''ServerOnly''")
      case True
      then obtain v where v: "Validation tls = Some v" "CACertificateRefs v = []" "SubjectAltNames v = []"
          "WellKnownCACertificates v = None \<or> WellKnownCACertificates v = Some ''System''"
          "o2 = (if v_Hostname v \<noteq> '''' then o1\<lparr>MatchSNIToHost := Some False, OriginServerName := Some (v_Hostname v)\<rparr>
                 else o1\<lparr>MatchSNIToHost := Some False\<rparr>)"
        using t Some by (auto simp: translate_tls_def Let_def split: option.splits if_splits)
      then have "\<not> originRequestEmpty o2" by (auto simp: originRequestEmpty_def)
      then show ?thesis using Some True v o1 by (auto simp: tls_verified_def)
    next
      case False
      then show ?thesis using t Some by (auto simp: tls_verified_def translate_tls_def split: if_splits)
    qed
  qed (simp add: tls_verified_def)
  have refuse: "reasonUnsupportedProtocol \<noteq> reasonResolvedOK" "reasonInvalidBackendPort \<noteq> reasonResolvedOK"
      "reasonIncompatibleRouteKind \<noteq> reasonResolvedOK" "reasonUnsupportedTLSValidation \<noteq> reasonResolvedOK"
      "reasonUnsupportedCACerts \<noteq> reasonResolvedOK"
    by (simp_all add: reason_defs)
  define proto where "proto = deref_or (if routeKind = ''TCPRoute'' then ''TCP'' else ''HTTP'') (xb_Protocol xb)"
  define o1 where "o1 = (if proto = ''HTTP2'' \<or> proto = ''GRPC'' then zero_origin\<lparr>HTTP2Origin := Some True\<rparr> else zero_origin)"
  have o1: "NoTLSVerify o1 = None" "OriginServerName o1 = None" by (simp_all add: o1_def zero_origin_def)
  have scheme: "served_scheme xb routeKind = (if proto = ''TCP'' then ''tcp'' else if uses_tls xb then ''https'' else ''http'')"
    by (simp add: served_scheme_def proto_def)
  show ?thesis
    unfolding translateXBackend_def proto_def[symmetric] o1_def[symmetric] Let_def scheme[symmetric]
    using tls[OF _ o1] refuse translate_tls_cases[of "xb_TLS xb" o1]
    by (cases "translate_tls (xb_TLS xb) o1"; cases "ExternalHostname xb")
      (auto simp: scheme)
qed

text \<open>
  C32. An XBackend is served as specified or refused. A refusal carries a reason and no
  service. A success has the external hostname and a port from 1 to 65535 in its URL; TLS is used
  exactly when the spec asks for it, never dropped for a TCP stream; a ServerOnly backend is
  verified against the system CAs under its validation hostname, with the request's SNI disabled and
  verification on; a client certificate is never silently omitted; and the scheme suits the route kind.
\<close>

theorem translateXBackend_contract:
  "(case translateXBackend xb routeKind of (rb, reason) \<Rightarrow>
     if reason = reasonResolvedOK
     then xb_Type xb = ''ExternalHostname'' \<and> 1 \<le> PortNumber xb \<and> PortNumber xb \<le> 65535 \<and>
       (\<exists>host. ExternalHostname xb = Some host \<and>
          rb_Service rb = served_scheme xb routeKind @ ''://'' @ host @ '':'' @ itoa (PortNumber xb)) \<and>
       (uses_tls xb \<longleftrightarrow> served_scheme xb routeKind = ''https'') \<and>
       tls_verified xb rb \<and> \<not> incompatible routeKind (served_scheme xb routeKind)
     else rb = no_backend)"
  by (rule translate_parts)

lemma translateXBackend_OK:
  "snd (translateXBackend xb kind) = reasonResolvedOK \<longleftrightarrow> rb_Service (fst (translateXBackend xb kind)) \<noteq> []"
proof -
  obtain rb reason where t: "translateXBackend xb kind = (rb, reason)" by fastforce
  show ?thesis
    using translate_parts[of xb kind] unfolding t
    by (cases "reason = reasonResolvedOK") (auto simp: no_backend_def)
qed

section \<open>The resolver fails closed\<close>

definition native_ref :: "svcBackends option \<Rightarrow> BackendRef \<Rightarrow> bool" where
  "native_ref svcCol ref \<longleftrightarrow>
     isService (target_of_ref ref) \<and> resolveServiceRef (target_of_ref ref) svcCol = reasonResolvedOK"

definition external_ref :: "bool \<Rightarrow> xbBackends option \<Rightarrow> BackendRef \<Rightarrow> ResolvedBackend \<Rightarrow> bool" where
  "external_ref experimental xbCol ref rb \<longleftrightarrow>
     isXBackend (target_of_ref ref) \<and>
     resolveXBackendRef experimental (target_of_ref ref) xbCol = (rb, reasonResolvedOK)"

lemma resolveXBackendRef_OK:
  "snd (resolveXBackendRef experimental t col) = reasonResolvedOK \<longleftrightarrow>
     rb_Service (fst (resolveXBackendRef experimental t col)) \<noteq> []"
proof -
  have refusals: "reasonXBackendDisabled \<noteq> reasonResolvedOK" "reasonRefNotPermitted \<noteq> reasonResolvedOK"
      "reasonInvalidBackendPort \<noteq> reasonResolvedOK" "reasonBackendNotFound \<noteq> reasonResolvedOK"
      "rb_Service no_backend = []"
    by (simp_all add: reason_defs no_backend_def)
  show ?thesis
    by (simp add: resolveXBackendRef_def Let_def translateXBackend_OK refusals split: option.splits)
qed

interpretation built: fail_closed "backendResolver experimental xbCol svcCol" "native_ref svcCol"
    "external_ref experimental xbCol" for experimental xbCol svcCol
proof unfold_locales
  show "native_ref svcCol ref" if "backendResolver experimental xbCol svcCol ref = None" for ref
    using that by (auto simp: backendResolver_def native_ref_def Let_def split: if_splits)
  show "external_ref experimental xbCol ref rb"
    if "backendResolver experimental xbCol svcCol ref = Some rb" "rb_Service rb \<noteq> ''''" for ref rb
  proof -
    have x: "isXBackend (target_of_ref ref)" "rb = fst (resolveXBackendRef experimental (target_of_ref ref) xbCol)"
      using that by (auto simp: backendResolver_def no_backend_def Let_def split: if_splits)
    then have "snd (resolveXBackendRef experimental (target_of_ref ref) xbCol) = reasonResolvedOK"
      using that(2) by (simp add: resolveXBackendRef_OK)
    then show ?thesis using x by (simp add: external_ref_def prod_eq_iff)
  qed
qed

text \<open>What the two kinds of service rest on in the cluster.\<close>

definition serves_service :: "kube \<Rightarrow> BackendRef \<Rightarrow> bool" where
  "serves_service k ref \<longleftrightarrow>
     (let t = target_of_ref ref in isService t \<and> authorised (service_grant k) t \<and>
       (case get_service k (bt_ns t) (bt_name t) of Inl _ \<Rightarrow> False | Inr ps \<Rightarrow> has_tcp_port ps (bt_port t)))"

definition serves_xbackend :: "kube \<Rightarrow> BackendRef \<Rightarrow> ResolvedBackend \<Rightarrow> bool" where
  "serves_xbackend k ref rb \<longleftrightarrow>
     (let t = target_of_ref ref in isXBackend t \<and> bt_port t = 0 \<and> authorised (xbackend_grant k) t \<and>
       (case get_xbackend k (bt_ns t) (bt_name t) of Inl _ \<Rightarrow> False
        | Inr xb \<Rightarrow> translateXBackend xb (bt_routeKind t) = (rb, reasonResolvedOK)))"

lemma native_ref_serves:
  "collectServiceBackends k targets = Inr col \<Longrightarrow> native_ref (Some col) ref \<Longrightarrow> serves_service k ref"
  using service_ok[of k targets col "target_of_ref ref"]
  by (auto simp: native_ref_def serves_service_def Let_def)

lemma external_ref_serves:
  assumes "collectReferencedXBackends k targets = Inr col" and "external_ref experimental (Some col) ref rb"
  shows "experimental \<and> serves_xbackend k ref rb"
proof -
  note s = xbc.collected_sound[OF collectReferencedXBackends_refs[OF assms(1)]]
  let ?t = "target_of_ref ref"
  have r: "resolveXBackendRef experimental ?t (Some col) = (rb, reasonResolvedOK)" and x: "isXBackend ?t"
    using assms(2) by (auto simp: external_ref_def)
  have parts: "experimental" "bt_routeNS ?t = bt_ns ?t \<or> xb_permitted col (permit ?t) = Some True" "bt_port ?t = 0"
      "\<exists>xb. fetched col (bt_ns ?t, bt_name ?t) = Some xb \<and> translateXBackend xb (bt_routeKind ?t) = (rb, reasonResolvedOK)"
    using r by (auto simp: resolveXBackendRef_def Let_def reason_defs split: if_splits option.splits)
  then obtain xb where xb: "fetched col (bt_ns ?t, bt_name ?t) = Some xb"
      "translateXBackend xb (bt_routeKind ?t) = (rb, reasonResolvedOK)" by blast
  then have "xbc.found k (bt_ns ?t) (bt_name ?t) xb" using s by (simp add: xbc.sound_def)
  then have "get_xbackend k (bt_ns ?t) (bt_name ?t) = Inr xb" by (simp add: xbc.found_def)
  moreover have "authorised (xbackend_grant k) ?t"
    using parts(2) s by (auto simp: xbc.sound_def authorised_def)
  ultimately show ?thesis using parts x xb by (simp add: serves_xbackend_def Let_def)
qed

text \<open>
  C11. The resolver fails closed. With the collections that the reconciler builds, whatever
  reference it is asked about, collected or not: if it leaves the reference to the native
  path, the reference is to a core Service that exists with that TCP port, in the route's
  namespace or granted; otherwise it claims it, either with no service at all, or with the
  translation of an XBackend that exists, is allowed, and is referenced without a port, and only
  when experimental backends are on.
\<close>

theorem backendResolver_fails_closed:
  assumes "collectServiceBackends k targets = Inr svcCol" and "collectReferencedXBackends k targets = Inr xbCol"
  shows "(case backendResolver experimental (Some xbCol) (Some svcCol) ref of
      None \<Rightarrow> serves_service k ref
    | Some rb \<Rightarrow> rb_Service rb = '''' \<or> (experimental \<and> serves_xbackend k ref rb))"
proof (cases "backendResolver experimental (Some xbCol) (Some svcCol) ref")
  case None
  then show ?thesis using native_ref_serves[OF assms(1) built.native_only[OF None]] by simp
next
  case (Some rb)
  then show ?thesis
    using external_ref_serves[OF assms(2) built.external_only[OF Some]] by auto
qed

definition sample_backend_ref :: "string \<Rightarrow> BackendRef" where
  "sample_backend_ref kind = \<lparr>RouteNamespace = ''apps'', RouteKind = kind, ref_Group = '''',
     ref_Kind = ''Service'', ref_Namespace = ''shop'', ref_Name = ''cart'', ref_Port = Some 80\<rparr>"

theorem backendResolver_fails_closed_witness:
  "(\<exists>svcCol xbCol. collectServiceBackends sample_kube [sample_backend_target ''HTTPRoute''] = Inr svcCol \<and>
     collectReferencedXBackends sample_kube [sample_backend_target ''HTTPRoute''] = Inr xbCol \<and>
     backendResolver True (Some xbCol) (Some svcCol) (sample_backend_ref ''HTTPRoute'') = None) \<and>
   serves_service sample_kube (sample_backend_ref ''HTTPRoute'')"
proof -
  obtain svcCol where s: "collectServiceBackends sample_kube [sample_backend_target ''HTTPRoute''] = Inr svcCol"
    by (simp add: sample_kube_simps)
  obtain xbCol where x: "collectReferencedXBackends sample_kube [sample_backend_target ''HTTPRoute''] = Inr xbCol"
    by (simp add: collectReferencedXBackends_def sample_backend_target_def isXBackend_def xBackendGroup_def)
  have "backendResolver True (Some xbCol) (Some svcCol) (sample_backend_ref ''HTTPRoute'') = None"
    using s by (auto simp: sample_kube_simps backendResolver_def sample_backend_ref_def target_of_ref_def
        isXBackend_def xBackendGroup_def resolveServiceRef_def has_tcp_port_def)
  with backendResolver_fails_closed[OF s x, where experimental = True and ref = "sample_backend_ref ''HTTPRoute''"] s x show ?thesis
    by auto
qed

section \<open>Status tells what is served\<close>

lemma reasonSeverity_zero:
  "reason \<in> {reasonResolvedOK, reasonXBackendDisabled, reasonUnsupportedKind, reasonBackendNotFound,
      reasonRefNotPermitted, reasonIncompatibleRouteKind, reasonUnsupportedProtocol, reasonUnsupportedCACerts,
      reasonUnsupportedTLSValidation, reasonInvalidBackendPort} \<Longrightarrow>
     reasonSeverity reason = 0 \<longleftrightarrow> reason = reasonResolvedOK"
  by (auto simp: reasonSeverity_def reason_defs)

lemma translateXBackend_reasons:
  "snd (translateXBackend xb kind) \<in> {reasonResolvedOK, reasonUnsupportedProtocol, reasonInvalidBackendPort,
     reasonIncompatibleRouteKind, reasonUnsupportedTLSValidation, reasonUnsupportedCACerts}"
  using translate_tls_cases[of "xb_TLS xb"]
  by (simp add: translateXBackend_def Let_def split: sum.splits) blast

lemma resolveTargetReason_known:
  "reasonSeverity (resolveTargetReason experimental t xbCol svcCol) = 0 \<longleftrightarrow>
     resolveTargetReason experimental t xbCol svcCol = reasonResolvedOK"
proof (rule reasonSeverity_zero)
  have "snd (resolveXBackendRef experimental t xbCol) \<in> {reasonResolvedOK, reasonXBackendDisabled,
      reasonRefNotPermitted, reasonInvalidBackendPort, reasonBackendNotFound, reasonUnsupportedProtocol,
      reasonIncompatibleRouteKind, reasonUnsupportedTLSValidation, reasonUnsupportedCACerts}"
    using translateXBackend_reasons[of _ "bt_routeKind t"]
    by (auto simp: resolveXBackendRef_def Let_def split: option.splits)
  then show "resolveTargetReason experimental t xbCol svcCol \<in> {reasonResolvedOK, reasonXBackendDisabled,
      reasonUnsupportedKind, reasonBackendNotFound, reasonRefNotPermitted, reasonIncompatibleRouteKind,
      reasonUnsupportedProtocol, reasonUnsupportedCACerts, reasonUnsupportedTLSValidation, reasonInvalidBackendPort}"
    by (auto simp: resolveTargetReason_def resolveServiceRef_def split: option.splits)
qed

text \<open>The reference the rule builders hand to the resolver is the target the status looks at.\<close>

definition built_ref :: "string \<Rightarrow> string \<Rightarrow> BackendObjectReference \<Rightarrow> BackendRef" where
  "built_ref routeNS routeKind r = resolver_ref (identFromBackendObjectRef r routeNS) routeNS routeKind"

definition serves_ref :: "BackendResolver \<Rightarrow> BackendRef \<Rightarrow> bool" where
  "serves_ref resolve ref \<longleftrightarrow> (case resolve ref of None \<Rightarrow> True | Some rb \<Rightarrow> rb_Service rb \<noteq> '''')"

lemma targets_are_built_refs:
  "targetsFromObjRefs routeNS routeKind objRefs = map (target_of_ref \<circ> built_ref routeNS routeKind) objRefs"
  by (simp add: targetsFromObjRefs_def built_ref_def resolver_ref_def identFromBackendObjectRef_def
      target_of_ref_def backendRefGroupKind_def serviceKind_def)

lemma serves_ref_iff:
  "serves_ref (backendResolver experimental xbCol svcCol) ref \<longleftrightarrow>
     resolveTargetReason experimental (target_of_ref ref) xbCol svcCol = reasonResolvedOK"
proof -
  have "reasonUnsupportedKind \<noteq> reasonResolvedOK" "rb_Service no_backend = []"
    by (simp_all add: reason_defs no_backend_def)
  then show ?thesis
    by (simp add: serves_ref_def backendResolver_def resolveTargetReason_def Let_def resolveXBackendRef_OK)
qed

text \<open>The fold keeps a reason of greatest severity; only the reason of success has severity zero.\<close>

lemma fold_worse:
  fixes reason_of :: "'t \<Rightarrow> string"
  defines "res \<equiv> fold (\<lambda>t worst. worse (reason_of t) worst)"
  shows "res ts worst \<in> insert worst (reason_of ` set ts) \<and>
     (\<forall>r \<in> insert worst (reason_of ` set ts). reasonSeverity r \<le> reasonSeverity (res ts worst))"
proof (induction ts arbitrary: worst)
  case Nil
  then show ?case by (simp add: res_def)
next
  case (Cons t ts)
  have "res (t # ts) worst = res ts (worse (reason_of t) worst)" by (simp add: res_def)
  then show ?case using Cons.IH[of "worse (reason_of t) worst"] by (auto simp: worse_def split: if_splits)
qed

lemma resolvedRefsResultFor_OK: "res_OK (resolvedRefsResultFor reason) \<longleftrightarrow> reason = reasonResolvedOK"
  by (simp add: resolvedRefsResultFor_def unresolved_def)

lemma severity_ok: "reasonSeverity reasonResolvedOK = 0"
  by (simp add: reasonSeverity_def reason_defs)

definition worst_reason ::
  "bool \<Rightarrow> xbBackends option \<Rightarrow> svcBackends option \<Rightarrow> backendTarget list \<Rightarrow> string" where
  "worst_reason experimental xbCol svcCol targets =
     fold (\<lambda>t worst. worse (resolveTargetReason experimental t xbCol svcCol) worst) targets reasonResolvedOK"

lemma worst_reason_props:
  fixes experimental :: bool and xbCol :: "xbBackends option" and svcCol :: "svcBackends option"
  defines "reason \<equiv> \<lambda>t. resolveTargetReason experimental t xbCol svcCol"
  shows "worst_reason experimental xbCol svcCol targets = reasonResolvedOK \<longleftrightarrow> (\<forall>t \<in> set targets. reason t = reasonResolvedOK)"
    and "worst_reason experimental xbCol svcCol targets \<noteq> reasonResolvedOK \<Longrightarrow>
      \<exists>t \<in> set targets. worst_reason experimental xbCol svcCol targets = reason t \<and>
        (\<forall>u \<in> set targets. reasonSeverity (reason u) \<le> reasonSeverity (reason t))"
proof -
  let ?w = "worst_reason experimental xbCol svcCol targets"
  have w: "?w \<in> insert reasonResolvedOK (reason ` set targets)"
    and max: "\<And>t. t \<in> set targets \<Longrightarrow> reasonSeverity (reason t) \<le> reasonSeverity ?w"
    using fold_worse[of reason targets reasonResolvedOK] by (auto simp: worst_reason_def reason_def)
  have known: "reasonSeverity (reason t) = 0 \<longleftrightarrow> reason t = reasonResolvedOK" for t
    unfolding reason_def by (rule resolveTargetReason_known)
  have pos: "0 \<le> reasonSeverity r" for r by (simp add: reasonSeverity_def)
  show "?w = reasonResolvedOK \<longleftrightarrow> (\<forall>t \<in> set targets. reason t = reasonResolvedOK)"
  proof
    assume "?w = reasonResolvedOK"
    then have "reasonSeverity (reason t) \<le> 0" if "t \<in> set targets" for t
      using max[OF that] by (simp add: severity_ok)
    then show "\<forall>t \<in> set targets. reason t = reasonResolvedOK" using known pos by (meson order_antisym)
  next
    assume "\<forall>t \<in> set targets. reason t = reasonResolvedOK"
    then show "?w = reasonResolvedOK" using w by auto
  qed
  assume "?w \<noteq> reasonResolvedOK"
  then obtain t where t: "t \<in> set targets" "?w = reason t" using w by auto
  then have "\<forall>u \<in> set targets. reasonSeverity (reason u) \<le> reasonSeverity (reason t)" using max by simp
  then show "\<exists>t \<in> set targets. ?w = reason t \<and>
      (\<forall>u \<in> set targets. reasonSeverity (reason u) \<le> reasonSeverity (reason t))"
    using t by (intro bexI[of _ t] conjI)
qed

text \<open>
  C31. The status of a route tells what is served. ResolvedRefs of a route is true exactly when the
  resolver refuses none of the references that the rule builders make of its backendRefs. When it is
  false, the reason and message reported are those of one of its references, and no other
  reference of the route has a more severe reason.
\<close>

theorem resolved_refs_tell_serving:
  "(res_OK (routeResolvedRefs experimental routeNS routeKind objRefs xbCol svcCol) \<longleftrightarrow>
     (\<forall>r \<in> set objRefs. serves_ref (backendResolver experimental xbCol svcCol) (built_ref routeNS routeKind r))) \<and>
   (\<not> res_OK (routeResolvedRefs experimental routeNS routeKind objRefs xbCol svcCol) \<longrightarrow>
     (\<exists>t \<in> set (targetsFromObjRefs routeNS routeKind objRefs).
        routeResolvedRefs experimental routeNS routeKind objRefs xbCol svcCol =
          resolvedRefsResultFor (resolveTargetReason experimental t xbCol svcCol) \<and>
        (\<forall>u \<in> set (targetsFromObjRefs routeNS routeKind objRefs).
           reasonSeverity (resolveTargetReason experimental u xbCol svcCol)
             \<le> reasonSeverity (resolveTargetReason experimental t xbCol svcCol))))"
proof -
  let ?ts = "targetsFromObjRefs routeNS routeKind objRefs"
  have res: "routeResolvedRefs experimental routeNS routeKind objRefs xbCol svcCol =
      resolvedRefsResultFor (worst_reason experimental xbCol svcCol ?ts)"
    by (simp add: routeResolvedRefs_def worst_reason_def)
  note w = worst_reason_props[of experimental xbCol svcCol ?ts]
  show ?thesis unfolding res resolvedRefsResultFor_OK
  proof (intro conjI impI)
    show "worst_reason experimental xbCol svcCol ?ts = reasonResolvedOK \<longleftrightarrow>
        (\<forall>r \<in> set objRefs. serves_ref (backendResolver experimental xbCol svcCol) (built_ref routeNS routeKind r))"
      unfolding w(1) serves_ref_iff by (simp add: targets_are_built_refs)
    assume "worst_reason experimental xbCol svcCol ?ts \<noteq> reasonResolvedOK"
    from w(2)[OF this] show "\<exists>t \<in> set ?ts.
        resolvedRefsResultFor (worst_reason experimental xbCol svcCol ?ts) =
          resolvedRefsResultFor (resolveTargetReason experimental t xbCol svcCol) \<and>
        (\<forall>u \<in> set ?ts. reasonSeverity (resolveTargetReason experimental u xbCol svcCol)
             \<le> reasonSeverity (resolveTargetReason experimental t xbCol svcCol))"
      by (auto intro!: bexI)
  qed
qed

text \<open>
  A granted Service and a kind that is not supported, in this order: the second decides the status,
  and the resolver serves the first only.
\<close>

definition sample_objref :: "string option \<Rightarrow> string \<Rightarrow> BackendObjectReference" where
  "sample_objref kind name = \<lparr>bo_Group = None, bo_Kind = kind, bo_Name = name, bo_Namespace = Some ''shop'', bo_Port = Some 80\<rparr>"

theorem resolved_refs_tell_serving_witness:
  "case collectServiceBackends sample_kube [sample_backend_target ''cart''] of Inl e \<Rightarrow> False | Inr col \<Rightarrow>
     \<not> res_OK (routeResolvedRefs False ''apps'' ''HTTPRoute''
        [sample_objref None ''cart'', sample_objref (Some ''Bucket'') ''b''] None (Some col)) \<and>
     \<not> (\<forall>r \<in> set [sample_objref None ''cart'', sample_objref (Some ''Bucket'') ''b''].
          serves_ref (backendResolver False None (Some col)) (built_ref ''apps'' ''HTTPRoute'' r))"
proof (cases "collectServiceBackends sample_kube [sample_backend_target ''cart'']")
  case (Inl e)
  have "case collectServiceBackends sample_kube [sample_backend_target ''cart''] of Inl e \<Rightarrow> False | Inr col \<Rightarrow> True"
    by code_simp
  then show ?thesis using Inl by simp
next
  case (Inr col)
  let ?refs = "[sample_objref None ''cart'', sample_objref (Some ''Bucket'') ''b'']"
  have "isXBackend (target_of_ref (built_ref ''apps'' ''HTTPRoute'' (sample_objref (Some ''Bucket'') ''b''))) = False"
    "isService (target_of_ref (built_ref ''apps'' ''HTTPRoute'' (sample_objref (Some ''Bucket'') ''b''))) = False"
    by code_simp+
  then have "\<not> serves_ref (backendResolver False None (Some col))
      (built_ref ''apps'' ''HTTPRoute'' (sample_objref (Some ''Bucket'') ''b''))"
    by (simp add: serves_ref_def backendResolver_def Let_def no_backend_def)
  then show ?thesis
    using resolved_refs_tell_serving[of False "''apps''" "''HTTPRoute''" ?refs None "Some col"] Inr by auto
qed

end
