(* ===== verification/BackendTLS.thy ===== *)
theory BackendTLS
  imports Backends Policy
begin

text \<open>
  internal/controller/backendtls.go: BackendTLSPolicy on the rules of TLSRoutes. The code indexes
  the hostnames of the routes to their Services and the rules that come from XBackends, then walks
  the rules with a cache of looked-up configurations. The result says what remains of that: each
  rule by itself, without index and without cache.
\<close>

record BackendTLSPolicy =
  btp_TargetRefs :: "LocalPolicyTargetReference list"
  btp_Hostname :: string

section \<open>Looking up a policy\<close>

fun policyTargetsService :: "LocalPolicyTargetReference list \<Rightarrow> string \<Rightarrow> bool" where
  "policyTargetsService [] serviceName = False"
| "policyTargetsService (ref # refs) serviceName =
     (if tr_Group ref \<noteq> '''' \<and> tr_Group ref \<noteq> ''core'' then policyTargetsService refs serviceName
      else if tr_Kind ref \<noteq> ''Service'' then policyTargetsService refs serviceName
      else if tr_Name ref = serviceName then True
      else policyTargetsService refs serviceName)"

definition buildOriginRequestFromPolicy :: "BackendTLSPolicy \<Rightarrow> OriginRequest" where
  "buildOriginRequestFromPolicy policy =
     (if btp_Hostname policy \<noteq> '''' then zero_origin\<lparr>OriginServerName := Some (btp_Hostname policy)\<rparr>
      else zero_origin)"

type_synonym policy_lister = "string \<Rightarrow> BackendTLSPolicy list result"

definition GetBackendTLSConfig :: "policy_lister \<Rightarrow> string \<Rightarrow> string \<Rightarrow> OriginRequest result" where
  "GetBackendTLSConfig list serviceNS serviceName =
     (case list serviceNS of
        Inl e \<Rightarrow> Inl (Wrap (''listing BackendTLSPolicies in '' @ serviceNS) e)
      | Inr policies \<Rightarrow>
          (case find (\<lambda>p. policyTargetsService (btp_TargetRefs p) serviceName) policies of
             Some p \<Rightarrow> Inr (buildOriginRequestFromPolicy p)
           | None \<Rightarrow> Inr (zero_origin\<lparr>NoTLSVerify := Some True\<rparr>)))"

section \<open>Indexing the routes\<close>

type_synonym backendKey = "string \<times> string"
type_synonym ruleKey = "string \<times> string \<times> int"

record tls_index =
  hostnameToBackend :: "string \<rightharpoonup> backendKey"
  externalRules :: "ruleKey set"

definition index_rule :: "TLSRoute \<Rightarrow> int \<times> StreamRouteRule \<Rightarrow> tls_index \<Rightarrow> tls_index" where
  "index_rule route ir ix =
     (let (ri, rule) = ir; routeNS = routeNamespace (rt_Namespace route) in
      case sr_BackendRefs rule of
        [] \<Rightarrow> ix
      | ref # _ \<Rightarrow>
          if isXBackendRef ref
          then ix\<lparr>externalRules := insert (routeNS, rt_Name route, ri) (externalRules ix)\<rparr>
          else let bk = (deref_or routeNS (bo_Namespace ref), bo_Name ref) in
            if Hostnames route = []
            then ix\<lparr>hostnameToBackend := (hostnameToBackend ix)('''' \<mapsto> bk)\<rparr>
            else ix\<lparr>hostnameToBackend := fold (\<lambda>h m. m(h \<mapsto> bk)) (Hostnames route) (hostnameToBackend ix)\<rparr>)"

definition index_route :: "TLSRoute \<Rightarrow> tls_index \<Rightarrow> tls_index" where
  "index_route route = fold (index_rule route) (enum (Rules route))"

definition index_routes :: "TLSRoute list \<Rightarrow> tls_index" where
  "index_routes tlsRoutes = fold index_route tlsRoutes \<lparr>hostnameToBackend = Map.empty, externalRules = {}\<rparr>"

section \<open>Overriding the rules\<close>

definition rule_key :: "BuiltRule \<Rightarrow> ruleKey" where
  "rule_key r = (br_RouteNamespace r, br_RouteName r, br_RuleIndex r)"

fun override_loop ::
  "policy_lister \<Rightarrow> tls_index \<Rightarrow> BuiltRule list \<Rightarrow> (backendKey \<rightharpoonup> OriginRequest) \<Rightarrow> BuiltRule list result" where
  "override_loop list ix [] tlsConfigCache = Inr []"
| "override_loop list ix (r # rs) tlsConfigCache =
     (if rule_key r \<in> externalRules ix
      then bind_result (override_loop list ix rs tlsConfigCache) (\<lambda>rs'. Inr (r # rs'))
      else case hostnameToBackend ix (Hostname (built_rule r)) of
        None \<Rightarrow> bind_result (override_loop list ix rs tlsConfigCache) (\<lambda>rs'. Inr (r # rs'))
      | Some bk \<Rightarrow>
          bind_result (case tlsConfigCache bk of
              Some cfg \<Rightarrow> Inr cfg
            | None \<Rightarrow> GetBackendTLSConfig list (fst bk) (snd bk)) (\<lambda>cfg.
          bind_result (override_loop list ix rs (tlsConfigCache(bk \<mapsto> cfg))) (\<lambda>rs'.
            Inr (set_rule_origin (Some cfg) r # rs'))))"

definition applyBackendTLSPolicies ::
  "policy_lister \<Rightarrow> BuiltRule list \<Rightarrow> TLSRoute list \<Rightarrow> BuiltRule list result" where
  "applyBackendTLSPolicies list rules tlsRoutes =
     (if length tlsRoutes = 0 then Inr rules
      else override_loop list (index_routes tlsRoutes) rules Map.empty)"

section \<open>What the index holds\<close>

text \<open>The rules of the routes in order, each with its route and index.\<close>

definition tls_rules :: "TLSRoute list \<Rightarrow> (TLSRoute \<times> int \<times> StreamRouteRule) list" where
  "tls_rules routes = concat (map (\<lambda>route. map (Pair route) (enum (Rules route))) routes)"

lemma index_routes_flat:
  "index_routes routes =
     fold (\<lambda>(route, ir). index_rule route ir) (tls_rules routes) \<lparr>hostnameToBackend = Map.empty, externalRules = {}\<rparr>"
proof -
  have "fold index_route routes ix = fold (\<lambda>(route, ir). index_rule route ir) (tls_rules routes) ix" for ix
    by (induction routes arbitrary: ix) (simp_all add: tls_rules_def index_route_def fold_map o_def)
  then show ?thesis by (simp add: index_routes_def)
qed

text \<open>The first backendRef of a rule that comes from an XBackend, or the Service it names.\<close>

definition rule_external :: "StreamRouteRule \<Rightarrow> bool" where
  "rule_external rule = (case sr_BackendRefs rule of [] \<Rightarrow> False | ref # _ \<Rightarrow> isXBackendRef ref)"

definition rule_service :: "TLSRoute \<Rightarrow> StreamRouteRule \<Rightarrow> backendKey option" where
  "rule_service route rule =
     (case sr_BackendRefs rule of [] \<Rightarrow> None
      | ref # _ \<Rightarrow> if isXBackendRef ref then None
                   else Some (deref_or (routeNamespace (rt_Namespace route)) (bo_Namespace ref), bo_Name ref))"

definition route_hosts :: "TLSRoute \<Rightarrow> string list" where
  "route_hosts route = (if Hostnames route = [] then [''''] else Hostnames route)"

text \<open>The Service a hostname stands for: that of the last rule, in route order, which serves it.\<close>

fun last_service :: "(TLSRoute \<times> int \<times> StreamRouteRule) list \<Rightarrow> string \<Rightarrow> backendKey option" where
  "last_service [] host = None"
| "last_service ((route, ri, rule) # rest) host =
     or_else (last_service rest host) (if host \<in> set (route_hosts route) then rule_service route rule else None)"

lemma fold_put_same: "fold (\<lambda>h m. m(h \<mapsto> bk)) hs m k = (if k \<in> set hs then Some bk else m k)"
  by (induction hs arbitrary: m) auto

lemma index_rule_hosts:
  "hostnameToBackend (index_rule route (ri, rule) ix) host =
     or_else (if host \<in> set (route_hosts route) then rule_service route rule else None) (hostnameToBackend ix host)"
  by (auto simp: index_rule_def Let_def rule_service_def route_hosts_def fold_put_same split: list.splits)

lemma index_rule_external:
  "externalRules (index_rule route (ri, rule) ix) =
     (if rule_external rule then insert (routeNamespace (rt_Namespace route), rt_Name route, ri) (externalRules ix)
      else externalRules ix)"
  by (auto simp: index_rule_def Let_def rule_external_def split: list.splits)

lemma fold_index_hosts:
  "hostnameToBackend (fold (\<lambda>(route, ir). index_rule route ir) es ix) host =
     or_else (last_service es host) (hostnameToBackend ix host)"
proof (induction es arbitrary: ix)
  case Nil
  then show ?case by simp
next
  case (Cons e es)
  obtain route ri rule where "e = (route, ri, rule)" by (cases e)
  then show ?case by (simp add: Cons.IH index_rule_hosts or_else_assoc)
qed

lemma fold_index_external:
  "externalRules (fold (\<lambda>(route, ir). index_rule route ir) es ix) =
     externalRules ix \<union> {(routeNamespace (rt_Namespace route), rt_Name route, ri) |route ri rule.
       (route, ri, rule) \<in> set es \<and> rule_external rule}"
proof (induction es arbitrary: ix)
  case Nil
  then show ?case by simp
next
  case (Cons e es)
  obtain route ri rule where "e = (route, ri, rule)" by (cases e)
  then show ?case by (auto simp: Cons.IH index_rule_external)
qed

section \<open>Each rule by itself\<close>

definition external_keys :: "TLSRoute list \<Rightarrow> ruleKey list" where
  "external_keys routes =
     map (\<lambda>(route, ri, rule). (routeNamespace (rt_Namespace route), rt_Name route, ri))
       (filter (\<lambda>(route, ri, rule). rule_external rule) (tls_rules routes))"

definition tls_backend :: "TLSRoute list \<Rightarrow> BuiltRule \<Rightarrow> backendKey option" where
  "tls_backend routes r =
     (if rule_key r \<in> set (external_keys routes) then None
      else last_service (tls_rules routes) (Hostname (built_rule r)))"

lemma index_routes_external: "externalRules (index_routes routes) = set (external_keys routes)"
  unfolding index_routes_flat fold_index_external by (force simp: external_keys_def)

lemma index_routes_hosts: "hostnameToBackend (index_routes routes) host = last_service (tls_rules routes) host"
  unfolding index_routes_flat fold_index_hosts by simp

definition overridden_as :: "policy_lister \<Rightarrow> TLSRoute list \<Rightarrow> BuiltRule \<Rightarrow> BuiltRule \<Rightarrow> bool" where
  "overridden_as list routes r r' \<longleftrightarrow>
     (case tls_backend routes r of
        None \<Rightarrow> r' = r
      | Some bk \<Rightarrow> \<exists>cfg. GetBackendTLSConfig list (fst bk) (snd bk) = Inr cfg \<and> r' = set_rule_origin (Some cfg) r)"

definition tls_cache_ok :: "policy_lister \<Rightarrow> (backendKey \<rightharpoonup> OriginRequest) \<Rightarrow> bool" where
  "tls_cache_ok list cache \<longleftrightarrow>
     (\<forall>bk cfg. cache bk = Some cfg \<longrightarrow> GetBackendTLSConfig list (fst bk) (snd bk) = Inr cfg)"

lemma tls_cache_okD: "tls_cache_ok list cache \<Longrightarrow> cache bk = Some cfg \<Longrightarrow> GetBackendTLSConfig list (fst bk) (snd bk) = Inr cfg"
  unfolding tls_cache_ok_def by blast

lemma tls_cache_ok_upd:
  "tls_cache_ok list cache \<Longrightarrow> GetBackendTLSConfig list (fst bk) (snd bk) = Inr cfg \<Longrightarrow> tls_cache_ok list (cache(bk \<mapsto> cfg))"
  unfolding tls_cache_ok_def by auto

lemma override_loop_exact:
  "override_loop list (index_routes routes) rules cache = Inr rules' \<Longrightarrow> tls_cache_ok list cache \<Longrightarrow>
     list_all2 (overridden_as list routes) rules rules'"
proof (induction rules arbitrary: cache rules')
  case Nil
  then show ?case by simp
next
  case (Cons r rs)
  show ?case
  proof (cases "tls_backend routes r")
    case None
    then have step: "override_loop list (index_routes routes) (r # rs) cache =
        bind_result (override_loop list (index_routes routes) rs cache) (\<lambda>rs'. Inr (r # rs'))"
      by (simp add: tls_backend_def index_routes_external index_routes_hosts split: if_splits)
    obtain rs' where l: "override_loop list (index_routes routes) rs cache = Inr rs'"
        and "rules' = r # rs'"
      using trans[OF step[symmetric] Cons.prems(1)] by (auto simp: bind_result_Inr_iff)
    with Cons.IH[OF l Cons.prems(2)] None show ?thesis by (simp add: overridden_as_def)
  next
    case (Some bk)
    then have s: "rule_key r \<notin> set (external_keys routes)"
        "last_service (tls_rules routes) (Hostname (built_rule r)) = Some bk"
      by (auto simp: tls_backend_def split: if_splits)
    with Cons.prems(1) obtain cfg rs' where
        c: "(case cache bk of Some cfg \<Rightarrow> Inr cfg | None \<Rightarrow> GetBackendTLSConfig list (fst bk) (snd bk)) = Inr cfg"
        and l: "override_loop list (index_routes routes) rs (cache(bk \<mapsto> cfg)) = Inr rs'"
        and e: "rules' = set_rule_origin (Some cfg) r # rs'"
      by (auto simp: index_routes_external index_routes_hosts bind_result_Inr_iff)
    have g: "GetBackendTLSConfig list (fst bk) (snd bk) = Inr cfg"
      using c tls_cache_okD[OF Cons.prems(2)] by (auto split: option.splits)
    with Cons.IH[OF l tls_cache_ok_upd[OF Cons.prems(2) g]] Some e show ?thesis
      by (simp add: overridden_as_def)
  qed
qed

lemma overridden_all:
  assumes "applyBackendTLSPolicies list rules tlsRoutes = Inr rules'"
  shows "list_all2 (overridden_as list tlsRoutes) rules rules'"
proof (cases "tlsRoutes = []")
  case True
  then show ?thesis
    using assms by (simp add: applyBackendTLSPolicies_def list_all2_conv_all_nth overridden_as_def tls_backend_def
        external_keys_def tls_rules_def)
next
  case False
  with assms show ?thesis
    by (intro override_loop_exact[where cache = Map.empty]) (simp_all add: applyBackendTLSPolicies_def tls_cache_ok_def)
qed

text \<open>
  C36. What BackendTLSPolicies do to the rules, exactly. When applyBackendTLSPolicies returns rules,
  they are the given ones in order, changed in their origin settings at most. A rule built from
  an XBackend reference, and one whose hostname stands for no Service, is left as it is; any
  other rule gets, whatever was cached before, the configuration looked up for the Service that the
  last rule of the routes with this hostname refers to.
\<close>

theorem applyBackendTLSPolicies_exact:
  assumes "applyBackendTLSPolicies list rules tlsRoutes = Inr rules'"
  shows "list_all2 (overridden_as list tlsRoutes) rules rules'"
  using assms by (rule overridden_all)

section \<open>External backends keep their TLS settings\<close>

lemma build_tls_rule_key:
  "b \<in> set (build_tls_rule resolve route (ri, rule)) \<Longrightarrow>
     rule_key b = (routeNamespace (rt_Namespace route), rt_Name route, ri)"
  by (auto simp: build_tls_rule_def Let_def rule_key_def emit_rule_def route_provenance_def
      split: prod.splits if_splits)

lemma tls_rules_mem:
  "(route, ri, rule) \<in> set (tls_rules routes) \<longleftrightarrow> route \<in> set routes \<and> (ri, rule) \<in> set (enum (Rules route))"
  by (auto simp: tls_rules_def)

lemma overridden_as_external:
  "overridden_as list routes r r' \<Longrightarrow> rule_key r \<in> set (external_keys routes) \<Longrightarrow> r' = r"
  by (simp add: overridden_as_def tls_backend_def)

lemma list_all2_in:
  "list_all2 P xs ys \<Longrightarrow> x \<in> set xs \<Longrightarrow> \<exists>y \<in> set ys. P x y"
  by (metis in_set_conv_nth list_all2_conv_all_nth)

text \<open>
  C15. A BackendTLSPolicy never weakens an external backend. Every ingress rule that a TLSRoute's rule
  with an XBackend reference was built into is among the rules applyBackendTLSPolicies returns
  exactly as built, with the TLS settings of the XBackend, also when another TLSRoute serves the
  same hostname from a Service, whose default would switch certificate verification off.
\<close>

theorem applyBackendTLSPolicies_keeps_external:
  assumes "applyBackendTLSPolicies list (BuildTLSIngressRules tlsRoutes resolve) tlsRoutes = Inr rules'"
    and "route \<in> set tlsRoutes" and "(ri, rule) \<in> set (enum (Rules route))" and "rule_external rule"
    and "b \<in> set (build_tls_rule resolve route (ri, rule))"
  shows "b \<in> set rules'"
proof -
  have "b \<in> set (BuildTLSIngressRules tlsRoutes resolve)"
    using assms(2,3,5) by (auto simp: BuildTLSIngressRules_def for_rules_def)
  from list_all2_in[OF overridden_all[OF assms(1)] this]
  obtain b' where b': "b' \<in> set rules'" "overridden_as list tlsRoutes b b'" by blast
  have "rule_key b \<in> set (external_keys tlsRoutes)"
    using assms(2-4) by (force simp: build_tls_rule_key[OF assms(5)] external_keys_def tls_rules_mem)
  from overridden_as_external[OF b'(2) this] b'(1) show ?thesis by simp
qed

text \<open>
  Two TLSRoutes of one hostname: the first refers to an XBackend, the second to a Service whose
  namespace has no BackendTLSPolicy.
\<close>

definition sample_tls_route :: "string \<Rightarrow> BackendObjectReference \<Rightarrow> TLSRoute" where
  "sample_tls_route name ref =
     \<lparr>rt_meta = sample_meta ''infra'' name, ParentRefs = [], Hostnames = [''db.example.com''],
      Rules = [\<lparr>sr_BackendRefs = [ref]\<rparr>], Parents = []\<rparr>"

definition xbackend_ref :: BackendObjectReference where
  "xbackend_ref = \<lparr>bo_Group = Some xBackendGroup, bo_Kind = Some xBackendKind, bo_Name = ''saas'',
     bo_Namespace = None, bo_Port = None\<rparr>"

definition service_ref :: "string \<Rightarrow> BackendObjectReference" where
  "service_ref name = \<lparr>bo_Group = None, bo_Kind = None, bo_Name = name, bo_Namespace = None, bo_Port = Some 443\<rparr>"

definition sample_tls_routes :: "TLSRoute list" where
  "sample_tls_routes = [sample_tls_route ''a'' xbackend_ref, sample_tls_route ''b'' (service_ref ''db'')]"

definition sample_tls_resolver :: BackendResolver where
  "sample_tls_resolver ref = (if ref_Kind ref = ''XBackend''
     then Some \<lparr>rb_Service = ''https://saas.example.com:443'',
       rb_Origin = Some (zero_origin\<lparr>MatchSNIToHost := Some False\<rparr>)\<rparr> else None)"

definition no_tls_policies :: policy_lister where
  "no_tls_policies ns = Inr []"

definition tls_built :: "string \<Rightarrow> string \<Rightarrow> OriginRequest \<Rightarrow> BuiltRule" where
  "tls_built name service origin =
     emit_rule (route_provenance ''TLSRoute'' (sample_tls_route name xbackend_ref) 0) service (Some origin)
       ''db.example.com'' match_all"

lemma itoa_443: "itoa 443 = ''443''"
  by code_simp

lemma sample_tls_built:
  "BuildTLSIngressRules sample_tls_routes sample_tls_resolver =
     [tls_built ''a'' ''https://saas.example.com:443'' (zero_origin\<lparr>MatchSNIToHost := Some False\<rparr>),
      tls_built ''b'' ''https://db.infra:443'' (zero_origin\<lparr>NoTLSVerify := Some True\<rparr>)]"
  by (simp add: BuildTLSIngressRules_def for_rules_def sample_tls_routes_def sample_tls_route_def enum_def
      build_tls_rule_def Let_def backendRefToTLSService_def resolveServiceAndOrigin_def identFromBackendObjectRef_def
      xbackend_ref_def service_ref_def sample_tls_resolver_def resolver_ref_def xBackendKind_def tls_built_def
      route_provenance_def service_url_def sample_meta_def routeNamespace_def itoa_443)

lemma sample_tls_applied:
  "applyBackendTLSPolicies no_tls_policies (BuildTLSIngressRules sample_tls_routes sample_tls_resolver)
     sample_tls_routes = Inr (BuildTLSIngressRules sample_tls_routes sample_tls_resolver)"
  unfolding sample_tls_built
  by (simp add: applyBackendTLSPolicies_def sample_tls_routes_def index_routes_def index_route_def enum_def
      sample_tls_route_def index_rule_def Let_def xbackend_ref_def service_ref_def isXBackendRef_def backendRefGroupKind_def
      xBackendGroup_def xBackendKind_def serviceKind_def rule_key_def tls_built_def emit_rule_def route_provenance_def
      sample_meta_def routeNamespace_def GetBackendTLSConfig_def no_tls_policies_def set_rule_origin_def cloneOriginRequest_def)

theorem applyBackendTLSPolicies_exact_witness:
  "list_all2 (overridden_as no_tls_policies sample_tls_routes)
     (BuildTLSIngressRules sample_tls_routes sample_tls_resolver) (BuildTLSIngressRules sample_tls_routes sample_tls_resolver)"
  by (rule applyBackendTLSPolicies_exact[OF sample_tls_applied])

theorem applyBackendTLSPolicies_keeps_external_witness:
  "tls_built ''a'' ''https://saas.example.com:443'' (zero_origin\<lparr>MatchSNIToHost := Some False\<rparr>) \<in>
     set (BuildTLSIngressRules sample_tls_routes sample_tls_resolver)"
proof (rule applyBackendTLSPolicies_keeps_external[OF sample_tls_applied])
  show "sample_tls_route ''a'' xbackend_ref \<in> set sample_tls_routes" by (simp add: sample_tls_routes_def)
  show "(0, \<lparr>sr_BackendRefs = [xbackend_ref]\<rparr>) \<in> set (enum (Rules (sample_tls_route ''a'' xbackend_ref)))"
    by (simp add: enum_def sample_tls_route_def)
  show "rule_external \<lparr>sr_BackendRefs = [xbackend_ref]\<rparr>"
    by (simp add: rule_external_def isXBackendRef_def backendRefGroupKind_def xbackend_ref_def)
  show "tls_built ''a'' ''https://saas.example.com:443'' (zero_origin\<lparr>MatchSNIToHost := Some False\<rparr>) \<in>
      set (build_tls_rule sample_tls_resolver (sample_tls_route ''a'' xbackend_ref) (0, \<lparr>sr_BackendRefs = [xbackend_ref]\<rparr>))"
    by (simp add: sample_tls_route_def build_tls_rule_def Let_def backendRefToTLSService_def
        resolveServiceAndOrigin_def identFromBackendObjectRef_def xbackend_ref_def sample_tls_resolver_def
        resolver_ref_def xBackendKind_def tls_built_def route_provenance_def)
qed

end
