(* ===== verification/Errors.thy ===== *)
theory Errors
  imports Status
begin

text \<open>
  internal/controller/errors.go: the categories that decide whether a failed reconciliation is
  retried. The error type with its categories is \<^const>\<open>ControllerError\<close> of Prelude, since errors.As looks for it
  anywhere in a chain of wrapped errors; its text is \<^const>\<open>error_text\<close> of Status.
\<close>

definition KubeError :: "goerror \<Rightarrow> goerror" where
  "KubeError e = ControllerError errKube e"

definition CloudflareError :: "goerror \<Rightarrow> goerror" where
  "CloudflareError e = ControllerError errCloudflare e"

definition ConfigError :: "string \<Rightarrow> goerror" where
  "ConfigError msg = ControllerError errConfig (Err msg)"

definition FinalizerError :: "goerror \<Rightarrow> goerror" where
  "FinalizerError e = ControllerError errFinalizer e"

definition Error_text :: "errorCategory \<Rightarrow> goerror \<Rightarrow> string" where
  "Error_text category e = category_prefix category @ '': '' @ error_text e"

fun Unwrap :: "goerror \<Rightarrow> goerror option" where
  "Unwrap (ControllerError _ e) = Some e"
| "Unwrap (Wrap _ e) = Some e"
| "Unwrap _ = None"

text \<open>errors.As stops at the first categorised error of the chain.\<close>

fun IsPermanent :: "goerror \<Rightarrow> bool" where
  "IsPermanent (ControllerError category e) \<longleftrightarrow> category = errConfig"
| "IsPermanent (Wrap _ e) = IsPermanent e"
| "IsPermanent _ = False"

lemma IsPermanent_categorised [simp]:
  "\<not> IsPermanent (KubeError e)" "\<not> IsPermanent (CloudflareError e)"
  "\<not> IsPermanent (FinalizerError e)" "IsPermanent (ConfigError msg)"
  by (simp_all add: KubeError_def CloudflareError_def FinalizerError_def ConfigError_def)

text \<open>
  Classification follows the chain: wrapping adds nothing, and the outermost category decides,
  whatever it wraps.
\<close>

fun first_category :: "goerror \<Rightarrow> errorCategory option" where
  "first_category (ControllerError category e) = Some category"
| "first_category (Wrap _ e) = first_category e"
| "first_category _ = None"

lemma IsPermanent_first_category: "IsPermanent e \<longleftrightarrow> first_category e = Some errConfig"
  by (induction e) auto

end
