(* ===== verification/Kube.thy ===== *)
theory Kube
  imports Errors
begin

text \<open>
  The Kubernetes API server as the controller sees it: for each kind of object a store with
  the four verbs of controller-runtime's client, over an abstract world \<open>'w\<close> that every write
  returns updated. The laws a store documents are stated for one key function and one function
  \<open>persisted\<close>, the object the server keeps of what is written to it.
\<close>

record OwnerReference =
  own_APIVersion :: string
  own_Kind :: string
  own_Name :: string
  own_UID :: string
  own_Controller :: "bool option"
  own_BlockOwnerDeletion :: "bool option"

definition gateway_owner :: "Gateway \<Rightarrow> OwnerReference" where
  "gateway_owner gw =
     \<lparr>own_APIVersion = ''gateway.networking.k8s.io/v1'', own_Kind = ''Gateway'', own_Name = Name (gw_meta gw),
      own_UID = UID (gw_meta gw), own_Controller = Some True, own_BlockOwnerDeletion = Some True\<rparr>"

record ('w, 'o) Store =
  st_Get :: "'w \<Rightarrow> string \<Rightarrow> string \<Rightarrow> 'o result"
  st_Create :: "'w \<Rightarrow> 'o \<Rightarrow> goerror option \<times> 'w"
  st_Update :: "'w \<Rightarrow> 'o \<Rightarrow> goerror option \<times> 'w"
  st_Delete :: "'w \<Rightarrow> 'o \<Rightarrow> goerror option \<times> 'w"

text \<open>
  A successful write is read back, a read gives an object of that key as the server keeps it,
  and a successful delete, or one that reports NotFound, leaves
  nothing under the key. Nothing is said about writes that fail. The law is used for Secrets and Deployments,
  which the program gives no finalizer; reads are taken to see the writes before them, while the client of
  the manager answers them from a cache that follows with a delay.
\<close>

definition documented_store :: "('o \<Rightarrow> string \<times> string) \<Rightarrow> ('o \<Rightarrow> 'o) \<Rightarrow> ('w, 'o) Store \<Rightarrow> bool" where
  "documented_store key persisted st \<longleftrightarrow>
     (\<forall>w x w'. st_Create st w x = (None, w') \<longrightarrow> st_Get st w' (fst (key x)) (snd (key x)) = Inr (persisted x)) \<and>
     (\<forall>w x w'. st_Update st w x = (None, w') \<longrightarrow> st_Get st w' (fst (key x)) (snd (key x)) = Inr (persisted x)) \<and>
     (\<forall>w ns name x. st_Get st w ns name = Inr x \<longrightarrow> key x = (ns, name) \<and> persisted x = x) \<and>
     (\<forall>w x e w'. st_Delete st w x = (e, w') \<longrightarrow> e = None \<or> (\<exists>f. e = Some f \<and> apierrors_IsNotFound f) \<longrightarrow>
        st_Get st w' (fst (key x)) (snd (key x)) = Inl NotFound)"

lemma documented_create:
  "documented_store key persisted st \<Longrightarrow> st_Create st w x = (None, w') \<Longrightarrow> key x = (ns, name) \<Longrightarrow>
     st_Get st w' ns name = Inr (persisted x)"
  unfolding documented_store_def by (metis fst_conv snd_conv)

lemma documented_update:
  "documented_store key persisted st \<Longrightarrow> st_Update st w x = (None, w') \<Longrightarrow> key x = (ns, name) \<Longrightarrow>
     st_Get st w' ns name = Inr (persisted x)"
  unfolding documented_store_def by (metis fst_conv snd_conv)

lemma documented_key:
  "documented_store key persisted st \<Longrightarrow> st_Get st w ns name = Inr x \<Longrightarrow> key x = (ns, name)"
  unfolding documented_store_def by metis

lemma documented_read:
  "documented_store key persisted st \<Longrightarrow> st_Get st w ns name = Inr x \<Longrightarrow> persisted x = x"
  unfolding documented_store_def by metis

lemma documented_delete:
  "documented_store key persisted st \<Longrightarrow> st_Delete st w x = (None, w') \<Longrightarrow> key x = (ns, name) \<Longrightarrow>
     st_Get st w' ns name = Inl NotFound"
  unfolding documented_store_def by (metis fst_conv snd_conv)

lemma documented_delete_missing:
  "documented_store key persisted st \<Longrightarrow> st_Delete st w x = (Some f, w') \<Longrightarrow> apierrors_IsNotFound f \<Longrightarrow>
     key x = (ns, name) \<Longrightarrow> st_Get st w' ns name = Inl NotFound"
  unfolding documented_store_def by (metis fst_conv snd_conv)

text \<open>
  What is relied on for Gateways: a read gives an object of that key. Their updates are not
  promised to be read back: the API server drops an object that is being deleted once its last finalizer goes.
\<close>

definition keyed_store :: "('o \<Rightarrow> string \<times> string) \<Rightarrow> ('w, 'o) Store \<Rightarrow> bool" where
  "keyed_store key st \<longleftrightarrow> (\<forall>w ns name x. st_Get st w ns name = Inr x \<longrightarrow> key x = (ns, name))"

lemma keyed_key: "keyed_store key st \<Longrightarrow> st_Get st w ns name = Inr x \<Longrightarrow> key x = (ns, name)"
  by (simp add: keyed_store_def)

text \<open>A store kept in memory: the world is the map from keys to objects.\<close>

definition memory_store ::
  "('o \<Rightarrow> string \<times> string) \<Rightarrow> ('o \<Rightarrow> 'o) \<Rightarrow> (string \<times> string \<rightharpoonup> 'o, 'o) Store" where
  "memory_store key persisted =
     \<lparr>st_Get = (\<lambda>w ns name. case w (ns, name) of None \<Rightarrow> Inl NotFound
        | Some x \<Rightarrow> if key x = (ns, name) then Inr (persisted x) else Inl NotFound),
      st_Create = (\<lambda>w x. if w (key x) = None then (None, w(key x \<mapsto> persisted x)) else (Some (Err ''already exists''), w)),
      st_Update = (\<lambda>w x. if w (key x) = None then (Some NotFound, w) else (None, w(key x \<mapsto> persisted x))),
      st_Delete = (\<lambda>w x. if w (key x) = None then (Some NotFound, w) else (None, w(key x := None)))\<rparr>"

lemma documented_memory_store:
  assumes "\<And>x. key (persisted x) = key x" and "\<And>x. persisted (persisted x) = persisted x"
  shows "documented_store key persisted (memory_store key persisted)"
  using assms by (auto simp: documented_store_def memory_store_def split: if_splits option.splits)

end
