(* ===== verification/XBackendStatus.thy ===== *)
theory XBackendStatus
  imports Backends Policy Kube
begin

text \<open>
  internal/controller/xbackendstatus.go: the ancestor status that the controller writes on the
  XBackends a Gateway serves, and its removal. The list call and the status update are parameters
  over the world \<open>'w\<close>. The results: a status settles after one write, other writers' entries
  are untouched, and Accepted is reported exactly for the backends that some route kind can use.
\<close>

definition maxXBackendAncestors :: nat where
  "maxXBackendAncestors = 16"

section \<open>The condition\<close>

definition xb_condition :: "Time \<Rightarrow> int \<Rightarrow> bool \<Rightarrow> string \<Rightarrow> string \<Rightarrow> Condition" where
  "xb_condition now generation accepted reason message =
     \<lparr>cond_Type = ''Accepted'', Status = status_of accepted, ObservedGeneration = generation,
      LastTransitionTime = now, Reason = reason, Message = message\<rparr>"

definition xbAcceptedCondition :: "Time \<Rightarrow> int \<Rightarrow> string \<Rightarrow> Condition" where
  "xbAcceptedCondition now generation reason =
     (if reason = reasonResolvedOK then xb_condition now generation True ''Accepted'' ''Backend is accepted''
      else let (condReason, message) =
          (''UnsupportedProtocol'', ''Backend uses a protocol or TLS mode Cloudflare tunnels cannot serve'');
        (condReason, message) = (if reason = reasonUnsupportedCACerts
          then (''UnsupportedCACerts'',
            ''Backend pins custom caCertificateRefs, which are not supported; use wellKnownCACertificates: System'')
          else (condReason, message));
        (condReason, message) = (if reason = reasonUnsupportedTLSValidation
          then (''UnsupportedTLSValidation'',
            ''Backend requires unsupported subjectAltNames or CA trust; use hostname validation with system CAs'')
          else (condReason, message));
        (condReason, message) = (if reason = reasonInvalidBackendPort
          then (reasonInvalidBackendPort,
            ''Set spec.port.number to a value from 1 through 65535; migrate spec.port.port to spec.port.number when upgrading from v1.6'')
          else (condReason, message))
      in xb_condition now generation False condReason message)"

definition conditionEqual :: "Condition \<Rightarrow> Condition \<Rightarrow> bool" where
  "conditionEqual a b \<longleftrightarrow>
     Status a = Status b \<and> Reason a = Reason b \<and> Message a = Message b \<and> ObservedGeneration a = ObservedGeneration b"

section \<open>Upsert and removal\<close>

text \<open>
  The loop stops at this Gateway's first entry: the entries, and whether they changed. \<^const>\<open>None\<close> means
  that there is no such entry.
\<close>

fun upsert_xb_loop ::
  "Time \<Rightarrow> ParentReference \<Rightarrow> string \<Rightarrow> Condition \<Rightarrow> AncestorStatus list \<Rightarrow> (AncestorStatus list \<times> bool) option" where
  "upsert_xb_loop now ancestor cn cond [] = None"
| "upsert_xb_loop now ancestor cn cond (a # as) =
     (if is_ancestor ancestor cn a
      then let cond = cond\<lparr>LastTransitionTime := transitionTime now (as_Conditions a) (cond_Type cond) (Status cond)\<rparr>
        in if list_ex (\<lambda>existing. cond_Type existing = cond_Type cond \<and> conditionEqual existing cond) (as_Conditions a)
           then Some (a # as, False)
           else Some (a\<lparr>as_Conditions := setCondition (as_Conditions a) cond\<rparr> # as, True)
      else map_option (\<lambda>(as', changed). (a # as', changed)) (upsert_xb_loop now ancestor cn cond as))"

definition upsertXBackendAncestor ::
  "Time \<Rightarrow> AncestorStatus list \<Rightarrow> ParentReference \<Rightarrow> string \<Rightarrow> Condition \<Rightarrow> AncestorStatus list \<times> bool" where
  "upsertXBackendAncestor now ancestors ancestor cn cond =
     (case upsert_xb_loop now ancestor cn cond ancestors of
        Some r \<Rightarrow> r
      | None \<Rightarrow>
          if length ancestors \<ge> maxXBackendAncestors then (ancestors, False)
          else (ancestors @ [\<lparr>AncestorRef = ancestor, as_ControllerName = cn, as_Conditions = setCondition [] cond\<rparr>], True))"

fun removeXBackendAncestor ::
  "AncestorStatus list \<Rightarrow> ParentReference \<Rightarrow> string \<Rightarrow> AncestorStatus list \<times> bool" where
  "removeXBackendAncestor [] ancestor cn = ([], False)"
| "removeXBackendAncestor (a # as) ancestor cn =
     (if is_ancestor ancestor cn a then (as, True)
      else let (as', removed) = removeXBackendAncestor as ancestor cn in (a # as', removed))"

section \<open>Patching and pruning\<close>

definition reconciled_xbackend ::
  "Time \<Rightarrow> Gateway \<Rightarrow> string \<Rightarrow> xbBackends \<Rightarrow> XBackend \<Rightarrow> XBackend \<times> bool" where
  "reconciled_xbackend now gw cn col xb =
     (let managed = fetched col (Namespace (xb_meta xb), Name (xb_meta xb)) \<noteq> None;
          (as, changed) =
            (if managed
             then let reason = snd (translateXBackend xb '''')
               in upsertXBackendAncestor now (xb_Ancestors xb) (gatewayAncestorRef gw) cn
                    (xbAcceptedCondition now (Generation (xb_meta xb)) reason)
             else removeXBackendAncestor (xb_Ancestors xb) (gatewayAncestorRef gw) cn)
      in (xb\<lparr>xb_Ancestors := as\<rparr>, changed))"

definition write_xbackend ::
  "('w \<Rightarrow> XBackend \<Rightarrow> goerror option \<times> 'w) \<Rightarrow> XBackend \<times> bool \<Rightarrow> goerror option \<times> 'w \<Rightarrow> goerror option \<times> 'w" where
  "write_xbackend update r st =
     (let (xb, changed) = r; (firstErr, w) = st in
      if changed then (let (err, w') = update w xb in (or_else firstErr err, w')) else (firstErr, w))"

definition patchXBackendStatuses ::
  "('w \<Rightarrow> XBackend list result) \<Rightarrow> ('w \<Rightarrow> XBackend \<Rightarrow> goerror option \<times> 'w) \<Rightarrow> Time \<Rightarrow> Gateway \<Rightarrow> string
     \<Rightarrow> xbBackends option \<Rightarrow> 'w \<Rightarrow> goerror option \<times> 'w" where
  "patchXBackendStatuses list update now gw cn col w =
     (case col of
        None \<Rightarrow> (None, w)
      | Some c \<Rightarrow>
          (case list w of
             Inl e \<Rightarrow> (Some e, w)
           | Inr xbs \<Rightarrow> fold (\<lambda>xb. write_xbackend update (reconciled_xbackend now gw cn c xb)) xbs (None, w)))"

definition pruned_xbackend :: "Gateway \<Rightarrow> string \<Rightarrow> XBackend \<Rightarrow> XBackend \<times> bool" where
  "pruned_xbackend gw cn xb =
     (let (as, removed) = removeXBackendAncestor (xb_Ancestors xb) (gatewayAncestorRef gw) cn
      in (xb\<lparr>xb_Ancestors := as\<rparr>, removed))"

definition pruneXBackendAncestorStatus ::
  "('w \<Rightarrow> XBackend list result) \<Rightarrow> ('w \<Rightarrow> XBackend \<Rightarrow> goerror option \<times> 'w) \<Rightarrow> bool \<Rightarrow> Gateway \<Rightarrow> string
     \<Rightarrow> 'w \<Rightarrow> goerror option \<times> 'w" where
  "pruneXBackendAncestorStatus list update experimental gw cn w =
     (if \<not> experimental then (None, w)
      else case list w of
        Inl e \<Rightarrow> if apierrors_IsNotFound e \<or> isNoMatchError e then (None, w) else (Some e, w)
      | Inr xbs \<Rightarrow> fold (\<lambda>xb. write_xbackend update (pruned_xbackend gw cn xb)) xbs (None, w))"

section \<open>A status settles\<close>

lemma xbAcceptedCondition_fields:
  "cond_Type (xbAcceptedCondition now g reason) = ''Accepted''"
  "Status (xbAcceptedCondition now g reason) = status_of (reason = reasonResolvedOK)"
  "conditionEqual (xbAcceptedCondition now g reason\<lparr>LastTransitionTime := t\<rparr>)
     (xbAcceptedCondition now' g reason\<lparr>LastTransitionTime := t'\<rparr>)"
  "conditionEqual (xbAcceptedCondition now g reason)
     (xbAcceptedCondition now' g reason\<lparr>LastTransitionTime := t'\<rparr>)"
  by (simp_all add: xbAcceptedCondition_def xb_condition_def conditionEqual_def Let_def status_of_def split: prod.splits)

lemma upsert_xb_loop_None:
  "upsert_xb_loop now anc cn c as = None \<longleftrightarrow> \<not> list_ex (is_ancestor anc cn) as"
  by (induction as) (auto simp: Let_def)

lemma upsert_xb_loop_length:
  "upsert_xb_loop now anc cn c as = Some (as', ch) \<Longrightarrow> length as' = length as"
  by (induction as arbitrary: as') (auto simp: Let_def split: if_splits)

lemma upsert_xb_loop_unchanged:
  "upsert_xb_loop now anc cn c as = Some (as', False) \<Longrightarrow> as' = as"
  by (induction as arbitrary: as') (auto simp: Let_def split: if_splits)

lemma upsert_xb_loop_others:
  "upsert_xb_loop now anc cn c as = Some (as', ch) \<Longrightarrow>
     filter (\<lambda>a. \<not> is_ancestor anc cn a) as' = filter (\<lambda>a. \<not> is_ancestor anc cn a) as"
  by (induction as arbitrary: as') (auto simp: Let_def is_ancestor_def split: if_splits)

lemma setCondition_has: "c \<in> set (setCondition cs c)"
  by (induction cs c rule: setCondition.induct) auto

lemma upsert_xb_loop_reported:
  "upsert_xb_loop now anc cn (xbAcceptedCondition now g reason) as = Some (as', ch) \<Longrightarrow>
     upsert_xb_loop now' anc cn (xbAcceptedCondition now' g reason) as' = Some (as', False)"
proof (induction as arbitrary: as')
  case (Cons a as)
  show ?case
  proof (cases "is_ancestor anc cn a")
    case False
    then show ?thesis using Cons by (auto simp: Let_def)
  next
    case True
    define c where "c t = xbAcceptedCondition now g reason\<lparr>LastTransitionTime := t\<rparr>" for t
    obtain t where "as' = a # as \<and> list_ex (\<lambda>e. cond_Type e = ''Accepted'' \<and> conditionEqual e (c t)) (as_Conditions a)
        \<or> as' = a\<lparr>as_Conditions := setCondition (as_Conditions a) (c t)\<rparr> # as"
      using Cons.prems True by (auto simp: Let_def c_def xbAcceptedCondition_fields split: if_splits)
    then obtain a' e where a': "as' = a' # as" "is_ancestor anc cn a'" "e \<in> set (as_Conditions a')"
        "cond_Type e = ''Accepted''" "conditionEqual e (c t)"
      using True setCondition_has[of "c t"]
      by (force simp: list_ex_iff is_ancestor_def c_def xbAcceptedCondition_fields conditionEqual_def)
    moreover have "conditionEqual e (xbAcceptedCondition now' g reason\<lparr>LastTransitionTime := t'\<rparr>)" for t'
      using a'(5) xbAcceptedCondition_fields(3)[where now = now and g = g and reason = reason and t = t and now' = now' and t' = t'] by (simp add: conditionEqual_def c_def)
    ultimately show ?thesis by (auto simp: Let_def list_ex_iff xbAcceptedCondition_fields)
  qed
qed simp

lemma is_ancestor_new: "is_ancestor anc cn \<lparr>AncestorRef = anc, as_ControllerName = cn, as_Conditions = cs\<rparr>"
  by (simp add: is_ancestor_def ancestorRefEqual_def)

lemma upsert_xb_loop_append:
  "\<not> list_ex (is_ancestor anc cn) as \<Longrightarrow> upsert_xb_loop now anc cn c (as @ bs) =
     map_option (\<lambda>(bs', ch). (as @ bs', ch)) (upsert_xb_loop now anc cn c bs)"
  by (induction as) (auto simp: option.map_comp o_def split_def option.map_ident)

lemma upsertXBackendAncestor_settles:
  assumes "upsertXBackendAncestor now as anc cn (xbAcceptedCondition now g reason) = (as', ch)"
  shows "upsertXBackendAncestor now' as' anc cn (xbAcceptedCondition now' g reason) = (as', False)"
proof (cases "upsert_xb_loop now anc cn (xbAcceptedCondition now g reason) as")
  case (Some r)
  then have "upsert_xb_loop now anc cn (xbAcceptedCondition now g reason) as = Some (as', ch)"
    using assms by (simp add: upsertXBackendAncestor_def)
  from upsert_xb_loop_reported[OF this] show ?thesis by (simp add: upsertXBackendAncestor_def)
next
  case None
  then have n: "\<not> list_ex (is_ancestor anc cn) as" by (simp add: upsert_xb_loop_None)
  show ?thesis
  proof (cases "length as \<ge> maxXBackendAncestors")
    case True
    then have "as' = as" using assms None by (simp add: upsertXBackendAncestor_def)
    moreover have "upsert_xb_loop now' anc cn (xbAcceptedCondition now' g reason) as = None"
      using n by (simp add: upsert_xb_loop_None)
    ultimately show ?thesis using True by (simp add: upsertXBackendAncestor_def)
  next
    case False
    then have "as' = as @ [\<lparr>AncestorRef = anc, as_ControllerName = cn,
        as_Conditions = [xbAcceptedCondition now g reason]\<rparr>]"
      using assms None by (simp add: upsertXBackendAncestor_def)
    moreover have "conditionEqual (xbAcceptedCondition now g reason)
        (xbAcceptedCondition now' g reason\<lparr>LastTransitionTime := t\<rparr>)" for t
      by (rule xbAcceptedCondition_fields(4))
    ultimately show ?thesis
      using n by (simp add: upsertXBackendAncestor_def upsert_xb_loop_append is_ancestor_new Let_def
          xbAcceptedCondition_fields)
  qed
qed

text \<open>
  Status of an XBackend settles and stays in bounds. Writing this Gateway's Accepted condition
  never grows the list beyond sixteen entries (or what it had) and leaves the entries of other
  Gateways and controllers as they are, in order. Reporting the same outcome again, at any time,
  changes nothing and so causes no further write, and no change is reported as a change.
\<close>

lemma upsertXBackendAncestor_contract:
  "case upsertXBackendAncestor now as (gatewayAncestorRef gw) cn (xbAcceptedCondition now g reason) of (as', changed) \<Rightarrow>
     length as' \<le> max maxXBackendAncestors (length as) \<and>
     filter (\<lambda>a. \<not> is_ancestor (gatewayAncestorRef gw) cn a) as' =
       filter (\<lambda>a. \<not> is_ancestor (gatewayAncestorRef gw) cn a) as \<and>
     (if changed then True else as' = as) \<and>
     upsertXBackendAncestor now' as' (gatewayAncestorRef gw) cn (xbAcceptedCondition now' g reason) = (as', False)"
proof -
  let ?anc = "gatewayAncestorRef gw" and ?c = "xbAcceptedCondition now g reason"
  obtain as' changed where u: "upsertXBackendAncestor now as ?anc cn ?c = (as', changed)" by fastforce
  have "length as' \<le> max maxXBackendAncestors (length as) \<and>
      filter (\<lambda>a. \<not> is_ancestor ?anc cn a) as' = filter (\<lambda>a. \<not> is_ancestor ?anc cn a) as \<and>
      (if changed then True else as' = as)"
  proof (cases "upsert_xb_loop now ?anc cn ?c as")
    case (Some r)
    then have l: "upsert_xb_loop now ?anc cn ?c as = Some (as', changed)"
      using u by (simp add: upsertXBackendAncestor_def)
    show ?thesis
      using upsert_xb_loop_length[OF l] upsert_xb_loop_others[OF l] upsert_xb_loop_unchanged[of now ?anc cn ?c as as'] l
      by (cases changed) auto
  next
    case None
    then show ?thesis using u
      by (cases "length as \<ge> maxXBackendAncestors") (auto simp: upsertXBackendAncestor_def is_ancestor_new)
  qed
  then show ?thesis using u upsertXBackendAncestor_settles[OF u] by simp
qed

text \<open>Removal takes out this Gateway's first entry and nothing else.\<close>

lemma removeXBackendAncestor_others:
  "filter (\<lambda>a. \<not> is_ancestor anc cn a) (fst (removeXBackendAncestor as anc cn)) =
     filter (\<lambda>a. \<not> is_ancestor anc cn a) as"
  by (induction as) (auto simp: split_def Let_def)

lemma removeXBackendAncestor_own:
  "filter (is_ancestor anc cn) (fst (removeXBackendAncestor as anc cn)) = tl (filter (is_ancestor anc cn) as)"
  by (induction as) (auto simp: split_def Let_def)

lemma removeXBackendAncestor_changed:
  "snd (removeXBackendAncestor as anc cn) \<longleftrightarrow> list_ex (is_ancestor anc cn) as"
  by (induction as) (auto simp: split_def Let_def)

section \<open>Accepted means that some route can use it\<close>

definition xb_scheme :: "string \<Rightarrow> bool \<Rightarrow> string" where
  "xb_scheme proto tls = (if proto = ''TCP'' then ''tcp'' else if tls then ''https'' else ''http'')"

definition proto_ok :: "string \<Rightarrow> bool \<Rightarrow> bool" where
  "proto_ok proto tls \<longleftrightarrow> proto \<in> {''HTTP'', ''HTTP11'', ''HTTP2'', ''GRPC'', ''TCP''} \<and>
     (if tls then proto \<noteq> ''TCP'' else proto \<noteq> ''HTTP2'' \<and> proto \<noteq> ''GRPC'')"

definition tls_ok :: "XBackend \<Rightarrow> bool" where
  "tls_ok xb \<longleftrightarrow> (\<exists>o'. translate_tls (xb_TLS xb) zero_origin = Inr o')"

lemma translate_tls_origin:
  "(\<exists>o'. translate_tls tls origin = Inr o') \<longleftrightarrow> (\<exists>o'. translate_tls tls origin' = Inr o')"
  by (auto simp: translate_tls_def Let_def split: option.splits if_splits)

lemma translate_tls_reason: "translate_tls tls origin = Inl reason \<Longrightarrow> reason \<noteq> reasonResolvedOK"
  by (auto simp: translate_tls_def Let_def reason_defs split: option.splits if_splits)

lemma translate_tls_case:
  "(snd (case translate_tls (xb_TLS xb) origin of Inl reason \<Rightarrow> (no_backend, reason)
      | Inr origin \<Rightarrow> if incompatible kind scheme then (no_backend, reasonIncompatibleRouteKind)
         else (f origin, reasonResolvedOK)) = reasonResolvedOK) \<longleftrightarrow> tls_ok xb \<and> \<not> incompatible kind scheme"
proof (cases "translate_tls (xb_TLS xb) origin")
  case (Inl reason)
  then have "\<not> tls_ok xb" using translate_tls_origin[of "xb_TLS xb" origin zero_origin] by (simp add: tls_ok_def)
  with Inl translate_tls_reason[OF Inl] show ?thesis by simp
next
  case (Inr o')
  then have "tls_ok xb" using translate_tls_origin[of "xb_TLS xb" origin zero_origin] by (simp add: tls_ok_def)
  with Inr show ?thesis by (simp add: reason_defs)
qed

definition xb_intrinsic :: "XBackend \<Rightarrow> bool" where
  "xb_intrinsic xb \<longleftrightarrow> xb_Type xb = ''ExternalHostname'' \<and> ExternalHostname xb \<noteq> None \<and>
     1 \<le> PortNumber xb \<and> PortNumber xb \<le> 65535 \<and> tls_ok xb"

lemma translateXBackend_ok:
  fixes xb kind
  defines "proto \<equiv> deref_or (if kind = ''TCPRoute'' then ''TCP'' else ''HTTP'') (xb_Protocol xb)"
  shows "snd (translateXBackend xb kind) = reasonResolvedOK \<longleftrightarrow>
     xb_intrinsic xb \<and> proto_ok proto (uses_tls xb) \<and> \<not> incompatible kind (xb_scheme proto (uses_tls xb))"
proof -
  have neq: "reasonUnsupportedProtocol \<noteq> reasonResolvedOK" "reasonInvalidBackendPort \<noteq> reasonResolvedOK"
    by (simp_all add: reason_defs)
  show ?thesis
  proof (cases "xb_Type xb = ''ExternalHostname'' \<and> ExternalHostname xb \<noteq> None \<and>
      1 \<le> PortNumber xb \<and> PortNumber xb \<le> 65535")
    case False
    then show ?thesis using neq by (auto simp: translateXBackend_def xb_intrinsic_def Let_def)
  next
    case True
    then show ?thesis
      using neq by (cases "proto_ok proto (uses_tls xb)")
        (auto simp: translateXBackend_def xb_intrinsic_def Let_def proto_ok_def proto_def[symmetric]
          xb_scheme_def translate_tls_case)
  qed
qed

lemma uses_tls_off: "\<not> uses_tls xb \<Longrightarrow> tls_ok xb"
  by (auto simp: uses_tls_def tls_ok_def translate_tls_def split: option.splits)

text \<open>
  What Accepted means. The status of an XBackend, which judges it on its own, reports
  it as accepted exactly when a route of at least one of the four kinds would be served by it: a
  backend that no route kind can use is never accepted, and one that is usable never refused.
\<close>

lemma xbackend_accepted_iff_usable:
  "Status (xbAcceptedCondition now g (snd (translateXBackend xb ''''))) = ConditionTrue \<longleftrightarrow>
     snd (translateXBackend xb ''HTTPRoute'') = reasonResolvedOK \<or> snd (translateXBackend xb ''GRPCRoute'') = reasonResolvedOK \<or>
     snd (translateXBackend xb ''TLSRoute'') = reasonResolvedOK \<or> snd (translateXBackend xb ''TCPRoute'') = reasonResolvedOK"
proof -
  have "Status (xbAcceptedCondition now g reason) = ConditionTrue \<longleftrightarrow> reason = reasonResolvedOK" for reason
    by (simp add: xbAcceptedCondition_fields status_of_def)
  moreover have "snd (translateXBackend xb '''') = reasonResolvedOK \<longleftrightarrow>
     snd (translateXBackend xb ''HTTPRoute'') = reasonResolvedOK \<or> snd (translateXBackend xb ''GRPCRoute'') = reasonResolvedOK \<or>
     snd (translateXBackend xb ''TLSRoute'') = reasonResolvedOK \<or> snd (translateXBackend xb ''TCPRoute'') = reasonResolvedOK"
    unfolding translateXBackend_ok
    by (cases "xb_Protocol xb"; cases "uses_tls xb") (auto simp: proto_ok_def xb_scheme_def incompatible_def)
  ultimately show ?thesis by simp
qed

end
