(* ===== verification/TunnelConfig.thy ===== *)
theory TunnelConfig
  imports Kube
begin

text \<open>
  internal/controller/tunnelconfig.go and the CloudflareTunnelConfig spec of api/v1alpha1: the
  cluster-wide default named by the GatewayClass, overlaid field by field by the Gateway's own. The
  structures of k8s.io/api that are only copied (resources, tolerations, affinity) are opaque values,
  represented by their serialised text; a nil map or slice is \<^const>\<open>None\<close>.
\<close>

type_synonym opaque = string

record TunnelConfigSpec =
  tc_Replicas :: "32 word option"
  tc_Image :: "string option"
  tc_Resources :: "opaque option"
  tc_LogLevel :: "string option"
  tc_MetricsPort :: "32 word option"
  tc_PodLabels :: "(string \<times> string) list option"
  tc_PodAnnotations :: "(string \<times> string) list option"
  tc_NodeSelector :: "(string \<times> string) list option"
  tc_Tolerations :: "opaque list option"
  tc_Affinity :: "opaque option"

definition GroupVersion_Group :: string where
  "GroupVersion_Group = ''cloudflare.jan0ski.net''"

definition tunnelConfigKind :: string where
  "tunnelConfigKind = ''CloudflareTunnelConfig''"

definition fetchTunnelConfig ::
  "(string \<Rightarrow> string \<Rightarrow> TunnelConfigSpec result) \<Rightarrow> string \<Rightarrow> string \<Rightarrow> TunnelConfigSpec result" where
  "fetchTunnelConfig get namespace name =
     (case get namespace name of
        Inl e \<Rightarrow>
          if apierrors_IsNotFound e
          then Inl (Err (''CloudflareTunnelConfig '' @ namespace @ ''/'' @ name @ '' not found''))
          else Inl (Wrap (''getting CloudflareTunnelConfig '' @ namespace @ ''/'' @ name) e)
      | Inr spec \<Rightarrow> Inr spec)"

definition override_field :: "'a option \<Rightarrow> 'a option \<Rightarrow> 'a option" where
  "override_field out override = (case override of None \<Rightarrow> out | Some x \<Rightarrow> Some x)"

fun mergeTunnelConfigSpec ::
  "TunnelConfigSpec option \<Rightarrow> TunnelConfigSpec option \<Rightarrow> TunnelConfigSpec option" where
  "mergeTunnelConfigSpec None override = override"
| "mergeTunnelConfigSpec (Some base) None = Some base"
| "mergeTunnelConfigSpec (Some base) (Some override) = Some
     \<lparr>tc_Replicas = override_field (tc_Replicas base) (tc_Replicas override),
      tc_Image = override_field (tc_Image base) (tc_Image override),
      tc_Resources = override_field (tc_Resources base) (tc_Resources override),
      tc_LogLevel = override_field (tc_LogLevel base) (tc_LogLevel override),
      tc_MetricsPort = override_field (tc_MetricsPort base) (tc_MetricsPort override),
      tc_PodLabels = override_field (tc_PodLabels base) (tc_PodLabels override),
      tc_PodAnnotations = override_field (tc_PodAnnotations base) (tc_PodAnnotations override),
      tc_NodeSelector = override_field (tc_NodeSelector base) (tc_NodeSelector override),
      tc_Tolerations = override_field (tc_Tolerations base) (tc_Tolerations override),
      tc_Affinity = override_field (tc_Affinity base) (tc_Affinity override)\<rparr>"

text \<open>The two halves of resolveTunnelConfig: the class-level default with its validity, and the override.\<close>

definition is_config_ref :: "ParametersReference \<Rightarrow> bool" where
  "is_config_ref ref \<longleftrightarrow> par_Group ref = GroupVersion_Group \<and> par_Kind ref = tunnelConfigKind"

definition resolve_class_config ::
  "(string \<Rightarrow> string \<Rightarrow> TunnelConfigSpec result) \<Rightarrow> GatewayClass \<Rightarrow> TunnelConfigSpec option \<times> bool \<times> string" where
  "resolve_class_config get gc =
     (case gc_ParametersRef gc of
        None \<Rightarrow> (None, True, '''')
      | Some ref \<Rightarrow>
          if \<not> is_config_ref ref then (None, True, '''')
          else let ns = deref_or '''' (par_Namespace ref) in
            if ns = ''''
            then (None, False, ''parametersRef to CloudflareTunnelConfig '' @ CHR 0x22 # par_Name ref @ CHR 0x22 #
                    '' requires a namespace'')
            else (case fetchTunnelConfig get ns (par_Name ref) of
                    Inl e \<Rightarrow> (None, False, error_text e)
                  | Inr cfg \<Rightarrow> (Some cfg, True, '''')))"

definition resolve_gateway_config ::
  "(string \<Rightarrow> string \<Rightarrow> TunnelConfigSpec result) \<Rightarrow> Gateway \<Rightarrow> TunnelConfigSpec option \<Rightarrow> TunnelConfigSpec option" where
  "resolve_gateway_config get gw merged =
     (case Infrastructure gw of
        None \<Rightarrow> merged
      | Some infra \<Rightarrow>
          (case inf_ParametersRef infra of
             None \<Rightarrow> merged
           | Some ref \<Rightarrow>
               if \<not> is_config_ref ref then merged
               else (case fetchTunnelConfig get (Namespace (gw_meta gw)) (par_Name ref) of
                       Inl e \<Rightarrow> merged
                     | Inr cfg \<Rightarrow> mergeTunnelConfigSpec merged (Some cfg))))"

definition resolveTunnelConfig ::
  "(string \<Rightarrow> string \<Rightarrow> TunnelConfigSpec result) \<Rightarrow> Gateway \<Rightarrow> GatewayClass
     \<Rightarrow> TunnelConfigSpec option \<times> bool \<times> string" where
  "resolveTunnelConfig get gw gc =
     (let (merged, classParamsOK, classParamsMsg) = resolve_class_config get gc
      in (resolve_gateway_config get gw merged, classParamsOK, classParamsMsg))"

section \<open>Layering\<close>

lemma mergeTunnelConfigSpec_None_right [simp]: "mergeTunnelConfigSpec b None = b"
  by (cases b) auto

lemma override_field_or_else: "override_field b r = or_else r b"
  by (cases r) (simp_all add: override_field_def)

text \<open>A setting of the effective configuration, read with a default for what is not set.\<close>

definition setting :: "(TunnelConfigSpec \<Rightarrow> 'a option) \<Rightarrow> TunnelConfigSpec option \<Rightarrow> 'a option" where
  "setting field cfg = (case cfg of None \<Rightarrow> None | Some c \<Rightarrow> field c)"

text \<open>
  The fields of the spec are the projections that a merge acts on separately; this is what
  it means to be one.
\<close>

definition layered :: "(TunnelConfigSpec \<Rightarrow> 'a option) \<Rightarrow> bool" where
  "layered field \<longleftrightarrow> (\<forall>b r. setting field (mergeTunnelConfigSpec b r) = or_else (setting field r) (setting field b))"

lemma layered_fields:
  "layered tc_Replicas" "layered tc_Image" "layered tc_Resources" "layered tc_LogLevel" "layered tc_MetricsPort"
  "layered tc_PodLabels" "layered tc_PodAnnotations" "layered tc_NodeSelector" "layered tc_Tolerations" "layered tc_Affinity"
  unfolding layered_def setting_def
  by (intro allI, case_tac b; case_tac r; simp add: override_field_or_else)+

text \<open>The configuration an object refers to, if the reference is of the right kind and resolves.\<close>

definition referenced ::
  "(string \<Rightarrow> string \<Rightarrow> TunnelConfigSpec result) \<Rightarrow> string \<Rightarrow> ParametersReference option \<Rightarrow> TunnelConfigSpec option" where
  "referenced get ns ref =
     (case ref of None \<Rightarrow> None
      | Some r \<Rightarrow> if is_config_ref r then (case get ns (par_Name r) of Inl e \<Rightarrow> None | Inr c \<Rightarrow> Some c) else None)"

definition gateway_params :: "Gateway \<Rightarrow> ParametersReference option" where
  "gateway_params gw = (case Infrastructure gw of None \<Rightarrow> None | Some infra \<Rightarrow> inf_ParametersRef infra)"

definition class_namespace :: "GatewayClass \<Rightarrow> string" where
  "class_namespace gc = (case gc_ParametersRef gc of None \<Rightarrow> '''' | Some ref \<Rightarrow> deref_or '''' (par_Namespace ref))"

definition class_config ::
  "(string \<Rightarrow> string \<Rightarrow> TunnelConfigSpec result) \<Rightarrow> GatewayClass \<Rightarrow> TunnelConfigSpec option" where
  "class_config get gc =
     (if class_namespace gc = '''' then None else referenced get (class_namespace gc) (gc_ParametersRef gc))"

lemma fetchTunnelConfig_cases:
  "fetchTunnelConfig get ns name = Inr c \<longleftrightarrow> get ns name = Inr c"
  by (auto simp: fetchTunnelConfig_def split: sum.splits if_splits)

lemma resolveTunnelConfig_spec:
  "fst (resolveTunnelConfig get gw gc) =
     mergeTunnelConfigSpec (class_config get gc) (referenced get (Namespace (gw_meta gw)) (gateway_params gw))"
  by (auto simp: resolveTunnelConfig_def resolve_class_config_def resolve_gateway_config_def Let_def
      class_config_def class_namespace_def referenced_def gateway_params_def fetchTunnelConfig_def
      split: option.splits sum.splits if_splits prod.splits)

lemma resolveTunnelConfig_valid:
  "fst (snd (resolveTunnelConfig get gw gc)) \<longleftrightarrow>
     (\<forall>ref. gc_ParametersRef gc = Some ref \<and> is_config_ref ref \<longrightarrow> class_config get gc \<noteq> None)"
  by (auto simp: resolveTunnelConfig_def resolve_class_config_def Let_def
      class_config_def class_namespace_def referenced_def fetchTunnelConfig_def
      split: option.splits sum.splits if_splits prod.splits)

definition takes_from :: "(TunnelConfigSpec \<Rightarrow> 'a option) \<Rightarrow> (string \<Rightarrow> string \<Rightarrow> TunnelConfigSpec result)
    \<Rightarrow> Gateway \<Rightarrow> GatewayClass \<Rightarrow> bool" where
  "takes_from field get gw gc \<longleftrightarrow>
     setting field (fst (resolveTunnelConfig get gw gc)) =
       or_else (setting field (referenced get (Namespace (gw_meta gw)) (gateway_params gw)))
               (setting field (class_config get gc))"

lemma layered_takes_from: "layered field \<Longrightarrow> takes_from field get gw gc"
  by (simp add: layered_def takes_from_def resolveTunnelConfig_spec)

text \<open>
  C23. The effective tunnel configuration. Every one of its ten settings is the Gateway's, where the
  Gateway refers to an existing configuration that has it, and otherwise the GatewayClass's, where
  its reference carries a namespace and resolves; a broken reference on either side hides
  nothing of the other. The class is reported invalid exactly when it refers to a configuration
  that cannot be had.
\<close>

theorem resolveTunnelConfig_layers:
  "takes_from tc_Replicas get gw gc \<and> takes_from tc_Image get gw gc \<and> takes_from tc_Resources get gw gc \<and>
   takes_from tc_LogLevel get gw gc \<and> takes_from tc_MetricsPort get gw gc \<and> takes_from tc_PodLabels get gw gc \<and>
   takes_from tc_PodAnnotations get gw gc \<and> takes_from tc_NodeSelector get gw gc \<and>
   takes_from tc_Tolerations get gw gc \<and> takes_from tc_Affinity get gw gc \<and>
   (fst (snd (resolveTunnelConfig get gw gc)) = False \<longleftrightarrow>
     (case gc_ParametersRef gc of None \<Rightarrow> False | Some ref \<Rightarrow> is_config_ref ref \<and> class_config get gc = None))"
proof -
  have "fst (snd (resolveTunnelConfig get gw gc)) = False \<longleftrightarrow>
      (case gc_ParametersRef gc of None \<Rightarrow> False | Some ref \<Rightarrow> is_config_ref ref \<and> class_config get gc = None)"
    unfolding resolveTunnelConfig_valid by (auto split: option.splits)
  then show ?thesis by (simp add: layered_fields[THEN layered_takes_from])
qed

end
