(* ===== verification/Secret.thy ===== *)
theory Secret
  imports Kube Token Attachment
begin

text \<open>
  internal/controller/secret.go: the Secret that holds the 32 bytes a tunnel is created with,
  and the token cloudflared runs with. A nil Data map is \<^const>\<open>None\<close>, and assigning into it panics, as
  in the code. The source of randomness is a parameter. The results: the secret that is returned is
  the one stored, has 32 bytes, and is what every later call returns, also after the token is stored.
\<close>

section \<open>Secrets\<close>

record Secret =
  sec_Namespace :: string
  sec_Name :: string
  sec_Owners :: "OwnerReference list"
  sec_Data :: "(string \<rightharpoonup> byte list) option"
  sec_StringData :: "(string \<rightharpoonup> string) option"

definition secret_key :: "Secret \<Rightarrow> string \<times> string" where
  "secret_key s = (sec_Namespace s, sec_Name s)"

text \<open>
  The API server merges the write-only field stringData over data. This is what it keeps.
\<close>

definition persisted_secret :: "Secret \<Rightarrow> Secret" where
  "persisted_secret s =
     s\<lparr>sec_Data := (case sec_StringData s of
          None \<Rightarrow> sec_Data s
        | Some sd \<Rightarrow> Some (deref_or Map.empty (sec_Data s) ++ (\<lambda>k. map_option bytes_of (sd k)))),
       sec_StringData := None\<rparr>"

definition tunnelSecretKey :: string where "tunnelSecretKey = ''tunnel-secret''"
definition tunnelTokenKey :: string where "tunnelTokenKey = ''tunnel-token''"
definition secretSize :: nat where "secretSize = 32"

definition TunnelSecretName :: "string \<Rightarrow> string" where
  "TunnelSecretName gwName = ''cloudflared-'' @ gwName @ ''-tunnel-secret''"

lemma key_distinct: "tunnelTokenKey \<noteq> tunnelSecretKey" "tunnelSecretKey \<noteq> tunnelTokenKey"
  by (simp_all add: tunnelTokenKey_def tunnelSecretKey_def)

section \<open>The operations\<close>

definition generateTunnelSecret ::
  "('w \<Rightarrow> nat \<Rightarrow> byte list result \<times> 'w) \<Rightarrow> 'w \<Rightarrow> byte list result \<times> 'w" where
  "generateTunnelSecret rand w =
     (case rand w secretSize of
        (Inl e, w') \<Rightarrow> (Inl (Wrap ''generating tunnel secret'' e), w')
      | (Inr secret, w') \<Rightarrow> (Inr secret, w'))"

text \<open>A Secret that is missing is created; its second component reports no regeneration.\<close>

definition create_secret ::
  "('w, Secret) Store \<Rightarrow> ('w \<Rightarrow> nat \<Rightarrow> byte list result \<times> 'w) \<Rightarrow> Gateway \<Rightarrow> 'w \<Rightarrow> (byte list \<times> bool) result \<times> 'w" where
  "create_secret st rand gw w =
     (case generateTunnelSecret rand w of
        (Inl e, w') \<Rightarrow> (Inl e, w')
      | (Inr secret, w') \<Rightarrow>
          (case st_Create st w' \<lparr>sec_Namespace = Namespace (gw_meta gw),
                  sec_Name = TunnelSecretName (Name (gw_meta gw)), sec_Owners = [gateway_owner gw],
                  sec_Data = Some [tunnelSecretKey \<mapsto> secret], sec_StringData = None\<rparr> of
             (Some e, w'') \<Rightarrow> (Inl (Wrap ''creating tunnel secret'' e), w'')
           | (None, w'') \<Rightarrow> (Inr (secret, False), w'')))"

text \<open>An existing Secret without 32 bytes under the key gets new ones, if it has a data map.\<close>

definition regenerate_secret ::
  "('w, Secret) Store \<Rightarrow> ('w \<Rightarrow> nat \<Rightarrow> byte list result \<times> 'w) \<Rightarrow> Secret \<Rightarrow> 'w \<Rightarrow> (byte list \<times> bool) result \<times> 'w" where
  "regenerate_secret st rand existing w =
     (case generateTunnelSecret rand w of
        (Inl e, w') \<Rightarrow> (Inl e, w')
      | (Inr secret, w') \<Rightarrow>
          (case sec_Data existing of
             None \<Rightarrow> (Inl (Panic ''assignment to entry in nil map''), w')
           | Some data \<Rightarrow>
               (case st_Update st w' (existing\<lparr>sec_Data := Some (data(tunnelSecretKey \<mapsto> secret))\<rparr>) of
                  (Some e, w'') \<Rightarrow> (Inl (Wrap ''updating tunnel secret'' e), w'')
                | (None, w'') \<Rightarrow> (Inr (secret, True), w''))))"

definition stored_secret :: "Secret \<Rightarrow> byte list option" where
  "stored_secret s = (case deref_or Map.empty (sec_Data s) tunnelSecretKey of
     Some bs \<Rightarrow> if length bs = secretSize then Some bs else None | None \<Rightarrow> None)"

definition EnsureTunnelSecret ::
  "('w, Secret) Store \<Rightarrow> ('w \<Rightarrow> nat \<Rightarrow> byte list result \<times> 'w) \<Rightarrow> Gateway \<Rightarrow> 'w \<Rightarrow> (byte list \<times> bool) result \<times> 'w" where
  "EnsureTunnelSecret st rand gw w =
     (case st_Get st w (Namespace (gw_meta gw)) (TunnelSecretName (Name (gw_meta gw))) of
        Inl e \<Rightarrow> if \<not> apierrors_IsNotFound e then (Inl (Wrap ''getting tunnel secret'' e), w)
                 else create_secret st rand gw w
      | Inr existing \<Rightarrow>
          (case stored_secret existing of
             Some data \<Rightarrow> (Inr (data, False), w)
           | None \<Rightarrow> regenerate_secret st rand existing w))"

definition StoreTunnelToken ::
  "('w, Secret) Store \<Rightarrow> string \<Rightarrow> string \<Rightarrow> string \<Rightarrow> 'w \<Rightarrow> goerror option \<times> 'w" where
  "StoreTunnelToken st namespace secretName token w =
     (case st_Get st w namespace secretName of
        Inl e \<Rightarrow> (Some (Wrap ''getting secret for token storage'' e), w)
      | Inr secret \<Rightarrow>
          (case st_Update st w (secret\<lparr>sec_StringData :=
                  Some ((deref_or Map.empty (sec_StringData secret))(tunnelTokenKey \<mapsto> token))\<rparr>) of
             (Some e, w') \<Rightarrow> (Some (Wrap ''storing tunnel token'' e), w')
           | (None, w') \<Rightarrow> (None, w')))"

section \<open>The secret is the stored one\<close>

definition fills :: "('w \<Rightarrow> nat \<Rightarrow> byte list result \<times> 'w) \<Rightarrow> bool" where
  "fills rand \<longleftrightarrow> (\<forall>w n bs w'. rand w n = (Inr bs, w') \<longrightarrow> length bs = n)"

lemma fillsD: "fills rand \<Longrightarrow> rand w n = (Inr bs, w') \<Longrightarrow> length bs = n"
  unfolding fills_def by blast

lemma generateTunnelSecret_size:
  "fills rand \<Longrightarrow> generateTunnelSecret rand w = (Inr bs, w') \<Longrightarrow> length bs = secretSize"
  by (auto simp: generateTunnelSecret_def split: prod.splits sum.splits dest: fillsD)

abbreviation holds_secret :: "('w, Secret) Store \<Rightarrow> 'w \<Rightarrow> Gateway \<Rightarrow> byte list \<Rightarrow> bool" where
  "holds_secret st w gw secret \<equiv>
     \<exists>s. st_Get st w (Namespace (gw_meta gw)) (TunnelSecretName (Name (gw_meta gw))) = Inr s \<and>
         stored_secret s = Some secret"

lemma holds_secret_stable:
  "holds_secret st w gw secret \<Longrightarrow> EnsureTunnelSecret st rand gw w = (Inr (secret, False), w)"
  by (auto simp: EnsureTunnelSecret_def)

lemma stored_secret_persisted:
  "sec_Data s = Some data \<Longrightarrow> sec_StringData s = None \<Longrightarrow> data tunnelSecretKey = Some bs \<Longrightarrow>
     length bs = secretSize \<Longrightarrow> stored_secret (persisted_secret s) = Some bs"
  by (simp add: stored_secret_def persisted_secret_def)

lemma persisted_secret_idem: "persisted_secret (persisted_secret s) = persisted_secret s"
  by (simp add: persisted_secret_def)

lemma persisted_secret_key: "secret_key (persisted_secret s) = secret_key s"
  by (simp add: persisted_secret_def secret_key_def)

lemma persisted_secret_string_data: "persisted_secret s = s \<Longrightarrow> sec_StringData s = None"
  by (drule arg_cong[of _ _ sec_StringData]) (simp add: persisted_secret_def)

lemma create_secret_holds:
  assumes st: "documented_store secret_key persisted_secret st" and rand: "fills rand"
    and c: "create_secret st rand gw w = (Inr (secret, b), w')"
  shows "length secret = secretSize \<and> \<not> b \<and> holds_secret st w' gw secret"
proof -
  let ?s = "\<lambda>secret. \<lparr>sec_Namespace = Namespace (gw_meta gw),
    sec_Name = TunnelSecretName (Name (gw_meta gw)), sec_Owners = [gateway_owner gw],
    sec_Data = Some [tunnelSecretKey \<mapsto> secret], sec_StringData = None\<rparr>"
  obtain w1 where g: "generateTunnelSecret rand w = (Inr secret, w1)" and b: "\<not> b"
      and cr: "st_Create st w1 (?s secret) = (None, w')"
    using c by (auto simp: create_secret_def split: prod.splits sum.splits option.splits)
  have l: "length secret = secretSize" by (rule generateTunnelSecret_size[OF rand g])
  have "secret_key (?s secret) = (Namespace (gw_meta gw), TunnelSecretName (Name (gw_meta gw)))"
    by (simp add: secret_key_def)
  from documented_create[OF st cr this] have "holds_secret st w' gw secret"
    using stored_secret_persisted[of "?s secret" _ secret] l by simp
  with l b show ?thesis by simp
qed

lemma regenerate_secret_holds:
  assumes st: "documented_store secret_key persisted_secret st" and rand: "fills rand"
    and g0: "st_Get st w (Namespace (gw_meta gw)) (TunnelSecretName (Name (gw_meta gw))) = Inr existing"
    and c: "regenerate_secret st rand existing w = (Inr (secret, b), w')"
  shows "length secret = secretSize \<and> b \<and> holds_secret st w' gw secret"
proof -
  let ?s = "\<lambda>data secret. existing\<lparr>sec_Data := Some (data(tunnelSecretKey \<mapsto> secret))\<rparr>"
  obtain w1 data where g: "generateTunnelSecret rand w = (Inr secret, w1)" and b: b
      and up: "st_Update st w1 (?s data secret) = (None, w')"
    using c by (auto simp: regenerate_secret_def split: prod.splits sum.splits option.splits)
  have l: "length secret = secretSize" by (rule generateTunnelSecret_size[OF rand g])
  have sd: "sec_StringData existing = None"
    using documented_read[OF st g0] by (rule persisted_secret_string_data)
  have "secret_key (?s data secret) = (Namespace (gw_meta gw), TunnelSecretName (Name (gw_meta gw)))"
    using documented_key[OF st g0] by (simp add: secret_key_def)
  from documented_update[OF st up this] have "holds_secret st w' gw secret"
    using stored_secret_persisted[of "?s data secret" _ secret] l sd by simp
  with l b show ?thesis by simp
qed

lemma EnsureTunnelSecret_holds:
  assumes "documented_store secret_key persisted_secret st" and "fills rand"
    and "EnsureTunnelSecret st rand gw w = (Inr (secret, regenerated), w')"
  shows "length secret = 32 \<and> holds_secret st w' gw secret \<and>
    (regenerated \<longrightarrow> (\<exists>s. st_Get st w (Namespace (gw_meta gw)) (TunnelSecretName (Name (gw_meta gw))) = Inr s \<and>
       stored_secret s = None))"
proof (cases "st_Get st w (Namespace (gw_meta gw)) (TunnelSecretName (Name (gw_meta gw)))")
  case (Inl e)
  then have "create_secret st rand gw w = (Inr (secret, regenerated), w')"
    using assms(3) by (simp add: EnsureTunnelSecret_def split: if_splits)
  from create_secret_holds[OF assms(1,2) this] show ?thesis by (auto simp: secretSize_def)
next
  case (Inr existing)
  show ?thesis
  proof (cases "stored_secret existing")
    case None
    then have "regenerate_secret st rand existing w = (Inr (secret, regenerated), w')"
      using assms(3) Inr by (simp add: EnsureTunnelSecret_def)
    from regenerate_secret_holds[OF assms(1,2) Inr this] show ?thesis
      using Inr None by (auto simp: secretSize_def)
  next
    case (Some data)
    then have "data = secret" "\<not> regenerated" "w' = w"
      using assms(3) Inr by (auto simp: EnsureTunnelSecret_def)
    moreover have "length data = 32"
      using Some by (auto simp: stored_secret_def secretSize_def split: option.splits if_splits)
    ultimately show ?thesis using Inr Some by auto
  qed
qed

text \<open>
  C22. The tunnel secret is the stored one. If EnsureTunnelSecret returns a secret, it has 32 bytes
  and stands in the Gateway's Secret; every later call, whatever the source of randomness, returns
  the same bytes without writing anything. It reports a regeneration only when a Secret existed
  whose value was missing or of another size.
\<close>

theorem EnsureTunnelSecret_contract:
  assumes "documented_store secret_key persisted_secret st" and "fills rand"
    and "EnsureTunnelSecret st rand gw w = (Inr (secret, regenerated), w')"
  shows "length secret = 32 \<and> EnsureTunnelSecret st rand' gw w' = (Inr (secret, False), w') \<and>
    (regenerated \<longrightarrow> (\<exists>s. st_Get st w (Namespace (gw_meta gw)) (TunnelSecretName (Name (gw_meta gw))) = Inr s \<and>
       stored_secret s = None))"
  using EnsureTunnelSecret_holds[OF assms] by (auto intro: holds_secret_stable)

text \<open>A memory of secrets and a source that yields zeros.\<close>

abbreviation secret_memory :: "(string \<times> string \<rightharpoonup> Secret, Secret) Store" where
  "secret_memory \<equiv> memory_store secret_key persisted_secret"

lemma documented_secret_memory: "documented_store secret_key persisted_secret secret_memory"
  by (rule documented_memory_store) (simp_all add: persisted_secret_key persisted_secret_idem)

definition zeros :: "'w \<Rightarrow> nat \<Rightarrow> byte list result \<times> 'w" where
  "zeros w n = (Inr (replicate n 0), w)"

lemma fills_zeros: "fills zeros"
  by (simp add: fills_def zeros_def)

lemma sample_EnsureTunnelSecret:
  "EnsureTunnelSecret secret_memory zeros sample_gateway (\<lambda>_. None) =
     (Inr (replicate 32 0, False), [(''infra'', ''cloudflared-edge-tunnel-secret'') \<mapsto>
        \<lparr>sec_Namespace = ''infra'', sec_Name = ''cloudflared-edge-tunnel-secret'',
         sec_Owners = [gateway_owner sample_gateway],
         sec_Data = Some [tunnelSecretKey \<mapsto> replicate 32 0], sec_StringData = None\<rparr>])"
  by (simp add: EnsureTunnelSecret_def create_secret_def generateTunnelSecret_def memory_store_def zeros_def
      sample_gateway_def sample_meta_def TunnelSecretName_def secret_key_def persisted_secret_def secretSize_def)

theorem EnsureTunnelSecret_contract_witness:
  "\<exists>w'. EnsureTunnelSecret secret_memory zeros sample_gateway (\<lambda>_. None) = (Inr (replicate 32 0, False), w') \<and>
     EnsureTunnelSecret secret_memory zeros sample_gateway w' = (Inr (replicate 32 0, False), w')"
  using sample_EnsureTunnelSecret
    EnsureTunnelSecret_contract[OF documented_secret_memory fills_zeros sample_EnsureTunnelSecret]
  by blast

lemma StoreTunnelToken_stored:
  assumes "documented_store secret_key persisted_secret st"
    and "StoreTunnelToken st (Namespace (gw_meta gw)) (TunnelSecretName (Name (gw_meta gw))) token w = (None, w')"
    and "st_Get st w (Namespace (gw_meta gw)) (TunnelSecretName (Name (gw_meta gw))) = Inr s"
    and "stored_secret s = Some secret"
  shows "\<exists>s'. st_Get st w' (Namespace (gw_meta gw)) (TunnelSecretName (Name (gw_meta gw))) = Inr s' \<and>
    stored_secret s' = Some secret \<and> deref_or Map.empty (sec_Data s') tunnelTokenKey = Some (bytes_of token)"
proof -
  let ?ns = "Namespace (gw_meta gw)" and ?name = "TunnelSecretName (Name (gw_meta gw))"
  let ?t = "s\<lparr>sec_StringData := Some [tunnelTokenKey \<mapsto> token]\<rparr>"
  have "sec_StringData s = None"
    using documented_read[OF assms(1,3)] by (rule persisted_secret_string_data)
  then have up: "st_Update st w ?t = (None, w')"
    using assms(2,3) by (simp add: StoreTunnelToken_def split: prod.splits option.splits)
  have "secret_key ?t = (?ns, ?name)"
    using documented_key[OF assms(1,3)] by (simp add: secret_key_def)
  from documented_update[OF assms(1) up this]
  have g: "st_Get st w' ?ns ?name = Inr (persisted_secret ?t)" .
  have "stored_secret (persisted_secret ?t) = Some secret"
    using assms(4) by (simp add: stored_secret_def persisted_secret_def map_add_def key_distinct split: option.splits)
  moreover have "deref_or Map.empty (sec_Data (persisted_secret ?t)) tunnelTokenKey = Some (bytes_of token)"
    by (simp add: persisted_secret_def)
  ultimately show ?thesis using g by blast
qed

text \<open>
  Storing the token keeps the secret. When StoreTunnelToken succeeds on a Gateway's Secret that
  holds a valid secret, that secret is still what EnsureTunnelSecret returns, without a write,
  and the bytes under the token key, which cloudflared reads, are the token's.
\<close>

lemma StoreTunnelToken_keeps_secret:
  assumes "documented_store secret_key persisted_secret st"
    and "StoreTunnelToken st (Namespace (gw_meta gw)) (TunnelSecretName (Name (gw_meta gw))) token w = (None, w')"
    and "st_Get st w (Namespace (gw_meta gw)) (TunnelSecretName (Name (gw_meta gw))) = Inr s"
    and "stored_secret s = Some secret"
  shows "EnsureTunnelSecret st rand' gw w' = (Inr (secret, False), w') \<and>
    (\<exists>s'. st_Get st w' (Namespace (gw_meta gw)) (TunnelSecretName (Name (gw_meta gw))) = Inr s' \<and>
       deref_or Map.empty (sec_Data s') tunnelTokenKey = Some (bytes_of token))"
  using StoreTunnelToken_stored[OF assms] by (blast intro: holds_secret_stable)

lemma StoreTunnelToken_keeps_secret_witness:
  "\<exists>w w'. EnsureTunnelSecret secret_memory zeros sample_gateway (\<lambda>_. None) = (Inr (replicate 32 0, False), w) \<and>
     StoreTunnelToken secret_memory ''infra'' ''cloudflared-edge-tunnel-secret'' ''token'' w = (None, w') \<and>
     EnsureTunnelSecret secret_memory zeros sample_gateway w' = (Inr (replicate 32 0, False), w')"
proof -
  let ?s = "\<lparr>sec_Namespace = ''infra'', sec_Name = ''cloudflared-edge-tunnel-secret'',
         sec_Owners = [gateway_owner sample_gateway],
         sec_Data = Some [tunnelSecretKey \<mapsto> replicate 32 0], sec_StringData = None\<rparr>"
  let ?w = "[(''infra'', ''cloudflared-edge-tunnel-secret'') \<mapsto> ?s]"
  have key: "Namespace (gw_meta sample_gateway) = ''infra''"
      "TunnelSecretName (Name (gw_meta sample_gateway)) = ''cloudflared-edge-tunnel-secret''"
    by (simp_all add: sample_gateway_def sample_meta_def TunnelSecretName_def)
  have g: "st_Get secret_memory ?w ''infra'' ''cloudflared-edge-tunnel-secret'' = Inr ?s"
    by (simp add: memory_store_def secret_key_def persisted_secret_def)
  have h: "stored_secret ?s = Some (replicate 32 0)"
    by (simp add: stored_secret_def secretSize_def)
  obtain w' where st: "StoreTunnelToken secret_memory ''infra'' ''cloudflared-edge-tunnel-secret'' ''token'' ?w = (None, w')"
    using g by (simp add: StoreTunnelToken_def memory_store_def secret_key_def persisted_secret_def)
  from StoreTunnelToken_keeps_secret[where gw = sample_gateway, unfolded key,
      OF documented_secret_memory st g h]
  have "EnsureTunnelSecret secret_memory zeros sample_gateway w' = (Inr (replicate 32 0, False), w')" by blast
  with st show ?thesis using sample_EnsureTunnelSecret by blast
qed

end
