(* ===== verification/Deployment.thy ===== *)
theory Deployment
  imports TunnelConfig Secret
begin

text \<open>
  internal/controller/deployment.go and applyDeployment of reconciler.go: the Deployment that runs
  cloudflared for a Gateway. The labels of the Deployment and of its pod template are one Go map,
  shared by both, so a write through either shows in both: the model keeps one map and places it
  twice. The selector is a map of its own.
\<close>

section \<open>The object\<close>

record SecurityContext =
  AllowPrivilegeEscalation :: "bool option"
  RunAsNonRoot :: "bool option"
  RunAsUser :: "int option"
  RunAsGroup :: "int option"
  DropCapabilities :: "string list"
  SeccompProfile :: string

text \<open>An environment variable whose value is read from a key of a Secret.\<close>

record SecretEnv =
  env_Name :: string
  env_Secret :: string
  env_Key :: string

record Container =
  ct_Name :: string
  Image :: string
  Args :: "string list"
  ct_Security :: SecurityContext
  Env :: "SecretEnv list"
  ct_Ports :: "(string \<times> 32 word) list"
  Resources :: "opaque option"

record PodTemplate =
  pod_Labels :: "string \<rightharpoonup> string"
  pod_Annotations :: "(string \<rightharpoonup> string) option"
  Containers :: "Container list"
  NodeSelector :: "(string \<times> string) list option"
  Tolerations :: "opaque list option"
  Affinity :: "opaque option"

record DeploymentSpec =
  Replicas :: "32 word"
  sel_MatchLabels :: "string \<rightharpoonup> string"
  Template :: PodTemplate
  MaxUnavailable :: string
  MaxSurge :: string

record Deployment =
  dp_Name :: string
  dp_Namespace :: string
  dp_Labels :: "string \<rightharpoonup> string"
  dp_Annotations :: "(string \<rightharpoonup> string) option"
  dp_Owners :: "OwnerReference list"
  dp_Spec :: DeploymentSpec

definition deployment_key :: "Deployment \<Rightarrow> string \<times> string" where
  "deployment_key d = (dp_Namespace d, dp_Name d)"

definition ContainerImage :: string where
  "ContainerImage = ''cloudflare/cloudflared:2026.10.3''"

definition defaultMetricsPort :: "32 word" where
  "defaultMetricsPort = 2000"

definition DeploymentName :: "string \<Rightarrow> string" where
  "DeploymentName gwName = ''cloudflared-'' @ gwName"

section \<open>Building it\<close>

text \<open>for k, v := range entries { m[k] = v }\<close>

definition put_all :: "(string \<times> string) list \<Rightarrow> (string \<rightharpoonup> string) \<Rightarrow> (string \<rightharpoonup> string)" where
  "put_all entries m = fold (\<lambda>(k, v) m. m(k \<mapsto> v)) entries m"

text \<open>The same into a map that is made first when it is nil, and only if there are entries.\<close>

definition put_all_made ::
  "(string \<times> string) list \<Rightarrow> (string \<rightharpoonup> string) option \<Rightarrow> (string \<rightharpoonup> string) option" where
  "put_all_made entries m =
     (if length entries > 0 then Some (put_all entries (deref_or Map.empty m)) else m)"

definition tunnel_args :: "32 word \<Rightarrow> TunnelConfigSpec option \<Rightarrow> string list" where
  "tunnel_args metricsPort cfg =
     [''tunnel'', ''--metrics'', ''0.0.0.0:'' @ itoa (sint metricsPort)]
     @ (case setting tc_LogLevel cfg of None \<Rightarrow> [] | Some l \<Rightarrow> [''--loglevel'', l]) @ [''run'']"

definition fixed_security :: SecurityContext where
  "fixed_security =
     \<lparr>AllowPrivilegeEscalation = Some False, RunAsNonRoot = Some True, RunAsUser = Some 65532,
      RunAsGroup = Some 65532, DropCapabilities = [''ALL''], SeccompProfile = ''RuntimeDefault''\<rparr>"

definition tunnel_container :: "string \<Rightarrow> TunnelConfigSpec option \<Rightarrow> Container" where
  "tunnel_container secretName cfg =
     (let metricsPort = deref_or defaultMetricsPort (setting tc_MetricsPort cfg) in
      \<lparr>ct_Name = ''cloudflared'', Image = deref_or ContainerImage (setting tc_Image cfg),
       Args = tunnel_args metricsPort cfg, ct_Security = fixed_security,
       Env = [\<lparr>env_Name = ''TUNNEL_TOKEN'', env_Secret = secretName, env_Key = tunnelTokenKey\<rparr>],
       ct_Ports = [(''metrics'', metricsPort)], Resources = None\<rparr>)"

text \<open>
  The state of the two overlays is the shared label map, the template's and the Deployment's
  annotations, and the container.
\<close>

record overlay =
  ov_labels :: "string \<rightharpoonup> string"
  ov_pod_annotations :: "(string \<rightharpoonup> string) option"
  ov_annotations :: "(string \<rightharpoonup> string) option"

definition overlay_config :: "TunnelConfigSpec option \<Rightarrow> overlay \<Rightarrow> overlay" where
  "overlay_config cfg s =
     (case cfg of None \<Rightarrow> s
      | Some c \<Rightarrow> s\<lparr>ov_labels := put_all (deref_or [] (tc_PodLabels c)) (ov_labels s),
                   ov_pod_annotations := put_all_made (deref_or [] (tc_PodAnnotations c)) (ov_pod_annotations s)\<rparr>)"

definition overlay_infrastructure :: "GatewayInfrastructure option \<Rightarrow> overlay \<Rightarrow> overlay" where
  "overlay_infrastructure infra s =
     (case infra of None \<Rightarrow> s
      | Some i \<Rightarrow> s\<lparr>ov_labels := put_all (inf_Labels i) (ov_labels s),
                   ov_pod_annotations := put_all_made (inf_Annotations i) (ov_pod_annotations s),
                   ov_annotations := put_all_made (inf_Annotations i) (ov_annotations s)\<rparr>)"

definition BuildCloudflaredDeployment :: "Gateway \<Rightarrow> string \<Rightarrow> TunnelConfigSpec option \<Rightarrow> Deployment" where
  "BuildCloudflaredDeployment gw secretName cfg =
     (let deployName = DeploymentName (Name (gw_meta gw));
          container = tunnel_container secretName cfg;
          ov = overlay_infrastructure (Infrastructure gw) (overlay_config cfg
            \<lparr>ov_labels = [''app'' \<mapsto> deployName], ov_pod_annotations = None, ov_annotations = None\<rparr>)
      in \<lparr>dp_Name = deployName, dp_Namespace = Namespace (gw_meta gw), dp_Labels = ov_labels ov,
          dp_Annotations = ov_annotations ov, dp_Owners = [gateway_owner gw],
          dp_Spec =
            \<lparr>Replicas = deref_or 2 (setting tc_Replicas cfg),
             sel_MatchLabels = [''app'' \<mapsto> deployName],
             Template =
               \<lparr>pod_Labels = ov_labels ov, pod_Annotations = ov_pod_annotations ov,
                Containers = [container\<lparr>Resources := setting tc_Resources cfg\<rparr>],
                NodeSelector = setting tc_NodeSelector cfg, Tolerations = setting tc_Tolerations cfg,
                Affinity = setting tc_Affinity cfg\<rparr>,
             MaxUnavailable = ''50%'', MaxSurge = ''100%''\<rparr>\<rparr>)"

definition applyDeployment :: "('w, Deployment) Store \<Rightarrow> Deployment \<Rightarrow> 'w \<Rightarrow> goerror option \<times> 'w" where
  "applyDeployment st desired w =
     (case st_Get st w (dp_Namespace desired) (dp_Name desired) of
        Inl e \<Rightarrow> if apierrors_IsNotFound e then st_Create st w desired else (Some e, w)
      | Inr existing \<Rightarrow> st_Update st w (existing\<lparr>dp_Spec := dp_Spec desired, dp_Labels := dp_Labels desired\<rparr>))"

section \<open>Selector and labels\<close>

lemma put_all_Nil [simp]: "put_all [] m = m"
  by (simp add: put_all_def)

lemma put_all_map_add: "put_all entries m = m ++ map_of (rev entries)"
  unfolding put_all_def
  by (induction entries arbitrary: m) (auto simp: map_add_upd_left map_add_def fun_eq_iff split: option.splits)

lemma put_all_lookup: "put_all entries m k = or_else (map_of (rev entries) k) (m k)"
  by (cases "map_of (rev entries) k") (simp_all add: put_all_map_add map_add_def)

text \<open>The label app of the pods: the infrastructure's if it has one, else the configuration's, else the Deployment's name.\<close>

definition infra_labels :: "Gateway \<Rightarrow> (string \<times> string) list" where
  "infra_labels gw = (case Infrastructure gw of None \<Rightarrow> [] | Some i \<Rightarrow> inf_Labels i)"

definition app_label :: "Gateway \<Rightarrow> TunnelConfigSpec option \<Rightarrow> string" where
  "app_label gw cfg =
     deref_or (DeploymentName (Name (gw_meta gw)))
       (or_else (map_of (rev (infra_labels gw)) ''app'')
                (map_of (rev (deref_or [] (setting tc_PodLabels cfg))) ''app''))"

definition selects :: "(string \<rightharpoonup> string) \<Rightarrow> (string \<rightharpoonup> string) \<Rightarrow> bool" where
  "selects selector labels \<longleftrightarrow> selector \<subseteq>\<^sub>m labels"

lemma pod_labels_lookup:
  "pod_Labels (Template (dp_Spec (BuildCloudflaredDeployment gw secretName cfg))) k =
     or_else (map_of (rev (infra_labels gw)) k)
       (or_else (map_of (rev (deref_or [] (setting tc_PodLabels cfg))) k)
                ([''app'' \<mapsto> DeploymentName (Name (gw_meta gw))] k))"
  by (cases cfg; cases "Infrastructure gw")
    (simp_all add: BuildCloudflaredDeployment_def Let_def overlay_config_def overlay_infrastructure_def
      infra_labels_def setting_def put_all_lookup)

text \<open>
  The selector is fixed, the labels it must select are not. Whatever the configuration and the
  infrastructure, the Deployment selects on the label app with its own name, so an update never
  changes this immutable field, and the labels of the Deployment are those of its pods. The API
  server accepts the Deployment's selector exactly when no pod label or infrastructure label
  named app says otherwise.
\<close>

lemma BuildCloudflaredDeployment_selector:
  "sel_MatchLabels (dp_Spec (BuildCloudflaredDeployment gw secretName cfg)) =
      [''app'' \<mapsto> dp_Name (BuildCloudflaredDeployment gw secretName cfg)] \<and>
   dp_Labels (BuildCloudflaredDeployment gw secretName cfg) =
      pod_Labels (Template (dp_Spec (BuildCloudflaredDeployment gw secretName cfg))) \<and>
   (selects (sel_MatchLabels (dp_Spec (BuildCloudflaredDeployment gw secretName cfg)))
      (pod_Labels (Template (dp_Spec (BuildCloudflaredDeployment gw secretName cfg)))) \<longleftrightarrow>
    app_label gw cfg = DeploymentName (Name (gw_meta gw)))"
proof (intro conjI)
  have "pod_Labels (Template (dp_Spec (BuildCloudflaredDeployment gw secretName cfg))) ''app'' =
      Some (app_label gw cfg)"
    unfolding pod_labels_lookup app_label_def
    by (cases "map_of (rev (infra_labels gw)) ''app''";
        cases "map_of (rev (deref_or [] (setting tc_PodLabels cfg))) ''app''") simp_all
  then show "selects (sel_MatchLabels (dp_Spec (BuildCloudflaredDeployment gw secretName cfg)))
      (pod_Labels (Template (dp_Spec (BuildCloudflaredDeployment gw secretName cfg)))) \<longleftrightarrow>
    app_label gw cfg = DeploymentName (Name (gw_meta gw))"
    by (auto simp: selects_def map_le_def BuildCloudflaredDeployment_def Let_def)
qed (simp_all add: BuildCloudflaredDeployment_def Let_def)

text \<open>
  What no configuration can change: one container, unprivileged, which reads the tunnel token from
  the Gateway's Secret and ends its command line with run.
\<close>

lemma BuildCloudflaredDeployment_fixed:
  "\<exists>c. Containers (Template (dp_Spec (BuildCloudflaredDeployment gw secretName cfg))) = [c] \<and>
     ct_Security c = fixed_security \<and> last (Args c) = ''run'' \<and>
     Env c = [\<lparr>env_Name = ''TUNNEL_TOKEN'', env_Secret = secretName, env_Key = tunnelTokenKey\<rparr>]"
  by (simp add: BuildCloudflaredDeployment_def Let_def tunnel_container_def tunnel_args_def)

section \<open>Applying it\<close>

lemma applyDeployment_stored:
  assumes "documented_store deployment_key id st" and "applyDeployment st desired w = (None, w')"
  shows "\<exists>d. st_Get st w' (dp_Namespace desired) (dp_Name desired) = Inr d \<and>
     dp_Spec d = dp_Spec desired \<and> dp_Labels d = dp_Labels desired \<and>
     d\<lparr>dp_Spec := dp_Spec desired, dp_Labels := dp_Labels desired\<rparr> = d \<and>
     (case st_Get st w (dp_Namespace desired) (dp_Name desired) of
        Inl e \<Rightarrow> d = desired
      | Inr existing \<Rightarrow> dp_Annotations d = dp_Annotations existing \<and> dp_Owners d = dp_Owners existing)"
proof (cases "st_Get st w (dp_Namespace desired) (dp_Name desired)")
  case (Inl e)
  then have c: "st_Create st w desired = (None, w')"
    using assms(2) by (simp add: applyDeployment_def split: if_splits)
  have "deployment_key desired = (dp_Namespace desired, dp_Name desired)" by (simp add: deployment_key_def)
  from documented_create[OF assms(1) c this] Inl show ?thesis by simp
next
  case (Inr existing)
  let ?d = "existing\<lparr>dp_Spec := dp_Spec desired, dp_Labels := dp_Labels desired\<rparr>"
  have u: "st_Update st w ?d = (None, w')" using assms(2) Inr by (simp add: applyDeployment_def)
  have "deployment_key ?d = (dp_Namespace desired, dp_Name desired)"
    using documented_key[OF assms(1) Inr] by (simp add: deployment_key_def)
  from documented_update[OF assms(1) u this] Inr show ?thesis by simp
qed

text \<open>
  Applying a Deployment. When applyDeployment succeeds against a store that behaves as
  documented, what is stored has the desired spec and labels, and a second application of the
  same changes nothing that is read. Everything else of a Deployment that existed is kept, its
  annotations too: infrastructure annotations reach the Deployment only when it is created.
\<close>

lemma applyDeployment_converges:
  assumes "documented_store deployment_key id st" and "applyDeployment st desired w = (None, w')"
  shows "\<exists>d. st_Get st w' (dp_Namespace desired) (dp_Name desired) = Inr d \<and>
     dp_Spec d = dp_Spec desired \<and> dp_Labels d = dp_Labels desired \<and>
     d\<lparr>dp_Spec := dp_Spec desired, dp_Labels := dp_Labels desired\<rparr> = d \<and>
     (case st_Get st w (dp_Namespace desired) (dp_Name desired) of
        Inl e \<Rightarrow> d = desired
      | Inr existing \<Rightarrow> dp_Annotations d = dp_Annotations existing \<and> dp_Owners d = dp_Owners existing)"
  by (rule applyDeployment_stored[OF assms])

lemma applyDeployment_converges_witness:
  "\<exists>w'. applyDeployment (memory_store deployment_key id)
      (BuildCloudflaredDeployment sample_gateway ''s'' None) Map.empty = (None, w') \<and>
    (\<exists>d. st_Get (memory_store deployment_key id) w' ''infra'' ''cloudflared-edge'' = Inr d \<and>
       dp_Spec d = dp_Spec (BuildCloudflaredDeployment sample_gateway ''s'' None))"
proof -
  let ?d = "BuildCloudflaredDeployment sample_gateway ''s'' None"
  have st: "documented_store deployment_key id (memory_store deployment_key id)"
    by (rule documented_memory_store) simp_all
  have a: "applyDeployment (memory_store deployment_key id) ?d Map.empty =
      (None, [deployment_key ?d \<mapsto> ?d])"
    by (simp add: applyDeployment_def memory_store_def)
  have "dp_Namespace ?d = ''infra'' \<and> dp_Name ?d = ''cloudflared-edge''"
    by (simp add: BuildCloudflaredDeployment_def Let_def sample_gateway_def sample_meta_def DeploymentName_def)
  with applyDeployment_converges[OF st a] a show ?thesis by auto
qed

end
