(* ===== verification/Reconciler.thy ===== *)
theory Reconciler
  imports Precedence Dns BackendTLS XBackendStatus Deployment
begin

text \<open>
  internal/controller/reconciler.go: the composition of all components. The API server is a record
  of reads and writes over a world \<open>'w\<close>, which the Cloudflare API shares; every call that changes
  something threads the world, in the order of the code, and every early return is a branch.
  Reads take the world of the moment they are made. Log lines are dropped.
\<close>

section \<open>The reconciler and what it talks to\<close>

record 'w Cluster =
  cl_gateways :: "('w, Gateway) Store"
  cl_secrets :: "('w, Secret) Store"
  cl_deployments :: "('w, Deployment) Store"
  cl_get_class :: "'w \<Rightarrow> string \<Rightarrow> GatewayClass result"
  cl_get_config :: "'w \<Rightarrow> string \<Rightarrow> string \<Rightarrow> TunnelConfigSpec result"
  cl_get_namespace :: "'w \<Rightarrow> string \<Rightarrow> Labels result"
  cl_kube :: "'w \<Rightarrow> kube"
  cl_list_http :: "'w \<Rightarrow> HTTPRoute list result"
  cl_list_grpc :: "'w \<Rightarrow> GRPCRoute list result"
  cl_list_tls :: "'w \<Rightarrow> TLSRoute list result"
  cl_list_tcp :: "'w \<Rightarrow> TCPRoute list result"
  cl_list_access :: "'w \<Rightarrow> string \<Rightarrow> AccessPolicy list result"
  cl_list_origin :: "'w \<Rightarrow> string \<Rightarrow> OriginPolicy list result"
  cl_list_tls_policies :: "'w \<Rightarrow> policy_lister"
  cl_list_xbackends :: "'w \<Rightarrow> XBackend list result"
  cl_status_class :: "'w \<Rightarrow> GatewayClass \<Rightarrow> goerror option \<times> 'w"
  cl_status_gateway :: "'w \<Rightarrow> Gateway \<Rightarrow> goerror option \<times> 'w"
  cl_status_http :: "'w \<Rightarrow> HTTPRoute \<Rightarrow> goerror option \<times> 'w"
  cl_status_grpc :: "'w \<Rightarrow> GRPCRoute \<Rightarrow> goerror option \<times> 'w"
  cl_status_tls :: "'w \<Rightarrow> TLSRoute \<Rightarrow> goerror option \<times> 'w"
  cl_status_tcp :: "'w \<Rightarrow> TCPRoute \<Rightarrow> goerror option \<times> 'w"
  cl_status_access :: "'w \<Rightarrow> AccessPolicy \<Rightarrow> goerror option \<times> 'w"
  cl_status_origin :: "'w \<Rightarrow> OriginPolicy \<Rightarrow> goerror option \<times> 'w"
  cl_status_xbackend :: "'w \<Rightarrow> XBackend \<Rightarrow> goerror option \<times> 'w"
  cl_rand :: "'w \<Rightarrow> nat \<Rightarrow> byte list result \<times> 'w"
  cl_now :: "'w \<Rightarrow> Time"

record 'w GatewayReconciler =
  r_Client :: "'w Cluster"
  r_CloudflareClient :: "'w APIClient"
  r_ControllerName :: string
  ExperimentalBackends :: bool
  ManageDNS :: bool

definition finalizerName :: string where
  "finalizerName = ''cloudflared-gateway.jan0ski.net/cleanup''"

text \<open>
  A Patch function builds the object and writes its status; here it is run with the outcome the
  write will have in this world, and the world is the one after the write.
\<close>

definition write_status ::
  "('w \<Rightarrow> 'o \<Rightarrow> goerror option \<times> 'w) \<Rightarrow> (('o \<Rightarrow> goerror option) \<Rightarrow> goerror option \<times> 'o) \<Rightarrow> 'w
     \<Rightarrow> goerror option \<times> 'w" where
  "write_status update patch w =
     (let (err, x) = patch (\<lambda>x. fst (update w x)) in (err, snd (update w x)))"

definition kube_result :: "'a result \<Rightarrow> 'a result" where
  "kube_result r = (case r of Inl e \<Rightarrow> Inl (KubeError e) | Inr x \<Rightarrow> Inr x)"

text \<open>A panic passes through a return statement that would wrap an error.\<close>

definition kube_unless_panic :: "goerror \<Rightarrow> goerror" where
  "kube_unless_panic e = (case e of Panic m \<Rightarrow> Panic m | _ \<Rightarrow> KubeError e)"

fun is_TunnelNotFound :: "goerror \<Rightarrow> bool" where
  "is_TunnelNotFound ErrTunnelNotFound = True"
| "is_TunnelNotFound (Wrap _ e) = is_TunnelNotFound e"
| "is_TunnelNotFound (ControllerError _ e) = is_TunnelNotFound e"
| "is_TunnelNotFound _ = False"

section \<open>The tunnel\<close>

definition create_tunnel :: "'w GatewayReconciler \<Rightarrow> Gateway \<Rightarrow> byte list \<Rightarrow> 'w \<Rightarrow> Tunnel result \<times> 'w" where
  "create_tunnel r gw secret w =
     (case api_CreateTunnel (r_CloudflareClient r) w (Name (gw_meta gw)) secret of
        (Inl e, w') \<Rightarrow> (Inl (CloudflareError e), w')
      | (Inr created, w') \<Rightarrow> (Inr created, w'))"

text \<open>Get or create the tunnel; one whose secret was regenerated is deleted first.\<close>

definition ensure_tunnel ::
  "'w GatewayReconciler \<Rightarrow> Gateway \<Rightarrow> byte list \<Rightarrow> bool \<Rightarrow> 'w \<Rightarrow> Tunnel result \<times> 'w" where
  "ensure_tunnel r gw secret regenerated w =
     (case api_GetTunnelByName (r_CloudflareClient r) w (Name (gw_meta gw)) of
        Inl e \<Rightarrow> if \<not> is_TunnelNotFound e then (Inl (CloudflareError e), w) else create_tunnel r gw secret w
      | Inr tunnel \<Rightarrow>
          if regenerated
          then (case api_DeleteTunnel (r_CloudflareClient r) w (Tunnel_ID tunnel) of
                  (Some e, w') \<Rightarrow> (Inl (CloudflareError e), w')
                | (None, w') \<Rightarrow> create_tunnel r gw secret w')
          else (Inr tunnel, w))"

text \<open>The token is stored and the Deployment applied.\<close>

definition deploy_tunnel ::
  "'w GatewayReconciler \<Rightarrow> Gateway \<Rightarrow> TunnelConfigSpec option \<Rightarrow> byte list \<Rightarrow> Tunnel \<Rightarrow> 'w \<Rightarrow> Tunnel result \<times> 'w" where
  "deploy_tunnel r gw tunnelConfig secret tunnel w =
     (let token = BuildTunnelToken (api_AccountID (r_CloudflareClient r)) (Tunnel_ID tunnel) secret;
          secretName = TunnelSecretName (Name (gw_meta gw))
      in case StoreTunnelToken (cl_secrets (r_Client r)) (Namespace (gw_meta gw)) secretName token w of
           (Some e, w1) \<Rightarrow> (Inl (KubeError e), w1)
         | (None, w1) \<Rightarrow>
             (case applyDeployment (cl_deployments (r_Client r))
                     (BuildCloudflaredDeployment gw secretName tunnelConfig) w1 of
                (Some e, w2) \<Rightarrow> (Inl (KubeError e), w2)
              | (None, w2) \<Rightarrow> (Inr tunnel, w2)))"

text \<open>The first part of apply: class status, secret, tunnel, token and Deployment.\<close>

definition provision ::
  "'w GatewayReconciler \<Rightarrow> Gateway \<Rightarrow> GatewayClass \<Rightarrow> 'w \<Rightarrow> Tunnel result \<times> 'w" where
  "provision r gw gc w =
     (let cl = r_Client r;
          (tunnelConfig, classParamsOK, classParamsMsg) = resolveTunnelConfig (cl_get_config cl w) gw gc;
          (gcReason, gcMessage) = (if \<not> classParamsOK then (''InvalidParameters'', classParamsMsg)
            else (''Accepted'', ''GatewayClass is accepted''))
      in case write_status (cl_status_class cl)
             (\<lambda>u. PatchGatewayClassStatus u (cl_now cl w) gc classParamsOK gcReason gcMessage) w of
           (Some e, w1) \<Rightarrow> (Inl (KubeError e), w1)
         | (None, w1) \<Rightarrow>
             (case EnsureTunnelSecret (cl_secrets cl) (cl_rand cl) gw w1 of
                (Inl e, w2) \<Rightarrow> (Inl (kube_unless_panic e), w2)
              | (Inr (secret, regenerated), w2) \<Rightarrow>
                  (case ensure_tunnel r gw secret regenerated w2 of
                     (Inl e, w3) \<Rightarrow> (Inl e, w3)
                   | (Inr tunnel, w3) \<Rightarrow> deploy_tunnel r gw tunnelConfig secret tunnel w3)))"

section \<open>Routes, backends and rules\<close>

record attached =
  at_http :: "HTTPRoute list"
  at_grpc :: "GRPCRoute list"
  at_tls :: "TLSRoute list"
  at_tcp :: "TCPRoute list"
  at_origin :: "OriginPolicy list"
  at_svc :: svcBackends
  at_xb :: "xbBackends option"

definition listOriginPolicies :: "(string \<Rightarrow> OriginPolicy list result) \<Rightarrow> string \<Rightarrow> OriginPolicy list result" where
  "listOriginPolicies list namespace =
     (case list namespace of
        Inl e \<Rightarrow> Inl (Wrap ''listing CloudflareOriginPolicy resources'' e)
      | Inr policies \<Rightarrow> Inr policies)"

definition collect_attachments :: "'w GatewayReconciler \<Rightarrow> Gateway \<Rightarrow> 'w \<Rightarrow> attached result" where
  "collect_attachments r gw w =
     (let cl = r_Client r; getNS = cl_get_namespace cl w in
      bind_result (kube_result (collectHTTPRoutes getNS gw (cl_list_http cl w))) (\<lambda>http.
      bind_result (kube_result (collectGRPCRoutes getNS gw (cl_list_grpc cl w))) (\<lambda>grpc.
      bind_result (kube_result (collectTLSRoutes getNS gw (cl_list_tls cl w))) (\<lambda>tls.
      bind_result (kube_result (collectTCPRoutes getNS gw (cl_list_tcp cl w))) (\<lambda>tcp.
      bind_result (kube_result (listOriginPolicies (cl_list_origin cl w) (Namespace (gw_meta gw)))) (\<lambda>originPolicies.
      let backendTargets = collectBackendTargets http grpc tls tcp in
      bind_result (kube_result (collectServiceBackends (cl_kube cl w) backendTargets)) (\<lambda>svcCol.
      bind_result (if ExperimentalBackends r
                   then bind_result (kube_result (collectReferencedXBackends (cl_kube cl w) backendTargets)) (\<lambda>x. Inr (Some x))
                   else Inr None) (\<lambda>xbCol.
      Inr \<lparr>at_http = http, at_grpc = grpc, at_tls = tls, at_tcp = tcp, at_origin = originPolicies,
           at_svc = svcCol, at_xb = xbCol\<rparr>))))))))"

definition catch_all :: IngressRule where
  "catch_all = \<lparr>Hostname = '''', Path = '''', Service = ''http_status:404'', rule_Origin = None\<rparr>"

text \<open>The HTTP and gRPC band, sorted, and the whole list of ingress rules.\<close>

definition build_ingress ::
  "'w GatewayReconciler \<Rightarrow> Gateway \<Rightarrow> attached \<Rightarrow> 'w \<Rightarrow> (BuiltRule list \<times> IngressRule list) result" where
  "build_ingress r gw att w =
     (let cl = r_Client r; gwName = Name (gw_meta gw);
          resolve = backendResolver (ExperimentalBackends r) (at_xb att) (Some (at_svc att));
          l7 = BuildIngressRules (at_http att) resolve @ BuildGRPCIngressRules (at_grpc att) resolve in
      bind_result (kube_result (applyAccessPolicies (cl_list_access cl w (Namespace (gw_meta gw))) l7 gw)) (\<lambda>l7.
      let l7 = SortByPrecedence (applyOriginPolicies (at_origin att) gwName l7);
          tlsRules = BuildTLSIngressRules (at_tls att) resolve in
      bind_result (kube_result (applyBackendTLSPolicies (cl_list_tls_policies cl w) tlsRules (at_tls att))) (\<lambda>tlsRules.
      let tlsRules = applyOriginPolicies (at_origin att) gwName tlsRules;
          tcpRules = applyOriginPolicies (at_origin att) gwName (BuildTCPIngressRules (at_tcp att) resolve) in
      Inr (l7, ToIngressRules l7 @ ToIngressRules tlsRules @ ToIngressRules tcpRules @ [catch_all]))))"

definition collectUnsupportedMatchRoutes :: "BuiltRule list \<Rightarrow> string \<Rightarrow> bool" where
  "collectUnsupportedMatchRoutes rules =
     fold (\<lambda>r out. if UnsupportedMatch r then out(targetKey (br_RouteKind r) (br_RouteName r) := True) else out)
       rules (\<lambda>_. False)"

definition listener_count ::
  "HTTPRoute list \<Rightarrow> GRPCRoute list \<Rightarrow> TLSRoute list \<Rightarrow> TCPRoute list \<Rightarrow> string \<Rightarrow> 32 word" where
  "listener_count http grpc tls tcp protocol =
     (if protocol = ''HTTP'' \<or> protocol = ''HTTPS''
      then let count = word_of_nat (length http) + word_of_nat (length grpc)
           in if protocol = ''HTTPS'' then count + word_of_nat (length tls) else count
      else if protocol = ''TLS'' then word_of_nat (length tls)
      else if protocol = ''TCP'' then word_of_nat (length tcp)
      else 0)"

definition computeListenerCounts ::
  "Gateway \<Rightarrow> HTTPRoute list \<Rightarrow> GRPCRoute list \<Rightarrow> TLSRoute list \<Rightarrow> TCPRoute list \<Rightarrow> ListenerRouteCount list" where
  "computeListenerCounts gw http grpc tls tcp =
     map (\<lambda>l. \<lparr>lc_Name = l_Name l, lc_Protocol = Protocol l, Count = listener_count http grpc tls tcp (Protocol l)\<rparr>)
       (Listeners gw)"

section \<open>Status\<close>

text \<open>What the status of every route is written with.\<close>

record effects =
  ef_access :: "string \<Rightarrow> bool"
  ef_origin :: "string \<Rightarrow> bool"
  ef_unsupported :: "string \<Rightarrow> bool"

text \<open>One pass over the routes of a kind, keeping the first error.\<close>

definition patch_routes ::
  "('w \<Rightarrow> 'r Route \<Rightarrow> goerror option \<times> 'w) \<Rightarrow> (('r Route \<Rightarrow> goerror option) \<Rightarrow> 'w \<Rightarrow> 'r Route \<Rightarrow> goerror option \<times> 'r Route)
     \<Rightarrow> 'r Route list \<Rightarrow> goerror option \<times> 'w \<Rightarrow> goerror option \<times> 'w" where
  "patch_routes update patch routes st =
     fold (\<lambda>route st. let (statusErr, w) = st;
         (err, w') = write_status update (\<lambda>u. patch u w route) w
       in (or_else statusErr err, w')) routes st"

definition route_refs ::
  "'w GatewayReconciler \<Rightarrow> attached \<Rightarrow> string \<Rightarrow> ('r Route \<Rightarrow> BackendObjectReference list) \<Rightarrow> 'r Route \<Rightarrow> ResolvedRefsResult" where
  "route_refs r att kind objRefs route =
     routeResolvedRefs (ExperimentalBackends r) (rt_Namespace route) kind (objRefs route) (at_xb att) (Some (at_svc att))"

definition patch_route_statuses ::
  "'w GatewayReconciler \<Rightarrow> Gateway \<Rightarrow> attached \<Rightarrow> effects \<Rightarrow> goerror option \<times> 'w \<Rightarrow> goerror option \<times> 'w" where
  "patch_route_statuses r gw att ef st =
     (let cl = r_Client r; gwName = Name (gw_meta gw); gwNS = Namespace (gw_meta gw);
          st = patch_routes (cl_status_http cl) (\<lambda>u w route. let key = targetKey ''HTTPRoute'' (rt_Name route) in
            PatchHTTPRouteStatus u (cl_now cl w) route gwName gwNS True (ef_access ef key) (ef_origin ef key)
              (ef_unsupported ef key) (route_refs r att ''HTTPRoute'' httpRouteObjRefs route)) (at_http att) st;
          st = patch_routes (cl_status_grpc cl) (\<lambda>u w route. let key = targetKey ''GRPCRoute'' (rt_Name route) in
            PatchGRPCRouteStatus u (cl_now cl w) route gwName gwNS True (ef_access ef key) (ef_origin ef key)
              (ef_unsupported ef key) (route_refs r att ''GRPCRoute'' grpcRouteObjRefs route)) (at_grpc att) st;
          st = patch_routes (cl_status_tls cl) (\<lambda>u w route. let key = targetKey ''TLSRoute'' (rt_Name route) in
            PatchTLSRouteStatus u (cl_now cl w) route gwName gwNS True (ef_access ef key) (ef_origin ef key)
              (route_refs r att ''TLSRoute'' tlsRouteObjRefs route)) (at_tls att) st
      in patch_routes (cl_status_tcp cl) (\<lambda>u w route. let key = targetKey ''TCPRoute'' (rt_Name route) in
            PatchTCPRouteStatus u (cl_now cl w) route gwName gwNS True (ef_access ef key) (ef_origin ef key)
              (route_refs r att ''TCPRoute'' tcpRouteObjRefs route)) (at_tcp att) st)"

text \<open>Policies whose status was changed are written; a failed write is logged only.\<close>

definition write_policies :: "('w \<Rightarrow> 'p \<Rightarrow> goerror option \<times> 'w) \<Rightarrow> ('p \<times> bool) list \<Rightarrow> 'w \<Rightarrow> 'w" where
  "write_policies update ps w = fold (\<lambda>(p, changed) w. if changed then snd (update w p) else w) ps w"

definition patch_access_statuses ::
  "'w GatewayReconciler \<Rightarrow> Gateway \<Rightarrow> (string \<Rightarrow> bool) \<Rightarrow> 'w \<Rightarrow> goerror option \<times> (string \<Rightarrow> bool) \<times> 'w" where
  "patch_access_statuses r gw valid w =
     (let cl = r_Client r in
      case patchAccessPolicyStatuses (cl_now cl w) (cl_list_access cl w (Namespace (gw_meta gw))) gw (r_ControllerName r) valid of
        Inl e \<Rightarrow> (Some e, (\<lambda>_. False), w)
      | Inr (ps, affected) \<Rightarrow> (None, affected, write_policies (cl_status_access cl) ps w))"

definition patch_origin_statuses ::
  "'w GatewayReconciler \<Rightarrow> OriginPolicy list \<Rightarrow> Gateway \<Rightarrow> (string \<Rightarrow> bool) \<Rightarrow> 'w \<Rightarrow> (string \<Rightarrow> bool) \<times> 'w" where
  "patch_origin_statuses r policies gw valid w =
     (let cl = r_Client r;
          (ps, affected) = patchOriginPolicyStatuses (cl_now cl w) policies gw (r_ControllerName r) valid
      in (affected, write_policies (cl_status_origin cl) ps w))"

text \<open>All statuses in the order of apply; the result is the first error.\<close>

definition patch_statuses ::
  "'w GatewayReconciler \<Rightarrow> Gateway \<Rightarrow> attached \<Rightarrow> BuiltRule list \<Rightarrow> string \<Rightarrow> goerror option \<Rightarrow> 'w \<Rightarrow> goerror option \<times> 'w" where
  "patch_statuses r gw att l7 tunnelID dnsErr w =
     (let cl = r_Client r;
          unsupportedRoutes = collectUnsupportedMatchRoutes l7;
          validTargets = validPolicyTargets gw (at_http att) (at_grpc att) (at_tls att) (at_tcp att);
          (statusErr, accessAffected, w) = patch_access_statuses r gw validTargets w;
          (originAffected, w) = patch_origin_statuses r (at_origin att) gw validTargets w;
          (statusErr, w) = patch_route_statuses r gw att
            \<lparr>ef_access = accessAffected, ef_origin = originAffected, ef_unsupported = unsupportedRoutes\<rparr> (statusErr, w);
          (xbErr, w) = patchXBackendStatuses (cl_list_xbackends cl) (cl_status_xbackend cl) (cl_now cl w) gw
            (r_ControllerName r) (at_xb att) w;
          gwKey = targetKey ''Gateway'' (Name (gw_meta gw));
          gw = setGatewayPolicyAffected (cl_now cl w) gw (accessAffected gwKey) (originAffected gwKey);
          listenerCounts = computeListenerCounts gw (at_http att) (at_grpc att) (at_tls att) (at_tcp att);
          (gwErr, w) = write_status (cl_status_gateway cl)
            (\<lambda>u. PatchGatewayStatus u (cl_now cl w) gw tunnelID listenerCounts dnsErr) w
      in (or_else (or_else statusErr xbErr) gwErr, w))"

section \<open>apply\<close>

text \<open>
  What follows once the rules are built: the tunnel configuration is pushed, then DNS is reconciled,
  whose error does not stop the status from being written.
\<close>

definition publish ::
  "'w GatewayReconciler \<Rightarrow> Gateway \<Rightarrow> attached \<Rightarrow> BuiltRule list \<Rightarrow> IngressRule list \<Rightarrow> Tunnel \<Rightarrow> 'w \<Rightarrow> goerror option \<times> 'w" where
  "publish r gw att l7 ingress tunnel w =
     (case api_UpdateTunnelConfiguration (r_CloudflareClient r) w (Tunnel_ID tunnel) ingress of
        (Some e, w1) \<Rightarrow> (Some (CloudflareError e), w1)
      | (None, w1) \<Rightarrow>
          (let (dnsErr, w2) = reconcileDNS (r_CloudflareClient r) (ManageDNS r) gw (Tunnel_ID tunnel)
                 (collectRouteHostnames (at_http att) (at_grpc att) (at_tls att)) w1;
               (statusErr, w3) = patch_statuses r gw att l7 (Tunnel_ID tunnel) dnsErr w2
           in (case statusErr of
                 Some e \<Rightarrow> (Some (KubeError e), w3)
               | None \<Rightarrow> (map_option CloudflareError dnsErr, w3))))"

definition apply_gateway ::
  "'w GatewayReconciler \<Rightarrow> Gateway \<Rightarrow> GatewayClass \<Rightarrow> 'w \<Rightarrow> goerror option \<times> 'w" where
  "apply_gateway r gw gc w =
     (if UID (gw_meta gw) = '''' then (Some (ConfigError ''Gateway has no UID''), w)
      else case provision r gw gc w of
        (Inl e, w1) \<Rightarrow> (Some e, w1)
      | (Inr tunnel, w1) \<Rightarrow>
          (case collect_attachments r gw w1 of
             Inl e \<Rightarrow> (Some e, w1)
           | Inr att \<Rightarrow>
               (case build_ingress r gw att w1 of
                  Inl e \<Rightarrow> (Some e, w1)
                | Inr (l7, ingress) \<Rightarrow> publish r gw att l7 ingress tunnel w1)))"

section \<open>cleanup\<close>

definition cleanup_tunnel :: "'w GatewayReconciler \<Rightarrow> Gateway \<Rightarrow> 'w \<Rightarrow> goerror option \<times> 'w" where
  "cleanup_tunnel r gw w =
     (case api_GetTunnelByName (r_CloudflareClient r) w (Name (gw_meta gw)) of
        Inl e \<Rightarrow> if \<not> is_TunnelNotFound e then (Some e, w) else (None, w)
      | Inr tunnel \<Rightarrow> api_DeleteTunnel (r_CloudflareClient r) w (Tunnel_ID tunnel))"

text \<open>Get and delete an object of a store; that it is missing at either step is no error.\<close>

definition cleanup_object ::
  "('w, 'o) Store \<Rightarrow> string \<Rightarrow> string \<Rightarrow> goerror option \<times> 'w \<Rightarrow> goerror option \<times> 'w" where
  "cleanup_object store ns name st =
     (let (firstErr, w) = st in
      case st_Get store w ns name of
        Inl e \<Rightarrow> if \<not> apierrors_IsNotFound e then (or_else firstErr (Some e), w) else (firstErr, w)
      | Inr x \<Rightarrow>
          (case st_Delete store w x of
             (None, w') \<Rightarrow> (firstErr, w')
           | (Some e, w') \<Rightarrow> if \<not> apierrors_IsNotFound e then (or_else firstErr (Some e), w') else (firstErr, w')))"

definition prunePolicyAncestorStatus :: "'w GatewayReconciler \<Rightarrow> Gateway \<Rightarrow> 'w \<Rightarrow> 'w" where
  "prunePolicyAncestorStatus r gw w =
     (let cl = r_Client r; ancestor = gatewayAncestorRef gw;
          w = (case cl_list_access cl w (Namespace (gw_meta gw)) of
             Inl e \<Rightarrow> w
           | Inr ps \<Rightarrow> write_policies (cl_status_access cl)
               (map (\<lambda>p. let (as, removed) = removeAncestor (ap_Ancestors p) ancestor (r_ControllerName r)
                         in (p\<lparr>ap_Ancestors := as\<rparr>, removed)) ps) w)
      in case listOriginPolicies (cl_list_origin cl w) (Namespace (gw_meta gw)) of
           Inl e \<Rightarrow> w
         | Inr ps \<Rightarrow> write_policies (cl_status_origin cl)
             (map (\<lambda>p. let (as, removed) = removeAncestor (op_Ancestors p) ancestor (r_ControllerName r)
                       in (p\<lparr>op_Ancestors := as\<rparr>, removed)) ps) w)"

definition cleanup :: "'w GatewayReconciler \<Rightarrow> Gateway \<Rightarrow> 'w \<Rightarrow> goerror option \<times> 'w" where
  "cleanup r gw w =
     (let cl = r_Client r; ns = Namespace (gw_meta gw); name = Name (gw_meta gw);
          (firstErr, w) = cleanup_object (cl_secrets cl) ns (TunnelSecretName name)
            (cleanup_object (cl_deployments cl) ns (DeploymentName name) (cleanup_tunnel r gw w));
          (dnsErr, w) = teardownDNS (r_CloudflareClient r) (ManageDNS r) gw w;
          firstErr = or_else firstErr dnsErr;
          w = prunePolicyAncestorStatus r gw w;
          (_, w) = pruneXBackendAncestorStatus (cl_list_xbackends cl) (cl_status_xbackend cl)
            (ExperimentalBackends r) gw (r_ControllerName r) w
      in (firstErr, w))"

section \<open>Reconcile\<close>

definition ContainsFinalizer :: "Gateway \<Rightarrow> bool" where
  "ContainsFinalizer gw \<longleftrightarrow> finalizerName \<in> set (Finalizers (gw_meta gw))"

definition set_finalizers :: "(string list \<Rightarrow> string list) \<Rightarrow> Gateway \<Rightarrow> Gateway" where
  "set_finalizers f gw = gw\<lparr>gw_meta := (gw_meta gw)\<lparr>Finalizers := f (Finalizers (gw_meta gw))\<rparr>\<rparr>"

definition AddFinalizer :: "Gateway \<Rightarrow> Gateway" where
  "AddFinalizer = set_finalizers (\<lambda>fs. fs @ [finalizerName])"

definition RemoveFinalizer :: "Gateway \<Rightarrow> Gateway" where
  "RemoveFinalizer = set_finalizers (filter (\<lambda>f. f \<noteq> finalizerName))"

definition finalize :: "'w GatewayReconciler \<Rightarrow> Gateway \<Rightarrow> 'w \<Rightarrow> goerror option \<times> 'w" where
  "finalize r gw w =
     (if ContainsFinalizer gw
      then (case cleanup r gw w of
              (Some e, w1) \<Rightarrow> (Some (CloudflareError e), w1)
            | (None, w1) \<Rightarrow>
                (case st_Update (cl_gateways (r_Client r)) w1 (RemoveFinalizer gw) of
                   (Some e, w2) \<Rightarrow> (Some (FinalizerError e), w2)
                 | (None, w2) \<Rightarrow> (None, w2)))
      else (None, w))"

definition claim_and_apply ::
  "'w GatewayReconciler \<Rightarrow> Gateway \<Rightarrow> GatewayClass \<Rightarrow> 'w \<Rightarrow> goerror option \<times> 'w" where
  "claim_and_apply r gw gc w =
     (if \<not> ContainsFinalizer gw
      then (case st_Update (cl_gateways (r_Client r)) w (AddFinalizer gw) of
              (Some e, w1) \<Rightarrow> (Some (FinalizerError e), w1)
            | (None, w1) \<Rightarrow> apply_gateway r (AddFinalizer gw) gc w1)
      else apply_gateway r gw gc w)"

definition reconcile ::
  "'w GatewayReconciler \<Rightarrow> string \<Rightarrow> string \<Rightarrow> 'w \<Rightarrow> goerror option \<times> 'w" where
  "reconcile r namespace name w =
     (case st_Get (cl_gateways (r_Client r)) w namespace name of
        Inl e \<Rightarrow> if apierrors_IsNotFound e then (None, w) else (Some (KubeError e), w)
      | Inr gw \<Rightarrow>
          (case cl_get_class (r_Client r) w (GatewayClassName gw) of
             Inl e \<Rightarrow> if apierrors_IsNotFound e then (None, w) else (Some (KubeError e), w)
           | Inr gc \<Rightarrow>
               if gc_ControllerName gc \<noteq> r_ControllerName r then (None, w)
               else if DeletionTimestamp (gw_meta gw) \<noteq> None then finalize r gw w
               else claim_and_apply r gw gc w))"

text \<open>The error policy: a permanent error is logged and not returned.\<close>

definition Reconcile ::
  "'w GatewayReconciler \<Rightarrow> string \<Rightarrow> string \<Rightarrow> 'w \<Rightarrow> goerror option \<times> 'w" where
  "Reconcile r namespace name w =
     (case reconcile r namespace name w of
        (Some e, w') \<Rightarrow> if IsPermanent e then (None, w') else (Some e, w')
      | (None, w') \<Rightarrow> (None, w'))"

end
