(* ===== verification/Sample.thy ===== *)
theory Sample
  imports Reconciler
begin

text \<open>
  A small world for the reconciler: a class, Gateways, Secrets, Deployments, routes, policies and XBackends as the API
  server stores them, status included, and a Cloudflare account with tunnels, their configurations and one
  zone of DNS records. Every write is stored: a status written to a route is what the next listing shows, and a Gateway
  being deleted disappears when its last finalizer goes. The properties of the composed reconciler are exercised here; their
  hypotheses about the API server and Cloudflare hold of it.
\<close>

text \<open>What is listed, or read by name, together with its status.\<close>

record listed =
  li_class :: GatewayClass
  li_http :: "HTTPRoute list"
  li_grpc :: "GRPCRoute list"
  li_tls :: "TLSRoute list"
  li_tcp :: "TCPRoute list"
  li_access :: "AccessPolicy list"
  li_origin :: "OriginPolicy list"
  li_xbackends :: "XBackend list"

record world =
  wd_gateways :: "string \<times> string \<rightharpoonup> Gateway"
  wd_secrets :: "string \<times> string \<rightharpoonup> Secret"
  wd_deployments :: "string \<times> string \<rightharpoonup> Deployment"
  wd_listed :: listed
  wd_tunnels :: "(Tunnel \<times> byte list) list"
  wd_config :: "string \<rightharpoonup> IngressRule list"
  wd_dns :: "DNSRecord list"

text \<open>A store over one part of a larger world.\<close>

definition part_store ::
  "('s \<Rightarrow> 'm) \<Rightarrow> (('m \<Rightarrow> 'm) \<Rightarrow> 's \<Rightarrow> 's) \<Rightarrow> ('m, 'o) Store \<Rightarrow> ('s, 'o) Store" where
  "part_store part update st =
     \<lparr>st_Get = (\<lambda>s. st_Get st (part s)),
      st_Create = (\<lambda>s x. let (e, m) = st_Create st (part s) x in (e, update (\<lambda>_. m) s)),
      st_Update = (\<lambda>s x. let (e, m) = st_Update st (part s) x in (e, update (\<lambda>_. m) s)),
      st_Delete = (\<lambda>s x. let (e, m) = st_Delete st (part s) x in (e, update (\<lambda>_. m) s))\<rparr>"

lemma documented_part_store:
  assumes "documented_store key persisted st" and "\<And>f s. part (update f s) = f (part s)"
  shows "documented_store key persisted (part_store part update st)"
  using assms by (auto simp: documented_store_def part_store_def Let_def split: prod.splits)

definition gateway_key :: "Gateway \<Rightarrow> string \<times> string" where
  "gateway_key gw = (Namespace (gw_meta gw), Name (gw_meta gw))"

text \<open>
  Gateways: an update leaves the stored status alone, and removes a Gateway that is being deleted
  and has no finalizer left; a delete of one that has finalizers only marks it.
\<close>

definition finalized_store :: "(string \<times> string \<rightharpoonup> Gateway, Gateway) Store" where
  "finalized_store =
     \<lparr>st_Get = (\<lambda>m ns name. case m (ns, name) of None \<Rightarrow> Inl NotFound
        | Some x \<Rightarrow> if gateway_key x = (ns, name) then Inr x else Inl NotFound),
      st_Create = (\<lambda>m x. if m (gateway_key x) = None then (None, m(gateway_key x \<mapsto> x)) else (Some (Err ''already exists''), m)),
      st_Update = (\<lambda>m x. case m (gateway_key x) of
          None \<Rightarrow> (Some NotFound, m)
        | Some stored \<Rightarrow>
            if DeletionTimestamp (gw_meta x) \<noteq> None \<and> Finalizers (gw_meta x) = [] then (None, m(gateway_key x := None))
            else (None, m(gateway_key x \<mapsto> x\<lparr>gw_Status := gw_Status stored\<rparr>))),
      st_Delete = (\<lambda>m x. case m (gateway_key x) of
          None \<Rightarrow> (Some NotFound, m)
        | Some stored \<Rightarrow>
            if Finalizers (gw_meta stored) = [] then (None, m(gateway_key x := None))
            else (None, m(gateway_key x \<mapsto> stored\<lparr>gw_meta := (gw_meta stored)\<lparr>DeletionTimestamp := Some 9\<rparr>\<rparr>)))\<rparr>"

definition gateway_store :: "(world, Gateway) Store" where
  "gateway_store = part_store wd_gateways wd_gateways_update finalized_store"

definition secret_store :: "(world, Secret) Store" where
  "secret_store = part_store wd_secrets wd_secrets_update (memory_store secret_key persisted_secret)"

definition deployment_store :: "(world, Deployment) Store" where
  "deployment_store = part_store wd_deployments wd_deployments_update (memory_store deployment_key id)"

lemma keyed_gateway_store: "keyed_store gateway_key gateway_store"
  by (auto simp: keyed_store_def gateway_store_def part_store_def finalized_store_def split: option.splits if_splits)

lemma documented_sample_stores:
  "documented_store secret_key persisted_secret secret_store"
  "documented_store deployment_key id deployment_store"
  unfolding secret_store_def deployment_store_def
  by (intro documented_part_store documented_memory_store;
      simp add: persisted_secret_key persisted_secret_idem)+

definition sample_http_route :: HTTPRoute where
  "sample_http_route =
     \<lparr>rt_meta = sample_meta ''apps'' ''shop'', ParentRefs = [sample_ref], Hostnames = [''a.example.com''],
      Rules = [\<lparr>hr_Matches = [\<lparr>hm_Path = None, hm_Headers = [], hm_QueryParams = [], hm_Method = Some ''GET''\<rparr>],
        hr_Filters = [], hr_BackendRefs = [\<lparr>bo_Group = None, bo_Kind = None, bo_Name = ''cart'',
          bo_Namespace = Some ''shop'', bo_Port = Some 80\<rparr>], hr_Timeouts = None\<rparr>], Parents = []\<rparr>"

definition sample_class :: GatewayClass where
  "sample_class = \<lparr>gc_Name = ''cloudflare'', gc_Generation = 1, gc_ControllerName = ''cf'',
     gc_ParametersRef = None, gc_Conditions = []\<rparr>"

definition sample_listed :: listed where
  "sample_listed = \<lparr>li_class = sample_class, li_http = [sample_http_route], li_grpc = [], li_tls = [], li_tcp = [],
     li_access = [], li_origin = [], li_xbackends = []\<rparr>"

text \<open>A status write: the object of that name keeps everything but its status.\<close>

definition put_status :: "('o \<Rightarrow> 'k) \<Rightarrow> ('o \<Rightarrow> 'o \<Rightarrow> 'o) \<Rightarrow> 'o \<Rightarrow> 'o list \<Rightarrow> 'o list" where
  "put_status key merge x = map (\<lambda>stored. if key stored = key x then merge x stored else stored)"

definition put_parents :: "'r Route \<Rightarrow> 'r Route list \<Rightarrow> 'r Route list" where
  "put_parents = put_status (\<lambda>r. (rt_Namespace r, rt_Name r)) (\<lambda>x stored. stored\<lparr>Parents := Parents x\<rparr>)"

definition put_gateway_status :: "Gateway \<Rightarrow> (string \<times> string \<rightharpoonup> Gateway) \<Rightarrow> (string \<times> string \<rightharpoonup> Gateway)" where
  "put_gateway_status gw m = (\<lambda>k. case m k of None \<Rightarrow> None
     | Some stored \<Rightarrow> Some (if k = gateway_key gw then stored\<lparr>gw_Status := gw_Status gw\<rparr> else stored))"

definition in_namespace :: "('o \<Rightarrow> ObjectMeta) \<Rightarrow> 'o list \<Rightarrow> string \<Rightarrow> 'o list result" where
  "in_namespace meta xs ns = Inr (filter (\<lambda>x. Namespace (meta x) = ns) xs)"

definition sample_cluster :: "world Cluster" where
  "sample_cluster =
     \<lparr>cl_gateways = gateway_store, cl_secrets = secret_store, cl_deployments = deployment_store,
      cl_get_class = (\<lambda>w name. if name = gc_Name (li_class (wd_listed w)) then Inr (li_class (wd_listed w)) else Inl NotFound),
      cl_get_config = (\<lambda>_ _ _. Inl NotFound), cl_get_namespace = (\<lambda>_ _. Inl NotFound), cl_kube = (\<lambda>_. sample_kube),
      cl_list_http = (\<lambda>w. Inr (li_http (wd_listed w))), cl_list_grpc = (\<lambda>w. Inr (li_grpc (wd_listed w))),
      cl_list_tls = (\<lambda>w. Inr (li_tls (wd_listed w))), cl_list_tcp = (\<lambda>w. Inr (li_tcp (wd_listed w))),
      cl_list_access = (\<lambda>w. in_namespace ap_meta (li_access (wd_listed w))),
      cl_list_origin = (\<lambda>w. in_namespace op_meta (li_origin (wd_listed w))),
      cl_list_tls_policies = (\<lambda>_. no_tls_policies), cl_list_xbackends = (\<lambda>w. Inr (li_xbackends (wd_listed w))),
      cl_status_class = (\<lambda>w gc. (None, wd_listed_update (li_class_update (\<lambda>stored. stored\<lparr>gc_Conditions := gc_Conditions gc\<rparr>)) w)),
      cl_status_gateway = (\<lambda>w gw. (None, wd_gateways_update (put_gateway_status gw) w)),
      cl_status_http = (\<lambda>w r. (None, wd_listed_update (li_http_update (put_parents r)) w)),
      cl_status_grpc = (\<lambda>w r. (None, wd_listed_update (li_grpc_update (put_parents r)) w)),
      cl_status_tls = (\<lambda>w r. (None, wd_listed_update (li_tls_update (put_parents r)) w)),
      cl_status_tcp = (\<lambda>w r. (None, wd_listed_update (li_tcp_update (put_parents r)) w)),
      cl_status_access = (\<lambda>w p. (None, wd_listed_update (li_access_update
        (put_status policy_id (\<lambda>x stored. stored\<lparr>ap_Ancestors := ap_Ancestors x\<rparr>) p)) w)),
      cl_status_origin = (\<lambda>w p. (None, wd_listed_update (li_origin_update
        (put_status (\<lambda>x. (Namespace (op_meta x), Name (op_meta x))) (\<lambda>x stored. stored\<lparr>op_Ancestors := op_Ancestors x\<rparr>) p)) w)),
      cl_status_xbackend = (\<lambda>w b. (None, wd_listed_update (li_xbackends_update
        (put_status (\<lambda>x. (Namespace (xb_meta x), Name (xb_meta x))) (\<lambda>x stored. stored\<lparr>xb_Ancestors := xb_Ancestors x\<rparr>) b)) w)),
      cl_rand = (\<lambda>w n. (Inr (replicate n 7), w)), cl_now = (\<lambda>_. 5)\<rparr>"

text \<open>The account: one zone, whose records are kept with the name as identifier.\<close>

definition sample_dns_batch :: "DNSChanges \<Rightarrow> DNSRecord list \<Rightarrow> DNSRecord list" where
  "sample_dns_batch c records =
     map (patched (Updates c)) (filter (\<lambda>r. rec_ID r \<notin> rec_ID ` set (Deletes c)) records) @
       map (\<lambda>d. d\<lparr>rec_ID := rec_Name d\<rparr>) (Creates c)"

definition sample_cloudflare :: "world APIClient" where
  "sample_cloudflare =
     \<lparr>api_CreateTunnel = (\<lambda>w name secret. let t = \<lparr>Tunnel_ID = ''t1'', Tunnel_Name = name\<rparr>
        in (Inr t, wd_tunnels_update (\<lambda>ts. (t, secret) # ts) w)),
      api_GetTunnelByName = (\<lambda>w name. case find (\<lambda>(t, _). Tunnel_Name t = name) (wd_tunnels w) of
        None \<Rightarrow> Inl ErrTunnelNotFound | Some (t, _) \<Rightarrow> Inr t),
      api_DeleteTunnel = (\<lambda>w i. (None, wd_tunnels_update (\<lambda>ts. filter (\<lambda>(t, _). \<not> list_ex (\<lambda>(u, _). Tunnel_ID u = i \<and> Tunnel_Name u = Tunnel_Name t) ts) ts) w)),
      api_UpdateTunnelConfiguration = (\<lambda>w i rules. (None, wd_config_update (\<lambda>c. c(i \<mapsto> rules)) w)),
      api_AccountID = ''acc'',
      api_ListZones = (\<lambda>_. Inr [\<lparr>Zone_ID = ''z1'', Zone_Name = ''example.com''\<rparr>]),
      api_ListDNSRecords = (\<lambda>w z. if z = ''z1'' then Inr (wd_dns w) else Inl (Err ''no such zone'')),
      api_ApplyDNSChanges = (\<lambda>w z changes. if z = ''z1'' then (None, wd_dns_update (sample_dns_batch changes) w)
        else (Some (Err ''no such zone''), w))\<rparr>"

definition sample_reconciler :: "world GatewayReconciler" where
  "sample_reconciler = \<lparr>r_Client = sample_cluster, r_CloudflareClient = sample_cloudflare,
     r_ControllerName = ''cf'', ExperimentalBackends = False, ManageDNS = False\<rparr>"

definition sample_world :: world where
  "sample_world = \<lparr>wd_gateways = [(''infra'', ''edge'') \<mapsto> sample_gateway], wd_secrets = Map.empty,
     wd_deployments = Map.empty, wd_listed = sample_listed, wd_tunnels = [], wd_config = Map.empty, wd_dns = []\<rparr>"

text \<open>What is built for the sample Gateway: the granted Service is served, and the catch-all.\<close>

definition shop_rule :: IngressRule where
  "shop_rule = \<lparr>Hostname = ''a.example.com'', Path = '''', Service = ''http://cart.shop:80'', rule_Origin = None\<rparr>"

lemma sample_build:
  "(case collect_attachments sample_reconciler sample_gateway sample_world of
      Inl e \<Rightarrow> None
    | Inr att \<Rightarrow> (case build_ingress sample_reconciler sample_gateway att sample_world of
         Inl e \<Rightarrow> None
       | Inr (l7, ingress) \<Rightarrow> Some (map Hostnames (at_http att), map built_rule l7, ingress))) =
   Some ([[''a.example.com'']], [shop_rule], [shop_rule, catch_all])"
  by code_simp

end
