(* ===== verification/Pipeline.thy ===== *)
theory Pipeline
  imports Sample
begin

text \<open>
  What apply pushes to Cloudflare: the properties of the list of ingress rules as a whole, across
  attachment, backend resolution, the builders, the policies and the sort.
\<close>

section \<open>Policies change origin settings only\<close>

definition keeps :: "BuiltRule \<Rightarrow> BuiltRule \<Rightarrow> bool" where
  "keeps r r' \<longleftrightarrow> (\<exists>o'. r' = set_rule_origin o' r)"

lemma keeps_refl [intro]: "keeps r r"
  unfolding keeps_def by (rule exI[of _ "rule_Origin (built_rule r)"]) (simp add: set_rule_origin_def)

lemma keeps_set [intro]: "keeps r (set_rule_origin o' r)"
  by (auto simp: keeps_def)

lemma keeps_trans: "keeps a b \<Longrightarrow> keeps b c \<Longrightarrow> keeps a c"
  by (auto simp: keeps_def set_rule_origin_def)

lemma keeps_fields:
  assumes "keeps r r'"
  shows "Hostname (built_rule r') = Hostname (built_rule r)" "Path (built_rule r') = Path (built_rule r)"
    "Service (built_rule r') = Service (built_rule r)" "br_RouteName r' = br_RouteName r"
    "br_RouteKind r' = br_RouteKind r" "UnsupportedMatch r' = UnsupportedMatch r" "prec_key r' = prec_key r"
  using assms by (auto simp: keeps_def set_rule_origin_def prec_key_def)

lemma keeps_all_refl: "list_all2 keeps rs rs"
  by (rule list_all2_refl) blast

lemma applyAccessPolicies_keeps:
  "applyAccessPolicies listed rules gw = Inr rules' \<Longrightarrow> list_all2 keeps rules rules'"
  by (auto simp: applyAccessPolicies_def Let_def keeps_all_refl list_all2_map2 set_access_def
      intro!: list_all2_refl split: sum.splits if_splits option.splits)

lemma applyOriginPolicies_keeps: "list_all2 keeps rules (applyOriginPolicies policies gwName rules)"
proof -
  have "list_all2 keeps rules (apply_origin_loop policies gwName cache rules)" for cache
    by (induction rules arbitrary: cache) (auto simp: Let_def merge_policy_def split: option.splits)
  then show ?thesis by (simp add: applyOriginPolicies_def)
qed

lemma applyBackendTLSPolicies_keeps:
  assumes "applyBackendTLSPolicies list rules routes = Inr rules'"
  shows "list_all2 keeps rules rules'"
  by (rule list_all2_mono[OF overridden_all[OF assms]]) (auto simp: overridden_as_def split: option.splits)

lemma keeps_all_trans: "list_all2 keeps a b \<Longrightarrow> list_all2 keeps b c \<Longrightarrow> list_all2 keeps a c"
  by (rule list_all2_trans[of keeps keeps keeps]) (blast intro: keeps_trans)

lemma keeps_all_mem: "list_all2 keeps rs rs' \<Longrightarrow> b \<in> set rs' \<Longrightarrow> \<exists>a \<in> set rs. keeps a b"
  by (metis in_set_conv_nth list_all2_conv_all_nth)

section \<open>What is pushed\<close>

text \<open>
  The parts of a successful build: the rules as built, the rules after the policies, and the pushed
  list.
\<close>

definition l7_built :: "'w GatewayReconciler \<Rightarrow> attached \<Rightarrow> BuiltRule list" where
  "l7_built r att =
     (let resolve = backendResolver (ExperimentalBackends r) (at_xb att) (Some (at_svc att))
      in BuildIngressRules (at_http att) resolve @ BuildGRPCIngressRules (at_grpc att) resolve)"

definition stream_built :: "'w GatewayReconciler \<Rightarrow> attached \<Rightarrow> BuiltRule list" where
  "stream_built r att =
     (let resolve = backendResolver (ExperimentalBackends r) (at_xb att) (Some (at_svc att))
      in BuildTLSIngressRules (at_tls att) resolve @ BuildTCPIngressRules (at_tcp att) resolve)"

lemma kube_result_Inr [simp]: "kube_result x = Inr y \<longleftrightarrow> x = Inr y"
  by (cases x) (simp_all add: kube_result_def)

lemma build_ingress_parts:
  assumes "build_ingress r gw att w = Inr (l7, ingress)"
  obtains l7' stream where "list_all2 keeps (l7_built r att) l7'" "l7 = SortByPrecedence l7'"
    "list_all2 keeps (stream_built r att) stream" "ingress = map built_rule (l7 @ stream) @ [catch_all]"
proof -
  let ?resolve = "backendResolver (ExperimentalBackends r) (at_xb att) (Some (at_svc att))"
  let ?name = "Name (gw_meta gw)"
  obtain acc tls where acc: "applyAccessPolicies (cl_list_access (r_Client r) w (Namespace (gw_meta gw)))
        (l7_built r att) gw = Inr acc"
      and l7: "l7 = SortByPrecedence (applyOriginPolicies (at_origin att) ?name acc)"
      and tls: "applyBackendTLSPolicies (cl_list_tls_policies (r_Client r) w)
        (BuildTLSIngressRules (at_tls att) ?resolve) (at_tls att) = Inr tls"
      and ingress: "ingress = ToIngressRules l7 @ ToIngressRules (applyOriginPolicies (at_origin att) ?name tls) @
        ToIngressRules (applyOriginPolicies (at_origin att) ?name (BuildTCPIngressRules (at_tcp att) ?resolve)) @ [catch_all]"
    using assms by (auto simp: build_ingress_def Let_def bind_result_Inr_iff l7_built_def)
  let ?s = "applyOriginPolicies (at_origin att) ?name tls @
    applyOriginPolicies (at_origin att) ?name (BuildTCPIngressRules (at_tcp att) ?resolve)"
  have "list_all2 keeps (stream_built r att) ?s"
    unfolding stream_built_def Let_def
    by (intro list_all2_appendI keeps_all_trans[OF applyBackendTLSPolicies_keeps[OF tls]] applyOriginPolicies_keeps)
  moreover have "list_all2 keeps (l7_built r att) (applyOriginPolicies (at_origin att) ?name acc)"
    by (rule keeps_all_trans[OF applyAccessPolicies_keeps[OF acc] applyOriginPolicies_keeps])
  moreover have "ingress = map built_rule (l7 @ ?s) @ [catch_all]"
    by (simp add: ingress ToIngressRules_def)
  ultimately show thesis using that l7 by blast
qed

text \<open>The reference the builders make of a rule's first backendRef, and what may be served for it.\<close>

definition may_serve :: "kube \<Rightarrow> bool \<Rightarrow> BackendRef \<Rightarrow> string \<Rightarrow> bool" where
  "may_serve k experimental ref service \<longleftrightarrow>
     service \<in> set [''http_status:500'', ''http_status:503''] \<or>
     (serves_service k ref \<and> (\<exists>scheme p. p = deref_or p (ref_Port ref) \<and>
        service = service_url scheme (ref_Name ref) (ref_Namespace ref) p)) \<or>
     (experimental \<and> (\<exists>rb. serves_xbackend k ref rb \<and> service = rb_Service rb))"

definition serves_rule ::
  "kube \<Rightarrow> bool \<Rightarrow> string \<Rightarrow> ('rule \<Rightarrow> BackendObjectReference list) \<Rightarrow> string \<Rightarrow> 'rule Route \<Rightarrow> 'rule \<Rightarrow> bool" where
  "serves_rule k experimental kind refs service route rule \<longleftrightarrow>
     (let ns = routeNamespace (rt_Namespace route) in
      case refs rule of [] \<Rightarrow> service = ''http_status:503''
      | ref # _ \<Rightarrow> may_serve k experimental (resolver_ref (identFromBackendObjectRef ref ns) ns kind) service)"

definition from_routes ::
  "kube \<Rightarrow> bool \<Rightarrow> string \<Rightarrow> ('rule \<Rightarrow> BackendObjectReference list) \<Rightarrow> 'rule Route list \<Rightarrow> string \<Rightarrow> bool" where
  "from_routes k experimental kind refs routes service \<longleftrightarrow>
     list_ex (\<lambda>route. list_ex (serves_rule k experimental kind refs service route) (Rules route)) routes"

lemma collect_attachments_parts:
  assumes "collect_attachments r gw w = Inr att"
  shows "\<exists>targets. collectServiceBackends (cl_kube (r_Client r) w) targets = Inr (at_svc att) \<and>
    (if ExperimentalBackends r
     then \<exists>x. at_xb att = Some x \<and> collectReferencedXBackends (cl_kube (r_Client r) w) targets = Inr x
     else at_xb att = None)"
  using assms by (auto simp: collect_attachments_def Let_def bind_result_Inr_iff split: if_splits)

lemma served_may_serve:
  assumes att: "collect_attachments r gw w = Inr att"
    and s: "built.served (Some (at_svc att)) (ExperimentalBackends r) (at_xb att) ref service"
  shows "may_serve (cl_kube (r_Client r) w) (ExperimentalBackends r) ref service"
proof -
  obtain targets where svc: "collectServiceBackends (cl_kube (r_Client r) w) targets = Inr (at_svc att)"
    and xb: "if ExperimentalBackends r
       then \<exists>x. at_xb att = Some x \<and> collectReferencedXBackends (cl_kube (r_Client r) w) targets = Inr x
       else at_xb att = None"
    using collect_attachments_parts[OF att] by blast
  have "external_ref (ExperimentalBackends r) (at_xb att) ref rb \<Longrightarrow>
      ExperimentalBackends r \<and> serves_xbackend (cl_kube (r_Client r) w) ref rb" for rb
    using xb external_ref_serves by (cases "ExperimentalBackends r")
      (force simp: external_ref_def resolveXBackendRef_def reason_defs)+
  with s native_ref_serves[OF svc] show ?thesis
    unfolding built.served_def may_serve_def by blast
qed

lemma served_first_serves_rule:
  assumes "collect_attachments r gw w = Inr att"
    and "built.served_first (Some (at_svc att)) (ExperimentalBackends r) (at_xb att) (refs rule)
      (routeNamespace (rt_Namespace route)) kind service"
  shows "serves_rule (cl_kube (r_Client r) w) (ExperimentalBackends r) kind refs service route rule"
  using assms(2) served_may_serve[OF assms(1)]
  by (auto simp: built.served_first_def serves_rule_def Let_def split: list.splits)

lemma from_routesI:
  "route \<in> set routes \<Longrightarrow> rule \<in> set (Rules route) \<Longrightarrow> serves_rule k experimental kind refs service route rule \<Longrightarrow>
     from_routes k experimental kind refs routes service"
  by (auto simp: from_routes_def list_ex_iff)

text \<open>
  C2. Nothing unauthorised is ever pushed. Every rule of the pushed configuration is the catch-all, or
  stands for a rule of a route attached to the Gateway, and then its service is an error status,
  the URL of the Service that the first backendRef names, which exists with that port and is in
  the route's namespace or granted to the route, or, with experimental backends on, the origin of
  an XBackend that exists and may be referenced. Neither policies nor the sort can change this.
\<close>

theorem pushed_services_authorised:
  assumes "collect_attachments r gw w = Inr att" and "build_ingress r gw att w = Inr (l7, ingress)"
    and "rule \<in> set ingress"
  shows "rule = catch_all \<or>
    from_routes (cl_kube (r_Client r) w) (ExperimentalBackends r) ''HTTPRoute'' hr_BackendRefs (at_http att) (Service rule) \<or>
    from_routes (cl_kube (r_Client r) w) (ExperimentalBackends r) ''GRPCRoute'' gr_BackendRefs (at_grpc att) (Service rule) \<or>
    from_routes (cl_kube (r_Client r) w) (ExperimentalBackends r) ''TLSRoute'' sr_BackendRefs (at_tls att) (Service rule) \<or>
    from_routes (cl_kube (r_Client r) w) (ExperimentalBackends r) ''TCPRoute'' sr_BackendRefs (at_tcp att) (Service rule)"
proof -
  obtain l7' stream where parts: "list_all2 keeps (l7_built r att) l7'" "l7 = SortByPrecedence l7'"
    "list_all2 keeps (stream_built r att) stream" "ingress = map built_rule (l7 @ stream) @ [catch_all]"
    using build_ingress_parts[OF assms(2)] by blast
  show ?thesis
  proof (cases "rule = catch_all")
    case False
    then obtain b' where "b' \<in> set l7' \<union> set stream" "rule = built_rule b'"
      using assms(3) parts(2,4) by (auto simp: SortByPrecedence_def)
    then obtain b where b: "b \<in> set (l7_built r att) \<union> set (stream_built r att)" "Service (built_rule b) = Service rule"
      using keeps_all_mem[OF parts(1)] keeps_all_mem[OF parts(3)] keeps_fields(3) by (metis Un_iff)
    note serve = from_routesI[OF _ _ served_first_serves_rule[OF assms(1)]]
    from b(1) show ?thesis
      unfolding l7_built_def stream_built_def Let_def set_append Un_iff b(2)[symmetric]
      using built.http_rules_served[of b] built.grpc_rules_served[of b]
        built.tls_rules_served[of b] built.tcp_rules_served[of b] serve by meson
  qed simp
qed

section \<open>Which rule serves a request\<close>

text \<open>
  C3. The most specific route wins, end to end. Cloudflare serves a request by the first rule of the
  pushed list that matches it. If any HTTP or gRPC rule matches, that first rule is one of them, and
  no other that matches precedes it in the Gateway API order; TLS and TCP rules and the
  catch-all never shadow it. Every request that the catch-all accepts is answered by some rule.
\<close>

theorem pushed_first_match:
  assumes "build_ingress r gw att w = Inr (l7, ingress)" and "matches catch_all"
  shows "(if list_ex (matches \<circ> built_rule) l7
     then \<exists>best. best \<in> set l7 \<and> find matches ingress = Some (built_rule best) \<and> matches (built_rule best) \<and>
       list_all (\<lambda>b. if matches (built_rule b) then \<not> morePrecedent b best else True) l7
     else \<exists>rule. find matches ingress = Some rule)"
proof -
  obtain l7' stream where parts: "l7 = SortByPrecedence l7'" "ingress = map built_rule (l7 @ stream) @ [catch_all]"
    using build_ingress_parts[OF assms(1)] by blast
  show ?thesis
  proof (cases "list_ex (matches \<circ> built_rule) l7")
    case True
    then obtain best where f: "find (matches \<circ> built_rule) l7 = Some best"
      by (cases "find (matches \<circ> built_rule) l7") (auto simp: list_ex_iff find_None_iff)
    have best: "best \<in> set l7" "matches (built_rule best)" using f by (auto simp: find_Some_iff)
    have "\<forall>b \<in> set l7. (matches \<circ> built_rule) b \<longrightarrow> \<not> morePrecedent b best"
      using prec.sorted_find_best[OF prec.sorted_SliceStable f[unfolded parts(1) SortByPrecedence_def]]
      unfolding parts(1) SortByPrecedence_def by blast
    moreover have "find matches ingress = Some (built_rule best)"
      unfolding parts(2) using f by (simp add: find_append_Some find_map)
    ultimately show ?thesis using True best by (auto simp: list_all_iff)
  next
    case False
    have "find matches ingress \<noteq> None" using assms(2) parts(2) by (auto simp: find_None_iff)
    then show ?thesis using False by auto
  qed
qed

section \<open>Routes reported as partially invalid\<close>

lemma collectUnsupportedMatchRoutes_iff:
  "collectUnsupportedMatchRoutes rules key \<longleftrightarrow>
     (\<exists>b \<in> set rules. UnsupportedMatch b \<and> key = targetKey (br_RouteKind b) (br_RouteName b))"
proof -
  have "fold (\<lambda>r out. if UnsupportedMatch r then out(targetKey (br_RouteKind r) (br_RouteName r) := True) else out)
      rules out key \<longleftrightarrow> out key \<or>
      (\<exists>b \<in> set rules. UnsupportedMatch b \<and> key = targetKey (br_RouteKind b) (br_RouteName b))" for out
    by (induction rules arbitrary: out) auto
  then show ?thesis by (simp add: collectUnsupportedMatchRoutes_def)
qed

text \<open>A match that Cloudflare cannot enforce, and whether a route has one.\<close>

definition match_unenforceable :: "HTTPRouteMatch \<Rightarrow> bool" where
  "match_unenforceable m \<longleftrightarrow> hm_Method m \<noteq> None \<or> hm_Headers m \<noteq> [] \<or> hm_QueryParams m \<noteq> []"

definition route_unenforceable :: "HTTPRoute \<Rightarrow> bool" where
  "route_unenforceable route \<longleftrightarrow> list_ex (\<lambda>rule. list_ex match_unenforceable (hr_Matches rule)) (Rules route)"

lemma applyPathMatch_unsupported [simp]: "bm_unsupported (applyPathMatch bm p) = bm_unsupported bm"
  by (simp add: applyPathMatch_def Let_def split: option.splits)

lemma extractMatches_unsupported:
  "list_ex bm_unsupported (extractMatches ms) \<longleftrightarrow> list_ex match_unenforceable ms"
  by (auto simp: extractMatches_def http_match_def Let_def match_unenforceable_def match_all_def list_ex_iff len_def)

lemma extractGRPCMatches_supported: "\<not> list_ex bm_unsupported (extractGRPCMatches ms)"
  by (auto simp: extractGRPCMatches_def grpc_match_def Let_def match_all_def list_ex_iff)

lemma emit_rule_unsupported [simp]: "UnsupportedMatch (emit_rule pv service o' h m) = bm_unsupported m"
  by (simp add: emit_rule_def)

lemma fan_out_unsupported:
  "(\<exists>b \<in> set (fanOutHTTPFamily pv hs service o' ms). UnsupportedMatch b) \<longleftrightarrow> list_ex bm_unsupported ms"
  by (cases hs) (simp_all add: fanOutHTTPFamily_def list_ex_iff bex_Un, blast)

lemma build_http_rule_props:
  "b \<in> set (build_http_rule resolve route (ri, rule)) \<Longrightarrow> br_RouteKind b = ''HTTPRoute'' \<and> br_RouteName b = rt_Name route"
  by (auto simp: build_http_rule_def Let_def fanOutHTTPFamily_def emit_rule_def route_provenance_def
      split: prod.splits if_splits)

lemma build_grpc_rule_props:
  "b \<in> set (build_grpc_rule resolve route (ri, rule)) \<Longrightarrow>
     br_RouteKind b = ''GRPCRoute'' \<and> br_RouteName b = rt_Name route \<and> \<not> UnsupportedMatch b"
  using extractGRPCMatches_supported[of "gr_Matches rule"]
  by (auto simp: build_grpc_rule_def Let_def fanOutHTTPFamily_def emit_rule_def route_provenance_def list_ex_iff
      split: prod.splits if_splits)

lemma build_http_rule_unsupported:
  "(\<exists>b \<in> set (build_http_rule resolve route (ri, rule)). UnsupportedMatch b) \<longleftrightarrow>
     list_ex match_unenforceable (hr_Matches rule)"
proof -
  obtain service o' reason where
    "backendRefToService (hr_BackendRefs rule) (routeNamespace (rt_Namespace route)) resolve = (service, o', reason)"
    by (cases "backendRefToService (hr_BackendRefs rule) (routeNamespace (rt_Namespace route)) resolve")
  then show ?thesis
    by (simp add: build_http_rule_def fan_out_unsupported extractMatches_unsupported)
qed

lemma enum_mem: "rule \<in> set rules \<Longrightarrow> \<exists>ri. (ri, rule) \<in> set (enum rules)"
  by (force simp: enum_def in_set_zip in_set_conv_nth)

lemma enum_memD: "(ri, rule) \<in> set (enum rules) \<Longrightarrow> rule \<in> set rules"
  by (auto simp: enum_def dest: set_zip_rightD)

lemma http_unsupported:
  "(\<exists>b \<in> set (BuildIngressRules routes resolve). UnsupportedMatch b \<and> br_RouteName b = name) \<longleftrightarrow>
     list_ex (\<lambda>route. rt_Name route = name \<and> route_unenforceable route) routes"
proof
  assume "\<exists>b \<in> set (BuildIngressRules routes resolve). UnsupportedMatch b \<and> br_RouteName b = name"
  then obtain b route ri rule where b: "route \<in> set routes" "(ri, rule) \<in> set (enum (Rules route))"
      "b \<in> set (build_http_rule resolve route (ri, rule))" "UnsupportedMatch b" "br_RouteName b = name"
    by (auto simp: BuildIngressRules_def for_rules_def)
  then have "list_ex match_unenforceable (hr_Matches rule)" using build_http_rule_unsupported by blast
  then show "list_ex (\<lambda>route. rt_Name route = name \<and> route_unenforceable route) routes"
    using b enum_memD[OF b(2)] build_http_rule_props[OF b(3)] by (auto simp: list_ex_iff route_unenforceable_def)
next
  assume "list_ex (\<lambda>route. rt_Name route = name \<and> route_unenforceable route) routes"
  then obtain route rule where r: "route \<in> set routes" "rt_Name route = name" "rule \<in> set (Rules route)"
      "list_ex match_unenforceable (hr_Matches rule)"
    by (auto simp: list_ex_iff route_unenforceable_def)
  obtain ri where ri: "(ri, rule) \<in> set (enum (Rules route))" using enum_mem[OF r(3)] by blast
  obtain b where b: "b \<in> set (build_http_rule resolve route (ri, rule))" "UnsupportedMatch b"
    using r(4) build_http_rule_unsupported by blast
  then have "b \<in> set (BuildIngressRules routes resolve)"
    using r(1) ri by (auto simp: BuildIngressRules_def for_rules_def)
  then show "\<exists>b \<in> set (BuildIngressRules routes resolve). UnsupportedMatch b \<and> br_RouteName b = name"
    using b build_http_rule_props[OF b(1)] r(2) by blast
qed

lemma http_rule_kind: "b \<in> set (BuildIngressRules routes resolve) \<Longrightarrow> br_RouteKind b = ''HTTPRoute''"
  by (auto simp: BuildIngressRules_def for_rules_def dest: build_http_rule_props)

lemma grpc_rule_kind:
  "b \<in> set (BuildGRPCIngressRules routes resolve) \<Longrightarrow> br_RouteKind b = ''GRPCRoute'' \<and> \<not> UnsupportedMatch b"
  by (auto simp: BuildGRPCIngressRules_def for_rules_def dest: build_grpc_rule_props)

lemma keeps_all_unsupported:
  "list_all2 keeps rs rs' \<Longrightarrow> collectUnsupportedMatchRoutes rs' key = collectUnsupportedMatchRoutes rs key"
  by (induction rule: list_all2_induct)
    (auto simp: collectUnsupportedMatchRoutes_iff keeps_fields)

text \<open>
  C35. Routes are flagged exactly for what is not enforced. After a build, an HTTPRoute's name is
  recorded as served with unsupported matches exactly when some attached HTTPRoute of that name
  has a match with a method, header or query parameter; policies, the sort and the hostnames do not
  matter. No GRPCRoute is ever recorded, although the header matches of a GRPCRoute
  are not enforced either.
\<close>

theorem unsupported_routes_exact:
  assumes "build_ingress r gw att w = Inr (l7, ingress)"
  shows "(collectUnsupportedMatchRoutes l7 (targetKey ''HTTPRoute'' name) \<longleftrightarrow>
      list_ex (\<lambda>route. rt_Name route = name \<and> route_unenforceable route) (at_http att)) \<and>
    \<not> collectUnsupportedMatchRoutes l7 (targetKey ''GRPCRoute'' name)"
proof -
  obtain l7' where "list_all2 keeps (l7_built r att) l7'" "l7 = SortByPrecedence l7'"
    using build_ingress_parts[OF assms] by blast
  then have "collectUnsupportedMatchRoutes l7 key = collectUnsupportedMatchRoutes (l7_built r att) key" for key
    using keeps_all_unsupported[of "l7_built r att" l7' key]
    by (simp add: collectUnsupportedMatchRoutes_iff SortByPrecedence_def)
  moreover have "collectUnsupportedMatchRoutes (l7_built r att) (targetKey ''HTTPRoute'' name) \<longleftrightarrow>
      list_ex (\<lambda>route. rt_Name route = name \<and> route_unenforceable route) (at_http att)"
    unfolding collectUnsupportedMatchRoutes_iff l7_built_def Let_def set_append bex_Un
      http_unsupported[of "at_http att" "backendResolver (ExperimentalBackends r) (at_xb att) (Some (at_svc att))", symmetric]
    using http_rule_kind grpc_rule_kind by (fastforce simp: targetKey_def)
  moreover have "\<not> collectUnsupportedMatchRoutes (l7_built r att) (targetKey ''GRPCRoute'' name)"
    unfolding collectUnsupportedMatchRoutes_iff l7_built_def Let_def
    by (auto simp: targetKey_def dest: http_rule_kind grpc_rule_kind)
  ultimately show ?thesis by blast
qed

section \<open>Listener counts\<close>

definition attached_of_kind :: "HTTPRoute list \<Rightarrow> GRPCRoute list \<Rightarrow> TLSRoute list \<Rightarrow> TCPRoute list \<Rightarrow> string \<Rightarrow> nat" where
  "attached_of_kind http grpc tls tcp kind =
     (if kind = ''HTTPRoute'' then length http else if kind = ''GRPCRoute'' then length grpc
      else if kind = ''TLSRoute'' then length tls else if kind = ''TCPRoute'' then length tcp else 0)"

lemma listener_count_word:
  "listener_count http grpc tls tcp protocol =
     word_of_nat (sum_list (map (\<lambda>gk. attached_of_kind http grpc tls tcp (gk_Kind gk)) (supportedKindsForProtocol protocol)))"
  by (simp add: listener_count_def supportedKindsForProtocol_def route_group_kind_def attached_of_kind_def Let_def)

lemma sint_word_of_nat_small: "n < 2 ^ 31 \<Longrightarrow> sint (word_of_nat n :: 32 word) = int n"
  by (simp add: signed_of_nat signed_take_bit_int_eq_self_iff)

text \<open>
  The attached-route count of a listener is the number of attached routes of the kinds it is reported
  to support. The 32-bit sum is exact as long as fewer than two thousand million routes are attached,
  and wraps around beyond.
\<close>

lemma computeListenerCounts_exact:
  assumes "length http + length grpc + length tls + length tcp < 2 ^ 31"
  shows "map (\<lambda>lc. (lc_Name lc, lc_Protocol lc, sint (Count lc))) (computeListenerCounts gw http grpc tls tcp) =
    map (\<lambda>l. (l_Name l, Protocol l, int (sum_list (map (\<lambda>gk. attached_of_kind http grpc tls tcp (gk_Kind gk))
      (supportedKindsForProtocol (Protocol l)))))) (Listeners gw)"
proof -
  have "sum_list (map (\<lambda>gk. attached_of_kind http grpc tls tcp (gk_Kind gk)) (supportedKindsForProtocol p)) < 2 ^ 31" for p
    using assms by (simp add: supportedKindsForProtocol_def route_group_kind_def attached_of_kind_def)
  then show ?thesis
    by (simp add: computeListenerCounts_def listener_count_word sint_word_of_nat_small)
qed

lemma computeListenerCounts_exact_witness:
  "map (\<lambda>lc. (lc_Name lc, lc_Protocol lc, sint (Count lc))) (computeListenerCounts sample_gateway [] [] sample_tls_routes []) =
    [(''own'', ''HTTPS'', 2), (''open'', ''HTTPS'', 2)]"
  using computeListenerCounts_exact[of "[]" "[]" sample_tls_routes "[]" sample_gateway]
  by (simp add: sample_tls_routes_def sample_gateway_def sample_listener_def supportedKindsForProtocol_def
      route_group_kind_def attached_of_kind_def)

lemma sample_build_parts:
  obtains (parts) att l7 where "collect_attachments sample_reconciler sample_gateway sample_world = Inr att"
    "build_ingress sample_reconciler sample_gateway att sample_world = Inr (l7, [shop_rule, catch_all])"
    "map built_rule l7 = [shop_rule]" "map Hostnames (at_http att) = [[''a.example.com'']]"
  using sample_build by (fastforce split: sum.splits)

theorem pushed_services_authorised_witness:
  "\<exists>att l7. build_ingress sample_reconciler sample_gateway att sample_world = Inr (l7, [shop_rule, catch_all]) \<and>
     (from_routes sample_kube False ''HTTPRoute'' hr_BackendRefs (at_http att) ''http://cart.shop:80'' \<or>
      from_routes sample_kube False ''GRPCRoute'' gr_BackendRefs (at_grpc att) ''http://cart.shop:80'' \<or>
      from_routes sample_kube False ''TLSRoute'' sr_BackendRefs (at_tls att) ''http://cart.shop:80'' \<or>
      from_routes sample_kube False ''TCPRoute'' sr_BackendRefs (at_tcp att) ''http://cart.shop:80'')"
proof -
  obtain att l7 where s: "collect_attachments sample_reconciler sample_gateway sample_world = Inr att"
    "build_ingress sample_reconciler sample_gateway att sample_world = Inr (l7, [shop_rule, catch_all])"
    "map built_rule l7 = [shop_rule]" "map Hostnames (at_http att) = [[''a.example.com'']]"
    by (rule sample_build_parts)
  have "cl_kube (r_Client sample_reconciler) sample_world = sample_kube"
      "\<not> ExperimentalBackends sample_reconciler" "shop_rule \<noteq> catch_all" "Service shop_rule = ''http://cart.shop:80''"
    by (simp_all add: sample_reconciler_def sample_cluster_def shop_rule_def catch_all_def)
  with pushed_services_authorised[OF s(1,2), of shop_rule] s(2) show ?thesis by auto
qed

theorem pushed_first_match_witness:
  "\<exists>att l7 best. build_ingress sample_reconciler sample_gateway att sample_world = Inr (l7, [shop_rule, catch_all]) \<and>
     best \<in> set l7 \<and> find (\<lambda>_. True) [shop_rule, catch_all] = Some (built_rule best)"
proof -
  obtain att l7 where s: "collect_attachments sample_reconciler sample_gateway sample_world = Inr att"
    "build_ingress sample_reconciler sample_gateway att sample_world = Inr (l7, [shop_rule, catch_all])"
    "map built_rule l7 = [shop_rule]" "map Hostnames (at_http att) = [[''a.example.com'']]"
    by (rule sample_build_parts)
  have any: "list_ex ((\<lambda>_. True) \<circ> built_rule) l7" using s(3) by (cases l7) simp_all
  obtain best where "best \<in> set l7" "find (\<lambda>_. True) [shop_rule, catch_all] = Some (built_rule best)"
    using pushed_first_match[OF s(2) TrueI, unfolded if_P[OF any]] by blast
  with s(2) show ?thesis by blast
qed

theorem unsupported_routes_exact_witness:
  "\<exists>att l7 ingress. build_ingress sample_reconciler sample_gateway att sample_world = Inr (l7, ingress) \<and>
     \<not> collectUnsupportedMatchRoutes l7 (targetKey ''GRPCRoute'' ''shop'')"
proof -
  obtain att l7 where s: "collect_attachments sample_reconciler sample_gateway sample_world = Inr att"
    "build_ingress sample_reconciler sample_gateway att sample_world = Inr (l7, [shop_rule, catch_all])"
    "map built_rule l7 = [shop_rule]" "map Hostnames (at_http att) = [[''a.example.com'']]"
    by (rule sample_build_parts)
  show ?thesis
    using s(2) conjunct2[OF unsupported_routes_exact[OF s(2), of "''shop''"]] by blast
qed

end
