(* ===== verification/PolicyPush.thy ===== *)
theory PolicyPush
  imports Pipeline
begin

text \<open>
  Which access configuration the pushed rules carry: acceptance as patchAccessPolicyStatuses reports it,
  against what applyAccessPolicies, the origin policies, the backend TLS policies and the sort leave in the list
  that apply pushes.
\<close>

section \<open>The access configuration of a rule\<close>

definition own_access :: "AccessPolicy \<Rightarrow> AccessConfig" where
  "own_access p = \<lparr>Required = ap_Required p, TeamName = ap_TeamName p, AudTag = ap_AudTag p\<rparr>"

definition origin_access :: "OriginRequest option \<Rightarrow> AccessConfig option" where
  "origin_access o' = Option.bind o' Access"

definition enforced :: "BuiltRule \<Rightarrow> AccessConfig option" where
  "enforced b = origin_access (rule_Origin (built_rule b))"

definition on_gateway :: "Gateway \<Rightarrow> AccessPolicy \<Rightarrow> bool" where
  "on_gateway gw p \<longleftrightarrow> targetsResource (ap_TargetRefs p) GroupName ''Gateway'' (Name (gw_meta gw))"

definition on_route :: "BuiltRule \<Rightarrow> AccessPolicy \<Rightarrow> bool" where
  "on_route b p \<longleftrightarrow> targetsResource (ap_TargetRefs p) GroupName (br_RouteKind b) (br_RouteName b)"

lemma origin_access_simps [simp]:
  "origin_access None = None" "origin_access (Some c) = Access c"
  by (simp_all add: origin_access_def)

lemma enforced_set [simp]: "enforced (set_rule_origin o' b) = origin_access o'"
  by (simp add: enforced_def set_rule_origin_def)

lemma set_rule_origin_route [simp]:
  "br_RouteKind (set_rule_origin o' b) = br_RouteKind b" "br_RouteName (set_rule_origin o' b) = br_RouteName b"
  by (simp_all add: set_rule_origin_def)

lemma on_route_set [simp]: "on_route (set_rule_origin o' b) = on_route b"
  by (simp add: on_route_def fun_eq_iff)

lemma merge_access: "origin_access (MergeOriginRequest a b) = or_else (origin_access a) (origin_access b)"
  by (cases a; cases b) simp_all

lemma policy_origin_access [simp]: "Access (originRequestFromPolicy p) = None"
  by (simp add: originRequestFromPolicy_def zero_origin_def)

section \<open>The builders set none\<close>

lemma translate_tls_access: "translate_tls tls o' = Inr o2 \<Longrightarrow> Access o2 = Access o'"
  by (auto simp: translate_tls_def Let_def split: option.splits if_splits)

lemma translateXBackend_access: "origin_access (rb_Origin (fst (translateXBackend xb kind))) = None"
proof -
  define proto where "proto = deref_or (if kind = ''TCPRoute'' then ''TCP'' else ''HTTP'') (xb_Protocol xb)"
  define o1 where "o1 = (if proto = ''HTTP2'' \<or> proto = ''GRPC'' then zero_origin\<lparr>HTTP2Origin := Some True\<rparr> else zero_origin)"
  have o1: "Access o1 = None" by (simp add: o1_def zero_origin_def)
  show ?thesis
    unfolding translateXBackend_def proto_def[symmetric] o1_def[symmetric] Let_def
    using translate_tls_access[of "xb_TLS xb" o1] o1
    by (cases "translate_tls (xb_TLS xb) o1") (simp_all add: no_backend_def)
qed

lemma backendResolver_access:
  "backendResolver experimental xb svc ref = Some rb \<Longrightarrow> origin_access (rb_Origin rb) = None"
  by (auto simp: backendResolver_def resolveXBackendRef_def Let_def no_backend_def translateXBackend_access
      split: if_splits option.splits)

definition no_access :: "BackendResolver \<Rightarrow> bool" where
  "no_access resolve \<longleftrightarrow> (\<forall>ref rb. resolve ref = Some rb \<longrightarrow> origin_access (rb_Origin rb) = None)"

lemma resolved_access:
  "no_access resolve \<Longrightarrow> resolveServiceAndOrigin i ns kind resolve scheme port req = (s, o', ext) \<Longrightarrow> origin_access o' = None"
  by (auto simp: resolveServiceAndOrigin_def no_access_def split: option.splits if_splits)

lemmas backend_refs = backendRefToService_def grpcBackendRefToService_def backendRefToTLSService_def
  backendRefToTCPService_def

lemma backend_access:
  assumes "no_access resolve"
  shows "backendRefToService refs ns resolve = (s, o', ext) \<Longrightarrow> origin_access o' = None"
    and "grpcBackendRefToService refs ns resolve = (s, o', ext) \<Longrightarrow> origin_access o' = None"
    and "backendRefToTLSService refs ns resolve = (s, o', ext) \<Longrightarrow> origin_access o' = None"
    and "backendRefToTCPService refs ns resolve = (s, o', ext) \<Longrightarrow> origin_access o' = None"
  using resolved_access[OF assms] by (auto simp: backend_refs split: list.splits)

lemma http_rule_origin_access: "origin_access (http_rule_origin rule) = None"
  by (auto simp: http_rule_origin_def buildOriginRequest_def Let_def zero_origin_def split: option.splits sum.splits)

lemma enforced_emit [simp]: "enforced (emit_rule pv service o' h m) = origin_access o'"
  by (simp add: enforced_def emit_rule_def cloneOriginRequest_def)

lemma enforced_fan_out: "b \<in> set (fanOutHTTPFamily pv hs service o' ms) \<Longrightarrow> enforced b = origin_access o'"
  by (auto simp: fanOutHTTPFamily_def split: if_splits)

lemma for_ruleE:
  assumes "b \<in> set (for_rules body routes)"
  obtains route ri rule where "route \<in> set routes" "b \<in> set (body route (ri, rule))"
  using assms by (auto simp: for_rules_def)

lemma built_access:
  assumes "no_access resolve"
  shows "b \<in> set (BuildIngressRules http resolve) \<Longrightarrow> enforced b = None"
    and "b \<in> set (BuildGRPCIngressRules grpc resolve) \<Longrightarrow> enforced b = None"
    and "b \<in> set (BuildTLSIngressRules tls resolve) \<Longrightarrow> enforced b = None"
    and "b \<in> set (BuildTCPIngressRules tcp resolve) \<Longrightarrow> enforced b = None"
  unfolding BuildIngressRules_def BuildGRPCIngressRules_def BuildTLSIngressRules_def BuildTCPIngressRules_def
  by (erule for_ruleE, auto simp: build_http_rule_def build_grpc_rule_def build_tls_rule_def build_tcp_rule_def Let_def
      merge_access http_rule_origin_access zero_origin_def
      dest!: enforced_fan_out backend_access[OF assms, OF sym] split: prod.splits if_splits)+

section \<open>The policies\<close>

definition same_access :: "BuiltRule \<Rightarrow> BuiltRule \<Rightarrow> bool" where
  "same_access b b' \<longleftrightarrow> enforced b' = enforced b \<and> br_RouteKind b' = br_RouteKind b \<and> br_RouteName b' = br_RouteName b"

lemma same_access_on_route: "same_access b b' \<Longrightarrow> on_route b' = on_route b"
  by (simp add: same_access_def on_route_def fun_eq_iff)

lemma effective_access: "origin_access (effectiveOriginRequest ps gw kind name) = None"
  by (simp add: effectiveOriginRequest_def merge_access)
    (cases "originPolicyForTarget ps kind name"; cases "originPolicyForTarget ps ''Gateway'' gw"; simp)

lemma merge_policy_access: "origin_access c = None \<Longrightarrow> same_access b (merge_policy c b)"
  by (cases "rule_Origin (built_rule b)")
    (auto simp: same_access_def merge_policy_def merge_access enforced_def[of b] zero_origin_def split: option.splits)

lemma applyOriginPolicies_access: "list_all2 same_access rules (applyOriginPolicies policies gwName rules)"
proof -
  have step: "(\<And>k c. cache k = Some c \<Longrightarrow> origin_access c = None) \<Longrightarrow>
      list_all2 same_access rules (apply_origin_loop policies gwName cache rules)" for cache
  proof (induction rules arbitrary: cache)
    case (Cons r rs)
    show ?case
      using Cons.prems
      by (auto simp: Let_def effective_access merge_policy_access split: option.splits if_splits intro!: Cons.IH)
  qed simp
  show ?thesis unfolding applyOriginPolicies_def by (rule step) simp
qed

lemma applyBackendTLSPolicies_access:
  assumes "applyBackendTLSPolicies list rules routes = Inr rules'" and "\<And>b. b \<in> set rules \<Longrightarrow> enforced b = None"
    and "b' \<in> set rules'"
  shows "enforced b' = None"
proof -
  obtain b where "b \<in> set rules" "overridden_as list routes b b'"
    using overridden_all[OF assms(1)] assms(3) by (metis in_set_conv_nth list_all2_conv_all_nth)
  then show ?thesis using assms(2)
    by (auto simp: overridden_as_def GetBackendTLSConfig_def buildOriginRequestFromPolicy_def zero_origin_def
        split: option.splits sum.splits if_splits)
qed

lemma find_access_None:
  "findAccessConfigForTarget ps grp kind name = None \<longleftrightarrow> \<not> list_ex (\<lambda>p. targetsResource (ap_TargetRefs p) grp kind name) ps"
  using pick_best_None_iff[of access_older "\<lambda>p. targetsResource (ap_TargetRefs p) grp kind name" ps None]
  by (auto simp: findAccessConfigForTarget_def access_winner_def list_ex_iff simp del: pick_best_None_iff split: option.splits)

lemma find_access_Some:
  assumes "findAccessConfigForTarget ps grp kind name = Some c"
  shows "\<exists>p \<in> set ps. targetsResource (ap_TargetRefs p) grp kind name \<and> c = own_access p"
  using assms access.pick_best_spec
  by (fastforce simp: findAccessConfigForTarget_def access_winner_def own_access_def split: option.splits)

text \<open>What a rule carries after applyAccessPolicies, when it carried nothing before.\<close>

definition chosen_access :: "AccessPolicy list \<Rightarrow> Gateway \<Rightarrow> BuiltRule \<Rightarrow> AccessConfig option" where
  "chosen_access ps gw b = or_else (findAccessConfigForTarget ps GroupName ''Gateway'' (Name (gw_meta gw)))
     (findAccessConfigForTarget ps GroupName (br_RouteKind b) (br_RouteName b))"

lemma applyAccessPolicies_access:
  assumes "applyAccessPolicies (Inr ps) rules gw = Inr rules'" and "\<And>b. b \<in> set rules \<Longrightarrow> enforced b = None"
    and "b' \<in> set rules'"
  obtains b where "b \<in> set rules" "br_RouteKind b' = br_RouteKind b" "br_RouteName b' = br_RouteName b"
    "enforced b' = chosen_access ps gw b'"
proof (cases "ps = []")
  case True
  then show ?thesis
    using assms that[of b'] by (simp add: applyAccessPolicies_def chosen_access_def findAccessConfigForTarget_def access_winner_def)
next
  case False
  then obtain b where "b \<in> set rules" "b' = (case or_else (findAccessConfigForTarget ps GroupName ''Gateway'' (Name (gw_meta gw)))
       (findAccessConfigForTarget ps GroupName (br_RouteKind b) (br_RouteName b)) of None \<Rightarrow> b | Some c \<Rightarrow> set_access c b)"
    using assms(1,3) by (auto simp: applyAccessPolicies_def Let_def split: option.splits)
  then show ?thesis
    using assms(2) that[of b] by (auto simp: chosen_access_def set_access_def split: option.splits)
qed

section \<open>What is pushed\<close>

lemma build_access_parts:
  assumes "build_ingress r gw att w = Inr (l7, ingress)"
    and "cl_list_access (r_Client r) w (Namespace (gw_meta gw)) = Inr policies"
  obtains stream where "ingress = map built_rule (l7 @ stream) @ [catch_all]"
    "\<And>b. b \<in> set stream \<Longrightarrow> enforced b = None" "\<And>b. b \<in> set l7 \<Longrightarrow> enforced b = chosen_access policies gw b"
proof -
  let ?resolve = "backendResolver (ExperimentalBackends r) (at_xb att) (Some (at_svc att))"
  let ?origin = "applyOriginPolicies (at_origin att) (Name (gw_meta gw))"
  obtain acc tls where acc: "applyAccessPolicies (Inr policies) (l7_built r att) gw = Inr acc"
      and l7: "l7 = SortByPrecedence (?origin acc)"
      and tls: "applyBackendTLSPolicies (cl_list_tls_policies (r_Client r) w)
        (BuildTLSIngressRules (at_tls att) ?resolve) (at_tls att) = Inr tls"
      and ingress: "ingress = map built_rule (l7 @ ?origin tls @ ?origin (BuildTCPIngressRules (at_tcp att) ?resolve)) @ [catch_all]"
    using assms by (auto simp: build_ingress_def Let_def bind_result_Inr_iff l7_built_def ToIngressRules_def)
  have none: "no_access ?resolve" by (simp add: no_access_def backendResolver_access)
  have origin: "\<exists>a \<in> set rs. same_access a b" if "b \<in> set (?origin rs)" for rs b
    using applyOriginPolicies_access[of rs] that by (metis in_set_conv_nth list_all2_conv_all_nth)
  have "enforced b = None" if "b \<in> set (?origin tls @ ?origin (BuildTCPIngressRules (at_tcp att) ?resolve))" for b
    using that origin built_access(4)[OF none] applyBackendTLSPolicies_access[OF tls built_access(3)[OF none]]
    by (fastforce simp: same_access_def)
  moreover have "enforced b = chosen_access policies gw b" if b: "b \<in> set l7" for b
  proof -
    obtain a where a: "a \<in> set acc" "same_access a b"
      using origin[of b acc] b by (auto simp: l7 SortByPrecedence_def)
    have "enforced a = chosen_access policies gw a"
      by (rule applyAccessPolicies_access[OF acc _ a(1)]) (auto simp: l7_built_def Let_def built_access(1,2)[OF none])
    with a(2) show ?thesis by (simp add: same_access_def chosen_access_def)
  qed
  ultimately show thesis using that ingress by blast
qed

text \<open>The rules are those of attached routes, so their targets are valid.\<close>

lemma rule_target_valid:
  assumes "build_ingress r gw att w = Inr (l7, ingress)" and "b \<in> set l7"
  shows "validPolicyTargets gw (at_http att) (at_grpc att) (at_tls att) (at_tcp att) (targetKey (br_RouteKind b) (br_RouteName b))"
proof -
  obtain l7' where "list_all2 keeps (l7_built r att) l7'" "l7 = SortByPrecedence l7'"
    using build_ingress_parts[OF assms(1)] by blast
  then obtain a where "a \<in> set (l7_built r att)" "keeps a b"
    using assms(2) keeps_all_mem[of "l7_built r att" l7' b] by (auto simp: SortByPrecedence_def)
  then show ?thesis
    by (auto simp: l7_built_def Let_def keeps_fields BuildIngressRules_def BuildGRPCIngressRules_def validPolicyTargets_def
        elim!: for_ruleE dest!: build_http_rule_props build_grpc_rule_props)
qed

text \<open>
  C27. The access configuration that is reported is the one that is pushed. Let apply build the list for a
  Gateway in whose namespace the access policies have distinct names. A policy that
  evaluatePolicyAcceptance accepts for the Gateway and its attached routes supplies the configuration of every rule of an
  HTTPRoute or GRPCRoute if it targets the Gateway, and of every such rule of the routes it targets as long as no policy
  targets the Gateway. If one does, a single policy that targets the Gateway supplies the configuration of all
  these rules, whatever was accepted for their routes. A rule whose route and Gateway no policy targets carries none,
  and the rules of TLSRoutes and TCPRoutes never carry one, not even when a policy that targets their
  route is accepted. The sort, the origin policies and the backend TLS policies change none of this.
\<close>

theorem accepted_access_is_pushed:
  assumes "build_ingress r gw att w = Inr (l7, ingress)"
    and "cl_list_access (r_Client r) w (Namespace (gw_meta gw)) = Inr policies"
    and "distinct (map policy_id policies)"
  shows "\<exists>stream. ingress = map built_rule (l7 @ stream) @ [catch_all] \<and>
    (\<forall>p \<in> set policies. \<forall>b \<in> set l7.
       fst (evaluatePolicyAcceptance (access_target p) (map access_target policies)
         (validPolicyTargets gw (at_http att) (at_grpc att) (at_tls att) (at_tcp att))) \<longrightarrow>
       on_gateway gw p \<or> on_route b p \<and> \<not> list_ex (on_gateway gw) policies \<longrightarrow> enforced b = Some (own_access p)) \<and>
    (list_ex (on_gateway gw) policies \<longrightarrow>
       (\<exists>q \<in> set policies. on_gateway gw q \<and> (\<forall>b \<in> set l7. enforced b = Some (own_access q)))) \<and>
    (\<forall>b \<in> set l7. \<not> list_ex (\<lambda>p. on_gateway gw p \<or> on_route b p) policies \<longrightarrow> enforced b = None) \<and>
    (\<forall>b \<in> set stream. enforced b = None)"
proof -
  let ?valid = "validPolicyTargets gw (at_http att) (at_grpc att) (at_tls att) (at_tcp att)"
  let ?gateway = "findAccessConfigForTarget policies GroupName ''Gateway'' (Name (gw_meta gw))"
  obtain stream where s: "ingress = map built_rule (l7 @ stream) @ [catch_all]" "\<And>b. b \<in> set stream \<Longrightarrow> enforced b = None"
      "\<And>b. b \<in> set l7 \<Longrightarrow> enforced b = chosen_access policies gw b"
    using build_access_parts[OF assms(1,2)] by blast
  have gateway: "?gateway = None \<longleftrightarrow> \<not> list_ex (on_gateway gw) policies"
    by (simp add: find_access_None on_gateway_def[abs_def])
  have accepted: "enforced b = Some (own_access p)"
    if p: "p \<in> set policies" "b \<in> set l7" "fst (evaluatePolicyAcceptance (access_target p) (map access_target policies) ?valid)"
      and t: "on_gateway gw p \<or> on_route b p \<and> \<not> list_ex (on_gateway gw) policies" for p b
  proof -
    note wins = accepted_policy_supplies_config[OF p(1) assms(3) p(3), folded own_access_def]
    have "?valid (targetKey ''Gateway'' (Name (gw_meta gw)))" by (simp add: validPolicyTargets_def)
    then show ?thesis
      using t gateway wins rule_target_valid[OF assms(1) p(2)]
      by (auto simp: s(3)[OF p(2)] chosen_access_def on_gateway_def on_route_def)
  qed
  have over: "\<exists>q \<in> set policies. on_gateway gw q \<and> (\<forall>b \<in> set l7. enforced b = Some (own_access q))"
    if some: "list_ex (on_gateway gw) policies"
  proof -
    obtain c where c: "?gateway = Some c" using gateway some by auto
    with find_access_Some[OF c] s(3) show ?thesis by (auto simp: chosen_access_def on_gateway_def)
  qed
  have none: "enforced b = None" if "b \<in> set l7" "\<not> list_ex (\<lambda>p. on_gateway gw p \<or> on_route b p) policies" for b
  proof -
    have "?gateway = None" "findAccessConfigForTarget policies GroupName (br_RouteKind b) (br_RouteName b) = None"
      using that(2) by (simp_all add: find_access_None on_gateway_def on_route_def list_ex_iff)
    then show ?thesis by (simp add: s(3)[OF that(1)] chosen_access_def)
  qed
  show ?thesis using s(1,2) accepted over none by blast
qed

section \<open>Sample policies\<close>

text \<open>The sample world with access policies next to the Gateway.\<close>

definition guarded_world :: "AccessPolicy list \<Rightarrow> world" where
  "guarded_world ps = wd_listed_update (li_access_update (\<lambda>_. ps)) sample_world"

definition shop_policy :: AccessPolicy where
  "shop_policy = sample_policy ''a'' 5 [sample_target ''HTTPRoute'' ''shop'']"

definition shop_rival :: AccessPolicy where
  "shop_rival = sample_policy ''b'' 5 [sample_target ''HTTPRoute'' ''shop'']"

definition edge_policy :: AccessPolicy where
  "edge_policy = sample_policy ''c'' 5 [sample_target ''Gateway'' ''edge'']"

definition built_access_of :: "AccessPolicy list \<Rightarrow> ((string \<times> string) list \<times> (string \<times> string) list \<times> AccessConfig option list) option" where
  "built_access_of ps =
     (case collect_attachments sample_reconciler sample_gateway (guarded_world ps) of
        Inl e \<Rightarrow> None
      | Inr att \<Rightarrow> (case build_ingress sample_reconciler sample_gateway att (guarded_world ps) of
           Inl e \<Rightarrow> None
         | Inr (l7, ingress) \<Rightarrow> Some (map (\<lambda>r. (rt_Namespace r, rt_Name r)) (at_http att),
             map (\<lambda>b. (br_RouteKind b, br_RouteName b)) l7, map enforced l7)))"

lemma shop_policies_built:
  "built_access_of [shop_rival, shop_policy] =
     Some ([(''apps'', ''shop'')], [(''HTTPRoute'', ''shop'')], [Some (own_access shop_policy)])"
  by code_simp

text \<open>
  Both of these policies are accepted, for one targets the route and one the Gateway, but the rule of the route carries
  the configuration of the second.
\<close>

lemma accepted_route_policy_overridden:
  "built_access_of [shop_policy, edge_policy] =
     Some ([(''apps'', ''shop'')], [(''HTTPRoute'', ''shop'')], [Some (own_access edge_policy)]) \<and>
   list_all (\<lambda>p. fst (evaluatePolicyAcceptance (access_target p) (map access_target [shop_policy, edge_policy])
     (validPolicyTargets sample_gateway [sample_http_route] [] [] []))) [shop_policy, edge_policy] \<and>
   own_access shop_policy \<noteq> own_access edge_policy"
  by (rule conjI[OF _ conjI]; code_simp)

text \<open>A policy for a TLSRoute is accepted, although the rules of TLSRoutes never carry a configuration.\<close>

lemma stream_policy_accepted:
  "rt_Name route = name \<Longrightarrow>
     fst (evaluatePolicyAcceptance (access_target (sample_policy ''t'' 1 [sample_target ''TLSRoute'' name]))
       [access_target (sample_policy ''t'' 1 [sample_target ''TLSRoute'' name])] (validPolicyTargets gw [] [] [route] []))"
  by (auto simp: sample_policy_simps validPolicyTargets_def)

theorem accepted_access_is_pushed_witness:
  "\<exists>att l7 ingress b. build_ingress sample_reconciler sample_gateway att (guarded_world [shop_rival, shop_policy]) = Inr (l7, ingress) \<and>
     b \<in> set l7 \<and> enforced b = Some (own_access shop_policy)"
proof -
  let ?ps = "[shop_rival, shop_policy]"
  obtain att l7 ingress b where s: "build_ingress sample_reconciler sample_gateway att (guarded_world ?ps) = Inr (l7, ingress)"
      "l7 = [b]" "br_RouteKind b = ''HTTPRoute''" "br_RouteName b = ''shop''"
    using shop_policies_built by (auto simp: built_access_of_def split: sum.splits)
  have list: "cl_list_access (r_Client sample_reconciler) (guarded_world ?ps) (Namespace (gw_meta sample_gateway)) = Inr ?ps"
    by (simp add: sample_reconciler_def sample_cluster_def guarded_world_def in_namespace_def sample_gateway_def
        sample_meta_def shop_policy_def shop_rival_def sample_policy_def)
  have ids: "distinct (map policy_id ?ps)" by code_simp
  have valid: "validPolicyTargets sample_gateway (at_http att) (at_grpc att) (at_tls att) (at_tcp att) (targetKey ''HTTPRoute'' ''shop'')"
    using rule_target_valid[OF s(1), of b] s(2-4) by simp
  then have acc: "fst (evaluatePolicyAcceptance (access_target shop_policy) (map access_target ?ps)
      (validPolicyTargets sample_gateway (at_http att) (at_grpc att) (at_tls att) (at_tcp att)))"
    by (simp add: shop_policy_def shop_rival_def sample_policy_simps)
  have t: "on_route b shop_policy" "\<not> list_ex (on_gateway sample_gateway) ?ps"
    using s by (simp_all add: on_route_def on_gateway_def shop_policy_def shop_rival_def sample_policy_simps)
  from accepted_access_is_pushed[OF s(1) list ids] obtain stream where
    all: "\<forall>p \<in> set ?ps. \<forall>b \<in> set l7.
       fst (evaluatePolicyAcceptance (access_target p) (map access_target ?ps)
         (validPolicyTargets sample_gateway (at_http att) (at_grpc att) (at_tls att) (at_tcp att))) \<longrightarrow>
       on_gateway sample_gateway p \<or> on_route b p \<and> \<not> list_ex (on_gateway sample_gateway) ?ps \<longrightarrow>
       enforced b = Some (own_access p)" by (elim exE conjE) blast
  have "b \<in> set l7" "shop_policy \<in> set ?ps" using s(2) by simp_all
  then have "enforced b = Some (own_access shop_policy)" using all acc t by blast
  then show ?thesis using s(1) \<open>b \<in> set l7\<close> by blast
qed

end
