(* ===== verification/Watches.thy ===== *)
theory Watches
  imports Backends Kube
begin

text \<open>
  The mapping functions of internal/controller/controller.go and servicebackend.go: which Gateways are
  enqueued when a watched object changes. A request is the namespaced name of a Gateway. The results:
  a route or a Service enqueues exactly the Gateways it matters to, so no change goes unnoticed.
\<close>

record Request =
  rq_Namespace :: string
  rq_Name :: string

definition ObjectKeyFromObject :: "Gateway \<Rightarrow> Request" where
  "ObjectKeyFromObject gw = \<lparr>rq_Namespace = Namespace (gw_meta gw), rq_Name = Name (gw_meta gw)\<rparr>"

definition requests_of :: "Gateway list result \<Rightarrow> Request list" where
  "requests_of listed = (case listed of Inl e \<Rightarrow> [] | Inr gws \<Rightarrow> map ObjectKeyFromObject gws)"

text \<open>The list call of gatewayClassToGateways selects on the index of the Gateway's class name.\<close>

definition gatewayClassToGateways :: "(string \<Rightarrow> Gateway list result) \<Rightarrow> string \<Rightarrow> Request list" where
  "gatewayClassToGateways list_by_class className = requests_of (list_by_class className)"

definition allGatewaysRequests :: "Gateway list result \<Rightarrow> Request list" where
  "allGatewaysRequests listed = requests_of listed"

definition backendTLSPolicyToGateways :: "Gateway list result \<Rightarrow> Request list" where
  "backendTLSPolicyToGateways listed = requests_of listed"

definition accessPolicyToGateways :: "Gateway list result \<Rightarrow> Request list" where
  "accessPolicyToGateways listed = allGatewaysRequests listed"

section \<open>Routes\<close>

datatype watched =
    HTTPObj HTTPRoute
  | GRPCObj GRPCRoute
  | TLSObj TLSRoute
  | TCPObj TCPRoute
  | OtherObj string

fun parent_requests :: "string \<Rightarrow> ParentReference list \<Rightarrow> Request list" where
  "parent_requests objNS [] = []"
| "parent_requests objNS (ref # refs) =
     (let grp = deref_or GroupName (pr_Group ref); kind = deref_or ''Gateway'' (pr_Kind ref) in
      if grp \<noteq> GroupName \<or> kind \<noteq> ''Gateway'' then parent_requests objNS refs
      else \<lparr>rq_Namespace = deref_or objNS (pr_Namespace ref), rq_Name = pr_Name ref\<rparr> # parent_requests objNS refs)"

definition route_requests :: "'r Route \<Rightarrow> Request list" where
  "route_requests route = parent_requests (rt_Namespace route) (ParentRefs route)"

fun routeToGateways :: "watched \<Rightarrow> Request list" where
  "routeToGateways (HTTPObj route) = route_requests route"
| "routeToGateways (GRPCObj route) = route_requests route"
| "routeToGateways (TLSObj route) = route_requests route"
| "routeToGateways (TCPObj route) = route_requests route"
| "routeToGateways (OtherObj _) = []"

section \<open>Services\<close>

definition add_request :: "Request \<Rightarrow> Request list \<Rightarrow> Request list" where
  "add_request r requests = (if r \<in> set requests then requests else requests @ [r])"

definition targets_service :: "string \<Rightarrow> string \<Rightarrow> backendTarget \<Rightarrow> bool" where
  "targets_service svcNS svcName t \<longleftrightarrow> isService t \<and> bt_ns t = svcNS \<and> bt_name t = svcName"

text \<open>The closure add: the first target that is the Service adds the route's Gateways, and the loop ends.\<close>

definition add_route ::
  "string \<Rightarrow> string \<Rightarrow> string \<Rightarrow> ('r Route \<Rightarrow> BackendObjectReference list) \<Rightarrow> 'r Route \<Rightarrow> Request list \<Rightarrow> Request list" where
  "add_route svcNS svcName kind objRefs route requests =
     (case find (targets_service svcNS svcName) (targetsFromObjRefs (rt_Namespace route) kind (objRefs route)) of
        None \<Rightarrow> requests
      | Some t \<Rightarrow> fold add_request (route_requests route) requests)"

definition add_listed ::
  "string \<Rightarrow> string \<Rightarrow> string \<Rightarrow> ('r Route \<Rightarrow> BackendObjectReference list) \<Rightarrow> 'r Route list result
     \<Rightarrow> Request list \<Rightarrow> Request list" where
  "add_listed svcNS svcName kind objRefs listed requests =
     (case listed of Inl e \<Rightarrow> requests
      | Inr routes \<Rightarrow> fold (add_route svcNS svcName kind objRefs) routes requests)"

definition serviceToGateways ::
  "HTTPRoute list result \<Rightarrow> GRPCRoute list result \<Rightarrow> TLSRoute list result \<Rightarrow> TCPRoute list result
     \<Rightarrow> string \<Rightarrow> string \<Rightarrow> Request list" where
  "serviceToGateways http grpc tls tcp svcNS svcName =
     add_listed svcNS svcName ''TCPRoute'' tcpRouteObjRefs tcp
       (add_listed svcNS svcName ''TLSRoute'' tlsRouteObjRefs tls
         (add_listed svcNS svcName ''GRPCRoute'' grpcRouteObjRefs grpc
           (add_listed svcNS svcName ''HTTPRoute'' httpRouteObjRefs http [])))"

section \<open>Exactly the Gateways concerned\<close>

text \<open>The parents of a route, as attachment reads them.\<close>

definition names_parent :: "'r Route \<Rightarrow> Gateway \<Rightarrow> bool" where
  "names_parent route gw \<longleftrightarrow> list_ex (\<lambda>ref. parentRefReferencesGateway ref gw (rt_Namespace route)) (ParentRefs route)"

lemma parent_requests_iff:
  "ObjectKeyFromObject gw \<in> set (parent_requests ns refs) \<longleftrightarrow>
     list_ex (\<lambda>ref. parentRefReferencesGateway ref gw ns) refs"
  by (induction refs) (auto simp: parentRefReferencesGateway_def ObjectKeyFromObject_def Let_def)

lemma route_requests_iff: "ObjectKeyFromObject gw \<in> set (route_requests route) \<longleftrightarrow> names_parent route gw"
  by (simp add: route_requests_def names_parent_def parent_requests_iff)

lemma add_request_props:
  "set (add_request r requests) = insert r (set requests)"
  "distinct requests \<Longrightarrow> distinct (add_request r requests)"
  by (auto simp: add_request_def)

lemma fold_add_request:
  "set (fold add_request rs requests) = set rs \<union> set requests"
  "distinct requests \<Longrightarrow> distinct (fold add_request rs requests)"
  by (induction rs arbitrary: requests) (auto simp: add_request_props)

definition uses_service ::
  "string \<Rightarrow> string \<Rightarrow> string \<Rightarrow> ('r Route \<Rightarrow> BackendObjectReference list) \<Rightarrow> 'r Route \<Rightarrow> bool" where
  "uses_service svcNS svcName kind objRefs route \<longleftrightarrow>
     list_ex (targets_service svcNS svcName) (targetsFromObjRefs (rt_Namespace route) kind (objRefs route))"

lemma add_route_props:
  "set (add_route svcNS svcName kind objRefs route requests) =
     (if uses_service svcNS svcName kind objRefs route then set (route_requests route) else {}) \<union> set requests"
  "distinct requests \<Longrightarrow> distinct (add_route svcNS svcName kind objRefs route requests)"
  by (auto simp: add_route_def uses_service_def fold_add_request list_ex_iff find_None_iff find_Some_iff
      split: option.splits)

lemma fold_add_route:
  "x \<in> set (fold (add_route svcNS svcName kind objRefs) routes requests) \<longleftrightarrow>
     list_ex (\<lambda>r. uses_service svcNS svcName kind objRefs r \<and> x \<in> set (route_requests r)) routes \<or> x \<in> set requests"
  "distinct requests \<Longrightarrow> distinct (fold (add_route svcNS svcName kind objRefs) routes requests)"
  by (induction routes arbitrary: requests) (auto simp: add_route_props)

definition some_listed :: "('r Route \<Rightarrow> bool) \<Rightarrow> 'r Route list result \<Rightarrow> bool" where
  "some_listed P listed = (case listed of Inl e \<Rightarrow> False | Inr routes \<Rightarrow> list_ex P routes)"

lemma add_listed_props:
  "x \<in> set (add_listed svcNS svcName kind objRefs listed requests) \<longleftrightarrow>
     some_listed (\<lambda>r. uses_service svcNS svcName kind objRefs r \<and> x \<in> set (route_requests r)) listed \<or> x \<in> set requests"
  "distinct requests \<Longrightarrow> distinct (add_listed svcNS svcName kind objRefs listed requests)"
  by (auto simp: add_listed_def some_listed_def fold_add_route split: sum.splits)

definition concerns ::
  "Gateway \<Rightarrow> string \<Rightarrow> string \<Rightarrow> string \<Rightarrow> ('r Route \<Rightarrow> BackendObjectReference list) \<Rightarrow> 'r Route \<Rightarrow> bool" where
  "concerns gw svcNS svcName kind objRefs r \<longleftrightarrow> uses_service svcNS svcName kind objRefs r \<and> names_parent r gw"

text \<open>
  A Service enqueues no Gateway twice, and enqueues a Gateway exactly when some route of the kinds that could
  be listed has the Service among its backendRefs and names the Gateway as a parent.
\<close>

lemma serviceToGateways_requests:
  "distinct (serviceToGateways http grpc tls tcp svcNS svcName) \<and>
   (ObjectKeyFromObject gw \<in> set (serviceToGateways http grpc tls tcp svcNS svcName) \<longleftrightarrow>
     some_listed (concerns gw svcNS svcName ''HTTPRoute'' httpRouteObjRefs) http \<or>
     some_listed (concerns gw svcNS svcName ''GRPCRoute'' grpcRouteObjRefs) grpc \<or>
     some_listed (concerns gw svcNS svcName ''TLSRoute'' tlsRouteObjRefs) tls \<or>
     some_listed (concerns gw svcNS svcName ''TCPRoute'' tcpRouteObjRefs) tcp)"
  unfolding serviceToGateways_def
  by (auto simp: add_listed_props route_requests_iff concerns_def[abs_def])

text \<open>
  A route enqueues the Gateways that it may be attached to: whatever attaches it names the Gateway
  as a parent.
\<close>

lemma attached_route_enqueues:
  assumes "routeAttachmentHostnames getNS gw (ParentRefs route) (rt_Namespace route) kind hs = Inr (hs', True)"
  shows "ObjectKeyFromObject gw \<in> set (route_requests route)"
proof -
  have sel: "parentRefsSelectListener refs gw l ns \<Longrightarrow> list_ex (\<lambda>ref. parentRefReferencesGateway ref gw ns) refs"
    for refs l ns
    by (induction refs) (auto split: if_splits)
  have "attach_loop getNS gw refs ns kind hs ls acc = Inr (hs', True) \<Longrightarrow> acc = [] \<Longrightarrow>
      \<exists>l. parentRefsSelectListener refs gw l ns" for refs ns ls acc
    by (induction ls) (auto simp: Let_def bind_result_Inr_iff split: if_splits prod.splits)
  from this[OF assms[unfolded routeAttachmentHostnames_def]] sel show ?thesis
    unfolding route_requests_iff names_parent_def by blast
qed

end
