(* ===== verification/Setup.thy ===== *)
theory Setup
  imports Watches Sample
begin

text \<open>
  SetupWithManager of internal/controller/controller.go: the table of watches, and which Gateways an event
  enqueues through it. controller-runtime, which delivers the events, is a parameter with its
  documented behaviour. The results: every change of an object that the reconciliation of a Gateway depends
  on enqueues the Gateway, for the kinds that are watched; and what the table leaves out.
\<close>

section \<open>Objects, events and the runtime\<close>

text \<open>
  The ports of a Service as reflect.DeepEqual sees them: nil is told from the empty slice, and the fields
  that the controller does not read (name, target port, node port) count.
\<close>

type_synonym service_spec_ports = "(ServicePort \<times> opaque) list option"

datatype object =
    OGateway Gateway
  | OGatewayClass GatewayClass
  | OHTTPRoute HTTPRoute
  | OGRPCRoute GRPCRoute
  | OTLSRoute TLSRoute
  | OTCPRoute TCPRoute
  | OReferenceGrant string ReferenceGrant
  | OService string string service_spec_ports
  | OBackendTLSPolicy string BackendTLSPolicy
  | OAccessPolicy AccessPolicy
  | OOriginPolicy OriginPolicy
  | OTunnelConfig string string TunnelConfigSpec
  | OXBackend XBackend
  | ONamespace string Labels

fun kind_of :: "object \<Rightarrow> string" where
  "kind_of (OGateway _) = ''Gateway''"
| "kind_of (OGatewayClass _) = ''GatewayClass''"
| "kind_of (OHTTPRoute _) = ''HTTPRoute''"
| "kind_of (OGRPCRoute _) = ''GRPCRoute''"
| "kind_of (OTLSRoute _) = ''TLSRoute''"
| "kind_of (OTCPRoute _) = ''TCPRoute''"
| "kind_of (OReferenceGrant _ _) = ''ReferenceGrant''"
| "kind_of (OService _ _ _) = ''Service''"
| "kind_of (OBackendTLSPolicy _ _) = ''BackendTLSPolicy''"
| "kind_of (OAccessPolicy _) = ''CloudflareAccessPolicy''"
| "kind_of (OOriginPolicy _) = ''CloudflareOriginPolicy''"
| "kind_of (OTunnelConfig _ _ _) = ''CloudflareTunnelConfig''"
| "kind_of (OXBackend _) = ''XBackend''"
| "kind_of (ONamespace _ _) = ''Namespace''"

datatype event =
    CreateEvent object
  | UpdateEvent object object
  | DeleteEvent object
  | GenericEvent object

text \<open>
  controller-runtime: the generation predicate, and the objects of an event that a handler is run on.
\<close>

record Runtime =
  rt_generation_changed :: "event \<Rightarrow> bool"
  rt_objects :: "event \<Rightarrow> object list"

section \<open>The table of watches\<close>

datatype mapping_func =
    ForObject
  | GatewayClassToGateways
  | RouteToGateways
  | AllGatewaysRequests
  | ServiceToGateways
  | BackendTLSPolicyToGateways
  | AccessPolicyToGateways

datatype event_predicate = NoPredicate | GenerationChangedPredicate | ServicePortsChanged

record watch =
  w_Kind :: string
  w_Map :: mapping_func
  w_Pred :: event_predicate

definition watches_of :: "bool \<Rightarrow> watch list" where
  "watches_of experimental =
     [\<lparr>w_Kind = ''Gateway'', w_Map = ForObject, w_Pred = GenerationChangedPredicate\<rparr>,
      \<lparr>w_Kind = ''GatewayClass'', w_Map = GatewayClassToGateways, w_Pred = GenerationChangedPredicate\<rparr>,
      \<lparr>w_Kind = ''HTTPRoute'', w_Map = RouteToGateways, w_Pred = GenerationChangedPredicate\<rparr>,
      \<lparr>w_Kind = ''TLSRoute'', w_Map = RouteToGateways, w_Pred = GenerationChangedPredicate\<rparr>,
      \<lparr>w_Kind = ''GRPCRoute'', w_Map = RouteToGateways, w_Pred = GenerationChangedPredicate\<rparr>,
      \<lparr>w_Kind = ''TCPRoute'', w_Map = RouteToGateways, w_Pred = GenerationChangedPredicate\<rparr>,
      \<lparr>w_Kind = ''ReferenceGrant'', w_Map = AllGatewaysRequests, w_Pred = NoPredicate\<rparr>,
      \<lparr>w_Kind = ''Service'', w_Map = ServiceToGateways, w_Pred = ServicePortsChanged\<rparr>,
      \<lparr>w_Kind = ''BackendTLSPolicy'', w_Map = BackendTLSPolicyToGateways, w_Pred = NoPredicate\<rparr>,
      \<lparr>w_Kind = ''CloudflareAccessPolicy'', w_Map = AccessPolicyToGateways, w_Pred = NoPredicate\<rparr>,
      \<lparr>w_Kind = ''CloudflareOriginPolicy'', w_Map = AllGatewaysRequests, w_Pred = NoPredicate\<rparr>,
      \<lparr>w_Kind = ''CloudflareTunnelConfig'', w_Map = AllGatewaysRequests, w_Pred = NoPredicate\<rparr>] @
     (if experimental
      then [\<lparr>w_Kind = ''XBackend'', w_Map = AllGatewaysRequests, w_Pred = GenerationChangedPredicate\<rparr>] else [])"

text \<open>
  The predicate of the Service watch: its UpdateFunc and GenericFunc are given, creations and
  deletions pass.
\<close>

fun service_ports_changed :: "event \<Rightarrow> bool" where
  "service_ports_changed (UpdateEvent (OService _ _ old) (OService _ _ new)) = (old \<noteq> new)"
| "service_ports_changed (UpdateEvent _ _) = False"
| "service_ports_changed (GenericEvent _) = False"
| "service_ports_changed _ = True"

fun passes :: "Runtime \<Rightarrow> event_predicate \<Rightarrow> event \<Rightarrow> bool" where
  "passes rt NoPredicate ev = True"
| "passes rt GenerationChangedPredicate ev = rt_generation_changed rt ev"
| "passes rt ServicePortsChanged ev = service_ports_changed ev"

text \<open>
  The setup fails without a client or a name, when the index on the class name cannot be made, or
  when the controller cannot be built; the index function is \<^const>\<open>GatewayClassName\<close>.
\<close>

record Manager =
  IndexField :: "(Gateway \<Rightarrow> string list) \<Rightarrow> goerror option"
  Complete :: "watch list \<Rightarrow> goerror option"

definition SetupWithManager :: "Manager \<Rightarrow> 's APIClient option \<Rightarrow> string \<Rightarrow> bool \<Rightarrow> watch list result" where
  "SetupWithManager mgr cloudflareClient controllerName experimental =
     (if cloudflareClient = None then Inl (Err ''CloudflareClient is required'')
      else if controllerName = '''' then Inl (Err ''ControllerName is required'')
      else case IndexField mgr (\<lambda>gw. [GatewayClassName gw]) of
        Some e \<Rightarrow> Inl (Wrap ''creating Gateway indexer'' e)
      | None \<Rightarrow>
          (case Complete mgr (watches_of experimental) of
             Some e \<Rightarrow> Inl (Wrap ''building controller'' e)
           | None \<Rightarrow> Inr (watches_of experimental)))"

section \<open>What an event enqueues\<close>

record Listed =
  ls_by_class :: "string \<Rightarrow> Gateway list result"
  ls_all :: "Gateway list result"
  ls_http :: "HTTPRoute list result"
  ls_grpc :: "GRPCRoute list result"
  ls_tls :: "TLSRoute list result"
  ls_tcp :: "TCPRoute list result"

fun as_watched :: "object \<Rightarrow> watched" where
  "as_watched (OHTTPRoute r) = HTTPObj r"
| "as_watched (OGRPCRoute r) = GRPCObj r"
| "as_watched (OTLSRoute r) = TLSObj r"
| "as_watched (OTCPRoute r) = TCPObj r"
| "as_watched x = OtherObj (kind_of x)"

fun map_object :: "Listed \<Rightarrow> mapping_func \<Rightarrow> object \<Rightarrow> Request list" where
  "map_object ls ForObject (OGateway gw) = [ObjectKeyFromObject gw]"
| "map_object ls GatewayClassToGateways (OGatewayClass gc) = gatewayClassToGateways (ls_by_class ls) (gc_Name gc)"
| "map_object ls RouteToGateways x = routeToGateways (as_watched x)"
| "map_object ls AllGatewaysRequests x = allGatewaysRequests (ls_all ls)"
| "map_object ls ServiceToGateways (OService ns name ps) =
     serviceToGateways (ls_http ls) (ls_grpc ls) (ls_tls ls) (ls_tcp ls) ns name"
| "map_object ls BackendTLSPolicyToGateways x = backendTLSPolicyToGateways (ls_all ls)"
| "map_object ls AccessPolicyToGateways x = accessPolicyToGateways (ls_all ls)"
| "map_object ls _ x = []"

definition enqueued :: "Runtime \<Rightarrow> Listed \<Rightarrow> watch list \<Rightarrow> event \<Rightarrow> Request list" where
  "enqueued rt ls watches ev =
     concat (map (\<lambda>w. if passes rt (w_Pred w) ev
        then concat (map (map_object ls (w_Map w)) (filter (\<lambda>x. kind_of x = w_Kind w) (rt_objects rt ev)))
        else []) watches)"

text \<open>
  What controller-runtime documents: an update is dropped by the generation predicate exactly when the
  generations are equal, other events pass; the objects of an event are those it carries.
\<close>

fun generation_of :: "object \<Rightarrow> int" where
  "generation_of (OGateway gw) = Generation (gw_meta gw)"
| "generation_of (OGatewayClass gc) = gc_Generation gc"
| "generation_of (OHTTPRoute r) = Generation (rt_meta r)"
| "generation_of (OGRPCRoute r) = Generation (rt_meta r)"
| "generation_of (OTLSRoute r) = Generation (rt_meta r)"
| "generation_of (OTCPRoute r) = Generation (rt_meta r)"
| "generation_of (OXBackend xb) = Generation (xb_meta xb)"
| "generation_of (OAccessPolicy p) = Generation (ap_meta p)"
| "generation_of (OOriginPolicy p) = Generation (op_meta p)"
| "generation_of _ = 0"

fun carried :: "event \<Rightarrow> object list" where
  "carried (CreateEvent x) = [x]"
| "carried (UpdateEvent old new) = [old, new]"
| "carried (DeleteEvent x) = [x]"
| "carried (GenericEvent x) = [x]"

fun same_generation :: "event \<Rightarrow> bool" where
  "same_generation (UpdateEvent old new) = (generation_of old = generation_of new)"
| "same_generation _ = False"

definition documented_runtime :: "Runtime \<Rightarrow> bool" where
  "documented_runtime rt \<longleftrightarrow>
     (\<forall>ev. rt_generation_changed rt ev \<longleftrightarrow> \<not> same_generation ev) \<and> (\<forall>ev. set (rt_objects rt ev) = set (carried ev))"

section \<open>Every dependency that is watched enqueues\<close>

lemma enqueuedI:
  assumes "w \<in> set watches" and "passes rt (w_Pred w) ev" and "x \<in> set (rt_objects rt ev)"
    and "kind_of x = w_Kind w" and "r \<in> set (map_object ls (w_Map w) x)"
  shows "r \<in> set (enqueued rt ls watches ev)"
  using assms by (auto simp: enqueued_def intro!: bexI[of _ w] bexI[of _ x])

text \<open>The objects that decide what is served for a Gateway.\<close>

fun depends_on :: "Listed \<Rightarrow> bool \<Rightarrow> Gateway \<Rightarrow> object \<Rightarrow> bool" where
  "depends_on ls experimental gw (OGateway g) = (ObjectKeyFromObject g = ObjectKeyFromObject gw)"
| "depends_on ls experimental gw (OGatewayClass gc) = (gc_Name gc = GatewayClassName gw)"
| "depends_on ls experimental gw (OHTTPRoute r) = names_parent r gw"
| "depends_on ls experimental gw (OGRPCRoute r) = names_parent r gw"
| "depends_on ls experimental gw (OTLSRoute r) = names_parent r gw"
| "depends_on ls experimental gw (OTCPRoute r) = names_parent r gw"
| "depends_on ls experimental gw (OService ns name ps) =
     (some_listed (concerns gw ns name ''HTTPRoute'' httpRouteObjRefs) (ls_http ls) \<or>
      some_listed (concerns gw ns name ''GRPCRoute'' grpcRouteObjRefs) (ls_grpc ls) \<or>
      some_listed (concerns gw ns name ''TLSRoute'' tlsRouteObjRefs) (ls_tls ls) \<or>
      some_listed (concerns gw ns name ''TCPRoute'' tcpRouteObjRefs) (ls_tcp ls))"
| "depends_on ls experimental gw (OXBackend xb) = experimental"
| "depends_on ls experimental gw (ONamespace ns l) = False"
| "depends_on ls experimental gw x = True"

text \<open>
  An event that tells of a change: an object appeared or went, its spec, whose version is the generation,
  changed, or the ports of a Service; the kinds without a predicate count every update.
\<close>

definition generation_kinds :: "string set" where
  "generation_kinds = {''Gateway'', ''GatewayClass'', ''HTTPRoute'', ''GRPCRoute'', ''TLSRoute'', ''TCPRoute'', ''XBackend''}"

fun service_ports :: "object \<Rightarrow> service_spec_ports" where
  "service_ports (OService _ _ ps) = ps"
| "service_ports _ = None"

lemma service_ports_changed_iff:
  "kind_of old = ''Service'' \<Longrightarrow> kind_of new = ''Service'' \<Longrightarrow>
     service_ports_changed (UpdateEvent old new) \<longleftrightarrow> service_ports old \<noteq> service_ports new"
  by (cases old; simp; cases new; simp)

definition changed_object :: "object \<Rightarrow> object \<Rightarrow> bool" where
  "changed_object old new \<longleftrightarrow>
     kind_of old = kind_of new \<and>
     (kind_of new \<in> generation_kinds \<longrightarrow> generation_of old \<noteq> generation_of new) \<and>
     (kind_of new = ''Service'' \<longrightarrow> service_ports old \<noteq> service_ports new)"

fun tells_change :: "event \<Rightarrow> bool" where
  "tells_change (CreateEvent x) = True"
| "tells_change (DeleteEvent x) = True"
| "tells_change (UpdateEvent old new) = changed_object old new"
| "tells_change (GenericEvent x) = False"

lemma tells_change_generation:
  "tells_change ev \<Longrightarrow> x \<in> set (carried ev) \<Longrightarrow> kind_of x \<in> generation_kinds \<Longrightarrow> \<not> same_generation ev"
  by (cases ev) (auto simp: changed_object_def)

lemma tells_change_ports:
  "tells_change ev \<Longrightarrow> x \<in> set (carried ev) \<Longrightarrow> kind_of x = ''Service'' \<Longrightarrow> service_ports_changed ev"
  by (cases ev) (auto simp: changed_object_def service_ports_changed_iff)

lemma watched_enqueues:
  assumes rt: "documented_runtime rt" and ev: "tells_change ev" and x: "x \<in> set (carried ev)"
    and w: "w \<in> set (watches_of experimental)" and k: "kind_of x = w_Kind w"
    and p: "w_Pred w = GenerationChangedPredicate \<longrightarrow> kind_of x \<in> generation_kinds"
      "w_Pred w = ServicePortsChanged \<longrightarrow> kind_of x = ''Service''"
    and r: "r \<in> set (map_object ls (w_Map w) x)"
  shows "r \<in> set (enqueued rt ls (watches_of experimental) ev)"
proof (rule enqueuedI[OF w _ _ k r])
  show "x \<in> set (rt_objects rt ev)" using rt x by (simp add: documented_runtime_def)
  show "passes rt (w_Pred w) ev"
  proof (cases "w_Pred w")
    case GenerationChangedPredicate
    then show ?thesis using tells_change_generation[OF ev x] p(1) rt by (simp add: documented_runtime_def)
  next
    case ServicePortsChanged
    then show ?thesis using tells_change_ports[OF ev x] p(2) by simp
  qed simp
qed

text \<open>The watch of each kind that has one.\<close>

fun watch_for :: "object \<Rightarrow> watch" where
  "watch_for (OGateway _) = \<lparr>w_Kind = ''Gateway'', w_Map = ForObject, w_Pred = GenerationChangedPredicate\<rparr>"
| "watch_for (OGatewayClass _) =
     \<lparr>w_Kind = ''GatewayClass'', w_Map = GatewayClassToGateways, w_Pred = GenerationChangedPredicate\<rparr>"
| "watch_for (OService _ _ _) = \<lparr>w_Kind = ''Service'', w_Map = ServiceToGateways, w_Pred = ServicePortsChanged\<rparr>"
| "watch_for (OBackendTLSPolicy _ _) =
     \<lparr>w_Kind = ''BackendTLSPolicy'', w_Map = BackendTLSPolicyToGateways, w_Pred = NoPredicate\<rparr>"
| "watch_for (OAccessPolicy _) =
     \<lparr>w_Kind = ''CloudflareAccessPolicy'', w_Map = AccessPolicyToGateways, w_Pred = NoPredicate\<rparr>"
| "watch_for (OXBackend _) = \<lparr>w_Kind = ''XBackend'', w_Map = AllGatewaysRequests, w_Pred = GenerationChangedPredicate\<rparr>"
| "watch_for x = \<lparr>w_Kind = kind_of x,
     w_Map = (if kind_of x \<in> generation_kinds then RouteToGateways else AllGatewaysRequests),
     w_Pred = (if kind_of x \<in> generation_kinds then GenerationChangedPredicate else NoPredicate)\<rparr>"

lemma watch_for_in_table:
  "depends_on ls experimental gw x \<Longrightarrow> watch_for x \<in> set (watches_of experimental)"
  by (cases x) (simp_all add: watches_of_def generation_kinds_def)

lemma watch_for_predicate:
  "kind_of x = w_Kind (watch_for x)"
  "w_Pred (watch_for x) = GenerationChangedPredicate \<Longrightarrow> kind_of x \<in> generation_kinds"
  "w_Pred (watch_for x) = ServicePortsChanged \<Longrightarrow> kind_of x = ''Service''"
  by (cases x; simp add: generation_kinds_def)+

lemma requests_ofI: "listed = Inr gws \<Longrightarrow> gw \<in> set gws \<Longrightarrow> ObjectKeyFromObject gw \<in> set (requests_of listed)"
  by (simp add: requests_of_def)

lemma watch_for_enqueues:
  assumes "ls_all ls = Inr gws" "gw \<in> set gws" "ls_by_class ls (GatewayClassName gw) = Inr gws'" "gw \<in> set gws'"
    and "depends_on ls experimental gw x"
  shows "ObjectKeyFromObject gw \<in> set (map_object ls (w_Map (watch_for x)) x)"
  using assms(5) requests_ofI[OF assms(1,2)] requests_ofI[OF assms(3,4)]
  by (cases x) (simp_all add: generation_kinds_def allGatewaysRequests_def backendTLSPolicyToGateways_def
      accessPolicyToGateways_def gatewayClassToGateways_def route_requests_iff serviceToGateways_requests)

text \<open>
  C37. No change that matters goes unnoticed. Let controller-runtime behave as documented, and let the lists of
  Gateways, all of them and those of the class, contain the Gateway. Then every event that tells of a change of
  a watched object on which the Gateway depends enqueues it: the Gateway, its class, a route that
  names it as parent, a Service that such a route uses, any ReferenceGrant or policy or tunnel
  configuration, and, when the experimental switch is on, any XBackend.
\<close>

theorem every_dependency_is_watched:
  assumes "documented_runtime rt"
    and "ls_all ls = Inr gws" and "gw \<in> set gws"
    and "ls_by_class ls (GatewayClassName gw) = Inr gws'" and "gw \<in> set gws'"
    and "x \<in> set (carried ev)" and "depends_on ls experimental gw x" and "tells_change ev"
  shows "ObjectKeyFromObject gw \<in> set (enqueued rt ls (watches_of experimental) ev)"
  by (rule watched_enqueues[OF assms(1,8,6) watch_for_in_table[OF assms(7)] watch_for_predicate(1)])
    (auto simp: watch_for_predicate(2,3) intro: watch_for_enqueues[OF assms(2-5,7)])

definition sample_runtime :: Runtime where
  "sample_runtime = \<lparr>rt_generation_changed = (\<lambda>ev. \<not> same_generation ev), rt_objects = carried\<rparr>"

lemma sample_runtime_documented: "documented_runtime sample_runtime"
  by (simp add: documented_runtime_def sample_runtime_def)

definition sample_listed :: Listed where
  "sample_listed = \<lparr>ls_by_class = (\<lambda>c. Inr (if c = ''cloudflare'' then [sample_gateway] else [])),
     ls_all = Inr [sample_gateway], ls_http = Inr [sample_http_route], ls_grpc = Inr [], ls_tls = Inr [], ls_tcp = Inr []\<rparr>"

text \<open>The sample route with its parentRefs dropped, as the next generation.\<close>

definition detached_route :: HTTPRoute where
  "detached_route = sample_http_route\<lparr>rt_meta := (sample_meta ''apps'' ''shop'')\<lparr>Generation := 2\<rparr>, ParentRefs := []\<rparr>"

lemma sample_dependencies:
  "depends_on sample_listed False sample_gateway (OHTTPRoute sample_http_route)"
  "depends_on sample_listed False sample_gateway (OService ''shop'' ''cart'' None)"
  "tells_change (UpdateEvent (OHTTPRoute sample_http_route) (OHTTPRoute detached_route))"
  by code_simp+

text \<open>
  Two instances: a route that drops its parentRef still enqueues the Gateway it leaves, and so does
  the deletion of a Service it uses.
\<close>

theorem every_dependency_is_watched_witness:
  "ObjectKeyFromObject sample_gateway \<in> set (enqueued sample_runtime sample_listed (watches_of False)
     (UpdateEvent (OHTTPRoute sample_http_route) (OHTTPRoute detached_route))) \<and>
   ObjectKeyFromObject sample_gateway \<in> set (enqueued sample_runtime sample_listed (watches_of False)
     (DeleteEvent (OService ''shop'' ''cart'' None)))"
proof -
  have all: "ls_all sample_listed = Inr [sample_gateway]" by (simp add: sample_listed_def)
  have cls: "ls_by_class sample_listed (GatewayClassName sample_gateway) = Inr [sample_gateway]"
    by (simp add: sample_listed_def sample_gateway_def)
  have gw: "sample_gateway \<in> set [sample_gateway]" by simp
  show ?thesis
    by (intro conjI every_dependency_is_watched[OF sample_runtime_documented all gw cls gw _ sample_dependencies(1) sample_dependencies(3)]
        every_dependency_is_watched[OF sample_runtime_documented all gw cls gw _ sample_dependencies(2)]) simp_all
qed

section \<open>What the table leaves out\<close>

lemma enqueued_nothing:
  assumes "\<And>w x. w \<in> set watches \<Longrightarrow> x \<in> set (rt_objects rt ev) \<Longrightarrow> kind_of x = w_Kind w \<Longrightarrow> \<not> passes rt (w_Pred w) ev"
  shows "enqueued rt ls watches ev = []"
  using assms by (fastforce simp: enqueued_def concat_eq_Nil_conv filter_empty_conv)

lemma namespace_update_unnoticed:
  assumes "documented_runtime rt"
  shows "enqueued rt ls (watches_of experimental) (UpdateEvent (ONamespace ns l) (ONamespace ns l')) = []"
  by (rule enqueued_nothing)
    (use assms in \<open>auto simp: documented_runtime_def watches_of_def split: if_splits\<close>)

lemma same_generation_unnoticed:
  assumes "documented_runtime rt" and "Generation (gw_meta g') = Generation (gw_meta g)"
  shows "enqueued rt ls (watches_of experimental) (UpdateEvent (OGateway g) (OGateway g')) = []"
  by (rule enqueued_nothing)
    (use assms in \<open>auto simp: documented_runtime_def watches_of_def split: if_splits\<close>)

text \<open>A listener that admits the namespaces with a given label.\<close>

definition label_listener :: "string \<Rightarrow> string \<Rightarrow> Listener" where
  "label_listener k v = \<lparr>l_Name = ''web'', l_Hostname = None, l_Port = 443, Protocol = ''HTTPS'',
     l_AllowedRoutes = Some \<lparr>Namespaces = Some \<lparr>From = Some ''Selector'',
       Selector = Some \<lparr>MatchLabels = [(k, v)], MatchExpressions = []\<rparr>\<rparr>, Kinds = []\<rparr>\<rparr>"

definition annotated :: "Gateway \<Rightarrow> string \<Rightarrow> string \<Rightarrow> Gateway" where
  "annotated gw a v = gw\<lparr>gw_meta := (gw_meta gw)\<lparr>Annotations := (Annotations (gw_meta gw))(a \<mapsto> v)\<rparr>\<rparr>"

text \<open>
  C38. What the watches leave out. Under the documented runtime, labelling a Namespace enqueues
  nothing, although it is what opens a listener that selects on the label to the routes of the
  Namespace; and annotating a Gateway, which keeps its generation, enqueues nothing, although
  the annotation dns-managed turns the management of its DNS records off. Both are noticed only when another
  event reconciles the Gateway.
\<close>

theorem unwatched_changes:
  assumes "documented_runtime rt"
  shows "enqueued rt ls (watches_of experimental)
        (UpdateEvent (ONamespace ns (l(k := None))) (ONamespace ns (l(k \<mapsto> v)))) = [] \<and>
     (v \<noteq> '''' \<longrightarrow>
        isNamespaceAllowed (\<lambda>_. Inr (l(k := None))) (label_listener k v) gwNS ns = Inr False \<and>
        isNamespaceAllowed (\<lambda>_. Inr (l(k \<mapsto> v))) (label_listener k v) gwNS ns = Inr True) \<and>
     enqueued rt ls (watches_of experimental)
        (UpdateEvent (OGateway gw) (OGateway (annotated gw annotationDNSManaged ''false''))) = [] \<and>
     \<not> gatewayDNSEnabled (annotated gw annotationDNSManaged ''false'')"
proof (intro conjI impI)
  show "enqueued rt ls (watches_of experimental)
      (UpdateEvent (ONamespace ns (l(k := None))) (ONamespace ns (l(k \<mapsto> v)))) = []"
    by (rule namespace_update_unnoticed[OF assms])
  show "enqueued rt ls (watches_of experimental)
      (UpdateEvent (OGateway gw) (OGateway (annotated gw annotationDNSManaged ''false''))) = []"
    by (rule same_generation_unnoticed[OF assms]) (simp add: annotated_def)
qed (simp_all add: isNamespaceAllowed_def label_listener_def matchNamespaceSelector_def annotated_def
    gatewayDNSEnabled_def EqualFold_def)

theorem unwatched_changes_witness:
  "enqueued sample_runtime sample_listed (watches_of True)
     (UpdateEvent (ONamespace ''apps'' Map.empty) (ONamespace ''apps'' [''team'' \<mapsto> ''a''])) = [] \<and>
   gatewayDNSEnabled sample_gateway \<and>
   enqueued sample_runtime sample_listed (watches_of True)
     (UpdateEvent (OGateway sample_gateway) (OGateway (annotated sample_gateway annotationDNSManaged ''false''))) = []"
proof -
  have "gatewayDNSEnabled sample_gateway" by code_simp
  then show ?thesis
    using unwatched_changes[OF sample_runtime_documented, of sample_listed True "''apps''" Map.empty "''team''" "''a''"
      "''infra''" sample_gateway]
    by simp
qed

end
