(* ===== verification/Preflight.thy ===== *)
theory Preflight
  imports Backends
begin

text \<open>
  internal/controller/preflight.go: the check, before any watch starts, that the API server serves
  the resources the controller needs. Discovery, the reading of a CRD's annotations, the state of
  the context at each step and golang.org/x/mod/semver are parameters. The hint that ends the text
  of an unreadable XBackend CRD's error is left out, log lines are dropped;
  the warnings of gatewayAPIChannelCheck are returned, as in the code.
\<close>

record GVR =
  g_Group :: string
  g_Version :: string
  g_Resource :: string

record Semver =
  sv_Compare :: "string \<Rightarrow> string \<Rightarrow> int"
  sv_MajorMinor :: "string \<Rightarrow> string"
  sv_IsValid :: "string \<Rightarrow> bool"
  sv_Prerelease :: "string \<Rightarrow> string"

text \<open>
  Discovery maps a group and version to the names of its resources; a CRD's annotations are read
  with nil as the empty map.
\<close>

record Discovery =
  ServerResources :: "string \<Rightarrow> string list result"
  crd_Annotations :: "string \<Rightarrow> (string \<rightharpoonup> string) result"
  ctx_Err :: "nat \<Rightarrow> goerror option"

definition gateway_gvr :: "string \<Rightarrow> GVR" where
  "gateway_gvr resource = \<lparr>g_Group = ''gateway.networking.k8s.io'', g_Version = ''v1'', g_Resource = resource\<rparr>"

definition requiredGatewayAPICRDs :: "GVR list" where
  "requiredGatewayAPICRDs = map gateway_gvr
     [''gateways'', ''gatewayclasses'', ''httproutes'', ''grpcroutes'', ''tlsroutes'', ''tcproutes'',
      ''backendtlspolicies'', ''referencegrants'']"

definition xbackend_gvr :: GVR where
  "xbackend_gvr = \<lparr>g_Group = xBackendGroup, g_Version = ''v1alpha1'', g_Resource = ''xbackends''\<rparr>"

definition bundleVersionAnnotation :: string where
  "bundleVersionAnnotation = ''gateway.networking.k8s.io/bundle-version''"

definition channelAnnotation :: string where
  "channelAnnotation = ''gateway.networking.k8s.io/channel''"

definition experimentalChannel :: string where
  "experimentalChannel = ''experimental''"

definition coreCRDName :: string where
  "coreCRDName = ''gateways.gateway.networking.k8s.io''"

definition xBackendCRDName :: string where
  "xBackendCRDName = ''xbackends.'' @ xBackendGroup"

section \<open>The checks\<close>

definition group_version :: "GVR \<Rightarrow> string" where
  "group_version gvr = g_Group gvr @ ''/'' @ g_Version gvr"

definition resourceExists :: "Discovery \<Rightarrow> GVR \<Rightarrow> bool result" where
  "resourceExists dc gvr =
     (case ServerResources dc (group_version gvr) of
        Inl e \<Rightarrow> if apierrors_IsNotFound e then Inr False else Inl e
      | Inr names \<Rightarrow> Inr (list_ex (\<lambda>n. n = g_Resource gvr) names))"

definition gatewayAPIBundleMeta :: "Discovery \<Rightarrow> string \<Rightarrow> (string \<times> string) result" where
  "gatewayAPIBundleMeta dc name =
     bind_result (crd_Annotations dc name) (\<lambda>ann.
       Inr (deref_or '''' (ann channelAnnotation), deref_or '''' (ann bundleVersionAnnotation)))"

definition gatewayAPIChannelCheck ::
  "Semver \<Rightarrow> string \<Rightarrow> string \<Rightarrow> string \<Rightarrow> bool \<Rightarrow> string list \<times> goerror option" where
  "gatewayAPIChannelCheck sv channel bundleVersion builtVersion requireXBackend =
     (let warnings = (if channel = '''' \<or> bundleVersion = ''''
        then [''CRD channel or bundle-version annotation is missing; cannot fully verify compatibility''] else [])
      in if channel \<noteq> '''' \<and> channel \<noteq> experimentalChannel \<and> requireXBackend
         then (warnings, Some (Err (''XBackend requires an experimental-channel CRD, got '' @ quoted channel @
                ''; install with `make install-xbackend-crd` or disable experimental backends'')))
         else let warnings = warnings @
               (if channel \<noteq> '''' \<and> channel \<noteq> experimentalChannel \<and> channel \<noteq> ''standard''
                then [''unknown Gateway API CRD channel '' @ quoted channel] else [])
         in if bundleVersion \<noteq> '''' \<and> builtVersion \<noteq> ''''
            then let comparison = sv_Compare sv (sv_MajorMinor sv bundleVersion) (sv_MajorMinor sv builtVersion)
              in if \<not> sv_IsValid sv bundleVersion \<or> \<not> sv_IsValid sv builtVersion
                 then let msg = ''cannot compare CRD bundle version '' @ quoted bundleVersion @
                            '' with built-against version '' @ quoted builtVersion
                   in if requireXBackend
                      then (warnings, Some (Err (msg @
                        ''; install with `make install-xbackend-crd` or disable experimental backends'')))
                      else (warnings @ [msg], None)
                 else if requireXBackend \<and> (comparison \<noteq> 0 \<or> sv_Prerelease sv bundleVersion \<noteq> '''')
                 then (warnings, Some (Err (''XBackend bundle '' @ bundleVersion @
                        '' is not compatible with the built-against release line '' @ sv_MajorMinor sv builtVersion @
                        ''; install the '' @ builtVersion @
                        '' XBackend CRD (`make install-xbackend-crd`) or disable experimental backends'')))
                 else if comparison < 0
                 then (warnings @ [''CRD bundle '' @ bundleVersion @ '' is older than built-against version '' @ builtVersion], None)
                 else (warnings, None)
            else (warnings, None))"

text \<open>The loop over the required resources; the number counts the tests of the context.\<close>

fun check_resources :: "Discovery \<Rightarrow> string \<Rightarrow> nat \<Rightarrow> GVR list \<Rightarrow> goerror option" where
  "check_resources dc builtVersion i [] = None"
| "check_resources dc builtVersion i (gvr # gvrs) =
     (case ctx_Err dc i of
        Some e \<Rightarrow> Some (Wrap ''checking Gateway API resources'' e)
      | None \<Rightarrow>
          (case resourceExists dc gvr of
             Inl e \<Rightarrow> Some (Wrap (''checking for '' @ g_Resource gvr @ ''.'' @ g_Group gvr) e)
           | Inr ok \<Rightarrow>
               if \<not> ok
               then if g_Group gvr = xBackendGroup
                    then Some (Err (''experimental backends are enabled but '' @ group_version gvr @ '' resource '' @
                      quoted (g_Resource gvr) @ '' is not served; install the XBackend CRD from Gateway API '' @ builtVersion @
                      '' (`make install-xbackend-crd`) or disable experimental.backends.enabled / --enable-experimental-backends''))
                    else Some (Err (''required Gateway API resource '' @ group_version gvr @ '' '' @ quoted (g_Resource gvr) @
                      '' is not served; install the Gateway API '' @ builtVersion @
                      '' standard bundle (`make install-crds`) or set gatewayAPI.enabled=true in the Helm chart for a fresh cluster''))
               else check_resources dc builtVersion (Suc i) gvrs))"

fun check_bundles :: "Semver \<Rightarrow> Discovery \<Rightarrow> string \<Rightarrow> string list \<Rightarrow> goerror option" where
  "check_bundles sv dc builtVersion [] = None"
| "check_bundles sv dc builtVersion (name # names) =
     (let experimental = name = xBackendCRDName in
      case gatewayAPIBundleMeta dc name of
        Inl e \<Rightarrow>
          if experimental
          then Some (Wrap ''cannot verify XBackend CRD compatibility'' e)
          else check_bundles sv dc builtVersion names
      | Inr (channel, version) \<Rightarrow>
          (case gatewayAPIChannelCheck sv channel version builtVersion experimental of
             (_, Some fatal) \<Rightarrow> Some (Wrap (''CRD '' @ name) fatal)
           | (_, None) \<Rightarrow> check_bundles sv dc builtVersion names))"

definition required_resources :: "bool \<Rightarrow> GVR list" where
  "required_resources requireXBackend =
     requiredGatewayAPICRDs @ (if requireXBackend then [xbackend_gvr] else [])"

definition preflightCheckCRDs :: "Semver \<Rightarrow> Discovery \<Rightarrow> bool \<Rightarrow> string \<Rightarrow> goerror option" where
  "preflightCheckCRDs sv dc requireXBackend builtVersion =
     (case check_resources dc builtVersion 0 (required_resources requireXBackend) of
        Some e \<Rightarrow> Some e
      | None \<Rightarrow> check_bundles sv dc builtVersion
          (coreCRDName # (if requireXBackend then [xBackendCRDName] else [])))"

section \<open>When the controller starts\<close>

definition served_resource :: "Discovery \<Rightarrow> GVR \<Rightarrow> bool" where
  "served_resource dc gvr \<longleftrightarrow>
     (case ServerResources dc (group_version gvr) of Inl e \<Rightarrow> False | Inr names \<Rightarrow> g_Resource gvr \<in> set names)"

text \<open>
  The XBackend CRD fits: its annotations can be read, its channel is the experimental one or not
  annotated, and its version, when both versions are known, is of the same GA release line.
\<close>

definition xbackend_crd_fits :: "Semver \<Rightarrow> Discovery \<Rightarrow> string \<Rightarrow> bool" where
  "xbackend_crd_fits sv dc builtVersion \<longleftrightarrow>
     (case crd_Annotations dc xBackendCRDName of
        Inl e \<Rightarrow> False
      | Inr ann \<Rightarrow>
          deref_or '''' (ann channelAnnotation) \<in> {'''', experimentalChannel} \<and>
          (let v = deref_or '''' (ann bundleVersionAnnotation) in
           v = '''' \<or> builtVersion = '''' \<or>
           (sv_IsValid sv v \<and> sv_IsValid sv builtVersion \<and> sv_Prerelease sv v = '''' \<and>
            sv_Compare sv (sv_MajorMinor sv v) (sv_MajorMinor sv builtVersion) = 0)))"

lemma check_resources_None:
  "check_resources dc built i gvrs = None \<longleftrightarrow>
     list_all (\<lambda>j. ctx_Err dc j = None) [i..<i + length gvrs] \<and> list_all (served_resource dc) gvrs"
proof (induction gvrs arbitrary: i)
  case Nil
  then show ?case by simp
next
  case (Cons gvr gvrs)
  have "[i..<i + length (gvr # gvrs)] = i # [Suc i..<Suc i + length gvrs]"
    by (simp add: upt_conv_Cons del: upt_Suc)
  moreover have "(\<exists>ok. resourceExists dc gvr = Inr ok \<and> ok) \<longleftrightarrow> served_resource dc gvr"
    by (auto simp: resourceExists_def served_resource_def list_ex_iff split: sum.splits if_splits)
  ultimately show ?case
    using Cons.IH[of "Suc i"]
    by (cases "ctx_Err dc i"; cases "resourceExists dc gvr") (auto simp del: upt_Suc)
qed

text \<open>A check that does not concern XBackend never stops the controller.\<close>

lemma gatewayAPIChannelCheck_core: "snd (gatewayAPIChannelCheck sv channel v built False) = None"
  by (simp add: gatewayAPIChannelCheck_def Let_def)

lemma gatewayAPIChannelCheck_xbackend:
  "snd (gatewayAPIChannelCheck sv channel v built True) = None \<longleftrightarrow>
     channel \<in> {'''', experimentalChannel} \<and>
     (v = '''' \<or> built = '''' \<or> (sv_IsValid sv v \<and> sv_IsValid sv built \<and> sv_Prerelease sv v = '''' \<and>
        sv_Compare sv (sv_MajorMinor sv v) (sv_MajorMinor sv built) = 0))"
  by (auto simp: gatewayAPIChannelCheck_def Let_def experimentalChannel_def)

lemma crd_names: "coreCRDName \<noteq> xBackendCRDName"
  by (simp add: coreCRDName_def xBackendCRDName_def xBackendGroup_def)

lemma check_bundles_core:
  "check_bundles sv dc built (coreCRDName # names) = check_bundles sv dc built names"
proof (cases "gatewayAPIBundleMeta dc coreCRDName")
  case (Inr r)
  obtain channel v where "r = (channel, v)" by (cases r)
  moreover obtain ws where "gatewayAPIChannelCheck sv channel v built False = (ws, None)"
    using gatewayAPIChannelCheck_core[of sv channel v built] by (metis prod.collapse)
  ultimately show ?thesis using Inr crd_names by simp
qed (use crd_names in simp)

lemma check_bundles_xbackend:
  "check_bundles sv dc built [xBackendCRDName] = None \<longleftrightarrow> xbackend_crd_fits sv dc built"
proof (cases "crd_Annotations dc xBackendCRDName")
  case (Inl e)
  then show ?thesis by (simp add: gatewayAPIBundleMeta_def xbackend_crd_fits_def)
next
  case (Inr ann)
  let ?c = "deref_or '''' (ann channelAnnotation)" and ?v = "deref_or '''' (ann bundleVersionAnnotation)"
  have "check_bundles sv dc built [xBackendCRDName] = None \<longleftrightarrow>
      snd (gatewayAPIChannelCheck sv ?c ?v built True) = None"
    using Inr by (auto simp: gatewayAPIBundleMeta_def split: prod.splits option.splits)
  with Inr show ?thesis by (simp add: gatewayAPIChannelCheck_xbackend xbackend_crd_fits_def Let_def)
qed

lemma preflightCheckCRDs_None:
  "preflightCheckCRDs sv dc requireXBackend builtVersion = None \<longleftrightarrow>
     list_all (\<lambda>j. ctx_Err dc j = None) [0..<length (required_resources requireXBackend)] \<and>
     list_all (served_resource dc) requiredGatewayAPICRDs \<and>
     (if requireXBackend then served_resource dc xbackend_gvr \<and> xbackend_crd_fits sv dc builtVersion else True)"
proof -
  have "preflightCheckCRDs sv dc requireXBackend builtVersion = None \<longleftrightarrow>
      check_resources dc builtVersion 0 (required_resources requireXBackend) = None \<and>
      check_bundles sv dc builtVersion (if requireXBackend then [xBackendCRDName] else []) = None"
    unfolding preflightCheckCRDs_def check_bundles_core by (simp split: option.splits)
  then show ?thesis
    unfolding check_resources_None
    by (auto simp: required_resources_def check_bundles_xbackend simp del: check_bundles.simps(2))
qed

text \<open>
  C40. The controller starts exactly when it can work. The preflight check passes if and only if the
  context stays live during the lookups, every required resource is served in its version, and,
  when experimental backends are on, XBackend is served and its CRD can be read, is of
  the experimental channel and of the same GA release line, as far as it is annotated. Nothing
  about the other CRDs' annotations, readable or not, keeps the controller from starting.
\<close>

theorem preflightCheckCRDs_exact:
  "preflightCheckCRDs sv dc requireXBackend builtVersion = None \<longleftrightarrow>
     list_all (\<lambda>j. ctx_Err dc j = None) [0..<length (required_resources requireXBackend)] \<and>
     list_all (served_resource dc) requiredGatewayAPICRDs \<and>
     (if requireXBackend then served_resource dc xbackend_gvr \<and> xbackend_crd_fits sv dc builtVersion else True)"
  by (rule preflightCheckCRDs_None)

end
