(* ===== verification/Startup.thy ===== *)
theory Startup
  imports Setup Preflight
begin

text \<open>
  cmd/main.go, NewClientFromEnv of internal/cloudflare/client.go and the exported
  PreflightCheckCRDs of internal/controller/preflight.go: how the process comes up. The command
  line, the environment, the kubeconfig, the constructors of clients and manager, and mgr.Start are
  parameters. The results: what the two switches read as, and what holds when the manager starts.
\<close>

section \<open>Switches\<close>

text \<open>strconv.ParseBool and FormatBool.\<close>

definition ParseBool :: "string \<Rightarrow> bool result" where
  "ParseBool s =
     (if s \<in> set [''1'', ''t'', ''T'', ''true'', ''TRUE'', ''True''] then Inr True
      else if s \<in> set [''0'', ''f'', ''F'', ''false'', ''FALSE'', ''False''] then Inr False
      else Inl (Err (''strconv.ParseBool: parsing '' @ quoted s @ '': invalid syntax'')))"

definition FormatBool :: "bool \<Rightarrow> string" where
  "FormatBool b = (if b then ''true'' else ''false'')"

text \<open>The flags given on the command line, which are those that Visit sees, and the environment.\<close>

record Process =
  flags :: "string \<rightharpoonup> bool"
  env :: "string \<rightharpoonup> string"

definition booleanFlagEnabled :: "Process \<Rightarrow> string \<Rightarrow> string \<Rightarrow> bool result" where
  "booleanFlagEnabled p flagName envName =
     (case flags p flagName of
        Some b \<Rightarrow> ParseBool (FormatBool b)
      | None \<Rightarrow>
          (case env p envName of
             None \<Rightarrow> Inr False
           | Some v \<Rightarrow>
               (case ParseBool v of
                  Inl e \<Rightarrow> Inl (Wrap (envName @ '' must be a boolean'') e)
                | Inr b \<Rightarrow> Inr b)))"

section \<open>The Cloudflare client\<close>

definition Getenv :: "Process \<Rightarrow> string \<Rightarrow> string" where
  "Getenv p name = deref_or '''' (env p name)"

definition NewClientFromEnv :: "(string \<Rightarrow> 's SDK) \<Rightarrow> Process \<Rightarrow> 's APIClient result" where
  "NewClientFromEnv newSDK p =
     (let accountID = Getenv p ''CLOUDFLARE_ACCOUNT_ID'' in
      if accountID = '''' then Inl (Err ''CLOUDFLARE_ACCOUNT_ID is required'')
      else let token = Getenv p ''CLOUDFLARE_API_TOKEN'' in
        if token = '''' then Inl (Err ''CLOUDFLARE_API_TOKEN is required'')
        else Inr (client (newSDK token) accountID))"

section \<open>The preflight check on a kubeconfig\<close>

record RestConfig =
  cfg_Host :: string
  cfg_Timeout :: Duration

text \<open>
  The constructors of client-go, which give the lookups of discovery and the reader of CRD annotations,
  and context.WithTimeout, which gives the error of the context at each test.
\<close>

record ClientGo =
  NewDiscovery :: "RestConfig \<Rightarrow> (string \<Rightarrow> string list result) result"
  NewDynamic :: "RestConfig \<Rightarrow> (string \<Rightarrow> (string \<rightharpoonup> string) result) result"
  WithTimeout :: "Duration \<Rightarrow> nat \<Rightarrow> goerror option"

definition preflight_timeout :: Duration where
  "preflight_timeout = 30 * int Second"

definition bound_timeout :: "RestConfig \<Rightarrow> RestConfig" where
  "bound_timeout cfg =
     (if cfg_Timeout cfg \<le> 0 \<or> cfg_Timeout cfg > preflight_timeout then cfg\<lparr>cfg_Timeout := preflight_timeout\<rparr> else cfg)"

definition PreflightCheckCRDs :: "Semver \<Rightarrow> ClientGo \<Rightarrow> RestConfig \<Rightarrow> bool \<Rightarrow> string \<Rightarrow> goerror option" where
  "PreflightCheckCRDs sv go cfg requireXBackend builtVersion =
     (let cfg = bound_timeout cfg in
      case NewDiscovery go cfg of
        Inl e \<Rightarrow> Some (Wrap ''creating discovery client'' e)
      | Inr dc \<Rightarrow>
          (case NewDynamic go cfg of
             Inl e \<Rightarrow> Some (Wrap ''creating dynamic client'' e)
           | Inr dyn \<Rightarrow>
               preflightCheckCRDs sv
                 \<lparr>ServerResources = dc, crd_Annotations = dyn, ctx_Err = WithTimeout go preflight_timeout\<rparr>
                 requireXBackend builtVersion))"

section \<open>The main function\<close>

text \<open>
  Options of the manager; the manager offers its client, the registration of health checks and the
  blocking Start beside what SetupWithManager uses.
\<close>

record Options =
  HealthProbeBindAddress :: string
  LeaderElection :: bool
  LeaderElectionID :: string

record 'w CtrlManager = Manager +
  GetClient :: "'w Cluster"
  AddHealthzCheck :: "string \<Rightarrow> goerror option"
  AddReadyzCheck :: "string \<Rightarrow> goerror option"
  Start :: "goerror option"

record 'w Platform =
  process :: Process
  newSDK :: "string \<Rightarrow> 'w SDK"
  GetConfig :: "RestConfig result"
  clientgo :: ClientGo
  semver :: Semver
  BundleVersion :: string
  NewManager :: "RestConfig \<Rightarrow> Options \<Rightarrow> 'w CtrlManager result"

text \<open>
  How a run ends, with the message it logs, and what was running: the reconciler and its watches,
  when mgr.Start was reached. GetConfigOrDie exits like the other failures.
\<close>

datatype ending = Exit1 string goerror | Returned

type_synonym 'w running = "('w GatewayReconciler \<times> watch list) option"

definition manager_options :: Options where
  "manager_options = \<lparr>HealthProbeBindAddress = '':8081'', LeaderElection = True,
     LeaderElectionID = ''cloudflared-gateway.jan0ski.net''\<rparr>"

definition run_manager :: "'w CtrlManager \<Rightarrow> 'w APIClient \<Rightarrow> bool \<Rightarrow> bool \<Rightarrow> ending \<times> 'w running" where
  "run_manager mgr cfClient experimental manageDNS =
     (let reconciler = \<lparr>r_Client = GetClient mgr, r_CloudflareClient = cfClient, r_ControllerName = ControllerName,
            ExperimentalBackends = experimental, ManageDNS = manageDNS\<rparr>
      in case SetupWithManager (Manager.truncate mgr) (Some cfClient) ControllerName experimental of
        Inl e \<Rightarrow> (Exit1 ''Error setting up controller'' e, None)
      | Inr watches \<Rightarrow>
          (case AddHealthzCheck mgr ''healthz'' of
             Some e \<Rightarrow> (Exit1 ''Error setting up health check'' e, None)
           | None \<Rightarrow>
               (case AddReadyzCheck mgr ''readyz'' of
                  Some e \<Rightarrow> (Exit1 ''Error setting up readiness check'' e, None)
                | None \<Rightarrow>
                    (case Start mgr of
                       Some e \<Rightarrow> (Exit1 ''Error starting manager'' e, Some (reconciler, watches))
                     | None \<Rightarrow> (Returned, Some (reconciler, watches))))))"

definition main :: "'w Platform \<Rightarrow> ending \<times> 'w running" where
  "main pf =
     (case booleanFlagEnabled (process pf) ''enable-experimental-backends'' ''ENABLE_EXPERIMENTAL_BACKENDS'' of
        Inl e \<Rightarrow> (Exit1 ''Invalid experimental backend configuration'' e, None)
      | Inr experimental \<Rightarrow>
     (case booleanFlagEnabled (process pf) ''enable-dns-management'' ''ENABLE_DNS_MANAGEMENT'' of
        Inl e \<Rightarrow> (Exit1 ''Invalid DNS management configuration'' e, None)
      | Inr manageDNS \<Rightarrow>
     (case NewClientFromEnv (newSDK pf) (process pf) of
        Inl e \<Rightarrow> (Exit1 ''Error creating Cloudflare client'' e, None)
      | Inr cfClient \<Rightarrow>
     (case GetConfig pf of
        Inl e \<Rightarrow> (Exit1 ''unable to get kubeconfig'' e, None)
      | Inr cfg \<Rightarrow>
     (case PreflightCheckCRDs (semver pf) (clientgo pf) cfg experimental (BundleVersion pf) of
        Some e \<Rightarrow> (Exit1 ''Gateway API CRD preflight check failed'' e, None)
      | None \<Rightarrow>
     (case NewManager pf cfg manager_options of
        Inl e \<Rightarrow> (Exit1 ''Error creating manager'' e, None)
      | Inr mgr \<Rightarrow> run_manager mgr cfClient experimental manageDNS))))))"

section \<open>What the switches read as\<close>

lemma ParseBool_FormatBool [simp]: "ParseBool (FormatBool b) = Inr b"
  by (simp add: ParseBool_def FormatBool_def)

text \<open>The flag, when given, decides alone; else the variable, which must be one of twelve spellings.\<close>

lemma booleanFlagEnabled_cases:
  "flags p f = Some b \<Longrightarrow> booleanFlagEnabled p f v = Inr b"
  "flags p f = None \<Longrightarrow> env p v = None \<Longrightarrow> booleanFlagEnabled p f v = Inr False"
  "flags p f = None \<Longrightarrow> env p v = Some s \<Longrightarrow> booleanFlagEnabled p f v = Inr b \<longleftrightarrow> ParseBool s = Inr b"
  by (simp_all add: booleanFlagEnabled_def split: sum.splits)

lemma booleanFlagEnabled_error:
  "booleanFlagEnabled p f v = Inl e \<Longrightarrow> flags p f = None \<and> env p v \<noteq> None"
  by (auto simp: booleanFlagEnabled_def split: option.splits sum.splits)

section \<open>What holds when the manager starts\<close>

lemma NewClientFromEnv_Inr:
  "NewClientFromEnv sdk p = Inr c \<longleftrightarrow>
     Getenv p ''CLOUDFLARE_ACCOUNT_ID'' \<noteq> '''' \<and> Getenv p ''CLOUDFLARE_API_TOKEN'' \<noteq> '''' \<and>
     c = client (sdk (Getenv p ''CLOUDFLARE_API_TOKEN'')) (Getenv p ''CLOUDFLARE_ACCOUNT_ID'')"
  by (auto simp: NewClientFromEnv_def Let_def)

lemma SetupWithManager_Inr:
  "SetupWithManager mgr (Some c) ControllerName experimental = Inr ws \<longleftrightarrow>
     IndexField mgr (\<lambda>gw. [GatewayClassName gw]) = None \<and> Complete mgr (watches_of experimental) = None \<and>
     ws = watches_of experimental"
  by (auto simp: SetupWithManager_def ControllerName_def split: option.splits)

definition reconciler_of :: "'w CtrlManager \<Rightarrow> 'w APIClient \<Rightarrow> bool \<Rightarrow> bool \<Rightarrow> 'w GatewayReconciler" where
  "reconciler_of mgr c experimental manageDNS =
     \<lparr>r_Client = GetClient mgr, r_CloudflareClient = c, r_ControllerName = ControllerName,
      ExperimentalBackends = experimental, ManageDNS = manageDNS\<rparr>"

lemma run_manager_running:
  "snd (run_manager mgr c experimental manageDNS) = Some (r, ws) \<longleftrightarrow>
     IndexField mgr (\<lambda>gw. [GatewayClassName gw]) = None \<and> Complete mgr (watches_of experimental) = None \<and>
     AddHealthzCheck mgr ''healthz'' = None \<and> AddReadyzCheck mgr ''readyz'' = None \<and>
     r = reconciler_of mgr c experimental manageDNS \<and> ws = watches_of experimental"
proof (cases "SetupWithManager (Manager.truncate mgr) (Some c) ControllerName experimental")
  case (Inl e)
  then show ?thesis
    using SetupWithManager_Inr[of "Manager.truncate mgr" c experimental "watches_of experimental"]
    by (auto simp: run_manager_def Let_def Manager.defs)
next
  case (Inr ws')
  then show ?thesis
    using SetupWithManager_Inr[of "Manager.truncate mgr" c experimental ws']
    by (auto simp: run_manager_def Let_def Manager.defs reconciler_of_def split: option.splits)
qed

text \<open>What main has found out before it makes the manager.\<close>

definition switches :: "'w Platform \<Rightarrow> bool \<Rightarrow> bool \<Rightarrow> bool" where
  "switches pf experimental manageDNS \<longleftrightarrow>
     booleanFlagEnabled (process pf) ''enable-experimental-backends'' ''ENABLE_EXPERIMENTAL_BACKENDS'' = Inr experimental \<and>
     booleanFlagEnabled (process pf) ''enable-dns-management'' ''ENABLE_DNS_MANAGEMENT'' = Inr manageDNS"

lemma main_running:
  "snd (main pf) = Some (r, ws) \<longleftrightarrow>
     (\<exists>experimental manageDNS c cfg mgr.
        switches pf experimental manageDNS \<and> NewClientFromEnv (newSDK pf) (process pf) = Inr c \<and>
        GetConfig pf = Inr cfg \<and>
        PreflightCheckCRDs (semver pf) (clientgo pf) cfg experimental (BundleVersion pf) = None \<and>
        NewManager pf cfg manager_options = Inr mgr \<and>
        snd (run_manager mgr c experimental manageDNS) = Some (r, ws))"
  by (auto simp: main_def switches_def split: sum.splits option.splits)

lemma preflight_served:
  "preflightCheckCRDs sv dc x built = None \<Longrightarrow> list_all (served_resource dc) (required_resources x)"
  by (auto simp: preflightCheckCRDs_None required_resources_def split: if_splits)

lemma PreflightCheckCRDs_served:
  "PreflightCheckCRDs sv go cfg x built = None \<Longrightarrow>
     \<exists>dc. NewDiscovery go (bound_timeout cfg) = Inr (ServerResources dc) \<and>
       list_all (served_resource dc) (required_resources x)"
  by (force simp: PreflightCheckCRDs_def Let_def dest: preflight_served split: sum.splits)

text \<open>The resource behind a watched kind of the Gateway API.\<close>

definition watched_resource :: "string \<Rightarrow> GVR option" where
  "watched_resource kind =
     (if kind = ''XBackend'' then Some xbackend_gvr
      else map_option gateway_gvr (map_of
        [(''Gateway'', ''gateways''), (''GatewayClass'', ''gatewayclasses''), (''HTTPRoute'', ''httproutes''),
         (''GRPCRoute'', ''grpcroutes''), (''TLSRoute'', ''tlsroutes''), (''TCPRoute'', ''tcproutes''),
         (''BackendTLSPolicy'', ''backendtlspolicies''), (''ReferenceGrant'', ''referencegrants'')] kind))"

lemma watched_resources_required:
  "w \<in> set (watches_of experimental) \<Longrightarrow> watched_resource (w_Kind w) = Some gvr \<Longrightarrow>
     gvr \<in> set (required_resources experimental)"
  by (auto simp: watches_of_def watched_resource_def required_resources_def requiredGatewayAPICRDs_def
      split: if_splits)

text \<open>
  C39. The manager starts only on checked ground. When main reaches mgr.Start, both switches were read
  from flag or environment and are those of the reconciler; its Cloudflare client is made of a non-empty
  account and token of the environment; the watches are those of the very switch the reconciler and the
  preflight check use; and discovery, with a bounded timeout, has shown every
  Gateway API resource that is watched to be served.
\<close>

theorem main_starts_on_checked_ground:
  assumes "snd (main pf) = Some (r, ws)"
  shows "switches pf (ExperimentalBackends r) (ManageDNS r) \<and>
    (\<exists>account token.
       env (process pf) ''CLOUDFLARE_ACCOUNT_ID'' = Some account \<and> account \<noteq> '''' \<and>
       env (process pf) ''CLOUDFLARE_API_TOKEN'' = Some token \<and> token \<noteq> '''' \<and>
       r_CloudflareClient r = client (newSDK pf token) account) \<and>
    ws = watches_of (ExperimentalBackends r) \<and>
    (\<exists>cfg dc. GetConfig pf = Inr cfg \<and> NewDiscovery (clientgo pf) (bound_timeout cfg) = Inr (ServerResources dc) \<and>
       0 < cfg_Timeout (bound_timeout cfg) \<and> cfg_Timeout (bound_timeout cfg) \<le> preflight_timeout \<and>
       (\<forall>w \<in> set ws. \<forall>gvr. watched_resource (w_Kind w) = Some gvr \<longrightarrow> served_resource dc gvr))"
proof -
  obtain experimental manageDNS c cfg mgr where sw: "switches pf experimental manageDNS"
    and c: "NewClientFromEnv (newSDK pf) (process pf) = Inr c" and cfg: "GetConfig pf = Inr cfg"
    and pre: "PreflightCheckCRDs (semver pf) (clientgo pf) cfg experimental (BundleVersion pf) = None"
    and run: "snd (run_manager mgr c experimental manageDNS) = Some (r, ws)"
    using assms unfolding main_running by (elim exE conjE)
  from run have r: "ExperimentalBackends r = experimental" "ManageDNS r = manageDNS" "r_CloudflareClient r = c"
    and ws: "ws = watches_of experimental"
    by (simp_all add: run_manager_running reconciler_of_def)
  obtain dc where dc: "NewDiscovery (clientgo pf) (bound_timeout cfg) = Inr (ServerResources dc)"
    and served: "list_all (served_resource dc) (required_resources experimental)"
    using PreflightCheckCRDs_served[OF pre] by (elim exE conjE)
  have "\<exists>account token.
       env (process pf) ''CLOUDFLARE_ACCOUNT_ID'' = Some account \<and> account \<noteq> '''' \<and>
       env (process pf) ''CLOUDFLARE_API_TOKEN'' = Some token \<and> token \<noteq> '''' \<and> c = client (newSDK pf token) account"
    using c unfolding NewClientFromEnv_Inr Getenv_def
    by (cases "env (process pf) ''CLOUDFLARE_ACCOUNT_ID''"; cases "env (process pf) ''CLOUDFLARE_API_TOKEN''") auto
  moreover have "\<forall>w \<in> set ws. \<forall>gvr. watched_resource (w_Kind w) = Some gvr \<longrightarrow> served_resource dc gvr"
    using served ws watched_resources_required unfolding list_all_iff by blast
  moreover have "0 < cfg_Timeout (bound_timeout cfg) \<and> cfg_Timeout (bound_timeout cfg) \<le> preflight_timeout"
    by (simp add: bound_timeout_def preflight_timeout_def Second_def)
  ultimately show ?thesis using sw r ws cfg dc by (simp only:) blast
qed

text \<open>A platform on which the manager starts: the stable bundle is served, and DNS management is on by flag.\<close>

definition refusing_sdk :: "world SDK" where
  "refusing_sdk =
     \<lparr>cloudflared_new = (\<lambda>s _ _ _. (Inl NotFound, s)), cloudflared_list = (\<lambda>_ _ _ _. ([], None)),
      cloudflared_delete = (\<lambda>s _ _. (None, s)), configurations_update = (\<lambda>s _ _ _. (None, s)),
      zones_list = (\<lambda>_ _. ([], None)), records_list = (\<lambda>_ _. ([], None)), records_batch = (\<lambda>s _. (None, s))\<rparr>"

definition sample_manager :: "world CtrlManager" where
  "sample_manager = \<lparr>IndexField = (\<lambda>_. None), Complete = (\<lambda>_. None), GetClient = sample_cluster,
     AddHealthzCheck = (\<lambda>_. None), AddReadyzCheck = (\<lambda>_. None), Start = None\<rparr>"

definition sample_platform :: "world Platform" where
  "sample_platform =
     \<lparr>process = \<lparr>flags = [''enable-dns-management'' \<mapsto> True],
        env = [''CLOUDFLARE_ACCOUNT_ID'' \<mapsto> ''acc'', ''CLOUDFLARE_API_TOKEN'' \<mapsto> ''tok'',
          ''ENABLE_DNS_MANAGEMENT'' \<mapsto> ''tru'', ''ENABLE_EXPERIMENTAL_BACKENDS'' \<mapsto> ''F'']\<rparr>,
      newSDK = (\<lambda>_. refusing_sdk), GetConfig = Inr \<lparr>cfg_Host = ''h'', cfg_Timeout = 0\<rparr>,
      clientgo = \<lparr>NewDiscovery = (\<lambda>_. Inr (\<lambda>gv. if gv = ''gateway.networking.k8s.io/v1''
           then Inr (map g_Resource requiredGatewayAPICRDs) else Inl NotFound)),
         NewDynamic = (\<lambda>_. Inr (\<lambda>_. Inl NotFound)), WithTimeout = (\<lambda>_ _. None)\<rparr>,
      semver = \<lparr>sv_Compare = (\<lambda>_ _. 0), sv_MajorMinor = id, sv_IsValid = (\<lambda>_. True), sv_Prerelease = (\<lambda>_. [])\<rparr>,
      BundleVersion = ''v1.6.0'', NewManager = (\<lambda>_ _. Inr sample_manager)\<rparr>"

lemma sample_served:
  "list_all (\<lambda>gvr. group_version gvr = ''gateway.networking.k8s.io/v1'') requiredGatewayAPICRDs"
  by (simp add: requiredGatewayAPICRDs_def gateway_gvr_def group_version_def)

lemma sample_preflight:
  "PreflightCheckCRDs (semver sample_platform) (clientgo sample_platform) \<lparr>cfg_Host = ''h'', cfg_Timeout = 0\<rparr> False
     (BundleVersion sample_platform) = None"
  using sample_served
  by (simp add: PreflightCheckCRDs_def sample_platform_def preflightCheckCRDs_None served_resource_def list_all_iff)

lemma sample_started:
  "snd (main sample_platform) =
     Some (reconciler_of sample_manager (client refusing_sdk ''acc'') False True, watches_of False)"
proof -
  have "switches sample_platform False True" by code_simp
  moreover have "NewClientFromEnv (newSDK sample_platform) (process sample_platform) = Inr (client refusing_sdk ''acc'')"
    by (simp add: NewClientFromEnv_Inr sample_platform_def Getenv_def)
  moreover have "snd (run_manager sample_manager (client refusing_sdk ''acc'') False True) =
      Some (reconciler_of sample_manager (client refusing_sdk ''acc'') False True, watches_of False)"
    by (simp add: run_manager_running sample_manager_def)
  moreover have "GetConfig sample_platform = Inr \<lparr>cfg_Host = ''h'', cfg_Timeout = 0\<rparr>"
    "NewManager sample_platform \<lparr>cfg_Host = ''h'', cfg_Timeout = 0\<rparr> manager_options = Inr sample_manager"
    by (simp_all add: sample_platform_def)
  ultimately show ?thesis using sample_preflight unfolding main_running by (intro exI conjI)
qed

theorem main_starts_on_checked_ground_witness:
  "switches sample_platform False True \<and>
   (\<exists>cfg dc. GetConfig sample_platform = Inr cfg \<and>
      NewDiscovery (clientgo sample_platform) (bound_timeout cfg) = Inr (ServerResources dc) \<and>
      0 < cfg_Timeout (bound_timeout cfg) \<and> cfg_Timeout (bound_timeout cfg) \<le> preflight_timeout \<and>
      (\<forall>w \<in> set (watches_of False). \<forall>gvr. watched_resource (w_Kind w) = Some gvr \<longrightarrow> served_resource dc gvr))"
  using main_starts_on_checked_ground[OF sample_started] by (simp add: reconciler_of_def)

end
