(* ===== verification/PushedList.thy ===== *)
theory PushedList
  imports Pipeline
begin

text \<open>
  The shape of the pushed list. Cloudflare requires a list of ingress rules whose last rule matches every
  request, and evaluates it first match first, so that a rule without hostname and path ahead of the last
  makes every rule behind it unreachable. This theory says exactly which routes produce such rules.
\<close>

section \<open>Rules that match every request\<close>

definition unrestricted :: "IngressRule \<Rightarrow> bool" where
  "unrestricted rule \<longleftrightarrow> Hostname rule = '''' \<and> Path rule = ''''"

text \<open>What a match, a rule and a route have to look like for that, in terms of the Gateway API.\<close>

definition any_host :: "'r Route \<Rightarrow> bool" where
  "any_host route \<longleftrightarrow> Hostnames route = [] \<or> list_ex (\<lambda>h. h = '''') (Hostnames route)"

definition http_any_path :: "HTTPRouteMatch \<Rightarrow> bool" where
  "http_any_path m \<longleftrightarrow>
     (case hm_Path m of None \<Rightarrow> True
      | Some p \<Rightarrow>
        let pathType = deref_or ''PathPrefix'' (pm_Type p); value = deref_or ''/'' (pm_Value p)
        in if pathType = ''Exact'' then False
           else if pathType = ''PathPrefix'' then value = ''/''
           else if pathType = ''RegularExpression'' then value = '''' else True)"

definition grpc_any_path :: "GRPCRouteMatch \<Rightarrow> bool" where
  "grpc_any_path m \<longleftrightarrow>
     (case gm_Method m of None \<Rightarrow> True
      | Some mm \<Rightarrow> deref_or '''' (mm_Service mm) = '''' \<and> deref_or '''' (mm_Method mm) = '''' \<or>
          deref_or ''Exact'' (mm_Type mm) \<noteq> ''Exact'' \<and> deref_or ''Exact'' (mm_Type mm) \<noteq> ''RegularExpression'')"

definition http_open :: "HTTPRoute \<Rightarrow> bool" where
  "http_open route \<longleftrightarrow> any_host route \<and>
     list_ex (\<lambda>rule. hr_Matches rule = [] \<or> list_ex http_any_path (hr_Matches rule)) (Rules route)"

definition grpc_open :: "GRPCRoute \<Rightarrow> bool" where
  "grpc_open route \<longleftrightarrow> any_host route \<and>
     list_ex (\<lambda>rule. gr_Matches rule = [] \<or> list_ex grpc_any_path (gr_Matches rule)) (Rules route)"

definition tls_open :: "TLSRoute \<Rightarrow> bool" where
  "tls_open route \<longleftrightarrow> any_host route \<and> Rules route \<noteq> []"

definition tcp_open :: "TCPRoute \<Rightarrow> bool" where
  "tcp_open route \<longleftrightarrow> Rules route \<noteq> []"

section \<open>What the builders emit\<close>

lemma map_snd_enum: "map snd (enum xs) = xs"
  by (simp add: enum_def map_snd_zip)

lemma ex_for_rules:
  assumes "\<And>route p. (\<exists>b \<in> set (body route p). P b) \<longleftrightarrow> Q route (snd p)"
  shows "(\<exists>b \<in> set (for_rules body routes). P b) \<longleftrightarrow> (\<exists>route \<in> set routes. \<exists>rule \<in> set (Rules route). Q route rule)"
proof -
  have "(\<exists>rule \<in> set xs. Q route rule) \<longleftrightarrow> (\<exists>p \<in> set (enum xs). Q route (snd p))" for route xs
    by (subst map_snd_enum[symmetric], unfold set_map) blast
  then show ?thesis unfolding assms[symmetric] by (simp add: for_rules_def)
qed

lemma emit_unrestricted:
  "unrestricted (built_rule (emit_rule pv service o' host m)) \<longleftrightarrow> host = '''' \<and> bm_path m = ''''"
  by (simp add: emit_rule_def unrestricted_def)

lemma fan_out_unrestricted:
  "(\<exists>b \<in> set (fanOutHTTPFamily pv hs service o' ms). unrestricted (built_rule b)) \<longleftrightarrow>
     (hs = [] \<or> list_ex (\<lambda>h. h = '''') hs) \<and> list_ex (\<lambda>m. bm_path m = '''') ms"
  by (auto simp: fanOutHTTPFamily_def emit_unrestricted list_ex_iff)

lemma http_match_path: "bm_path (http_match m) = '''' \<longleftrightarrow> http_any_path m"
  by (auto simp: http_match_def http_any_path_def applyPathMatch_def match_all_def Let_def split: option.splits)

lemma grpc_match_path: "bm_path (grpc_match m) = '''' \<longleftrightarrow> grpc_any_path m"
  by (auto simp: grpc_match_def grpc_any_path_def grpcMethodPath_def grpc_path_def match_all_def Let_def
      split: option.splits)

lemma matches_path:
  "list_ex (\<lambda>m. bm_path m = '''') (extractMatches hs) \<longleftrightarrow> hs = [] \<or> list_ex http_any_path hs"
  "list_ex (\<lambda>m. bm_path m = '''') (extractGRPCMatches gs) \<longleftrightarrow> gs = [] \<or> list_ex grpc_any_path gs"
  by (auto simp: extractMatches_def extractGRPCMatches_def match_all_def list_ex_iff http_match_path grpc_match_path)

lemma rule_unrestricted:
  "(\<exists>b \<in> set (build_http_rule resolve http p). unrestricted (built_rule b)) \<longleftrightarrow>
     any_host http \<and> (hr_Matches (snd p) = [] \<or> list_ex http_any_path (hr_Matches (snd p)))"
  "(\<exists>b \<in> set (build_grpc_rule resolve grpc q). unrestricted (built_rule b)) \<longleftrightarrow>
     any_host grpc \<and> (gr_Matches (snd q) = [] \<or> list_ex grpc_any_path (gr_Matches (snd q)))"
  "(\<exists>b \<in> set (build_tls_rule resolve tls u). unrestricted (built_rule b)) \<longleftrightarrow> any_host tls"
  "(\<exists>b \<in> set (build_tcp_rule resolve tcp u). unrestricted (built_rule b)) \<longleftrightarrow> True"
  by (simp_all add: build_http_rule_def build_grpc_rule_def split_beta Let_def fan_out_unrestricted matches_path any_host_def)
    (simp_all add: build_tls_rule_def build_tcp_rule_def split_beta Let_def emit_unrestricted match_all_def list_ex_iff)

lemma built_unrestricted:
  "(\<exists>b \<in> set (BuildIngressRules http resolve). unrestricted (built_rule b)) \<longleftrightarrow> list_ex http_open http"
  "(\<exists>b \<in> set (BuildGRPCIngressRules grpc resolve). unrestricted (built_rule b)) \<longleftrightarrow> list_ex grpc_open grpc"
  "(\<exists>b \<in> set (BuildTLSIngressRules tls resolve). unrestricted (built_rule b)) \<longleftrightarrow> list_ex tls_open tls"
  "(\<exists>b \<in> set (BuildTCPIngressRules tcp resolve). unrestricted (built_rule b)) \<longleftrightarrow> list_ex tcp_open tcp"
  unfolding BuildIngressRules_def BuildGRPCIngressRules_def BuildTLSIngressRules_def BuildTCPIngressRules_def
    ex_for_rules[where P = "\<lambda>b. unrestricted (built_rule b)"
      and Q = "\<lambda>route rule. any_host route \<and> (hr_Matches rule = [] \<or> list_ex http_any_path (hr_Matches rule))", OF rule_unrestricted(1)]
    ex_for_rules[where P = "\<lambda>b. unrestricted (built_rule b)"
      and Q = "\<lambda>route rule. any_host route \<and> (gr_Matches rule = [] \<or> list_ex grpc_any_path (gr_Matches rule))", OF rule_unrestricted(2)]
    ex_for_rules[where P = "\<lambda>b. unrestricted (built_rule b)"
      and Q = "\<lambda>route rule. any_host route", OF rule_unrestricted(3)]
    ex_for_rules[where P = "\<lambda>b. unrestricted (built_rule b)"
      and Q = "\<lambda>route rule. True", OF rule_unrestricted(4)]
  by (auto simp: list_ex_iff http_open_def grpc_open_def tls_open_def tcp_open_def ex_in_conv)

section \<open>Every rule has a service\<close>

lemma resolved_nonempty: "scheme \<noteq> '''' \<Longrightarrow> fst (resolveServiceAndOrigin i ns kind resolve scheme dp req) \<noteq> ''''"
  by (auto simp: resolveServiceAndOrigin_def service_url_def split: option.splits)

lemma service_nonempty:
  "fst (backendRefToService refs ns resolve) \<noteq> ''''" "fst (grpcBackendRefToService refs ns resolve) \<noteq> ''''"
  "fst (backendRefToTLSService refs ns resolve) \<noteq> ''''" "fst (backendRefToTCPService refs ns resolve) \<noteq> ''''"
  by (auto simp: backendRefToService_def grpcBackendRefToService_def backendRefToTLSService_def
      backendRefToTCPService_def resolved_nonempty split: list.splits)

lemma rule_service:
  "(\<exists>b \<in> set (build_http_rule resolve http p). Service (built_rule b) = '''') \<longleftrightarrow> False"
  "(\<exists>b \<in> set (build_grpc_rule resolve grpc q). Service (built_rule b) = '''') \<longleftrightarrow> False"
  "(\<exists>b \<in> set (build_tls_rule resolve tls u). Service (built_rule b) = '''') \<longleftrightarrow> False"
  "(\<exists>b \<in> set (build_tcp_rule resolve tcp u). Service (built_rule b) = '''') \<longleftrightarrow> False"
  by (simp_all add: build_http_rule_def build_grpc_rule_def build_tls_rule_def build_tcp_rule_def split_beta Let_def
      emit_rule_def fanOutHTTPFamily_def service_nonempty)

lemma built_service:
  "(\<exists>b \<in> set (BuildIngressRules http resolve). Service (built_rule b) = '''') \<longleftrightarrow> False"
  "(\<exists>b \<in> set (BuildGRPCIngressRules grpc resolve). Service (built_rule b) = '''') \<longleftrightarrow> False"
  "(\<exists>b \<in> set (BuildTLSIngressRules tls resolve). Service (built_rule b) = '''') \<longleftrightarrow> False"
  "(\<exists>b \<in> set (BuildTCPIngressRules tcp resolve). Service (built_rule b) = '''') \<longleftrightarrow> False"
  unfolding BuildIngressRules_def BuildGRPCIngressRules_def BuildTLSIngressRules_def BuildTCPIngressRules_def
    ex_for_rules[where P = "\<lambda>b. Service (built_rule b) = ''''", OF rule_service(1)]
    ex_for_rules[where P = "\<lambda>b. Service (built_rule b) = ''''", OF rule_service(2)]
    ex_for_rules[where P = "\<lambda>b. Service (built_rule b) = ''''", OF rule_service(3)]
    ex_for_rules[where P = "\<lambda>b. Service (built_rule b) = ''''", OF rule_service(4)]
  by simp_all

section \<open>The shape of the pushed list\<close>

lemma keeps_all_ex:
  assumes "list_all2 keeps rs rs'" and "\<And>a b. keeps a b \<Longrightarrow> P (built_rule b) \<longleftrightarrow> P (built_rule a)"
  shows "(\<exists>b \<in> set rs'. P (built_rule b)) \<longleftrightarrow> (\<exists>a \<in> set rs. P (built_rule a))"
  using assms by (induction rule: list_all2_induct) auto

text \<open>
  C4. The pushed list is well formed, and exactly when it is not. Every list that is pushed ends with
  the catch-all rule that Cloudflare demands, and every rule in it names a service. No rule ahead
  of the catch-all matches every request, so that no rule is unreachable behind such a rule, exactly when no
  attached TCPRoute has a rule, no attached TLSRoute with a rule lacks hostnames, and no attached HTTPRoute
  or GRPCRoute without hostnames has a rule without matches or with a match that restricts no path.
\<close>

theorem pushed_list_well_formed:
  assumes "build_ingress r gw att w = Inr (l7, ingress)"
  shows "ingress = butlast ingress @ [catch_all] \<and>
    list_all (\<lambda>rule. Service rule \<noteq> '''') ingress \<and>
    (list_ex unrestricted (butlast ingress) \<longleftrightarrow>
       list_ex http_open (at_http att) \<or> list_ex grpc_open (at_grpc att) \<or>
       list_ex tls_open (at_tls att) \<or> list_ex tcp_open (at_tcp att))"
proof -
  obtain l7' stream where parts: "list_all2 keeps (l7_built r att) l7'" "l7 = SortByPrecedence l7'"
    "list_all2 keeps (stream_built r att) stream" "ingress = map built_rule (l7 @ stream) @ [catch_all]"
    using build_ingress_parts[OF assms] by blast
  have front: "butlast ingress = map built_rule (l7 @ stream)" by (simp only: parts(4) butlast_snoc)
  have ex: "(\<exists>rule \<in> set (butlast ingress). P rule) \<longleftrightarrow>
      (\<exists>a \<in> set (l7_built r att). P (built_rule a)) \<or> (\<exists>a \<in> set (stream_built r att). P (built_rule a))"
    if "\<And>a b. keeps a b \<Longrightarrow> P (built_rule b) \<longleftrightarrow> P (built_rule a)" for P
  proof -
    have "(\<exists>rule \<in> set (butlast ingress). P rule) \<longleftrightarrow>
        (\<exists>b \<in> set l7'. P (built_rule b)) \<or> (\<exists>b \<in> set stream. P (built_rule b))"
      by (auto simp: front parts(2) SortByPrecedence_def)
    moreover have "(\<exists>b \<in> set l7'. P (built_rule b)) \<longleftrightarrow> (\<exists>a \<in> set (l7_built r att). P (built_rule a))"
      by (rule keeps_all_ex[OF parts(1)]) (rule that)
    moreover have "(\<exists>b \<in> set stream. P (built_rule b)) \<longleftrightarrow> (\<exists>a \<in> set (stream_built r att). P (built_rule a))"
      by (rule keeps_all_ex[OF parts(3)]) (rule that)
    ultimately show ?thesis by simp
  qed
  have u: "(\<exists>rule \<in> set (butlast ingress). unrestricted rule) \<longleftrightarrow>
      list_ex http_open (at_http att) \<or> list_ex grpc_open (at_grpc att) \<or>
      list_ex tls_open (at_tls att) \<or> list_ex tcp_open (at_tcp att)"
    by (subst ex) (simp_all add: unrestricted_def keeps_fields,
      simp add: l7_built_def stream_built_def Let_def bex_Un built_unrestricted unrestricted_def[symmetric])
  have s: "\<not> (\<exists>rule \<in> set (butlast ingress). Service rule = '''')"
    by (subst ex) (simp_all only: keeps_fields l7_built_def stream_built_def Let_def set_append bex_Un built_service simp_thms)
  have last: "ingress = butlast ingress @ [catch_all]" unfolding front by (rule parts(4))
  have "Service rule \<noteq> ''''" if "rule \<in> set ingress" for rule
    using that s by (subst (asm) last) (auto simp: catch_all_def)
  then show ?thesis using u last by (simp add: list_ex_iff list_all_iff)
qed

text \<open>What such a rule does: whatever stands behind a rule that matches everything is never selected.\<close>

lemma behind_unrestricted_unreachable:
  assumes "\<And>rule. unrestricted rule \<Longrightarrow> matches rule" and "unrestricted rule"
  shows "find matches (before @ rule # behind) = find matches (before @ [rule])"
  using assms by (induction before) auto

theorem pushed_list_well_formed_witness:
  "\<exists>att l7. build_ingress sample_reconciler sample_gateway att sample_world = Inr (l7, [shop_rule, catch_all]) \<and>
     \<not> list_ex http_open (at_http att) \<and> \<not> list_ex tcp_open (at_tcp att)"
proof -
  obtain att l7 where s: "collect_attachments sample_reconciler sample_gateway sample_world = Inr att"
    "build_ingress sample_reconciler sample_gateway att sample_world = Inr (l7, [shop_rule, catch_all])"
    "map built_rule l7 = [shop_rule]" "map Hostnames (at_http att) = [[''a.example.com'']]"
    by (rule sample_build_parts)
  have "\<not> list_ex unrestricted (butlast [shop_rule, catch_all])" by (simp add: unrestricted_def shop_rule_def)
  with pushed_list_well_formed[OF s(2)] s(2) show ?thesis by blast
qed

text \<open>
  The rules of TCPRoutes all match everything: of those attached to one Gateway only the very first
  rule is ever served, and nothing behind it, the catch-all included.
\<close>

lemma only_first_tcp_rule_served:
  assumes "\<And>rule. unrestricted rule \<Longrightarrow> matches rule" and "BuildTCPIngressRules routes resolve = b # bs"
  shows "find matches (before @ map built_rule (BuildTCPIngressRules routes resolve) @ behind) =
    find matches (before @ [built_rule b])"
proof -
  have "b \<in> set (for_rules (build_tcp_rule resolve) routes)"
    using assms(2) by (simp add: BuildTCPIngressRules_def[symmetric])
  then have "unrestricted (built_rule b)"
    by (auto simp: for_rules_def build_tcp_rule_def split_beta Let_def emit_unrestricted match_all_def)
  from behind_unrestricted_unreachable[of matches, OF assms(1) this] show ?thesis
    by (simp add: assms(2))
qed

end
