(* ===== verification/Lifecycle.thy ===== *)
theory Lifecycle
  imports Sample
begin

text \<open>
  The life of a Gateway under Reconcile, end to end: what is in place when a reconciliation returns
  without an error, what is gone when a deleted Gateway's finalizer is removed, which errors are
  permanent, and in which order Cloudflare sees the changes. An observation is any function of the world;
  that a write to one thing does not change what is seen of another is a named hypothesis.
\<close>

section \<open>What a write does not change\<close>

definition store_keeps :: "('w, 'o) Store \<Rightarrow> ('w \<Rightarrow> 'x) \<Rightarrow> bool" where
  "store_keeps st obs \<longleftrightarrow>
     (\<forall>w x. obs (snd (st_Create st w x)) = obs w \<and> obs (snd (st_Update st w x)) = obs w \<and>
        obs (snd (st_Delete st w x)) = obs w)"

definition statuses_keep :: "'w Cluster \<Rightarrow> ('w \<Rightarrow> 'x) \<Rightarrow> bool" where
  "statuses_keep cl obs \<longleftrightarrow>
     (\<forall>w x. obs (snd (cl_status_class cl w x)) = obs w) \<and> (\<forall>w x. obs (snd (cl_status_gateway cl w x)) = obs w) \<and>
     (\<forall>w x. obs (snd (cl_status_http cl w x)) = obs w) \<and> (\<forall>w x. obs (snd (cl_status_grpc cl w x)) = obs w) \<and>
     (\<forall>w x. obs (snd (cl_status_tls cl w x)) = obs w) \<and> (\<forall>w x. obs (snd (cl_status_tcp cl w x)) = obs w) \<and>
     (\<forall>w x. obs (snd (cl_status_access cl w x)) = obs w) \<and> (\<forall>w x. obs (snd (cl_status_origin cl w x)) = obs w) \<and>
     (\<forall>w x. obs (snd (cl_status_xbackend cl w x)) = obs w)"

definition class_keeps :: "'w Cluster \<Rightarrow> ('w \<Rightarrow> 'x) \<Rightarrow> bool" where
  "class_keeps cl obs \<longleftrightarrow> (\<forall>w x. obs (snd (cl_status_class cl w x)) = obs w)"

definition records_keep :: "'w APIClient \<Rightarrow> ('w \<Rightarrow> 'x) \<Rightarrow> bool" where
  "records_keep api obs \<longleftrightarrow> (\<forall>w z c. obs (snd (api_ApplyDNSChanges api w z c)) = obs w)"

definition tunnels_keep :: "'w APIClient \<Rightarrow> ('w \<Rightarrow> 'x) \<Rightarrow> bool" where
  "tunnels_keep api obs \<longleftrightarrow>
     (\<forall>w name secret. obs (snd (api_CreateTunnel api w name secret)) = obs w) \<and>
     (\<forall>w i. obs (snd (api_DeleteTunnel api w i)) = obs w)"

definition push_keeps :: "'w APIClient \<Rightarrow> ('w \<Rightarrow> 'x) \<Rightarrow> bool" where
  "push_keeps api obs \<longleftrightarrow> (\<forall>w i rules. obs (snd (api_UpdateTunnelConfiguration api w i rules)) = obs w)"

lemma store_keepsD:
  "store_keeps st obs \<Longrightarrow> st_Create st w x = (e, w') \<Longrightarrow> obs w' = obs w"
  "store_keeps st obs \<Longrightarrow> st_Update st w x = (e, w') \<Longrightarrow> obs w' = obs w"
  "store_keeps st obs \<Longrightarrow> st_Delete st w x = (e, w') \<Longrightarrow> obs w' = obs w"
  unfolding store_keeps_def by (metis snd_conv)+

lemma tunnels_keepD:
  "tunnels_keep api obs \<Longrightarrow> api_CreateTunnel api w name secret = (r, w') \<Longrightarrow> obs w' = obs w"
  "tunnels_keep api obs \<Longrightarrow> api_DeleteTunnel api w i = (e, w') \<Longrightarrow> obs w' = obs w"
  unfolding tunnels_keep_def by (metis snd_conv)+

lemma push_keepsD: "push_keeps api obs \<Longrightarrow> api_UpdateTunnelConfiguration api w i rules = (e, w') \<Longrightarrow> obs w' = obs w"
  unfolding push_keeps_def by (metis snd_conv)

lemma records_keepD: "records_keep api obs \<Longrightarrow> api_ApplyDNSChanges api w z c = (e, w') \<Longrightarrow> obs w' = obs w"
  unfolding records_keep_def by (metis snd_conv)

lemma statuses_keepD:
  assumes "statuses_keep cl obs"
  shows "obs (snd (cl_status_class cl w a)) = obs w" "obs (snd (cl_status_gateway cl w b)) = obs w"
    "obs (snd (cl_status_http cl w c)) = obs w" "obs (snd (cl_status_grpc cl w d)) = obs w"
    "obs (snd (cl_status_tls cl w e)) = obs w" "obs (snd (cl_status_tcp cl w f)) = obs w"
    "obs (snd (cl_status_access cl w g)) = obs w" "obs (snd (cl_status_origin cl w h)) = obs w"
    "obs (snd (cl_status_xbackend cl w i)) = obs w"
  using assms unfolding statuses_keep_def by blast+

lemma class_keepsI: "statuses_keep cl obs \<Longrightarrow> class_keeps cl obs"
  by (simp add: statuses_keep_def class_keeps_def)

text \<open>The operations composed of such writes.\<close>

lemma snd_write_status: "snd (write_status update patch w) = snd (update w (snd (patch (\<lambda>x. fst (update w x)))))"
  by (simp add: write_status_def Let_def split: prod.split)

lemma patch_routes_keeps:
  assumes "\<And>w x. obs (snd (update w x)) = obs w"
  shows "obs (snd (patch_routes update patch routes st)) = obs (snd st)"
proof -
  have "obs (snd (fold (\<lambda>route st. let (statusErr, w) = st;
         (err, w') = write_status update (\<lambda>u. patch u w route) w
       in (or_else statusErr err, w')) routes st)) = obs (snd st)"
  proof (induction routes arbitrary: st)
    case (Cons route routes)
    show ?case
      unfolding fold.simps o_apply Cons.IH
      by (cases st) (simp add: Let_def split_beta snd_write_status assms)
  qed simp
  then show ?thesis by (simp add: patch_routes_def)
qed

lemma fold_keeps:
  assumes "\<And>x st. obs (snd (f x st)) = obs (snd st)"
  shows "obs (snd (fold f xs st)) = obs (snd st)"
  by (induction xs arbitrary: st) (simp_all add: assms)

lemma write_policies_keeps:
  assumes "\<And>w x. obs (snd (update w x)) = obs w"
  shows "obs (write_policies update ps w) = obs w"
  unfolding write_policies_def
  by (induction ps arbitrary: w) (auto simp: assms)

lemma write_xbackend_keeps:
  assumes "\<And>w x. obs (snd (update w x)) = obs w"
  shows "obs (snd (write_xbackend update r st)) = obs (snd st)"
  by (cases r; cases st) (simp add: write_xbackend_def Let_def split_beta assms)

lemma patchXBackendStatuses_keeps:
  assumes "\<And>w x. obs (snd (update w x)) = obs w"
  shows "obs (snd (patchXBackendStatuses list update now gw cn col w)) = obs w"
  by (simp add: patchXBackendStatuses_def fold_keeps[of obs] write_xbackend_keeps[of obs] assms split: option.split sum.split)

lemma pruneXBackendAncestorStatus_keeps:
  assumes "\<And>w x. obs (snd (update w x)) = obs w"
  shows "obs (snd (pruneXBackendAncestorStatus list update experimental gw cn w)) = obs w"
  by (simp add: pruneXBackendAncestorStatus_def fold_keeps[of obs] write_xbackend_keeps[of obs] assms split: sum.split)

lemma prunePolicyAncestorStatus_keeps:
  assumes "statuses_keep (r_Client r) obs"
  shows "obs (prunePolicyAncestorStatus r gw w) = obs w"
  by (simp add: prunePolicyAncestorStatus_def Let_def write_policies_keeps[of obs] statuses_keepD[OF assms] split: sum.split)

lemma dns_keeps:
  assumes "records_keep api obs"
  shows "obs (snd (reconcileDNS api manageDNS gw tunnelID hostnames w)) = obs w"
    "obs (snd (teardownDNS api manageDNS gw w)) = obs w"
proof -
  have "obs (snd (dns_zone_step api gw D owner z st)) = obs (snd st)" for D owner z st
    by (cases st) (auto simp: dns_zone_step_def Let_def split: sum.split prod.split option.split
        dest: records_keepD[OF assms])
  then show "obs (snd (reconcileDNS api manageDNS gw tunnelID hostnames w)) = obs w"
    by (simp add: reconcileDNS_def Let_def fold_keeps[of obs] split: sum.split)
  have "obs (snd (teardown_zone_step api owner z st)) = obs (snd st)" for owner z st
    by (cases st) (auto simp: teardown_zone_step_def Let_def split: sum.split prod.split option.split
        dest: records_keepD[OF assms])
  then show "obs (snd (teardownDNS api manageDNS gw w)) = obs w"
    by (simp add: teardownDNS_def Let_def fold_keeps[of obs] split: sum.split)
qed

lemma patch_statuses_keeps:
  assumes "statuses_keep (r_Client r) obs"
  shows "obs (snd (patch_statuses r gw att l7 tunnelID dnsErr w)) = obs w"
proof -
  note keeps = statuses_keepD[OF assms]
  have access: "obs (snd (snd (patch_access_statuses r gw valid w))) = obs w" for valid w
    by (simp add: patch_access_statuses_def Let_def write_policies_keeps[of obs] keeps split: sum.split prod.split)
  have origin: "obs (snd (patch_origin_statuses r ps gw valid w)) = obs w" for ps valid w
    by (simp add: patch_origin_statuses_def Let_def write_policies_keeps[of obs] keeps split: prod.split)
  have routes: "obs (snd (patch_route_statuses r gw att ef st)) = obs (snd st)" for ef st
    by (simp add: patch_route_statuses_def Let_def patch_routes_keeps[of obs] keeps)
  show ?thesis
    by (simp add: patch_statuses_def Let_def split_beta snd_write_status keeps access origin routes
        patchXBackendStatuses_keeps[of obs])
qed

section \<open>Which errors are given up\<close>

lemma kube_result_not_permanent: "kube_result x = Inl e \<Longrightarrow> \<not> IsPermanent e"
  by (cases x) (auto simp: kube_result_def)

lemma provision_not_permanent:
  assumes "provision r gw gc w = (Inl e, w')"
  shows "\<not> IsPermanent e"
proof -
  have panic: "\<not> IsPermanent (kube_unless_panic x)" for x by (cases x) (simp_all add: kube_unless_panic_def)
  have ensure: "\<not> IsPermanent x" if "ensure_tunnel r gw secret reg v = (Inl x, v')" for x secret reg v v'
    using that by (auto simp: ensure_tunnel_def create_tunnel_def split: sum.splits prod.splits option.splits if_splits)
  have deploy: "\<not> IsPermanent x" if "deploy_tunnel r gw cfg secret t v = (Inl x, v')" for x cfg secret t v v'
    using that by (auto simp: deploy_tunnel_def Let_def split: prod.splits option.splits)
  show ?thesis
    using assms by (auto simp: provision_def Let_def panic split: prod.splits option.splits sum.splits dest: ensure deploy)
qed

lemma collect_attachments_not_permanent: "collect_attachments r gw w = Inl e \<Longrightarrow> \<not> IsPermanent e"
  by (auto simp: collect_attachments_def Let_def bind_result_Inl_iff split: if_splits dest: kube_result_not_permanent)

lemma build_ingress_not_permanent: "build_ingress r gw att w = Inl e \<Longrightarrow> \<not> IsPermanent e"
  by (auto simp: build_ingress_def Let_def bind_result_Inl_iff dest: kube_result_not_permanent)

lemma publish_not_permanent: "publish r gw att l7 ingress t w = (Some e, w') \<Longrightarrow> \<not> IsPermanent e"
  by (auto simp: publish_def Let_def split: prod.splits option.splits)

lemma apply_gateway_permanent:
  assumes "apply_gateway r gw gc w = (Some e, w')" and "IsPermanent e"
  shows "UID (gw_meta gw) = '''' \<and> e = ConfigError ''Gateway has no UID'' \<and> w' = w"
  using assms
  by (auto simp: apply_gateway_def split: if_splits prod.splits sum.splits dest: provision_not_permanent
      collect_attachments_not_permanent build_ingress_not_permanent publish_not_permanent)

lemma AddFinalizer_fields [simp]:
  "UID (gw_meta (AddFinalizer gw)) = UID (gw_meta gw)" "Name (gw_meta (AddFinalizer gw)) = Name (gw_meta gw)"
  "Namespace (gw_meta (AddFinalizer gw)) = Namespace (gw_meta gw)"
  by (simp_all add: AddFinalizer_def set_finalizers_def)

lemma reconcile_permanent:
  assumes "reconcile r ns name w = (Some e, w')" and "IsPermanent e"
  shows "\<exists>gw. st_Get (cl_gateways (r_Client r)) w ns name = Inr gw \<and> UID (gw_meta gw) = '''' \<and>
    DeletionTimestamp (gw_meta gw) = None \<and> e = ConfigError ''Gateway has no UID''"
proof -
  have claim: "UID (gw_meta gw) = '''' \<and> e = ConfigError ''Gateway has no UID''"
    if "claim_and_apply r gw gc w = (Some e, w')" for gw gc
    using that assms(2) by (auto simp: claim_and_apply_def split: if_splits prod.splits option.splits
        dest: apply_gateway_permanent)
  have fin: "finalize r gw w \<noteq> (Some e, w')" for gw
    using assms(2) by (auto simp: finalize_def split: if_splits prod.splits option.splits)
  show ?thesis
    using assms by (auto simp: reconcile_def fin split: sum.splits if_splits dest: claim)
qed

section \<open>What is in place after a success\<close>

text \<open>
  Secrets, Deployments, finalizers, tunnels and tunnel configurations are separate things: status
  writes and DNS changes change none of them, a push changes the configuration only, a call for a
  tunnel no Kubernetes object, and a write to an object of one kind none of another kind.
\<close>

definition stored_finalizers :: "'w Cluster \<Rightarrow> 'w \<Rightarrow> string \<Rightarrow> string \<Rightarrow> string list option" where
  "stored_finalizers cl w ns name =
     (case st_Get (cl_gateways cl) w ns name of Inl e \<Rightarrow> None | Inr gw \<Rightarrow> Some (Finalizers (gw_meta gw)))"

definition kept_apart :: "'w GatewayReconciler \<Rightarrow> ('w \<Rightarrow> string \<Rightarrow> IngressRule list option) \<Rightarrow> bool" where
  "kept_apart r config \<longleftrightarrow>
     (let cl = r_Client r; api = r_CloudflareClient r; secrets = st_Get (cl_secrets cl);
          deployments = st_Get (cl_deployments cl); finalizers = stored_finalizers cl; tunnels = api_GetTunnelByName api;
          objects = (\<lambda>w. (secrets w, deployments w, finalizers w, tunnels w))
      in statuses_keep cl (\<lambda>w. (objects w, config w)) \<and> records_keep api (\<lambda>w. (objects w, config w)) \<and>
         push_keeps api objects \<and> tunnels_keep api (\<lambda>w. (secrets w, deployments w, finalizers w)) \<and>
         store_keeps (cl_gateways cl) (\<lambda>w. (secrets w, deployments w, tunnels w)) \<and>
         store_keeps (cl_secrets cl) (\<lambda>w. (deployments w, finalizers w, tunnels w)) \<and>
         store_keeps (cl_deployments cl) (\<lambda>w. (secrets w, finalizers w, tunnels w)))"

text \<open>A push that succeeds is what Cloudflare holds.\<close>

definition documented_push :: "'w APIClient \<Rightarrow> ('w \<Rightarrow> string \<Rightarrow> IngressRule list option) \<Rightarrow> bool" where
  "documented_push api config \<longleftrightarrow>
     (\<forall>w i rules w'. api_UpdateTunnelConfiguration api w i rules = (None, w') \<longrightarrow> config w' i = Some rules)"

abbreviation objects :: "'w GatewayReconciler \<Rightarrow> 'w \<Rightarrow> _" where
  "objects r w \<equiv> (st_Get (cl_secrets (r_Client r)) w, st_Get (cl_deployments (r_Client r)) w,
     stored_finalizers (r_Client r) w, api_GetTunnelByName (r_CloudflareClient r) w)"

lemma kept_apartD:
  assumes "kept_apart r config"
  shows "statuses_keep (r_Client r) (\<lambda>w. (objects r w, config w))"
    "records_keep (r_CloudflareClient r) (\<lambda>w. (objects r w, config w))"
    "push_keeps (r_CloudflareClient r) (objects r)"
    "tunnels_keep (r_CloudflareClient r) (\<lambda>w. (st_Get (cl_secrets (r_Client r)) w, st_Get (cl_deployments (r_Client r)) w,
       stored_finalizers (r_Client r) w))"
    "store_keeps (cl_gateways (r_Client r)) (\<lambda>w. (st_Get (cl_secrets (r_Client r)) w, st_Get (cl_deployments (r_Client r)) w,
       api_GetTunnelByName (r_CloudflareClient r) w))"
    "store_keeps (cl_secrets (r_Client r)) (\<lambda>w. (st_Get (cl_deployments (r_Client r)) w,
       stored_finalizers (r_Client r) w, api_GetTunnelByName (r_CloudflareClient r) w))"
    "store_keeps (cl_deployments (r_Client r)) (\<lambda>w. (st_Get (cl_secrets (r_Client r)) w,
       stored_finalizers (r_Client r) w, api_GetTunnelByName (r_CloudflareClient r) w))"
  using assms by (simp_all add: kept_apart_def Let_def)

definition claimed :: "Gateway \<Rightarrow> Gateway" where
  "claimed gw = (if ContainsFinalizer gw then gw else AddFinalizer gw)"

text \<open>The Gateway's Secret holds a tunnel secret and, for a tunnel, the token made of it.\<close>

definition token_for :: "'w GatewayReconciler \<Rightarrow> Gateway \<Rightarrow> string \<Rightarrow> byte list \<Rightarrow> 'w \<Rightarrow> bool" where
  "token_for r gw tunnelID secret w \<longleftrightarrow>
     (\<exists>s. st_Get (cl_secrets (r_Client r)) w (Namespace (gw_meta gw)) (TunnelSecretName (Name (gw_meta gw))) = Inr s \<and>
        stored_secret s = Some secret \<and> deref_or Map.empty (sec_Data s) tunnelTokenKey =
          Some (bytes_of (BuildTunnelToken (api_AccountID (r_CloudflareClient r)) tunnelID secret)))"

definition token_in_place :: "'w GatewayReconciler \<Rightarrow> Gateway \<Rightarrow> string \<Rightarrow> 'w \<Rightarrow> bool" where
  "token_in_place r gw tunnelID w \<longleftrightarrow> (\<exists>secret. token_for r gw tunnelID secret w)"

definition deployment_in_place :: "'w GatewayReconciler \<Rightarrow> Gateway \<Rightarrow> TunnelConfigSpec option \<Rightarrow> 'w \<Rightarrow> bool" where
  "deployment_in_place r gw cfg w \<longleftrightarrow>
     (\<exists>d. st_Get (cl_deployments (r_Client r)) w (Namespace (gw_meta gw)) (DeploymentName (Name (gw_meta gw))) = Inr d \<and>
        dp_Spec d = dp_Spec (BuildCloudflaredDeployment gw (TunnelSecretName (Name (gw_meta gw))) cfg))"

lemma BuildCloudflaredDeployment_key:
  "dp_Namespace (BuildCloudflaredDeployment gw s cfg) = Namespace (gw_meta gw)"
  "dp_Name (BuildCloudflaredDeployment gw s cfg) = DeploymentName (Name (gw_meta gw))"
  by (simp_all add: BuildCloudflaredDeployment_def Let_def)

lemma ensure_tunnel_keeps:
  assumes "tunnels_keep (r_CloudflareClient r) obs" and "ensure_tunnel r gw secret reg w = (x, w')"
  shows "obs w' = obs w"
  using assms(2) by (auto simp: ensure_tunnel_def create_tunnel_def split: sum.splits prod.splits option.splits if_splits
      dest!: tunnels_keepD[OF assms(1)])

lemma deploy_tunnel_in_place:
  assumes docs: "documented_store secret_key persisted_secret (cl_secrets (r_Client r))"
      "documented_store deployment_key id (cl_deployments (r_Client r))"
    and apart: "store_keeps (cl_deployments (r_Client r)) (st_Get (cl_secrets (r_Client r)))"
    and holds: "holds_secret (cl_secrets (r_Client r)) w gw secret"
    and run: "deploy_tunnel r gw cfg secret tunnel w = (Inr t, w')"
  shows "t = tunnel \<and> token_for r gw (Tunnel_ID tunnel) secret w' \<and> deployment_in_place r gw cfg w'"
proof -
  let ?cl = "r_Client r" and ?name = "TunnelSecretName (Name (gw_meta gw))"
  let ?d = "BuildCloudflaredDeployment gw ?name cfg"
  let ?token = "BuildTunnelToken (api_AccountID (r_CloudflareClient r)) (Tunnel_ID tunnel) secret"
  obtain w1 where t: "t = tunnel"
    and s: "StoreTunnelToken (cl_secrets ?cl) (Namespace (gw_meta gw)) ?name ?token w = (None, w1)"
    and d: "applyDeployment (cl_deployments ?cl) ?d w1 = (None, w')"
    using run by (auto simp: deploy_tunnel_def Let_def split: prod.splits option.splits)
  obtain x where x: "st_Get (cl_secrets ?cl) w (Namespace (gw_meta gw)) ?name = Inr x" "stored_secret x = Some secret"
    using holds by blast
  have "st_Get (cl_secrets ?cl) w' = st_Get (cl_secrets ?cl) w1"
    using d by (auto simp: applyDeployment_def split: sum.splits if_splits dest: store_keepsD[OF apart])
  then have "token_for r gw (Tunnel_ID tunnel) secret w'"
    using StoreTunnelToken_stored[OF docs(1) s x] unfolding token_for_def by metis
  moreover have "deployment_in_place r gw cfg w'"
    using applyDeployment_stored[OF docs(2) d] unfolding deployment_in_place_def BuildCloudflaredDeployment_key by blast
  ultimately show ?thesis using t by blast
qed

lemma provision_in_place:
  assumes docs: "documented_store secret_key persisted_secret (cl_secrets (r_Client r))"
      "documented_store deployment_key id (cl_deployments (r_Client r))" "fills (cl_rand (r_Client r))"
    and apart: "kept_apart r config"
    and run: "provision r gw gc w = (Inr tunnel, w')"
  shows "token_in_place r gw (Tunnel_ID tunnel) w' \<and>
    deployment_in_place r gw (fst (resolveTunnelConfig (cl_get_config (r_Client r) w) gw gc)) w'"
proof -
  let ?cl = "r_Client r"
  obtain cfg ok msg where cfg: "resolveTunnelConfig (cl_get_config ?cl w) gw gc = (cfg, ok, msg)"
    by (cases "resolveTunnelConfig (cl_get_config ?cl w) gw gc")
  obtain w1 w2 w3 secret reg t where
      s: "EnsureTunnelSecret (cl_secrets ?cl) (cl_rand ?cl) gw w1 = (Inr (secret, reg), w2)"
    and e: "ensure_tunnel r gw secret reg w2 = (Inr t, w3)"
    and d: "deploy_tunnel r gw cfg secret t w3 = (Inr tunnel, w')"
    using run cfg by (auto simp: provision_def Let_def split: prod.splits option.splits sum.splits)
  have tk: "tunnels_keep (r_CloudflareClient r) (st_Get (cl_secrets ?cl))"
    and sk: "store_keeps (cl_deployments ?cl) (st_Get (cl_secrets ?cl))"
    using kept_apartD(4,7)[OF apart] by (simp_all add: tunnels_keep_def store_keeps_def)
  have "holds_secret (cl_secrets ?cl) w3 gw secret"
    using EnsureTunnelSecret_holds[OF docs(1,3) s] ensure_tunnel_keeps[OF tk e] by simp
  from deploy_tunnel_in_place[OF docs(1,2) sk this d] cfg show ?thesis by (auto simp: token_in_place_def)
qed

lemma publish_in_place:
  assumes apart: "kept_apart r config" and push: "documented_push (r_CloudflareClient r) config"
    and run: "publish r gw att l7 ingress tunnel w = (None, w')"
  shows "config w' (Tunnel_ID tunnel) = Some ingress \<and>
    st_Get (cl_secrets (r_Client r)) w' = st_Get (cl_secrets (r_Client r)) w \<and>
    st_Get (cl_deployments (r_Client r)) w' = st_Get (cl_deployments (r_Client r)) w"
proof -
  obtain w1 dnsErr w2 statusErr where
      p: "api_UpdateTunnelConfiguration (r_CloudflareClient r) w (Tunnel_ID tunnel) ingress = (None, w1)"
    and d: "reconcileDNS (r_CloudflareClient r) (ManageDNS r) gw (Tunnel_ID tunnel)
      (collectRouteHostnames (at_http att) (at_grpc att) (at_tls att)) w1 = (dnsErr, w2)"
    and s: "patch_statuses r gw att l7 (Tunnel_ID tunnel) dnsErr w2 = (statusErr, w')"
    using run by (auto simp: publish_def Let_def split: prod.splits option.splits)
  show ?thesis
    using push_keepsD[OF kept_apartD(3)[OF apart] p] push p
      dns_keeps(1)[OF kept_apartD(2)[OF apart], of "ManageDNS r" gw "Tunnel_ID tunnel"
        "collectRouteHostnames (at_http att) (at_grpc att) (at_tls att)" w1]
      patch_statuses_keeps[OF kept_apartD(1)[OF apart], of gw att l7 "Tunnel_ID tunnel" dnsErr w2]
    by (simp add: d s documented_push_def)
qed

text \<open>
  What a reconciliation reads to decide what to serve. The writes made before these are read (the
  finalizer, the status of the class, Secret, tunnel and Deployment) change none of it. The statuses of
  routes and policies, which are part of what is listed, are written afterwards; nothing is said of those.
\<close>

definition inputs :: "'w Cluster \<Rightarrow> 'w \<Rightarrow> _" where
  "inputs cl w = (cl_get_config cl w, cl_get_namespace cl w, cl_kube cl w,
     (cl_list_http cl w, cl_list_grpc cl w, cl_list_tls cl w, cl_list_tcp cl w),
     cl_list_access cl w, cl_list_origin cl w, cl_list_tls_policies cl w)"

definition inputs_kept :: "'w GatewayReconciler \<Rightarrow> bool" where
  "inputs_kept r \<longleftrightarrow>
     (let cl = r_Client r; obs = inputs cl
      in store_keeps (cl_gateways cl) obs \<and> store_keeps (cl_secrets cl) obs \<and> store_keeps (cl_deployments cl) obs \<and>
         class_keeps cl obs \<and> tunnels_keep (r_CloudflareClient r) obs \<and>
         (\<forall>w n. obs (snd (cl_rand cl w n)) = obs w))"

lemma inputs_keptD:
  assumes "inputs_kept r"
  shows "store_keeps (cl_gateways (r_Client r)) (inputs (r_Client r))" "store_keeps (cl_secrets (r_Client r)) (inputs (r_Client r))"
    "store_keeps (cl_deployments (r_Client r)) (inputs (r_Client r))" "class_keeps (r_Client r) (inputs (r_Client r))"
    "tunnels_keep (r_CloudflareClient r) (inputs (r_Client r))"
    "cl_rand (r_Client r) w n = (x, w') \<Longrightarrow> inputs (r_Client r) w' = inputs (r_Client r) w"
  using assms unfolding inputs_kept_def Let_def by (metis snd_conv)+

lemma same_inputs:
  assumes "inputs (r_Client r) v = inputs (r_Client r) w"
  shows "collect_attachments r gw v = collect_attachments r gw w" "build_ingress r gw att v = build_ingress r gw att w"
    "cl_get_config (r_Client r) v = cl_get_config (r_Client r) w"
  using assms by (simp_all add: inputs_def collect_attachments_def build_ingress_def cong: if_cong)

lemma EnsureTunnelSecret_keeps:
  assumes "store_keeps st obs" and "\<And>w n x w'. rand w n = (x, w') \<Longrightarrow> obs w' = obs w"
    and "EnsureTunnelSecret st rand gw w = (x, w')"
  shows "obs w' = obs w"
  using assms(3) by (auto simp: EnsureTunnelSecret_def create_secret_def regenerate_secret_def generateTunnelSecret_def
      split: sum.splits prod.splits option.splits if_splits dest!: store_keepsD[OF assms(1)] assms(2))

lemma StoreTunnelToken_keeps: "store_keeps st obs \<Longrightarrow> StoreTunnelToken st ns name token w = (x, w') \<Longrightarrow> obs w' = obs w"
  by (auto simp: StoreTunnelToken_def split: sum.splits prod.splits option.splits dest: store_keepsD)

lemma applyDeployment_keeps: "store_keeps st obs \<Longrightarrow> applyDeployment st d w = (x, w') \<Longrightarrow> obs w' = obs w"
  by (auto simp: applyDeployment_def split: sum.splits if_splits dest: store_keepsD)

lemma deploy_tunnel_keeps:
  assumes "store_keeps (cl_secrets (r_Client r)) obs" "store_keeps (cl_deployments (r_Client r)) obs"
    and "deploy_tunnel r gw cfg secret t w = (x, w')"
  shows "obs w' = obs w"
  using assms(3) by (auto simp: deploy_tunnel_def Let_def split: prod.splits option.splits
      dest!: StoreTunnelToken_keeps[OF assms(1)] applyDeployment_keeps[OF assms(2)])

lemma provision_keeps:
  assumes stores: "store_keeps (cl_secrets (r_Client r)) obs" "store_keeps (cl_deployments (r_Client r)) obs"
    and status: "class_keeps (r_Client r) obs" and tunnels: "tunnels_keep (r_CloudflareClient r) obs"
    and rand: "\<And>w n x w'. cl_rand (r_Client r) w n = (x, w') \<Longrightarrow> obs w' = obs w"
    and run: "provision r gw gc w = (x, w')"
  shows "obs w' = obs w"
proof -
  have st: "obs v' = obs v" if "write_status (cl_status_class (r_Client r)) patch v = (y, v')" for patch v y v'
    using snd_write_status[of "cl_status_class (r_Client r)" patch v] that
    by (simp add: status[unfolded class_keeps_def])
  have ens: "obs v' = obs v"
    if "EnsureTunnelSecret (cl_secrets (r_Client r)) (cl_rand (r_Client r)) gw v = (y, v')" for v y v'
    using stores(1) rand that by (rule EnsureTunnelSecret_keeps)
  show ?thesis
    using run by (auto simp: provision_def Let_def split: prod.splits option.splits sum.splits
        dest!: st ens ensure_tunnel_keeps[OF tunnels] deploy_tunnel_keeps[OF stores])
qed

text \<open>A Gateway that exists, belongs to this controller and is not being deleted.\<close>

definition live :: "'w GatewayReconciler \<Rightarrow> string \<Rightarrow> string \<Rightarrow> Gateway \<Rightarrow> GatewayClass \<Rightarrow> 'w \<Rightarrow> bool" where
  "live r ns name gw gc w \<longleftrightarrow>
     st_Get (cl_gateways (r_Client r)) w ns name = Inr gw \<and> DeletionTimestamp (gw_meta gw) = None \<and>
     cl_get_class (r_Client r) w (GatewayClassName gw) = Inr gc \<and> gc_ControllerName gc = r_ControllerName r"

lemma live_applied:
  assumes "live r ns name gw gc w" and "reconcile r ns name w = (None, w')" and "inputs_kept r"
  obtains w0 where "apply_gateway r (claimed gw) gc w0 = (None, w')" "inputs (r_Client r) w0 = inputs (r_Client r) w"
proof (cases "ContainsFinalizer gw")
  case True
  then show thesis using assms(1,2) that[of w] by (simp add: live_def reconcile_def claim_and_apply_def claimed_def)
next
  case False
  then obtain w0 where "st_Update (cl_gateways (r_Client r)) w (AddFinalizer gw) = (None, w0)"
      "apply_gateway r (claimed gw) gc w0 = (None, w')"
    using assms(1,2) by (auto simp: live_def reconcile_def claim_and_apply_def claimed_def split: prod.splits option.splits)
  then show thesis using that store_keepsD(2)[OF inputs_keptD(1)[OF assms(3)]] by blast
qed

lemma claimed_fields [simp]:
  "UID (gw_meta (claimed gw)) = UID (gw_meta gw)" "Name (gw_meta (claimed gw)) = Name (gw_meta gw)"
  "Namespace (gw_meta (claimed gw)) = Namespace (gw_meta gw)"
  by (simp_all add: claimed_def)

lemma Reconcile_None:
  assumes "Reconcile r ns name w = (None, w')" and "live r ns name gw gc w" and "UID (gw_meta gw) \<noteq> ''''"
  shows "reconcile r ns name w = (None, w')"
proof (cases "reconcile r ns name w")
  case (Pair err v)
  have "err = None"
  proof (rule ccontr)
    assume "err \<noteq> None"
    then obtain e where e: "reconcile r ns name w = (Some e, v)" using Pair by auto
    then have "IsPermanent e" using assms(1) by (auto simp: Reconcile_def split: if_splits)
    from reconcile_permanent[OF e this] assms(2,3) show False by (auto simp: live_def)
  qed
  with Pair assms(1) show ?thesis by (simp add: Reconcile_def)
qed

text \<open>The account finds a tunnel under its name once it is created.\<close>

definition documented_create_tunnel :: "'w APIClient \<Rightarrow> bool" where
  "documented_create_tunnel api \<longleftrightarrow>
     (\<forall>w name secret t w'. api_CreateTunnel api w name secret = (Inr t, w') \<longrightarrow> api_GetTunnelByName api w' name = Inr t)"

lemma ensure_tunnel_found:
  "documented_create_tunnel (r_CloudflareClient r) \<Longrightarrow> ensure_tunnel r gw secret reg w = (Inr t, w') \<Longrightarrow>
     api_GetTunnelByName (r_CloudflareClient r) w' (Name (gw_meta gw)) = Inr t"
  by (auto simp: ensure_tunnel_def create_tunnel_def documented_create_tunnel_def
      split: sum.splits prod.splits option.splits if_splits)

lemma provision_found:
  assumes "documented_create_tunnel (r_CloudflareClient r)" and "kept_apart r config"
    and "provision r gw gc w = (Inr t, w')"
  shows "api_GetTunnelByName (r_CloudflareClient r) w' (Name (gw_meta gw)) = Inr t"
proof -
  let ?cl = "r_Client r"
  obtain cfg ok msg where cfg: "resolveTunnelConfig (cl_get_config ?cl w) gw gc = (cfg, ok, msg)"
    by (cases "resolveTunnelConfig (cl_get_config ?cl w) gw gc")
  obtain w2 w3 secret reg u where e: "ensure_tunnel r gw secret reg w2 = (Inr u, w3)"
    and d: "deploy_tunnel r gw cfg secret u w3 = (Inr t, w')"
    using assms(3) cfg by (auto simp: provision_def Let_def split: prod.splits option.splits sum.splits)
  have "store_keeps (cl_secrets ?cl) (api_GetTunnelByName (r_CloudflareClient r))"
    "store_keeps (cl_deployments ?cl) (api_GetTunnelByName (r_CloudflareClient r))"
    using kept_apartD(6,7)[OF assms(2)] by (simp_all add: store_keeps_def)
  from deploy_tunnel_keeps[OF this d] ensure_tunnel_found[OF assms(1) e] show ?thesis
    using d by (auto simp: deploy_tunnel_def Let_def split: prod.splits option.splits)
qed

text \<open>What a publication, successful or not, leaves of the objects.\<close>

lemma publish_keeps_objects:
  assumes apart: "kept_apart r config" and run: "publish r gw att l7 ingress tunnel w = (err, w')"
  shows "objects r w' = objects r w"
proof -
  obtain e w1 where p: "api_UpdateTunnelConfiguration (r_CloudflareClient r) w (Tunnel_ID tunnel) ingress = (e, w1)" by fastforce
  note w1 = push_keepsD[OF kept_apartD(3)[OF apart] p]
  show ?thesis
  proof (cases e)
    case (Some x)
    then show ?thesis using run p w1 by (simp add: publish_def)
  next
    case None
    obtain dnsErr w2 statusErr where
        d: "reconcileDNS (r_CloudflareClient r) (ManageDNS r) gw (Tunnel_ID tunnel)
          (collectRouteHostnames (at_http att) (at_grpc att) (at_tls att)) w1 = (dnsErr, w2)"
      and s: "patch_statuses r gw att l7 (Tunnel_ID tunnel) dnsErr w2 = (statusErr, w')"
      using run p None by (auto simp: publish_def Let_def split: prod.splits option.splits)
    show ?thesis
      using w1 dns_keeps(1)[OF kept_apartD(2)[OF apart], of "ManageDNS r" gw "Tunnel_ID tunnel"
          "collectRouteHostnames (at_http att) (at_grpc att) (at_tls att)" w1]
        patch_statuses_keeps[OF kept_apartD(1)[OF apart], of gw att l7 "Tunnel_ID tunnel" dnsErr w2]
      by (simp add: d s)
  qed
qed

text \<open>
  C1. What a successful reconciliation leaves behind. For a live Gateway with a UID, if Reconcile
  returns no error, then, in the world it leaves, the account has a tunnel under the name of the Gateway, the Secret
  holds a tunnel secret and the token made of it for that tunnel, the Deployment has the spec built for this Gateway and the
  configuration referred to, and what Cloudflare holds for that same tunnel is the list of rules built from
  the routes, backends and policies of the cluster as it was before. This holds of any API server and
  account that keep their documented promises; the statuses written on the way may change what is listed later.
\<close>

theorem Reconcile_success_in_place:
  assumes "documented_store secret_key persisted_secret (cl_secrets (r_Client r))"
    and "documented_store deployment_key id (cl_deployments (r_Client r))"
    and "fills (cl_rand (r_Client r))" and "kept_apart r config" and "inputs_kept r"
    and "documented_push (r_CloudflareClient r) config" and "documented_create_tunnel (r_CloudflareClient r)"
    and "live r ns name gw gc w" and "UID (gw_meta gw) \<noteq> ''''" and "Reconcile r ns name w = (None, w')"
  shows "\<exists>tunnel att l7 ingress.
    api_GetTunnelByName (r_CloudflareClient r) w' (Name (gw_meta gw)) = Inr tunnel \<and>
    token_in_place r (claimed gw) (Tunnel_ID tunnel) w' \<and>
    deployment_in_place r (claimed gw) (fst (resolveTunnelConfig (cl_get_config (r_Client r) w) (claimed gw) gc)) w' \<and>
    collect_attachments r (claimed gw) w = Inr att \<and> build_ingress r (claimed gw) att w = Inr (l7, ingress) \<and>
    config w' (Tunnel_ID tunnel) = Some ingress"
proof -
  obtain w0 where a: "apply_gateway r (claimed gw) gc w0 = (None, w')" and i0: "inputs (r_Client r) w0 = inputs (r_Client r) w"
    using live_applied[OF assms(8) Reconcile_None[OF assms(10,8,9)] assms(5)] by blast
  then obtain tunnel v att l7 ingress where
      p: "provision r (claimed gw) gc w0 = (Inr tunnel, v)"
    and att: "collect_attachments r (claimed gw) v = Inr att" "build_ingress r (claimed gw) att v = Inr (l7, ingress)"
    and pub: "publish r (claimed gw) att l7 ingress tunnel v = (None, w')"
    using assms(9) by (auto simp: apply_gateway_def split: prod.splits sum.splits)
  have iv: "inputs (r_Client r) v = inputs (r_Client r) w"
    using provision_keeps[OF inputs_keptD(2-5)[OF assms(5)] _ p] inputs_keptD(6)[OF assms(5)] i0 by metis
  note there = provision_in_place[OF assms(1-4) p] and kept = publish_in_place[OF assms(4,6) pub]
  have "api_GetTunnelByName (r_CloudflareClient r) w' (Name (gw_meta gw)) = Inr tunnel"
    using provision_found[OF assms(7,4) p] publish_keeps_objects[OF assms(4) pub] by simp
  moreover have "token_in_place r (claimed gw) (Tunnel_ID tunnel) w'"
    using there kept by (simp add: token_in_place_def token_for_def)
  moreover have "deployment_in_place r (claimed gw) (fst (resolveTunnelConfig (cl_get_config (r_Client r) w) (claimed gw) gc)) w'"
    using there kept same_inputs(3)[OF i0] by (simp add: deployment_in_place_def)
  ultimately show ?thesis using kept att same_inputs(1,2)[OF iv] by auto
qed

section \<open>What is left of a deleted Gateway\<close>

text \<open>A tunnel that was deleted is not found any more under its name.\<close>

definition no_tunnel :: "Tunnel result \<Rightarrow> bool" where
  "no_tunnel r = (case r of Inl e \<Rightarrow> is_TunnelNotFound e | Inr _ \<Rightarrow> False)"

definition documented_delete_tunnel :: "'w APIClient \<Rightarrow> bool" where
  "documented_delete_tunnel api \<longleftrightarrow>
     (\<forall>w name t w'. api_GetTunnelByName api w name = Inr t \<longrightarrow> api_DeleteTunnel api w (Tunnel_ID t) = (None, w') \<longrightarrow>
        no_tunnel (api_GetTunnelByName api w' name))"

definition gone :: "'o result \<Rightarrow> bool" where
  "gone r = (case r of Inl e \<Rightarrow> apierrors_IsNotFound e | Inr _ \<Rightarrow> False)"

text \<open>With DNS managed, no zone of the account holds a record with the comment of the Gateway.\<close>

definition nothing_left :: "'w GatewayReconciler \<Rightarrow> ('w \<Rightarrow> string \<Rightarrow> DNSRecord set) \<Rightarrow> Gateway \<Rightarrow> 'w \<Rightarrow> bool" where
  "nothing_left r held gw w \<longleftrightarrow>
     gone (st_Get (cl_deployments (r_Client r)) w (Namespace (gw_meta gw)) (DeploymentName (Name (gw_meta gw)))) \<and>
     gone (st_Get (cl_secrets (r_Client r)) w (Namespace (gw_meta gw)) (TunnelSecretName (Name (gw_meta gw)))) \<and>
     no_tunnel (api_GetTunnelByName (r_CloudflareClient r) w (Name (gw_meta gw))) \<and>
     (ManageDNS r \<longrightarrow> (\<forall>zone. disowned (ownerComment gw) (held w zone)))"

lemma cleanup_object_gone:
  assumes "documented_store key persisted st" and "cleanup_object st ns name (firstErr, w) = (None, w')"
  shows "firstErr = None \<and> gone (st_Get st w' ns name)"
proof (cases "st_Get st w ns name")
  case (Inl e)
  then show ?thesis
    using assms(2) by (cases firstErr) (auto simp: cleanup_object_def gone_def split: if_splits)
next
  case (Inr x)
  have "key x = (ns, name)" by (rule documented_key[OF assms(1) Inr])
  then have "gone (st_Get st w' ns name)" if "st_Delete st w x = (None, w') \<or>
      (\<exists>f. st_Delete st w x = (Some f, w') \<and> apierrors_IsNotFound f)"
    using that documented_delete[OF assms(1)] documented_delete_missing[OF assms(1)] by (fastforce simp: gone_def)
  then show ?thesis
    using assms(2) Inr by (cases firstErr) (auto simp: cleanup_object_def split: prod.splits option.splits if_splits)
qed

lemma cleanup_object_keeps:
  "store_keeps st obs \<Longrightarrow> obs (snd (cleanup_object st ns name st0)) = obs (snd st0)"
  by (cases st0) (auto simp: cleanup_object_def split: sum.split prod.split option.split dest: store_keepsD)

lemma cleanup_tunnel_gone:
  assumes "documented_delete_tunnel (r_CloudflareClient r)" and "cleanup_tunnel r gw w = (None, w')"
  shows "no_tunnel (api_GetTunnelByName (r_CloudflareClient r) w' (Name (gw_meta gw)))"
proof (cases "api_GetTunnelByName (r_CloudflareClient r) w (Name (gw_meta gw))")
  case (Inl e)
  then show ?thesis using assms(2) by (auto simp: cleanup_tunnel_def no_tunnel_def split: if_splits)
next
  case (Inr t)
  then show ?thesis using assms by (auto simp: cleanup_tunnel_def documented_delete_tunnel_def)
qed

lemma cleanup_tunnel_keeps:
  assumes "tunnels_keep (r_CloudflareClient r) obs"
  shows "obs (snd (cleanup_tunnel r gw w)) = obs w"
proof -
  have "obs (snd (api_DeleteTunnel (r_CloudflareClient r) w i)) = obs w" for i
    using assms by (simp add: tunnels_keep_def)
  then show ?thesis by (simp add: cleanup_tunnel_def split: sum.split)
qed

text \<open>
  The steps of a cleanup: its result is the first error of the first four, and what follows the teardown of the
  records changes nothing that status writes keep.
\<close>

lemma statuses_keep_pair:
  "statuses_keep cl f \<Longrightarrow> statuses_keep cl g \<Longrightarrow> statuses_keep cl (\<lambda>w. (f w, g w))"
  by (simp add: statuses_keep_def)

lemma cleanup_steps:
  assumes "cleanup r gw w = (err, w')" and st: "statuses_keep (r_Client r) obs"
  obtains w1 e1 w2 e2 w3 e3 w4 e4 where "cleanup_tunnel r gw w = (e1, w1)"
    "cleanup_object (cl_deployments (r_Client r)) (Namespace (gw_meta gw)) (DeploymentName (Name (gw_meta gw))) (e1, w1) = (e2, w2)"
    "cleanup_object (cl_secrets (r_Client r)) (Namespace (gw_meta gw)) (TunnelSecretName (Name (gw_meta gw))) (e2, w2) = (e3, w3)"
    "teardownDNS (r_CloudflareClient r) (ManageDNS r) gw w3 = (e4, w4)"
    "err = or_else e3 e4"
    "obs w' = obs w4"
proof -
  let ?ns = "Namespace (gw_meta gw)" and ?n = "Name (gw_meta gw)"
  obtain e1 w1 where c1: "cleanup_tunnel r gw w = (e1, w1)" by fastforce
  obtain e2 w2 where c2: "cleanup_object (cl_deployments (r_Client r)) ?ns (DeploymentName ?n) (e1, w1) = (e2, w2)" by fastforce
  obtain e3 w3 where c3: "cleanup_object (cl_secrets (r_Client r)) ?ns (TunnelSecretName ?n) (e2, w2) = (e3, w3)" by fastforce
  obtain e4 w4 where c4: "teardownDNS (r_CloudflareClient r) (ManageDNS r) gw w3 = (e4, w4)" by fastforce
  let ?prune = "pruneXBackendAncestorStatus (cl_list_xbackends (r_Client r)) (cl_status_xbackend (r_Client r))
    (ExperimentalBackends r) gw (r_ControllerName r) (prunePolicyAncestorStatus r gw w4)"
  have res: "err = or_else e3 e4" "w' = snd ?prune"
    using assms(1) by (simp_all add: cleanup_def Let_def c1 c2 c3 c4 split_beta)
  have "obs w' = obs w4"
    by (simp add: res(2) pruneXBackendAncestorStatus_keeps[of obs] statuses_keepD(9)[OF st]
        prunePolicyAncestorStatus_keeps[OF st])
  with c1 c2 c3 c4 res(1) show thesis by (rule that)
qed

lemma cleanup_leaves_nothing:
  assumes docs: "documented_store secret_key persisted_secret (cl_secrets (r_Client r))"
      "documented_store deployment_key id (cl_deployments (r_Client r))"
      "documented_delete_tunnel (r_CloudflareClient r)" "documented_zones (r_CloudflareClient r) held"
    and apart: "kept_apart r config" "statuses_keep (r_Client r) held" and run: "cleanup r gw w = (None, w')"
  shows "nothing_left r held gw w'"
proof -
  let ?ns = "Namespace (gw_meta gw)" and ?n = "Name (gw_meta gw)"
  obtain w1 e1 w2 e2 w3 e3 w4 e4 where c: "cleanup_tunnel r gw w = (e1, w1)"
      "cleanup_object (cl_deployments (r_Client r)) ?ns (DeploymentName ?n) (e1, w1) = (e2, w2)"
      "cleanup_object (cl_secrets (r_Client r)) ?ns (TunnelSecretName ?n) (e2, w2) = (e3, w3)"
      "teardownDNS (r_CloudflareClient r) (ManageDNS r) gw w3 = (e4, w4)"
    and e: "None = or_else e3 e4" and after: "((objects r w', config w'), held w') = ((objects r w4, config w4), held w4)"
    by (rule cleanup_steps[OF run statuses_keep_pair[OF kept_apartD(1)[OF apart(1)] apart(2)]])
  have none: "e3 = None" "e4 = None" using e by (cases e3; simp)+
  have secret: "e2 = None" "gone (st_Get (cl_secrets (r_Client r)) w3 ?ns (TunnelSecretName ?n))"
    using cleanup_object_gone[OF docs(1) c(3)[unfolded none]] by auto
  have deployment: "e1 = None" "gone (st_Get (cl_deployments (r_Client r)) w2 ?ns (DeploymentName ?n))"
    using cleanup_object_gone[OF docs(2) c(2)[unfolded secret(1)]] by auto
  have tunnel: "no_tunnel (api_GetTunnelByName (r_CloudflareClient r) w1 ?n)"
    by (rule cleanup_tunnel_gone[OF docs(3) c(1)[unfolded deployment(1)]])
  have w2: "api_GetTunnelByName (r_CloudflareClient r) w2 = api_GetTunnelByName (r_CloudflareClient r) w1"
    using cleanup_object_keeps[OF kept_apartD(7)[OF apart(1)], of ?ns "DeploymentName ?n" "(e1, w1)"] c(2) by simp
  have w3: "st_Get (cl_deployments (r_Client r)) w3 = st_Get (cl_deployments (r_Client r)) w2"
      "api_GetTunnelByName (r_CloudflareClient r) w3 = api_GetTunnelByName (r_CloudflareClient r) w2"
    using cleanup_object_keeps[OF kept_apartD(6)[OF apart(1)], of ?ns "TunnelSecretName ?n" "(e2, w2)"] c(3) by simp_all
  have w4: "objects r w4 = objects r w3"
    using dns_keeps(2)[OF kept_apartD(2)[OF apart(1)], of "ManageDNS r" gw w3] c(4) by simp
  have dns: "disowned (ownerComment gw) (held w4 zone)" if "ManageDNS r" for zone
    using teardownDNS_disowns[OF docs(4)] c(4) none(2) that by simp
  show ?thesis using after secret(2) deployment(2) tunnel w2 w3 w4 dns by (simp add: nothing_left_def)
qed

lemma cleanup_keeps_finalizers:
  assumes apart: "kept_apart r config" and run: "cleanup r gw w = (err, w')"
  shows "stored_finalizers (r_Client r) w' = stored_finalizers (r_Client r) w"
proof -
  let ?ns = "Namespace (gw_meta gw)" and ?n = "Name (gw_meta gw)"
  obtain w1 e1 w2 e2 w3 e3 w4 e4 where c: "cleanup_tunnel r gw w = (e1, w1)"
      "cleanup_object (cl_deployments (r_Client r)) ?ns (DeploymentName ?n) (e1, w1) = (e2, w2)"
      "cleanup_object (cl_secrets (r_Client r)) ?ns (TunnelSecretName ?n) (e2, w2) = (e3, w3)"
      "teardownDNS (r_CloudflareClient r) (ManageDNS r) gw w3 = (e4, w4)"
    and "err = or_else e3 e4" and kept: "(objects r w', config w') = (objects r w4, config w4)"
    by (rule cleanup_steps[OF run kept_apartD(1)[OF apart]])
  show ?thesis
    using kept dns_keeps(2)[OF kept_apartD(2)[OF apart], of "ManageDNS r" gw w3] cleanup_tunnel_keeps[OF kept_apartD(4)[OF apart], of gw w]
      cleanup_object_keeps[OF kept_apartD(7)[OF apart], of ?ns "DeploymentName ?n" "(e1, w1)"]
      cleanup_object_keeps[OF kept_apartD(6)[OF apart], of ?ns "TunnelSecretName ?n" "(e2, w2)"] c
    by simp
qed

text \<open>Everything but a DNS change leaves the DNS records alone.\<close>

definition dns_apart :: "'w GatewayReconciler \<Rightarrow> ('w \<Rightarrow> 'x) \<Rightarrow> bool" where
  "dns_apart r dns \<longleftrightarrow>
     store_keeps (cl_gateways (r_Client r)) dns \<and> store_keeps (cl_secrets (r_Client r)) dns \<and>
     store_keeps (cl_deployments (r_Client r)) dns \<and> statuses_keep (r_Client r) dns \<and>
     tunnels_keep (r_CloudflareClient r) dns \<and> push_keeps (r_CloudflareClient r) dns \<and>
     (\<forall>w n. dns (snd (cl_rand (r_Client r) w n)) = dns w)"

lemma dns_apartD:
  assumes "dns_apart r dns"
  shows "store_keeps (cl_gateways (r_Client r)) dns" "store_keeps (cl_secrets (r_Client r)) dns"
    "store_keeps (cl_deployments (r_Client r)) dns" "statuses_keep (r_Client r) dns"
    "tunnels_keep (r_CloudflareClient r) dns" "push_keeps (r_CloudflareClient r) dns"
    "cl_rand (r_Client r) w n = (x, w') \<Longrightarrow> dns w' = dns w"
  using assms unfolding dns_apart_def by (metis snd_conv)+

lemma dns_apart_map: "dns_apart r dns \<Longrightarrow> dns_apart r (\<lambda>w. f (dns w))"
  by (simp add: dns_apart_def store_keeps_def statuses_keep_def tunnels_keep_def push_keeps_def)

text \<open>
  C5. A finalizer is released only when nothing is left. Whatever Reconcile returns for a managed Gateway
  that is being deleted and carries the finalizer, afterwards either the finalizers of the stored
  Gateway are what they were, so that the deletion is tried again, or the tunnel, the
  Deployment, the Secret and, if DNS is managed, every DNS record marked as this Gateway's are all gone. This covers
  failures at every step, a missing tunnel or object, and a final update that fails. Of the store of Gateways only
  the keys are relied on: that update is the one by which the API server removes the Gateway.
\<close>

theorem finalizer_released_when_nothing_left:
  assumes "keyed_store gateway_key (cl_gateways (r_Client r))"
    and "documented_store secret_key persisted_secret (cl_secrets (r_Client r))"
    and "documented_store deployment_key id (cl_deployments (r_Client r))"
    and "documented_delete_tunnel (r_CloudflareClient r)" and "documented_zones (r_CloudflareClient r) held"
    and "kept_apart r config" and "dns_apart r held"
    and "st_Get (cl_gateways (r_Client r)) w ns name = Inr gw" and "DeletionTimestamp (gw_meta gw) \<noteq> None"
    and "ContainsFinalizer gw"
  shows "stored_finalizers (r_Client r) (snd (Reconcile r ns name w)) ns name = Some (Finalizers (gw_meta gw)) \<or>
    gateway_key gw = (ns, name) \<and> nothing_left r held gw (snd (Reconcile r ns name w))"
proof -
  have here: "stored_finalizers (r_Client r) w ns name = Some (Finalizers (gw_meta gw))"
    using assms(8) by (simp add: stored_finalizers_def)
  have snd: "snd (Reconcile r ns name w) = snd (reconcile r ns name w)"
    by (simp add: Reconcile_def split: prod.split option.split)
  show ?thesis
  proof (cases "\<exists>gc. cl_get_class (r_Client r) w (GatewayClassName gw) = Inr gc \<and> gc_ControllerName gc = r_ControllerName r")
    case False
    then have "snd (reconcile r ns name w) = w" using assms(8) by (auto simp: reconcile_def split: sum.split)
    with snd here show ?thesis by simp
  next
    case True
    then have rec: "reconcile r ns name w = finalize r gw w" using assms(8,9) by (auto simp: reconcile_def)
    obtain err w1 where c: "cleanup r gw w = (err, w1)" by fastforce
    show ?thesis
    proof (cases err)
      case (Some e)
      then have "snd (finalize r gw w) = w1" using assms(10) c by (simp add: finalize_def)
      with snd rec here cleanup_keeps_finalizers[OF assms(6) c] show ?thesis by simp
    next
      case None
      have left: "nothing_left r held gw w1"
        by (rule cleanup_leaves_nothing[OF assms(2-6) dns_apartD(4)[OF assms(7)] c[unfolded None]])
      obtain e w2 where u: "st_Update (cl_gateways (r_Client r)) w1 (RemoveFinalizer gw) = (e, w2)" by fastforce
      have "snd (finalize r gw w) = w2"
        using assms(10) c None u by (simp add: finalize_def split: option.split)
      moreover have "nothing_left r held gw w2"
        using left store_keepsD(2)[OF kept_apartD(5)[OF assms(6)] u] store_keepsD(2)[OF dns_apartD(1)[OF assms(7)] u]
        by (simp add: nothing_left_def)
      ultimately show ?thesis using snd rec keyed_key[OF assms(1,8)] by simp
    qed
  qed
qed

section \<open>DNS follows the configuration\<close>

text \<open>
  Between a world in which a tunnel already has its rules and another one, only DNS changes were applied,
  all of them pointing at that tunnel; the rules are still there at the end.
\<close>

definition directed ::
  "'w GatewayReconciler \<Rightarrow> ('w \<Rightarrow> string \<Rightarrow> IngressRule list option) \<Rightarrow> ('w \<Rightarrow> 'x) \<Rightarrow> Tunnel \<Rightarrow> IngressRule list \<Rightarrow> 'w \<Rightarrow> 'w \<Rightarrow> bool" where
  "directed r config dns tunnel ingress w w' \<longleftrightarrow>
     (\<exists>v u. dns v = dns w \<and> config v (Tunnel_ID tunnel) = Some ingress \<and>
        pointed_changes (r_CloudflareClient r) (tunnel_target (Tunnel_ID tunnel)) v u \<and>
        dns w' = dns u \<and> config w' (Tunnel_ID tunnel) = Some ingress)"

lemma publish_push:
  assumes apart: "kept_apart r config" and push: "documented_push (r_CloudflareClient r) config" and dns: "dns_apart r dns"
    and run: "publish r gw att l7 ingress tunnel w = (err, w')"
  shows "dns w' = dns w \<or> directed r config dns tunnel ingress w w'"
proof -
  obtain e w1 where p: "api_UpdateTunnelConfiguration (r_CloudflareClient r) w (Tunnel_ID tunnel) ingress = (e, w1)" by fastforce
  have w1: "dns w1 = dns w" by (rule push_keepsD[OF dns_apartD(6)[OF dns] p])
  show ?thesis
  proof (cases e)
    case (Some x)
    then have "w' = w1" using run p by (simp add: publish_def)
    then show ?thesis using w1 by simp
  next
    case None
    let ?hosts = "collectRouteHostnames (at_http att) (at_grpc att) (at_tls att)"
    obtain dnsErr w2 statusErr where
        d: "reconcileDNS (r_CloudflareClient r) (ManageDNS r) gw (Tunnel_ID tunnel) ?hosts w1 = (dnsErr, w2)"
      and s: "patch_statuses r gw att l7 (Tunnel_ID tunnel) dnsErr w2 = (statusErr, w')"
      using run p None by (auto simp: publish_def Let_def split: prod.splits option.splits)
    have "config w1 (Tunnel_ID tunnel) = Some ingress" using push p None by (simp add: documented_push_def)
    moreover have "config w' = config w1"
      using dns_keeps(1)[OF kept_apartD(2)[OF apart], of "ManageDNS r" gw "Tunnel_ID tunnel" ?hosts w1]
        patch_statuses_keeps[OF kept_apartD(1)[OF apart], of gw att l7 "Tunnel_ID tunnel" dnsErr w2] by (simp add: d s)
    moreover have "dns w' = dns w2"
      using patch_statuses_keeps[OF dns_apartD(4)[OF dns], of gw att l7 "Tunnel_ID tunnel" dnsErr w2] by (simp add: s)
    moreover have "pointed_changes (r_CloudflareClient r) (tunnel_target (Tunnel_ID tunnel)) w1 w2"
      using reconcileDNS_pointed[of "r_CloudflareClient r" "Tunnel_ID tunnel" w1 "ManageDNS r" gw ?hosts] by (simp add: d)
    ultimately show ?thesis using w1 unfolding directed_def by metis
  qed
qed

lemma directed_start: "dns v = dns w \<Longrightarrow> directed r config dns t ingress v w' \<Longrightarrow> directed r config dns t ingress w w'"
  by (simp add: directed_def)

lemma apply_gateway_dns:
  assumes apart: "kept_apart r config" "inputs_kept r" and push: "documented_push (r_CloudflareClient r) config"
    and create: "documented_create_tunnel (r_CloudflareClient r)"
    and dns: "dns_apart r dns" and run: "apply_gateway r gw gc w = (err, w')" and moved: "dns w' \<noteq> dns w"
  shows "\<exists>tunnel att l7 ingress. api_GetTunnelByName (r_CloudflareClient r) w' (Name (gw_meta gw)) = Inr tunnel \<and>
    collect_attachments r gw w = Inr att \<and> build_ingress r gw att w = Inr (l7, ingress) \<and>
    directed r config dns tunnel ingress w w'"
proof -
  obtain res v where p: "provision r gw gc w = (res, v)" by fastforce
  have dv: "dns v = dns w"
    using provision_keeps[OF dns_apartD(2,3)[OF dns] class_keepsI[OF dns_apartD(4)[OF dns]] dns_apartD(5)[OF dns] _ p]
      dns_apartD(7)[OF dns] by metis
  have iv: "inputs (r_Client r) v = inputs (r_Client r) w"
    using provision_keeps[OF inputs_keptD(2-5)[OF apart(2)] _ p] inputs_keptD(6)[OF apart(2)] by metis
  have moved': "w' \<noteq> v" "w' \<noteq> w" using moved dv by auto
  obtain tunnel att l7 ingress where res: "res = Inr tunnel"
    and att: "collect_attachments r gw v = Inr att" "build_ingress r gw att v = Inr (l7, ingress)"
    and pub: "publish r gw att l7 ingress tunnel v = (err, w')"
    using run p moved' by (auto simp: apply_gateway_def split: if_splits sum.splits prod.splits)
  have "api_GetTunnelByName (r_CloudflareClient r) w' (Name (gw_meta gw)) = Inr tunnel"
    using provision_found[OF create apart(1) p[unfolded res]] publish_keeps_objects[OF apart(1) pub] by simp
  moreover have "directed r config dns tunnel ingress w w'"
    using publish_push[OF apart(1) push dns pub] moved dv by (auto intro: directed_start[where dns = dns, OF dv])
  ultimately show ?thesis using att same_inputs(1,2)[OF iv] by auto
qed

text \<open>
  C6. Traffic is directed to a tunnel only once its rules are there. If a reconciliation of a live Gateway
  changes any DNS record, whatever it returns, then the attached routes could be collected and built, the account
  has a tunnel under the name of the Gateway, and the DNS records changed by calls that create and update records of
  this very tunnel only, from a moment on at which Cloudflare already held, for it, exactly the rules that were
  built; it still holds them at the end. A failure before the push, or of it, leaves DNS as it was.
\<close>

theorem dns_changes_only_behind_pushed_rules:
  assumes "kept_apart r config" and "inputs_kept r" and "documented_push (r_CloudflareClient r) config"
    and "documented_create_tunnel (r_CloudflareClient r)"
    and "dns_apart r dns" and "live r ns name gw gc w"
    and "dns (snd (Reconcile r ns name w)) \<noteq> dns w"
  shows "\<exists>tunnel att l7 ingress.
    api_GetTunnelByName (r_CloudflareClient r) (snd (Reconcile r ns name w)) (Name (gw_meta gw)) = Inr tunnel \<and>
    collect_attachments r (claimed gw) w = Inr att \<and> build_ingress r (claimed gw) att w = Inr (l7, ingress) \<and>
    directed r config dns tunnel ingress w (snd (Reconcile r ns name w))"
proof -
  have snd: "snd (Reconcile r ns name w) = snd (reconcile r ns name w)"
    by (simp add: Reconcile_def split: prod.split option.split)
  have rec: "reconcile r ns name w = claim_and_apply r gw gc w"
    using assms(6) by (simp add: live_def reconcile_def)
  show ?thesis
  proof (cases "ContainsFinalizer gw")
    case True
    obtain err w' where a: "apply_gateway r gw gc w = (err, w')" by fastforce
    then have "snd (Reconcile r ns name w) = w'" using True snd rec by (simp add: claim_and_apply_def)
    then show ?thesis using apply_gateway_dns[OF assms(1-5) a] assms(7) True by (simp add: claimed_def)
  next
    case False
    obtain e w0 where u: "st_Update (cl_gateways (r_Client r)) w (AddFinalizer gw) = (e, w0)" by fastforce
    have d0: "dns w0 = dns w" by (rule store_keepsD(2)[OF dns_apartD(1)[OF assms(5)] u])
    have i0: "inputs (r_Client r) w0 = inputs (r_Client r) w"
      by (rule store_keepsD(2)[OF inputs_keptD(1)[OF assms(2)] u])
    obtain err w' where a: "apply_gateway r (AddFinalizer gw) gc w0 = (err, w')" by fastforce
    have "snd (Reconcile r ns name w) = (case e of Some _ \<Rightarrow> w0 | None \<Rightarrow> w')"
      using False snd rec u a by (simp add: claim_and_apply_def split: option.split)
    then have w': "e = None" "snd (Reconcile r ns name w) = w'" using assms(7) d0 by (auto split: option.splits)
    then have "dns w' \<noteq> dns w0" using assms(7) d0 by simp
    from apply_gateway_dns[OF assms(1-5) a this] show ?thesis
      using w' same_inputs(1,2)[OF i0] False directed_start[where dns = dns, OF d0, of r config] by (auto simp: claimed_def)
  qed
qed

section \<open>A lost Secret\<close>

lemma provision_without_secret:
  assumes "documented_store secret_key persisted_secret (cl_secrets (r_Client r))"
    and "documented_store deployment_key id (cl_deployments (r_Client r))"
    and "fills (cl_rand (r_Client r))" and "kept_apart r config"
    and "store_keeps (cl_secrets (r_Client r)) account" and "store_keeps (cl_deployments (r_Client r)) account"
    and "statuses_keep (r_Client r) account" and "\<And>v n. account (snd (cl_rand (r_Client r) v n)) = account v"
    and "\<And>v. account v = account w \<Longrightarrow> api_GetTunnelByName (r_CloudflareClient r) v (Name (gw_meta gw)) = Inr t"
    and "gone (st_Get (cl_secrets (r_Client r)) w (Namespace (gw_meta gw)) (TunnelSecretName (Name (gw_meta gw))))"
    and "provision r gw gc w = (Inr tunnel, w')"
  shows "tunnel = t \<and> account w' = account w \<and>
    (\<exists>v v' secret. cl_rand (r_Client r) v secretSize = (Inr secret, v') \<and> token_for r gw (Tunnel_ID t) secret w')"
proof -
  let ?cl = "r_Client r"
  obtain cfg ok msg where cfg: "resolveTunnelConfig (cl_get_config ?cl w) gw gc = (cfg, ok, msg)"
    by (cases "resolveTunnelConfig (cl_get_config ?cl w) gw gc")
  obtain w1 w2 w3 patch secret reg t' where
      st: "write_status (cl_status_class ?cl) patch w = (None, w1)"
    and s: "EnsureTunnelSecret (cl_secrets ?cl) (cl_rand ?cl) gw w1 = (Inr (secret, reg), w2)"
    and e: "ensure_tunnel r gw secret reg w2 = (Inr t', w3)"
    and d: "deploy_tunnel r gw cfg secret t' w3 = (Inr tunnel, w')"
    using assms(11) cfg by (auto simp: provision_def Let_def split: prod.splits option.splits sum.splits)
  have w1: "account w1 = account w" "st_Get (cl_secrets ?cl) w1 = st_Get (cl_secrets ?cl) w"
    using snd_write_status[of "cl_status_class ?cl" patch w] st statuses_keepD(1)[OF assms(7)]
      statuses_keepD(1)[OF kept_apartD(1)[OF assms(4)]] by simp_all
  then have c: "create_secret (cl_secrets ?cl) (cl_rand ?cl) gw w1 = (Inr (secret, reg), w2)"
    using s assms(10) by (auto simp: EnsureTunnelSecret_def gone_def split: sum.splits)
  then obtain v where rand: "cl_rand ?cl w1 secretSize = (Inr secret, v)" and reg: "\<not> reg"
    by (auto simp: create_secret_def generateTunnelSecret_def split: sum.splits prod.splits option.splits)
  have rk: "cl_rand ?cl v n = (x, v') \<Longrightarrow> account v' = account v" for v v' n x
    using assms(8)[of v n] by simp
  have w2: "account w2 = account w" using EnsureTunnelSecret_keeps[OF assms(5) rk s] w1 by simp
  have w3: "t' = t" "w3 = w2" using e assms(9)[OF w2] reg by (auto simp: ensure_tunnel_def)
  have "holds_secret (cl_secrets ?cl) w2 gw secret"
    using create_secret_holds[OF assms(1,3) c] by blast
  moreover have "store_keeps (cl_deployments ?cl) (st_Get (cl_secrets ?cl))"
    using kept_apartD(7)[OF assms(4)] by (simp add: store_keeps_def)
  ultimately have "tunnel = t" "token_for r gw (Tunnel_ID t) secret w'"
    using deploy_tunnel_in_place[OF assms(1,2) _ _ d] w3 by auto
  moreover have "account w' = account w" using deploy_tunnel_keeps[OF assms(5,6) d] w3 w2 by simp
  ultimately show ?thesis using rand by blast
qed

text \<open>
  A tunnel whose Secret was lost is kept with a token that is not its own. If the Secret of a Gateway
  is missing while its tunnel exists, a provisioning that succeeds makes a new random secret and stores a
  token of it for the existing tunnel, while nothing in the Cloudflare account changes: the tunnel keeps
  the credential it was created with. Only a Secret that exists without valid bytes makes the
  tunnel be created again.
\<close>

lemma lost_secret_keeps_tunnel:
  assumes "documented_store secret_key persisted_secret (cl_secrets (r_Client r))"
    and "documented_store deployment_key id (cl_deployments (r_Client r))"
    and "fills (cl_rand (r_Client r))" and "kept_apart r config"
    and "store_keeps (cl_secrets (r_Client r)) account" and "store_keeps (cl_deployments (r_Client r)) account"
    and "statuses_keep (r_Client r) account" and "\<And>v n. account (snd (cl_rand (r_Client r) v n)) = account v"
    and "\<And>v. account v = account w \<Longrightarrow> api_GetTunnelByName (r_CloudflareClient r) v (Name (gw_meta gw)) = Inr t"
    and "gone (st_Get (cl_secrets (r_Client r)) w (Namespace (gw_meta gw)) (TunnelSecretName (Name (gw_meta gw))))"
    and "provision r gw gc w = (Inr tunnel, w')"
  shows "tunnel = t \<and> account w' = account w \<and>
    (\<exists>v v' secret. cl_rand (r_Client r) v secretSize = (Inr secret, v') \<and> token_for r gw (Tunnel_ID t) secret w')"
  by (rule provision_without_secret[OF assms])

text \<open>
  The same happens when the recreation of a tunnel is interrupted: after the invalid Secret was replaced
  and the deletion of the old tunnel failed, the retry finds a valid Secret and keeps the old tunnel.
\<close>

lemma interrupted_recreation_keeps_tunnel:
  assumes "documented_store secret_key persisted_secret (cl_secrets (r_Client r))" and "fills (cl_rand (r_Client r))"
    and "EnsureTunnelSecret (cl_secrets (r_Client r)) (cl_rand (r_Client r)) gw w = (Inr (secret, True), w1)"
    and "st_Get (cl_secrets (r_Client r)) w2 = st_Get (cl_secrets (r_Client r)) w1"
    and "api_GetTunnelByName (r_CloudflareClient r) w2 (Name (gw_meta gw)) = Inr t"
  shows "EnsureTunnelSecret (cl_secrets (r_Client r)) (cl_rand (r_Client r)) gw w2 = (Inr (secret, False), w2) \<and>
    ensure_tunnel r gw secret False w2 = (Inr t, w2)"
proof
  have "holds_secret (cl_secrets (r_Client r)) w2 gw secret"
    using EnsureTunnelSecret_holds[OF assms(1-3)] assms(4) by simp
  then show "EnsureTunnelSecret (cl_secrets (r_Client r)) (cl_rand (r_Client r)) gw w2 = (Inr (secret, False), w2)"
    by (rule holds_secret_stable)
  show "ensure_tunnel r gw secret False w2 = (Inr t, w2)" using assms(5) by (simp add: ensure_tunnel_def)
qed

section \<open>Gateways of the same name\<close>

text \<open>Nothing else in the account decides what its lookups find.\<close>

definition documented_tunnels :: "'w APIClient \<Rightarrow> ('w \<Rightarrow> 'a) \<Rightarrow> bool" where
  "documented_tunnels api account \<longleftrightarrow>
     documented_create_tunnel api \<and>
     (\<forall>v w. account v = account w \<longrightarrow> api_GetTunnelByName api v = api_GetTunnelByName api w)"

lemma documented_tunnelsD:
  assumes "documented_tunnels api account"
  shows "documented_create_tunnel api"
    and "account v = account w \<Longrightarrow> api_GetTunnelByName api v = api_GetTunnelByName api w"
  using assms unfolding documented_tunnels_def by blast+

text \<open>
  C34. Gateways of the same name share one tunnel. A tunnel is looked up by the name of the Gateway
  alone. Let one Gateway be provisioned, and then, with the account unchanged, another one of the same
  name that has no Secret yet, of whatever namespace. Then both hold tokens of the same tunnel, the
  account has not changed, and whenever the rules of the second are published, they are what Cloudflare holds for
  the tunnel of the first.
\<close>

theorem same_name_gateways_share_tunnel:
  assumes "documented_store secret_key persisted_secret (cl_secrets (r_Client r))"
    and "documented_store deployment_key id (cl_deployments (r_Client r))"
    and "fills (cl_rand (r_Client r))" and "kept_apart r config"
    and "store_keeps (cl_secrets (r_Client r)) account" and "store_keeps (cl_deployments (r_Client r)) account"
    and "statuses_keep (r_Client r) account" and "\<And>v n. account (snd (cl_rand (r_Client r) v n)) = account v"
    and "documented_tunnels (r_CloudflareClient r) account" and "documented_push (r_CloudflareClient r) config"
    and "Name (gw_meta gw2) = Name (gw_meta gw1)"
    and "provision r gw1 gc1 w = (Inr t1, w1)" and "account w2 = account w1"
    and "gone (st_Get (cl_secrets (r_Client r)) w2 (Namespace (gw_meta gw2)) (TunnelSecretName (Name (gw_meta gw2))))"
    and "provision r gw2 gc2 w2 = (Inr t2, w3)"
  shows "t2 = t1 \<and> account w3 = account w1 \<and>
    token_in_place r gw1 (Tunnel_ID t1) w1 \<and> token_in_place r gw2 (Tunnel_ID t1) w3 \<and>
    (\<forall>att l7 ingress w4. publish r gw2 att l7 ingress t2 w3 = (None, w4) \<longrightarrow> config w4 (Tunnel_ID t1) = Some ingress)"
proof -
  have found: "api_GetTunnelByName (r_CloudflareClient r) v (Name (gw_meta gw2)) = Inr t1" if "account v = account w2" for v
  proof -
    have "api_GetTunnelByName (r_CloudflareClient r) v = api_GetTunnelByName (r_CloudflareClient r) w1"
      by (rule documented_tunnelsD(2)[OF assms(9)]) (simp add: that assms(13))
    then show ?thesis using provision_found[OF documented_tunnelsD(1)[OF assms(9)] assms(4,12)] assms(11) by simp
  qed
  have second: "t2 = t1 \<and> account w3 = account w2 \<and>
      (\<exists>v v' secret. cl_rand (r_Client r) v secretSize = (Inr secret, v') \<and> token_for r gw2 (Tunnel_ID t1) secret w3)"
    by (rule provision_without_secret[OF assms(1-8) found assms(14,15)])
  moreover have "token_in_place r gw1 (Tunnel_ID t1) w1"
    using provision_in_place[OF assms(1-4,12)] by simp
  moreover have "config w4 (Tunnel_ID t1) = Some ingress" if "publish r gw2 att l7 ingress t2 w3 = (None, w4)" for att l7 ingress w4
    using publish_in_place[OF assms(4,10) that] second by simp
  ultimately show ?thesis using assms(13) by (auto simp: token_in_place_def)
qed

section \<open>The sample world\<close>

lemmas sample_world_defs = sample_reconciler_def sample_cluster_def sample_cloudflare_def
  gateway_store_def secret_store_def deployment_store_def part_store_def

lemma sample_stores:
  "keyed_store gateway_key (cl_gateways (r_Client sample_reconciler))"
  "documented_store secret_key persisted_secret (cl_secrets (r_Client sample_reconciler))"
  "documented_store deployment_key id (cl_deployments (r_Client sample_reconciler))"
  using documented_sample_stores keyed_gateway_store by (simp_all add: sample_reconciler_def sample_cluster_def)

text \<open>Status writes are stored, and a status write to a Gateway leaves its finalizers.\<close>

lemma put_gateway_status_finalizers [simp]:
  "(case st_Get finalized_store (put_gateway_status gw m) ns name of Inl e \<Rightarrow> None | Inr g \<Rightarrow> Some (Finalizers (gw_meta g))) =
     (case st_Get finalized_store m ns name of Inl e \<Rightarrow> None | Inr g \<Rightarrow> Some (Finalizers (gw_meta g)))"
  by (auto simp: finalized_store_def put_gateway_status_def gateway_key_def split: option.split)

lemma http_status_stored:
  "cl_list_http sample_cluster (snd (cl_status_http sample_cluster sample_world
     (sample_http_route\<lparr>Parents := [ps]\<rparr>))) = Inr [sample_http_route\<lparr>Parents := [ps]\<rparr>]"
  by (simp add: sample_cluster_def sample_world_def sample_listed_def put_parents_def put_status_def)

lemma sample_fills: "fills (cl_rand (r_Client sample_reconciler))"
  by (simp add: fills_def sample_reconciler_def sample_cluster_def)

lemma sample_apart: "kept_apart sample_reconciler wd_config"
  by (simp add: kept_apart_def Let_def statuses_keep_def records_keep_def push_keeps_def tunnels_keep_def store_keeps_def
      stored_finalizers_def[abs_def] sample_world_defs split_beta)

lemma sample_inputs: "inputs_kept sample_reconciler"
  by (simp add: inputs_kept_def Let_def inputs_def[abs_def] class_keeps_def tunnels_keep_def store_keeps_def sample_world_defs split_beta)

lemma sample_create: "documented_create_tunnel (r_CloudflareClient sample_reconciler)"
  by (auto simp: documented_create_tunnel_def sample_reconciler_def sample_cloudflare_def Let_def)

lemma sample_push: "documented_push (r_CloudflareClient sample_reconciler) wd_config"
  by (auto simp: documented_push_def sample_reconciler_def sample_cloudflare_def)

lemma sample_live: "live sample_reconciler ''infra'' ''edge'' sample_gateway sample_class sample_world"
  by (simp add: live_def sample_world_defs finalized_store_def sample_world_def sample_listed_def gateway_key_def sample_gateway_def
      sample_meta_def sample_class_def)

lemma sample_StoreTunnelToken:
  assumes "wd_secrets w (ns, name) = Some s" and "secret_key s = (ns, name)"
  shows "\<exists>w'. StoreTunnelToken secret_store ns name token w = (None, w') \<and> wd_deployments w' = wd_deployments w"
  using assms by (simp add: StoreTunnelToken_def secret_store_def part_store_def memory_store_def
      persisted_secret_key secret_key_def persisted_secret_def)

lemma sample_applyDeployment:
  assumes "wd_deployments w = Map.empty"
  shows "\<exists>w'. applyDeployment deployment_store d w = (None, w')"
  using assms by (simp add: applyDeployment_def deployment_store_def part_store_def memory_store_def)

lemma sample_deploy_tunnel:
  assumes "wd_secrets w (Namespace (gw_meta gw), TunnelSecretName (Name (gw_meta gw))) = Some s"
    and "secret_key s = (Namespace (gw_meta gw), TunnelSecretName (Name (gw_meta gw)))"
    and "wd_deployments w = Map.empty"
  shows "\<exists>w'. deploy_tunnel sample_reconciler gw cfg secret t w = (Inr t, w')"
proof -
  let ?token = "BuildTunnelToken (api_AccountID (r_CloudflareClient sample_reconciler)) (Tunnel_ID t) secret"
  obtain w1 where "StoreTunnelToken secret_store (Namespace (gw_meta gw)) (TunnelSecretName (Name (gw_meta gw))) ?token w = (None, w1)"
      "wd_deployments w1 = Map.empty"
    using sample_StoreTunnelToken[OF assms(1,2), of ?token] assms(3) by auto
  moreover obtain w2 where "applyDeployment deployment_store
      (BuildCloudflaredDeployment gw (TunnelSecretName (Name (gw_meta gw))) cfg) w1 = (None, w2)"
    using sample_applyDeployment[OF calculation(2)] by blast
  moreover have "cl_secrets (r_Client sample_reconciler) = secret_store" "cl_deployments (r_Client sample_reconciler) = deployment_store"
    by (simp_all add: sample_reconciler_def sample_cluster_def)
  ultimately show ?thesis by (simp add: deploy_tunnel_def Let_def)
qed

definition new_secret :: Secret where
  "new_secret = \<lparr>sec_Namespace = ''infra'', sec_Name = ''cloudflared-edge-tunnel-secret'',
     sec_Owners = [gateway_owner (claimed sample_gateway)], sec_Data = Some [tunnelSecretKey \<mapsto> replicate 32 7], sec_StringData = None\<rparr>"

lemma sample_names:
  "Namespace (gw_meta sample_gateway) = ''infra''" "Name (gw_meta sample_gateway) = ''edge''"
  "TunnelSecretName ''edge'' = ''cloudflared-edge-tunnel-secret''"
  by (simp_all add: sample_gateway_def sample_meta_def TunnelSecretName_def)

definition secret_of :: "Gateway \<Rightarrow> Secret" where
  "secret_of gw = \<lparr>sec_Namespace = Namespace (gw_meta gw), sec_Name = TunnelSecretName (Name (gw_meta gw)),
     sec_Owners = [gateway_owner gw], sec_Data = Some [tunnelSecretKey \<mapsto> replicate 32 7], sec_StringData = None\<rparr>"

lemma sample_secret:
  assumes "wd_secrets w = Map.empty"
  shows "EnsureTunnelSecret (cl_secrets (r_Client sample_reconciler)) (cl_rand (r_Client sample_reconciler)) gw w =
    (Inr (replicate 32 7, False),
     w\<lparr>wd_secrets := [(Namespace (gw_meta gw), TunnelSecretName (Name (gw_meta gw))) \<mapsto> secret_of gw]\<rparr>)"
  using assms by (simp add: EnsureTunnelSecret_def create_secret_def generateTunnelSecret_def sample_reconciler_def
      sample_cluster_def secret_store_def part_store_def memory_store_def secret_of_def secretSize_def secret_key_def persisted_secret_def)

lemma sample_ensure_tunnel:
  assumes "Name (gw_meta gw) = ''edge''"
  shows "ensure_tunnel sample_reconciler gw secret False w =
     (case find (\<lambda>(t, _). Tunnel_Name t = ''edge'') (wd_tunnels w) of
        None \<Rightarrow> (Inr \<lparr>Tunnel_ID = ''t1'', Tunnel_Name = ''edge''\<rparr>,
          w\<lparr>wd_tunnels := (\<lparr>Tunnel_ID = ''t1'', Tunnel_Name = ''edge''\<rparr>, secret) # wd_tunnels w\<rparr>)
      | Some (t, _) \<Rightarrow> (Inr t, w))"
  using assms by (simp add: ensure_tunnel_def create_tunnel_def sample_reconciler_def sample_cloudflare_def Let_def split: option.split)

lemma sample_class_status:
  obtains f where "write_status (cl_status_class (r_Client sample_reconciler)) (\<lambda>u. PatchGatewayClassStatus u n gc ok x m) w =
    (None, wd_listed_update f w)"
  by (simp add: write_status_def PatchGatewayClassStatus_def Let_def sample_reconciler_def sample_cluster_def)

lemma sample_provision:
  assumes "wd_secrets w = Map.empty" and "wd_deployments w = Map.empty"
    and "find (\<lambda>(t, _). Tunnel_Name t = ''edge'') (wd_tunnels w) = found" and name: "Name (gw_meta gw) = ''edge''"
  shows "\<exists>w'. provision sample_reconciler gw sample_class w =
    (Inr (case found of None \<Rightarrow> \<lparr>Tunnel_ID = ''t1'', Tunnel_Name = ''edge''\<rparr> | Some (t, _) \<Rightarrow> t), w')"
proof -
  obtain cfg ok msg where cfg: "resolveTunnelConfig (cl_get_config (r_Client sample_reconciler) w) gw sample_class = (cfg, ok, msg)"
    by (cases "resolveTunnelConfig (cl_get_config (r_Client sample_reconciler) w) gw sample_class")
  let ?reason = "if \<not> ok then ''InvalidParameters'' else ''Accepted''"
    and ?message = "if \<not> ok then msg else ''GatewayClass is accepted''"
  obtain f where status: "write_status (cl_status_class (r_Client sample_reconciler))
      (\<lambda>u. PatchGatewayClassStatus u (cl_now (r_Client sample_reconciler) w) sample_class ok ?reason ?message) w = (None, wd_listed_update f w)"
    by (rule sample_class_status)
  let ?w1 = "wd_listed_update f w"
  let ?w2 = "?w1\<lparr>wd_secrets := [(Namespace (gw_meta gw), TunnelSecretName (Name (gw_meta gw))) \<mapsto> secret_of gw]\<rparr>"
  have secret: "EnsureTunnelSecret (cl_secrets (r_Client sample_reconciler)) (cl_rand (r_Client sample_reconciler)) gw ?w1 =
      (Inr (replicate 32 7, False), ?w2)"
    by (rule sample_secret) (simp add: assms(1))
  obtain t w3 where e: "ensure_tunnel sample_reconciler gw (replicate 32 7) False ?w2 = (Inr t, w3)"
    and t: "t = (case found of None \<Rightarrow> \<lparr>Tunnel_ID = ''t1'', Tunnel_Name = ''edge''\<rparr> | Some (t, _) \<Rightarrow> t)"
    and w3: "wd_secrets w3 = wd_secrets ?w2" "wd_deployments w3 = Map.empty"
    using assms by (cases found) (auto simp: sample_ensure_tunnel)
  have key: "secret_key (secret_of gw) = (Namespace (gw_meta gw), TunnelSecretName (Name (gw_meta gw)))"
    by (simp add: secret_of_def secret_key_def)
  obtain w' where d: "deploy_tunnel sample_reconciler gw cfg (replicate 32 7) t w3 = (Inr t, w')"
    using sample_deploy_tunnel[where gw = gw and s = "secret_of gw", OF _ key w3(2)] w3(1) by fastforce
  show ?thesis
    using e t d secret status by (cases ok) (simp_all add: provision_def cfg)
qed

text \<open>What is seen of the listed objects but the class, and of the zone, is the same after a provisioning.\<close>

lemma sample_provision_keeps:
  assumes "provision sample_reconciler gw gc w = (x, w')"
  shows "((wd_listed w')\<lparr>li_class := c\<rparr>, wd_dns w') = ((wd_listed w)\<lparr>li_class := c\<rparr>, wd_dns w)"
  by (rule provision_keeps[OF _ _ _ _ _ assms, where obs = "\<lambda>w. ((wd_listed w)\<lparr>li_class := c\<rparr>, wd_dns w)"])
    (auto simp: store_keeps_def class_keeps_def tunnels_keep_def sample_world_defs Let_def split_beta)

definition sample_parts :: "_ \<Rightarrow> _ \<Rightarrow> _ \<Rightarrow> _ \<Rightarrow> _ \<Rightarrow> _ \<Rightarrow> world" where
  "sample_parts g s d k ts c = \<lparr>wd_gateways = g, wd_secrets = s, wd_deployments = d,
     wd_listed = sample_listed\<lparr>li_class := k\<rparr>, wd_tunnels = ts, wd_config = c, wd_dns = []\<rparr>"

lemma sample_partsE:
  assumes "(wd_listed w)\<lparr>li_class := sample_class\<rparr> = sample_listed" and "wd_dns w = []"
  obtains g s d k ts c where "w = sample_parts g s d k ts c"
proof
  have "wd_listed w = (wd_listed w)\<lparr>li_class := sample_class\<rparr>\<lparr>li_class := li_class (wd_listed w)\<rparr>" by simp
  then have "wd_listed w = sample_listed\<lparr>li_class := li_class (wd_listed w)\<rparr>" unfolding assms(1) .
  then show "w = sample_parts (wd_gateways w) (wd_secrets w) (wd_deployments w) (li_class (wd_listed w)) (wd_tunnels w) (wd_config w)"
    using assms(2) by (simp add: sample_parts_def)
qed

lemma sample_publish:
  "(case collect_attachments sample_reconciler (claimed sample_gateway) (sample_parts g s d k ts c) of
      Inl e \<Rightarrow> False
    | Inr att \<Rightarrow> (case build_ingress sample_reconciler (claimed sample_gateway) att (sample_parts g s d k ts c) of
         Inl e \<Rightarrow> False
       | Inr (l7, ingress) \<Rightarrow>
           fst (publish sample_reconciler (claimed sample_gateway) att l7 ingress t (sample_parts g s d k ts c)) = None))"
  by code_simp

lemma sample_run: "\<exists>w'. Reconcile sample_reconciler ''infra'' ''edge'' sample_world = (None, w')"
proof -
  let ?gw = "claimed sample_gateway"
  have gw: "\<not> ContainsFinalizer sample_gateway" "UID (gw_meta ?gw) \<noteq> []" "AddFinalizer sample_gateway = ?gw"
    by (simp_all add: sample_gateway_def sample_meta_def ContainsFinalizer_def claimed_def)
  have "DeletionTimestamp (gw_meta ?gw) = None"
    by (simp add: sample_gateway_def sample_meta_def claimed_def AddFinalizer_def set_finalizers_def)
  then obtain w0 where u: "st_Update (cl_gateways (r_Client sample_reconciler)) sample_world ?gw = (None, w0)"
      "wd_secrets w0 = Map.empty" "wd_deployments w0 = Map.empty" "wd_listed w0 = sample_listed" "wd_dns w0 = []"
    by (simp add: sample_world_def sample_world_defs finalized_store_def gateway_key_def sample_names)
  obtain t w1 where p: "provision sample_reconciler ?gw sample_class w0 = (Inr t, w1)"
    using sample_provision[OF u(2,3) refl, of "claimed sample_gateway"] by (auto simp: sample_names)
  obtain g s d k ts c where w1: "w1 = sample_parts g s d k ts c"
  proof (rule sample_partsE[of w1])
    show "(wd_listed w1)\<lparr>li_class := sample_class\<rparr> = sample_listed" "wd_dns w1 = []"
      using sample_provision_keeps[OF p, of sample_class] u(4,5) by (simp_all add: sample_listed_def)
  qed
  obtain att l7 ingress where b: "collect_attachments sample_reconciler ?gw w1 = Inr att"
      "build_ingress sample_reconciler ?gw att w1 = Inr (l7, ingress)"
      "fst (publish sample_reconciler ?gw att l7 ingress t w1) = None"
    using sample_publish[where t = t and g = g and s = s and d = d and k = k and ts = ts and c = c, folded w1]
    by (auto split: sum.splits)
  then obtain w' where "publish sample_reconciler ?gw att l7 ingress t w1 = (None, w')"
    by (metis prod.collapse)
  then have "reconcile sample_reconciler ''infra'' ''edge'' sample_world = (None, w')"
    using sample_live u(1) p b(1,2) gw by (simp add: live_def reconcile_def claim_and_apply_def apply_gateway_def)
  then show ?thesis by (auto simp: Reconcile_def)
qed

theorem Reconcile_success_in_place_witness:
  "\<exists>w' tunnel ingress. Reconcile sample_reconciler ''infra'' ''edge'' sample_world = (None, w') \<and>
     api_GetTunnelByName (r_CloudflareClient sample_reconciler) w' ''edge'' = Inr tunnel \<and>
     token_in_place sample_reconciler (claimed sample_gateway) (Tunnel_ID tunnel) w' \<and> wd_config w' (Tunnel_ID tunnel) = Some ingress"
proof -
  obtain w' where run: "Reconcile sample_reconciler ''infra'' ''edge'' sample_world = (None, w')"
    using sample_run by blast
  have "UID (gw_meta sample_gateway) \<noteq> ''''" by (simp add: sample_gateway_def sample_meta_def)
  from Reconcile_success_in_place[OF sample_stores(2,3) sample_fills sample_apart sample_inputs sample_push sample_create
      sample_live this run]
  show ?thesis using run by (auto simp: sample_names)
qed

text \<open>
  A Gateway being deleted whose tunnel and Secret exist, whose Deployment was removed by hand, and which
  has a DNS record beside one of somebody else, with DNS management on.
\<close>

definition dns_reconciler :: "world GatewayReconciler" where
  "dns_reconciler = sample_reconciler\<lparr>ManageDNS := True\<rparr>"

lemma dns_reconciler_parts:
  "r_Client dns_reconciler = r_Client sample_reconciler" "r_CloudflareClient dns_reconciler = r_CloudflareClient sample_reconciler"
  "r_ControllerName dns_reconciler = r_ControllerName sample_reconciler" "ManageDNS dns_reconciler"
  by (simp_all add: dns_reconciler_def)

definition account_records :: "world \<Rightarrow> string \<Rightarrow> DNSRecord set" where
  "account_records w z = (if z = ''z1'' then set (wd_dns w) else {})"

definition deleted_gateway :: Gateway where
  "deleted_gateway = (claimed sample_gateway)\<lparr>gw_meta := (gw_meta (claimed sample_gateway))\<lparr>DeletionTimestamp := Some 3\<rparr>\<rparr>"

definition deleted_world :: world where
  "deleted_world = sample_world\<lparr>wd_gateways := [(''infra'', ''edge'') \<mapsto> deleted_gateway],
     wd_secrets := [(''infra'', ''cloudflared-edge-tunnel-secret'') \<mapsto> new_secret],
     wd_tunnels := [(\<lparr>Tunnel_ID = ''t1'', Tunnel_Name = ''edge''\<rparr>, replicate 32 7)],
     wd_dns := [cname ''1'' ''a.example.com'' ''t1.cfargotunnel.com'' (ownerComment sample_gateway),
       cname ''2'' ''b.example.com'' ''elsewhere'' ''human'']\<rparr>"

lemma deleted_run:
  "stored_finalizers (r_Client dns_reconciler) (snd (Reconcile dns_reconciler ''infra'' ''edge'' deleted_world))
     ''infra'' ''edge'' = None"
  by code_simp

lemma sample_zones: "documented_zones (r_CloudflareClient dns_reconciler) account_records"
proof -
  have "patched [] = id" by (simp add: patched_def fun_eq_iff)
  then show ?thesis
    by (auto simp: documented_zones_def dns_reconciler_parts sample_reconciler_def sample_cloudflare_def account_records_def
        sample_dns_batch_def split: if_splits)
qed

lemma sample_delete_tunnel: "documented_delete_tunnel (r_CloudflareClient sample_reconciler)"
proof -
  have "find (\<lambda>(t, _). Tunnel_Name t = name)
      (filter (\<lambda>(t, _). \<not> list_ex (\<lambda>(u, _). Tunnel_ID u = Tunnel_ID x \<and> Tunnel_Name u = Tunnel_Name t) ts) ts) = None"
    if "find (\<lambda>(t, _). Tunnel_Name t = name) ts = Some (x, s)" for name ts x and s :: "byte list"
  proof -
    have "(x, s) \<in> set ts" "Tunnel_Name x = name" using that by (auto simp: find_Some_iff in_set_conv_nth)
    then show ?thesis by (fastforce simp: find_None_iff list_ex_iff)
  qed
  note gone = this
  show ?thesis
    by (auto simp: gone documented_delete_tunnel_def no_tunnel_def sample_reconciler_def sample_cloudflare_def split: option.splits)
qed

lemma dns_reconciler_apart: "kept_apart dns_reconciler wd_config" "inputs_kept dns_reconciler"
  "documented_push (r_CloudflareClient dns_reconciler) wd_config"
  "live dns_reconciler ''infra'' ''edge'' sample_gateway sample_class sample_world"
  using sample_apart sample_inputs sample_push sample_live
  unfolding kept_apart_def inputs_kept_def live_def dns_reconciler_parts(1-3) .

lemma dns_reconciler_dns: "dns_apart dns_reconciler wd_dns" "dns_apart dns_reconciler account_records"
proof -
  show "dns_apart dns_reconciler wd_dns"
    unfolding dns_apart_def dns_reconciler_parts(1-3)
    by (simp add: statuses_keep_def push_keeps_def tunnels_keep_def store_keeps_def sample_world_defs Let_def split_beta)
  from dns_apart_map[OF this, of "\<lambda>rs z. if z = ''z1'' then set rs else {}"]
  show "dns_apart dns_reconciler account_records" by (simp add: account_records_def[abs_def])
qed

theorem finalizer_released_when_nothing_left_witness:
  "nothing_left dns_reconciler account_records deleted_gateway (snd (Reconcile dns_reconciler ''infra'' ''edge'' deleted_world))"
proof -
  have "st_Get (cl_gateways (r_Client dns_reconciler)) deleted_world ''infra'' ''edge'' = Inr deleted_gateway"
    by (simp add: deleted_world_def deleted_gateway_def gateway_key_def sample_names dns_reconciler_parts sample_reconciler_def
        sample_cluster_def gateway_store_def part_store_def finalized_store_def)
  moreover have "DeletionTimestamp (gw_meta deleted_gateway) \<noteq> None" by (simp add: deleted_gateway_def)
  moreover have "ContainsFinalizer deleted_gateway"
    by (simp add: deleted_gateway_def claimed_def AddFinalizer_def set_finalizers_def ContainsFinalizer_def)
  ultimately show ?thesis
    using finalizer_released_when_nothing_left[OF sample_stores[folded dns_reconciler_parts(1)]
      sample_delete_tunnel[folded dns_reconciler_parts(2)] sample_zones dns_reconciler_apart(1) dns_reconciler_dns(2),
      of deleted_world "''infra''" "''edge''" deleted_gateway] deleted_run by simp
qed

text \<open>The account with DNS management on, and one whose Secret was lost.\<close>

lemma dns_reconciler_publish:
  "(case collect_attachments dns_reconciler (claimed sample_gateway) (sample_parts g s d k ts c) of
      Inl e \<Rightarrow> False
    | Inr att \<Rightarrow> (case build_ingress dns_reconciler (claimed sample_gateway) att (sample_parts g s d k ts c) of
         Inl e \<Rightarrow> False
       | Inr (l7, ingress) \<Rightarrow> map rec_Content (wd_dns (snd (publish dns_reconciler (claimed sample_gateway) att l7 ingress
            \<lparr>Tunnel_ID = ''t1'', Tunnel_Name = ''edge''\<rparr> (sample_parts g s d k ts c)))) = [''t1.cfargotunnel.com'']))"
  by code_simp

lemma provision_same:
  assumes "r_Client r = r_Client q" and "r_CloudflareClient r = r_CloudflareClient q"
  shows "provision r gw gc w = provision q gw gc w"
proof -
  have c: "create_tunnel r gw = create_tunnel q gw"
    unfolding create_tunnel_def[abs_def] assms ..
  have e: "ensure_tunnel r gw = ensure_tunnel q gw"
    unfolding ensure_tunnel_def[abs_def] assms c ..
  have d: "deploy_tunnel r gw = deploy_tunnel q gw"
    unfolding deploy_tunnel_def[abs_def] assms ..
  show ?thesis unfolding provision_def assms e d ..
qed

lemma dns_reconciler_run: "map rec_Content (wd_dns (snd (Reconcile dns_reconciler ''infra'' ''edge'' sample_world))) = [''t1.cfargotunnel.com'']"
proof -
  let ?gw = "claimed sample_gateway" and ?t = "\<lparr>Tunnel_ID = ''t1'', Tunnel_Name = ''edge''\<rparr>"
  have gw: "\<not> ContainsFinalizer sample_gateway" "UID (gw_meta ?gw) \<noteq> []" "AddFinalizer sample_gateway = ?gw"
    by (simp_all add: sample_gateway_def sample_meta_def ContainsFinalizer_def claimed_def)
  have "DeletionTimestamp (gw_meta ?gw) = None"
    by (simp add: sample_gateway_def sample_meta_def claimed_def AddFinalizer_def set_finalizers_def)
  then obtain w0 where u: "st_Update (cl_gateways (r_Client dns_reconciler)) sample_world ?gw = (None, w0)"
      "wd_secrets w0 = Map.empty" "wd_deployments w0 = Map.empty" "wd_listed w0 = sample_listed" "wd_dns w0 = []" "wd_tunnels w0 = []"
    by (simp add: sample_world_def dns_reconciler_parts sample_world_defs finalized_store_def gateway_key_def sample_names)
  obtain w1 where p: "provision sample_reconciler ?gw sample_class w0 = (Inr ?t, w1)"
    using sample_provision[OF u(2,3) refl, of "claimed sample_gateway"] u(6) by (auto simp: sample_names)
  note p' = p[folded provision_same[OF dns_reconciler_parts(1,2)]]
  obtain g s d k ts c where w1: "w1 = sample_parts g s d k ts c"
  proof (rule sample_partsE[of w1])
    show "(wd_listed w1)\<lparr>li_class := sample_class\<rparr> = sample_listed" "wd_dns w1 = []"
      using sample_provision_keeps[OF p, of sample_class] u(4,5) by (simp_all add: sample_listed_def)
  qed
  obtain att l7 ingress where b: "collect_attachments dns_reconciler ?gw w1 = Inr att"
      "build_ingress dns_reconciler ?gw att w1 = Inr (l7, ingress)"
      "map rec_Content (wd_dns (snd (publish dns_reconciler ?gw att l7 ingress ?t w1))) = [''t1.cfargotunnel.com'']"
    using dns_reconciler_publish[where g = g and s = s and d = d and k = k and ts = ts and c = c, folded w1]
    by (auto split: sum.splits)
  obtain err w' where pub: "publish dns_reconciler ?gw att l7 ingress ?t w1 = (err, w')"
    by fastforce
  have "reconcile dns_reconciler ''infra'' ''edge'' sample_world = (err, w')"
    using dns_reconciler_apart(4) u(1) p' b(1,2) pub gw
    by (simp add: live_def reconcile_def claim_and_apply_def apply_gateway_def)
  with b(3) pub show ?thesis by (cases err) (simp_all add: Reconcile_def)
qed

theorem dns_changes_only_behind_pushed_rules_witness:
  "\<exists>tunnel att l7 ingress. build_ingress dns_reconciler (claimed sample_gateway) att sample_world = Inr (l7, ingress) \<and>
     directed dns_reconciler wd_config wd_dns tunnel ingress sample_world (snd (Reconcile dns_reconciler ''infra'' ''edge'' sample_world))"
proof -
  have "wd_dns (snd (Reconcile dns_reconciler ''infra'' ''edge'' sample_world)) \<noteq> wd_dns sample_world"
    using dns_reconciler_run by (auto simp: sample_world_def)
  from dns_changes_only_behind_pushed_rules[OF dns_reconciler_apart(1-3) sample_create[folded dns_reconciler_parts(2)]
      dns_reconciler_dns(1) dns_reconciler_apart(4) this]
  show ?thesis by blast
qed

definition lost_world :: world where
  "lost_world = sample_world\<lparr>wd_tunnels := [(\<lparr>Tunnel_ID = ''t0'', Tunnel_Name = ''edge''\<rparr>, replicate 32 1)]\<rparr>"

lemma lost_secret_keeps_tunnel_witness:
  "\<exists>w'. fst (provision sample_reconciler (claimed sample_gateway) sample_class lost_world) =
        Inr \<lparr>Tunnel_ID = ''t0'', Tunnel_Name = ''edge''\<rparr> \<and>
     w' = snd (provision sample_reconciler (claimed sample_gateway) sample_class lost_world) \<and>
     wd_tunnels w' = [(\<lparr>Tunnel_ID = ''t0'', Tunnel_Name = ''edge''\<rparr>, replicate 32 1)] \<and>
     token_for sample_reconciler (claimed sample_gateway) ''t0'' (replicate 32 7) w'"
proof -
  let ?t = "\<lparr>Tunnel_ID = ''t0'', Tunnel_Name = ''edge''\<rparr>" and ?gw = "claimed sample_gateway"
  have lost: "wd_secrets lost_world = Map.empty" "wd_deployments lost_world = Map.empty"
      "wd_tunnels lost_world = [(?t, replicate 32 1)]"
    by (simp_all add: lost_world_def sample_world_def)
  obtain w' where p: "provision sample_reconciler ?gw sample_class lost_world = (Inr ?t, w')"
    using sample_provision[OF lost(1,2) refl, of "claimed sample_gateway"] lost(3) by (auto simp: sample_names)
  have account: "store_keeps (cl_secrets (r_Client sample_reconciler)) wd_tunnels"
      "store_keeps (cl_deployments (r_Client sample_reconciler)) wd_tunnels"
      "statuses_keep (r_Client sample_reconciler) wd_tunnels"
      "\<And>v n. wd_tunnels (snd (cl_rand (r_Client sample_reconciler) v n)) = wd_tunnels v"
    by (simp_all add: store_keeps_def statuses_keep_def sample_world_defs split_beta)
  have there: "api_GetTunnelByName (r_CloudflareClient sample_reconciler) v (Name (gw_meta ?gw)) = Inr ?t"
    if "wd_tunnels v = wd_tunnels lost_world" for v
    using that lost(3) by (simp add: sample_names sample_reconciler_def sample_cloudflare_def)
  have gone: "gone (st_Get (cl_secrets (r_Client sample_reconciler)) lost_world (Namespace (gw_meta ?gw)) (TunnelSecretName (Name (gw_meta ?gw))))"
    using lost(1) by (simp add: gone_def sample_world_defs memory_store_def)
  have rand: "cl_rand (r_Client sample_reconciler) v secretSize = (Inr (replicate 32 7), v)" for v
    by (simp add: sample_reconciler_def sample_cluster_def secretSize_def)
  show ?thesis
    using lost_secret_keeps_tunnel[OF sample_stores(2,3) sample_fills sample_apart account there gone p] p lost(3)
    by (auto simp: rand)
qed

text \<open>Two Gateways named edge, of the namespaces infra and lab; the second finds the account of the first.\<close>

definition lab_gateway :: Gateway where
  "lab_gateway = sample_gateway\<lparr>gw_meta := sample_meta ''lab'' ''edge''\<rparr>"

lemma sample_account:
  "store_keeps (cl_secrets (r_Client sample_reconciler)) wd_tunnels"
  "store_keeps (cl_deployments (r_Client sample_reconciler)) wd_tunnels"
  "statuses_keep (r_Client sample_reconciler) wd_tunnels"
  "wd_tunnels (snd (cl_rand (r_Client sample_reconciler) v n)) = wd_tunnels v"
  by (simp_all add: store_keeps_def statuses_keep_def sample_world_defs split_beta)

lemma sample_tunnels: "documented_tunnels (r_CloudflareClient sample_reconciler) wd_tunnels"
  using sample_create by (simp add: documented_tunnels_def) (simp add: sample_reconciler_def sample_cloudflare_def)

theorem same_name_gateways_share_tunnel_witness:
  "\<exists>t w1 w3. provision sample_reconciler sample_gateway sample_class sample_world = (Inr t, w1) \<and>
     provision sample_reconciler lab_gateway sample_class (w1\<lparr>wd_secrets := Map.empty, wd_deployments := Map.empty\<rparr>) = (Inr t, w3) \<and>
     token_in_place sample_reconciler sample_gateway (Tunnel_ID t) w1 \<and>
     token_in_place sample_reconciler lab_gateway (Tunnel_ID t) w3"
proof -
  have name: "Name (gw_meta lab_gateway) = ''edge''" "Name (gw_meta sample_gateway) = ''edge''"
    by (simp_all add: lab_gateway_def sample_meta_def sample_names)
  have start: "wd_secrets sample_world = Map.empty" "wd_deployments sample_world = Map.empty"
    by (simp_all add: sample_world_def)
  obtain t1 w1 where p1: "provision sample_reconciler sample_gateway sample_class sample_world = (Inr t1, w1)"
    using sample_provision[OF start refl name(2)] by blast
  let ?w2 = "w1\<lparr>wd_secrets := Map.empty, wd_deployments := Map.empty\<rparr>"
  have w2: "wd_secrets ?w2 = Map.empty" "wd_deployments ?w2 = Map.empty" "wd_tunnels ?w2 = wd_tunnels w1" by simp_all
  obtain t2 w3 where p2: "provision sample_reconciler lab_gateway sample_class ?w2 = (Inr t2, w3)"
    using sample_provision[OF w2(1,2) refl name(1)] by blast
  have gone: "gone (st_Get (cl_secrets (r_Client sample_reconciler)) ?w2 (Namespace (gw_meta lab_gateway))
      (TunnelSecretName (Name (gw_meta lab_gateway))))"
    by (simp add: gone_def sample_world_defs memory_store_def)
  show ?thesis
    using same_name_gateways_share_tunnel[OF sample_stores(2,3) sample_fills sample_apart sample_account sample_tunnels
        sample_push name(1)[folded name(2)] p1 w2(3) gone p2] p1 p2
    by auto
qed

end
