(* ===== verification/System.thy ===== *)
theory System
  imports Lifecycle
begin

text \<open>
  The system over time: reconciliations of any Gateways in any order, failing or not, interleaved with
  what everyone else does to the cluster and the account. The result is an invariant of every such
  run: the credential of a Gateway's tunnel.
\<close>

section \<open>Runs\<close>

text \<open>
  A step of the controller is one Reconcile, of whatever Gateway the queue holds, in a world of the kind
  \<open>ok\<close>; a step of the environment leaves the observed thing alone.
\<close>

inductive controller_run :: "'w GatewayReconciler \<Rightarrow> ('w \<Rightarrow> bool) \<Rightarrow> ('w \<Rightarrow> 'x) \<Rightarrow> 'w \<Rightarrow> 'w \<Rightarrow> bool"
  for r :: "'w GatewayReconciler" and ok :: "'w \<Rightarrow> bool" and obs :: "'w \<Rightarrow> 'x" and w :: 'w where
  start: "controller_run r ok obs w w"
| reconciled: "controller_run r ok obs w v \<Longrightarrow> ok v \<Longrightarrow> controller_run r ok obs w (snd (Reconcile r ns name v))"
| elsewhere: "controller_run r ok obs w v \<Longrightarrow> obs u = obs v \<Longrightarrow> controller_run r ok obs w u"

text \<open>An invariant of the observed thing that every Reconcile keeps holds at the end of every run.\<close>

lemma run_invariant:
  assumes "controller_run r ok obs w w'" and "P (obs w)"
    and "\<And>v ns name. ok v \<Longrightarrow> P (obs v) \<Longrightarrow> P (obs (snd (Reconcile r ns name v)))"
  shows "P (obs w')"
  using assms(1) by induction (simp_all add: assms(2,3))

text \<open>Runs compose.\<close>

lemma controller_run_trans:
  "controller_run r ok obs v u \<Longrightarrow> controller_run r ok obs w v \<Longrightarrow> controller_run r ok obs w u"
  by (induction rule: controller_run.induct) (auto intro: controller_run.intros)

text \<open>The Gateway of a name is not being deleted.\<close>

definition not_deleting :: "'w GatewayReconciler \<Rightarrow> string \<Rightarrow> string \<Rightarrow> 'w \<Rightarrow> bool" where
  "not_deleting r ns name w \<longleftrightarrow>
     (case st_Get (cl_gateways (r_Client r)) w ns name of Inl e \<Rightarrow> True | Inr gw \<Rightarrow> DeletionTimestamp (gw_meta gw) = None)"

section \<open>The credential\<close>

text \<open>A write concerns its own key only; an update that is reported failed has happened or not.\<close>

definition atomic_store :: "('o \<Rightarrow> string \<times> string) \<Rightarrow> ('o \<Rightarrow> 'o) \<Rightarrow> ('w, 'o) Store \<Rightarrow> bool" where
  "atomic_store key persisted st \<longleftrightarrow>
     (\<forall>w x ns name. key x \<noteq> (ns, name) \<longrightarrow>
        st_Get st (snd (st_Create st w x)) ns name = st_Get st w ns name \<and>
        st_Get st (snd (st_Update st w x)) ns name = st_Get st w ns name \<and>
        st_Get st (snd (st_Delete st w x)) ns name = st_Get st w ns name) \<and>
     (\<forall>w x ns name. key x = (ns, name) \<longrightarrow>
        st_Get st (snd (st_Update st w x)) ns name \<in> {st_Get st w ns name, Inr (persisted x)})"

lemma atomic_other:
  assumes "atomic_store key persisted st" and "key x \<noteq> (ns, name)"
  shows "st_Create st w x = (e, w') \<Longrightarrow> st_Get st w' ns name = st_Get st w ns name"
    and "st_Update st w x = (e, w') \<Longrightarrow> st_Get st w' ns name = st_Get st w ns name"
    and "st_Delete st w x = (e, w') \<Longrightarrow> st_Get st w' ns name = st_Get st w ns name"
  using assms unfolding atomic_store_def by (metis snd_conv)+

lemma atomic_own:
  "atomic_store key persisted st \<Longrightarrow> key x = (ns, name) \<Longrightarrow> st_Update st w x = (e, w') \<Longrightarrow>
     st_Get st w' ns name = st_Get st w ns name \<or> st_Get st w' ns name = Inr (persisted x)"
  unfolding atomic_store_def by (metis snd_conv insertE singletonD)

definition secret_bytes :: "Secret result \<Rightarrow> byte list option" where
  "secret_bytes g = (case g of Inl e \<Rightarrow> None | Inr s \<Rightarrow> stored_secret s)"

lemma secret_bytes_Some: "secret_bytes g = Some bs \<longleftrightarrow> (\<exists>s. g = Inr s \<and> stored_secret s = Some bs)"
  by (simp add: secret_bytes_def split: sum.split)

lemma TunnelSecretName_inject: "TunnelSecretName a = TunnelSecretName b \<longleftrightarrow> a = b"
  by (simp add: TunnelSecretName_def)

lemma EnsureTunnelSecret_keeps_bytes:
  assumes doc: "documented_store secret_key persisted_secret st" and atomic: "atomic_store secret_key persisted_secret st"
    and rand: "\<And>v n. st_Get st (snd (rand v n)) = st_Get st v"
    and bytes: "secret_bytes (st_Get st w ns (TunnelSecretName name)) = Some bs"
    and run: "EnsureTunnelSecret st rand gw w = (x, w')"
  shows "secret_bytes (st_Get st w' ns (TunnelSecretName name)) = Some bs"
proof (cases "Namespace (gw_meta gw) = ns \<and> Name (gw_meta gw) = name")
  case True
  then show ?thesis using bytes run by (auto simp: secret_bytes_Some EnsureTunnelSecret_def)
next
  case False
  let ?gns = "Namespace (gw_meta gw)" and ?gname = "TunnelSecretName (Name (gw_meta gw))"
  have other: "(?gns, ?gname) \<noteq> (ns, TunnelSecretName name)" using False by (auto simp: TunnelSecretName_inject)
  have gen: "st_Get st v = st_Get st w" if "generateTunnelSecret rand w = (y, v)" for y v
    using that rand[of w secretSize] by (auto simp: generateTunnelSecret_def split: prod.splits sum.splits)
  have create: "st_Get st w' ns (TunnelSecretName name) = st_Get st w ns (TunnelSecretName name)"
    if "create_secret st rand gw w = (x, w')"
    using that other
    by (auto simp: create_secret_def secret_key_def split: prod.splits sum.splits option.splits
        dest!: gen atomic_other(1)[OF atomic, where ns = ns and name = "TunnelSecretName name", rotated])
  have regen: "st_Get st w' ns (TunnelSecretName name) = st_Get st w ns (TunnelSecretName name)"
    if g: "st_Get st w ?gns ?gname = Inr s" and r: "regenerate_secret st rand s w = (x, w')" for s
  proof -
    have "secret_key (s\<lparr>sec_Data := d\<rparr>) \<noteq> (ns, TunnelSecretName name)" for d
      using documented_key[OF doc g] other by (simp add: secret_key_def)
    from r gen atomic_other(2)[OF atomic this] show ?thesis
      by (auto simp: regenerate_secret_def split: prod.splits sum.splits option.splits)
  qed
  show ?thesis
    using run create regen bytes by (auto simp: EnsureTunnelSecret_def split: sum.splits option.splits if_splits)
qed

lemma StoreTunnelToken_keeps_bytes:
  assumes doc: "documented_store secret_key persisted_secret st" and atomic: "atomic_store secret_key persisted_secret st"
    and bytes: "secret_bytes (st_Get st w ns (TunnelSecretName name)) = Some bs"
    and run: "StoreTunnelToken st ns' name' token w = (x, w')"
  shows "secret_bytes (st_Get st w' ns (TunnelSecretName name)) = Some bs"
proof (cases "st_Get st w ns' name'")
  case (Inl e)
  then show ?thesis using run bytes by (simp add: StoreTunnelToken_def)
next
  case (Inr s)
  let ?t = "s\<lparr>sec_StringData := Some [tunnelTokenKey \<mapsto> token]\<rparr>"
  have "sec_StringData s = None" using documented_read[OF doc Inr] by (rule persisted_secret_string_data)
  then obtain e where up: "st_Update st w ?t = (e, w')"
    using run Inr by (auto simp: StoreTunnelToken_def split: prod.splits option.splits)
  have key: "secret_key ?t = (ns', name')" using documented_key[OF doc Inr] by (simp add: secret_key_def)
  show ?thesis
  proof (cases "(ns', name') = (ns, TunnelSecretName name)")
    case False
    then show ?thesis using atomic_other(2)[OF atomic _ up] key bytes by simp
  next
    case True
    have "stored_secret (persisted_secret ?t) = stored_secret s"
      by (simp add: stored_secret_def persisted_secret_def map_add_def key_distinct split: option.splits)
    then show ?thesis
      using atomic_own[OF atomic _ up, of ns "TunnelSecretName name"] key True Inr bytes
      by (auto simp: secret_bytes_Some)
  qed
qed

lemma cleanup_object_other:
  assumes "documented_store key persisted st" and "atomic_store key persisted st" and "(ns', name') \<noteq> (ns, name)"
  shows "st_Get st (snd (cleanup_object st ns' name' s)) ns name = st_Get st (snd s) ns name"
proof -
  have "st_Get st w' ns name = st_Get st w ns name"
    if "st_Get st w ns' name' = Inr x" and "st_Delete st w x = (e, w')" for w x e w'
    using atomic_other(3)[OF assms(2) _ that(2)] documented_key[OF assms(1) that(1)] assms(3) by simp
  then show ?thesis
    by (cases s) (auto simp: cleanup_object_def split: sum.split prod.split option.split)
qed

text \<open>What a world shows of the Secret of a Gateway, and what the writes to other things leave of it.\<close>

definition secret_at :: "'w GatewayReconciler \<Rightarrow> string \<Rightarrow> string \<Rightarrow> 'w \<Rightarrow> Secret result" where
  "secret_at r ns name w = st_Get (cl_secrets (r_Client r)) w ns (TunnelSecretName name)"

lemma secrets_apart:
  assumes "kept_apart r config"
  shows "statuses_keep (r_Client r) (secret_at r ns name)" "records_keep (r_CloudflareClient r) (secret_at r ns name)"
    "push_keeps (r_CloudflareClient r) (secret_at r ns name)" "tunnels_keep (r_CloudflareClient r) (secret_at r ns name)"
    "store_keeps (cl_gateways (r_Client r)) (secret_at r ns name)"
    "store_keeps (cl_deployments (r_Client r)) (secret_at r ns name)"
  using kept_apartD[OF assms]
  by (simp_all add: secret_at_def statuses_keep_def records_keep_def push_keeps_def tunnels_keep_def store_keeps_def)

text \<open>The laws of the API server on which the credential rests.\<close>

definition secret_laws :: "'w GatewayReconciler \<Rightarrow> bool" where
  "secret_laws r \<longleftrightarrow>
     keyed_store gateway_key (cl_gateways (r_Client r)) \<and>
     documented_store secret_key persisted_secret (cl_secrets (r_Client r)) \<and>
     atomic_store secret_key persisted_secret (cl_secrets (r_Client r)) \<and>
     (\<forall>v n. st_Get (cl_secrets (r_Client r)) (snd (cl_rand (r_Client r) v n)) = st_Get (cl_secrets (r_Client r)) v)"

lemma secret_lawsD:
  assumes "secret_laws r"
  shows "keyed_store gateway_key (cl_gateways (r_Client r))"
    "documented_store secret_key persisted_secret (cl_secrets (r_Client r))"
    "atomic_store secret_key persisted_secret (cl_secrets (r_Client r))"
    "st_Get (cl_secrets (r_Client r)) (snd (cl_rand (r_Client r) v n)) = st_Get (cl_secrets (r_Client r)) v"
  using assms by (simp_all add: secret_laws_def)

lemma provision_keeps_bytes:
  assumes laws: "secret_laws r" and apart: "kept_apart r config"
    and bytes: "secret_bytes (secret_at r ns name w) = Some bs" and run: "provision r gw gc w = (x, w')"
  shows "secret_bytes (secret_at r ns name w') = Some bs"
proof -
  let ?cl = "r_Client r"
  note a = secrets_apart[OF apart, of ns name]
  have st: "secret_bytes (secret_at r ns name v') = Some bs" if "write_status (cl_status_class ?cl) patch w = (y, v')" for patch y v'
    using snd_write_status[of "cl_status_class ?cl" patch w] that bytes by (simp add: statuses_keepD(1)[OF a(1)])
  have ens: "secret_bytes (secret_at r ns name v') = Some bs"
    if "EnsureTunnelSecret (cl_secrets ?cl) (cl_rand ?cl) gw v = (y, v')" "secret_bytes (secret_at r ns name v) = Some bs" for v y v'
    using EnsureTunnelSecret_keeps_bytes[OF secret_lawsD(2,3)[OF laws] secret_lawsD(4)[OF laws] that(2)[unfolded secret_at_def] that(1)]
    by (simp add: secret_at_def)
  have deploy: "secret_bytes (secret_at r ns name v') = Some bs"
    if d: "deploy_tunnel r gw cfg secret t v = (y, v')" and b: "secret_bytes (secret_at r ns name v) = Some bs" for cfg secret t v y v'
  proof -
    have tok: "secret_bytes (secret_at r ns name u') = Some bs"
      if "StoreTunnelToken (cl_secrets ?cl) n1 n2 token v = (z, u')" for n1 n2 token z u'
      using StoreTunnelToken_keeps_bytes[OF secret_lawsD(2,3)[OF laws] b[unfolded secret_at_def] that] by (simp add: secret_at_def)
    show ?thesis
      using d by (auto simp: deploy_tunnel_def Let_def split: prod.splits option.splits
          dest!: applyDeployment_keeps[OF a(6)] tok)
  qed
  have ten: "secret_bytes (secret_at r ns name v') = Some bs"
    if "ensure_tunnel r gw secret reg v = (y, v')" "secret_bytes (secret_at r ns name v) = Some bs" for secret reg v y v'
    using ensure_tunnel_keeps[OF a(4) that(1)] that(2) by simp
  obtain cfg ok msg where cfg: "resolveTunnelConfig (cl_get_config ?cl w) gw gc = (cfg, ok, msg)"
    by (cases "resolveTunnelConfig (cl_get_config ?cl w) gw gc")
  show ?thesis
    using run by (auto simp: provision_def Let_def cfg split: prod.splits option.splits sum.splits;
        blast intro: st ens ten deploy)
qed

lemma publish_keeps:
  assumes "push_keeps (r_CloudflareClient r) obs" "records_keep (r_CloudflareClient r) obs" "statuses_keep (r_Client r) obs"
    and "publish r gw att l7 ingress t w = (x, w')"
  shows "obs w' = obs w"
proof -
  obtain e w1 where p: "api_UpdateTunnelConfiguration (r_CloudflareClient r) w (Tunnel_ID t) ingress = (e, w1)" by fastforce
  then have w1: "obs w1 = obs w" by (rule push_keepsD[OF assms(1)])
  show ?thesis
  proof (cases e)
    case (Some e')
    then show ?thesis using assms(4) p w1 by (simp add: publish_def)
  next
    case None
    obtain d w2 where d: "reconcileDNS (r_CloudflareClient r) (ManageDNS r) gw (Tunnel_ID t)
        (collectRouteHostnames (at_http att) (at_grpc att) (at_tls att)) w1 = (d, w2)" by fastforce
    obtain s w3 where s: "patch_statuses r gw att l7 (Tunnel_ID t) d w2 = (s, w3)" by fastforce
    have "w' = w3" using assms(4) p None d s by (auto simp: publish_def Let_def split: option.splits)
    then show ?thesis
      using w1 dns_keeps(1)[OF assms(2), of "ManageDNS r" gw "Tunnel_ID t"
          "collectRouteHostnames (at_http att) (at_grpc att) (at_tls att)" w1]
        patch_statuses_keeps[OF assms(3), of gw att l7 "Tunnel_ID t" d w2] by (simp add: d s)
  qed
qed

lemma apply_gateway_keeps_bytes:
  assumes laws: "secret_laws r" and apart: "kept_apart r config"
    and bytes: "secret_bytes (secret_at r ns name w) = Some bs" and run: "apply_gateway r gw gc w = (x, w')"
  shows "secret_bytes (secret_at r ns name w') = Some bs"
proof (cases "UID (gw_meta gw) = ''''")
  case True
  then show ?thesis using bytes run by (simp add: apply_gateway_def)
next
  case False
  obtain y v where p: "provision r gw gc w = (y, v)" by fastforce
  have v: "secret_bytes (secret_at r ns name v) = Some bs" by (rule provision_keeps_bytes[OF laws apart bytes p])
  have pub: "secret_at r ns name w' = secret_at r ns name v" if "publish r gw att l7 ingress t v = (z, w')" for att l7 ingress t z
    by (rule publish_keeps[OF secrets_apart(3,2,1)[OF apart] that])
  show ?thesis
    using run False p v by (auto simp: apply_gateway_def split: sum.splits prod.splits dest!: pub)
qed

lemma finalize_keeps_bytes:
  assumes laws: "secret_laws r" and apart: "kept_apart r config"
    and bytes: "secret_bytes (secret_at r ns name w) = Some bs"
    and other: "(Namespace (gw_meta gw), Name (gw_meta gw)) \<noteq> (ns, name)" and run: "finalize r gw w = (x, w')"
  shows "secret_bytes (secret_at r ns name w') = Some bs"
proof -
  note a = secrets_apart[OF apart, of ns name]
  have clean: "secret_at r ns name v = secret_at r ns name w" if c: "cleanup r gw w = (e, v)" for e v
  proof -
    obtain w1 e1 w2 e2 w3 e3 w4 e4 where s: "cleanup_tunnel r gw w = (e1, w1)"
        "cleanup_object (cl_deployments (r_Client r)) (Namespace (gw_meta gw)) (DeploymentName (Name (gw_meta gw))) (e1, w1) = (e2, w2)"
        "cleanup_object (cl_secrets (r_Client r)) (Namespace (gw_meta gw)) (TunnelSecretName (Name (gw_meta gw))) (e2, w2) = (e3, w3)"
        "teardownDNS (r_CloudflareClient r) (ManageDNS r) gw w3 = (e4, w4)"
      and "e = or_else e3 e4" and kept: "secret_at r ns name v = secret_at r ns name w4"
      by (rule cleanup_steps[OF c a(1)])
    have "(Namespace (gw_meta gw), TunnelSecretName (Name (gw_meta gw))) \<noteq> (ns, TunnelSecretName name)"
      using other by (auto simp: TunnelSecretName_inject)
    from cleanup_object_other[OF secret_lawsD(2,3)[OF laws] this, of "(e2, w2)"]
    show ?thesis
      using kept s cleanup_tunnel_keeps[OF a(4), of gw w] dns_keeps(2)[OF a(2), of "ManageDNS r" gw w3]
        cleanup_object_keeps[OF a(6), of "Namespace (gw_meta gw)" "DeploymentName (Name (gw_meta gw))" "(e1, w1)"]
      by (simp add: secret_at_def)
  qed
  obtain e v where c: "cleanup r gw w = (e, v)" by fastforce
  show ?thesis
    using run bytes c clean[OF c] by (auto simp: finalize_def split: if_splits option.splits prod.splits
        dest!: store_keepsD(2)[OF a(5)])
qed

lemma Reconcile_keeps_bytes:
  assumes laws: "secret_laws r" and apart: "kept_apart r config"
    and alive: "not_deleting r ns name w" and bytes: "secret_bytes (secret_at r ns name w) = Some bs"
  shows "secret_bytes (secret_at r ns name (snd (Reconcile r ns' name' w))) = Some bs"
proof -
  have snd: "snd (Reconcile r ns' name' w) = snd (reconcile r ns' name' w)"
    by (simp add: Reconcile_def split: prod.split option.split)
  have up: "secret_at r ns name v = secret_at r ns name w" if "st_Update (cl_gateways (r_Client r)) w g = (e, v)" for g e v
    by (rule store_keepsD(2)[OF secrets_apart(5)[OF apart] that])
  have app: "secret_bytes (secret_at r ns name (snd (apply_gateway r gw gc v))) = Some bs"
    if "secret_at r ns name v = secret_at r ns name w" for gw gc v
    using apply_gateway_keeps_bytes[OF laws apart, of ns name v bs gw gc] bytes that by (metis prod.collapse)
  have claim: "secret_bytes (secret_at r ns name (snd (claim_and_apply r gw gc w))) = Some bs" for gw gc
    using bytes by (auto simp: claim_and_apply_def app up split: prod.split option.split)
  have final: "secret_bytes (secret_at r ns name (snd (finalize r gw w))) = Some bs"
    if g: "st_Get (cl_gateways (r_Client r)) w ns' name' = Inr gw" and d: "DeletionTimestamp (gw_meta gw) \<noteq> None" for gw
  proof -
    have "(Namespace (gw_meta gw), Name (gw_meta gw)) = (ns', name')"
      using keyed_key[OF secret_lawsD(1)[OF laws] g] by (simp add: gateway_key_def)
    then have "(Namespace (gw_meta gw), Name (gw_meta gw)) \<noteq> (ns, name)"
      using alive g d by (auto simp: not_deleting_def)
    from finalize_keeps_bytes[OF laws apart bytes this prod.collapse[symmetric]] show ?thesis .
  qed
  show ?thesis
    unfolding snd using bytes claim final by (auto simp: reconcile_def split: sum.split)
qed

text \<open>
  C9. A live Gateway keeps its credential. Take any run: reconciliations of any Gateways in any order, each of
  them successful or failing anywhere, between them arbitrary changes of the cluster and
  the account that leave this Gateway's Secret alone. If the Secret held 32 bytes at the start, and the
  Gateway is not being deleted where the controller steps, the Secret holds the same bytes at the end.
\<close>

theorem credential_survives:
  assumes "secret_laws r" and "kept_apart r config"
    and "controller_run r (not_deleting r ns name) (secret_at r ns name) w w'"
    and "secret_bytes (secret_at r ns name w) = Some bs"
  shows "secret_bytes (secret_at r ns name w') = Some bs"
  using run_invariant[where P = "\<lambda>s. secret_bytes s = Some bs", OF assms(3,4)] Reconcile_keeps_bytes[OF assms(1,2)]
  by blast

lemma atomic_memory_store:
  assumes "\<And>x. key (persisted x) = key x" and "\<And>x. persisted (persisted x) = persisted x"
  shows "atomic_store key persisted (memory_store key persisted)"
  using assms by (auto simp: atomic_store_def memory_store_def)

lemma atomic_part_store:
  assumes "atomic_store key persisted st" and "\<And>f s. part (update f s) = f (part s)"
  shows "atomic_store key persisted (part_store part update st)"
  using assms by (auto simp: atomic_store_def part_store_def split_beta)

lemma sample_secret_laws: "secret_laws sample_reconciler"
proof -
  have "atomic_store secret_key persisted_secret secret_store"
    unfolding secret_store_def
    by (intro atomic_part_store atomic_memory_store) (simp_all add: persisted_secret_key persisted_secret_idem)
  then show ?thesis
    using sample_stores by (simp add: secret_laws_def sample_reconciler_def sample_cluster_def)
qed

definition kept_world :: world where
  "kept_world = sample_world\<lparr>wd_secrets := [(''infra'', ''cloudflared-edge-tunnel-secret'') \<mapsto> new_secret]\<rparr>"

text \<open>A run of two steps: the Gateway is reconciled, then somebody removes all Deployments.\<close>

theorem credential_survives_witness:
  "secret_bytes (secret_at sample_reconciler ''infra'' ''edge''
     ((snd (Reconcile sample_reconciler ''infra'' ''edge'' kept_world))\<lparr>wd_deployments := Map.empty\<rparr>)) = Some (replicate 32 7)"
proof -
  let ?obs = "secret_at sample_reconciler ''infra'' ''edge''" and ?ok = "not_deleting sample_reconciler ''infra'' ''edge''"
  have bytes: "secret_bytes (?obs kept_world) = Some (replicate 32 7)" by code_simp
  have "not_deleting sample_reconciler ''infra'' ''edge'' kept_world" by code_simp
  then have "controller_run sample_reconciler ?ok ?obs kept_world
      (snd (Reconcile sample_reconciler ''infra'' ''edge'' kept_world))"
    by (intro controller_run.reconciled controller_run.start)
  then have "controller_run sample_reconciler ?ok ?obs kept_world
      ((snd (Reconcile sample_reconciler ''infra'' ''edge'' kept_world))\<lparr>wd_deployments := Map.empty\<rparr>)"
    by (rule controller_run.elsewhere) (simp add: secret_at_def sample_world_defs)
  from credential_survives[OF sample_secret_laws sample_apart this bytes] show ?thesis .
qed

section \<open>A settled tunnel is left alone\<close>

text \<open>Everything but the creation and deletion of tunnels leaves the account alone, and the account decides lookups.\<close>

definition account_apart :: "'w GatewayReconciler \<Rightarrow> ('w \<Rightarrow> 'x) \<Rightarrow> bool" where
  "account_apart r account \<longleftrightarrow>
     store_keeps (cl_gateways (r_Client r)) account \<and> store_keeps (cl_secrets (r_Client r)) account \<and>
     store_keeps (cl_deployments (r_Client r)) account \<and> statuses_keep (r_Client r) account \<and>
     records_keep (r_CloudflareClient r) account \<and> push_keeps (r_CloudflareClient r) account \<and>
     (\<forall>v n. account (snd (cl_rand (r_Client r) v n)) = account v) \<and>
     (\<forall>v w. account v = account w \<longrightarrow> api_GetTunnelByName (r_CloudflareClient r) v = api_GetTunnelByName (r_CloudflareClient r) w)"

lemma account_apartD:
  assumes "account_apart r account"
  shows "store_keeps (cl_gateways (r_Client r)) account" "store_keeps (cl_secrets (r_Client r)) account"
    "store_keeps (cl_deployments (r_Client r)) account" "statuses_keep (r_Client r) account"
    "records_keep (r_CloudflareClient r) account" "push_keeps (r_CloudflareClient r) account"
    "account v = account w \<Longrightarrow> api_GetTunnelByName (r_CloudflareClient r) v = api_GetTunnelByName (r_CloudflareClient r) w"
  using assms unfolding account_apart_def by blast+

lemma provision_settled:
  assumes apart: "kept_apart r config" and acc: "account_apart r account"
    and bytes: "secret_bytes (secret_at r (Namespace (gw_meta gw)) (Name (gw_meta gw)) w) = Some bs"
    and found: "api_GetTunnelByName (r_CloudflareClient r) w (Name (gw_meta gw)) = Inr t"
    and run: "provision r gw gc w = (x, w')"
  shows "account w' = account w"
proof -
  let ?cl = "r_Client r"
  have ten: "ensure_tunnel r gw bs False v = (Inr t, v)" if "account v = account w" for v
    using account_apartD(7)[OF acc that] found by (simp add: ensure_tunnel_def)
  have st: "account v = account w \<and> EnsureTunnelSecret (cl_secrets ?cl) (cl_rand ?cl) gw v = (Inr (bs, False), v) \<and>
      ensure_tunnel r gw bs False v = (Inr t, v)" if s: "write_status (cl_status_class ?cl) patch w = (y, v)" for patch y v
  proof -
    have v: "account v = account w" "holds_secret (cl_secrets ?cl) v gw bs"
      using snd_write_status[of "cl_status_class ?cl" patch w] s bytes
        statuses_keepD(1)[OF secrets_apart(1)[OF apart, of "Namespace (gw_meta gw)" "Name (gw_meta gw)"]]
      by (simp_all add: statuses_keepD(1)[OF account_apartD(4)[OF acc]] secret_bytes_Some secret_at_def)
    then show ?thesis using ten holds_secret_stable[OF v(2)] by simp
  qed
  obtain cfg ok msg where cfg: "resolveTunnelConfig (cl_get_config ?cl w) gw gc = (cfg, ok, msg)"
    by (cases "resolveTunnelConfig (cl_get_config ?cl w) gw gc")
  show ?thesis
    using run by (auto simp: provision_def Let_def cfg split: prod.splits option.splits sum.splits
        dest!: st deploy_tunnel_keeps[OF account_apartD(2,3)[OF acc]])
qed

lemma apply_gateway_settled:
  assumes apart: "kept_apart r config" and acc: "account_apart r account"
    and bytes: "secret_bytes (secret_at r (Namespace (gw_meta gw)) (Name (gw_meta gw)) w) = Some bs"
    and found: "api_GetTunnelByName (r_CloudflareClient r) w (Name (gw_meta gw)) = Inr t"
  shows "account (snd (apply_gateway r gw gc w)) = account w"
proof -
  obtain y v where p: "provision r gw gc w = (y, v)" by fastforce
  have v: "account v = account w" by (rule provision_settled[OF apart acc bytes found p])
  have pub: "account (snd (publish r gw att l7 ingress t v)) = account v" for att l7 ingress t
    by (rule publish_keeps[OF account_apartD(6,5,4)[OF acc] prod.collapse[symmetric]])
  show ?thesis using p v pub by (auto simp: apply_gateway_def split: sum.split)
qed

text \<open>
  C14. A settled tunnel is left alone. If the Secret of a Gateway that is not being deleted holds 32 bytes and
  a tunnel of its name exists, its Reconcile, whatever it returns and wherever it fails, creates and
  deletes no tunnel: the account, which nothing else changes, is the same afterwards.
\<close>

theorem settled_tunnel_untouched:
  assumes "secret_laws r" and "kept_apart r config" and "account_apart r account" and "not_deleting r ns name w"
    and "secret_bytes (secret_at r ns name w) = Some bs"
    and "api_GetTunnelByName (r_CloudflareClient r) w name = Inr t"
  shows "account (snd (Reconcile r ns name w)) = account w"
proof -
  have snd: "snd (Reconcile r ns name w) = snd (reconcile r ns name w)"
    by (simp add: Reconcile_def split: prod.split option.split)
  have claim: "account (snd (claim_and_apply r gw gc w)) = account w"
    if g: "st_Get (cl_gateways (r_Client r)) w ns name = Inr gw" for gw gc
  proof -
    have key: "Namespace (gw_meta gw) = ns" "Name (gw_meta gw) = name"
      using keyed_key[OF secret_lawsD(1)[OF assms(1)] g] by (simp_all add: gateway_key_def)
    have up: "account v = account w \<and> secret_at r ns name v = secret_at r ns name w"
      if "st_Update (cl_gateways (r_Client r)) w h = (e, v)" for h e v
      using store_keepsD(2)[OF account_apartD(1)[OF assms(3)] that] store_keepsD(2)[OF secrets_apart(5)[OF assms(2)] that]
      by blast
    have app: "account (snd (apply_gateway r h gc v)) = account v"
      if "account v = account w \<and> secret_at r ns name v = secret_at r ns name w"
        "Namespace (gw_meta h) = ns" "Name (gw_meta h) = name" for h v
      using apply_gateway_settled[OF assms(2,3), of h v bs t gc] that assms(5,6) account_apartD(7)[OF assms(3), of v w] by simp
    show ?thesis
      using app[of w gw] app[of _ "AddFinalizer gw"] up key
      by (auto simp: claim_and_apply_def split: prod.split option.split)
  qed
  show ?thesis
    unfolding snd using claim assms(4) by (auto simp: reconcile_def not_deleting_def split: sum.split)
qed

section \<open>Records of other people\<close>

lemma provision_keeps_dns:
  assumes "dns_apart r dns" and "provision r gw gc w = (x, w')"
  shows "dns w' = dns w"
  using provision_keeps[OF dns_apartD(2,3)[OF assms(1)] class_keepsI[OF dns_apartD(4)[OF assms(1)]] dns_apartD(5)[OF assms(1)] _ assms(2)] dns_apartD(7)[OF assms(1)] by metis

text \<open>A record that does not carry the mark of this controller at all, over an SDK that behaves as documented.\<close>

definition unmarked :: "DNSRecord \<Rightarrow> bool" where
  "unmarked rec \<longleftrightarrow> \<not> HasPrefix (rec_Comment rec) ownerCommentPrefix"

lemma unmarked_foreign: "unmarked rec \<Longrightarrow> rec_Comment rec \<noteq> ownerComment gw"
  by (auto simp: unmarked_def ownerComment_def HasPrefix_iff)

lemma publish_keeps_record:
  assumes sdk: "r_CloudflareClient r = client sdk acc" "documented_dns sdk held" and apart: "dns_apart r held"
    and rec: "rec \<in> held w z" "unmarked rec" and run: "publish r gw att l7 ingress t w = (x, w')"
  shows "rec \<in> held w' z"
proof -
  obtain e w1 where p: "api_UpdateTunnelConfiguration (r_CloudflareClient r) w (Tunnel_ID t) ingress = (e, w1)" by fastforce
  then have w1: "held w1 = held w" by (rule push_keepsD[OF dns_apartD(6)[OF apart]])
  show ?thesis
  proof (cases e)
    case (Some e')
    then show ?thesis using run p w1 rec by (simp add: publish_def)
  next
    case None
    obtain d w2 where d: "reconcileDNS (r_CloudflareClient r) (ManageDNS r) gw (Tunnel_ID t)
        (collectRouteHostnames (at_http att) (at_grpc att) (at_tls att)) w1 = (d, w2)" by fastforce
    obtain s w3 where s: "patch_statuses r gw att l7 (Tunnel_ID t) d w2 = (s, w3)" by fastforce
    have w': "w' = w3" using run p None d s by (auto simp: publish_def Let_def split: option.splits)
    have "rec \<in> held w1 z" using w1 rec(1) by simp
    from dns_keeps_foreign_records[OF sdk(2) this unmarked_foreign[OF rec(2)], THEN conjunct1, of acc "ManageDNS r" gw
        "Tunnel_ID t" "collectRouteHostnames (at_http att) (at_grpc att) (at_tls att)"]
    have "rec \<in> held w2 z" using d by (simp add: sdk(1))
    then show ?thesis
      using patch_statuses_keeps[OF dns_apartD(4)[OF apart], of gw att l7 "Tunnel_ID t" d w2] s w' by simp
  qed
qed

lemma apply_gateway_keeps_record:
  assumes sdk: "r_CloudflareClient r = client sdk acc" "documented_dns sdk held" and apart: "dns_apart r held"
    and rec: "rec \<in> held w z" "unmarked rec"
  shows "rec \<in> held (snd (apply_gateway r gw gc w)) z"
proof (cases "UID (gw_meta gw) = ''''")
  case True
  then show ?thesis using rec by (simp add: apply_gateway_def)
next
  case False
  obtain y v where p: "provision r gw gc w = (y, v)" by fastforce
  have v: "rec \<in> held v z" using provision_keeps_dns[OF apart p] rec by simp
  have pub: "rec \<in> held (snd (publish r gw att l7 ingress t v)) z" for att l7 ingress t
    by (rule publish_keeps_record[OF sdk apart v rec(2) prod.collapse[symmetric]])
  show ?thesis using False p v pub by (auto simp: apply_gateway_def split: sum.split)
qed

lemma cleanup_keeps_record:
  assumes sdk: "r_CloudflareClient r = client sdk acc" "documented_dns sdk held" and apart: "dns_apart r held"
    and rec: "rec \<in> held w z" "unmarked rec"
  shows "rec \<in> held (snd (cleanup r gw w)) z"
proof -
  let ?cl = "r_Client r" and ?ns = "Namespace (gw_meta gw)" and ?n = "Name (gw_meta gw)"
  let ?s = "cleanup_object (cl_secrets ?cl) ?ns (TunnelSecretName ?n)
    (cleanup_object (cl_deployments ?cl) ?ns (DeploymentName ?n) (cleanup_tunnel r gw w))"
  have "held (snd ?s) = held w"
    using cleanup_object_keeps[of _ held] cleanup_tunnel_keeps[of r held] dns_apartD(2,3,5)[OF apart] by metis
  then have "rec \<in> held (snd ?s) z" using rec(1) by simp
  from dns_keeps_foreign_records[OF sdk(2) this unmarked_foreign[OF rec(2)], THEN conjunct2, of acc "ManageDNS r" gw]
  have "rec \<in> held (snd (teardownDNS (r_CloudflareClient r) (ManageDNS r) gw (snd ?s))) z" by (simp add: sdk(1))
  then show ?thesis
    using statuses_keepD(9)[OF dns_apartD(4)[OF apart]] prunePolicyAncestorStatus_keeps[OF dns_apartD(4)[OF apart]]
    by (simp add: cleanup_def Let_def split_beta pruneXBackendAncestorStatus_keeps[of held])
qed

lemma Reconcile_keeps_record:
  assumes sdk: "r_CloudflareClient r = client sdk acc" "documented_dns sdk held" and apart: "dns_apart r held"
    and rec: "rec \<in> held w z" "unmarked rec"
  shows "rec \<in> held (snd (Reconcile r ns name w)) z"
proof -
  have snd: "snd (Reconcile r ns name w) = snd (reconcile r ns name w)"
    by (simp add: Reconcile_def split: prod.split option.split)
  note keeps = apply_gateway_keeps_record[OF sdk apart _ rec(2)] cleanup_keeps_record[OF sdk apart rec]
  have up: "held v' = held v" if "st_Update (cl_gateways (r_Client r)) v g = (e, v')" for v g e v'
    by (rule store_keepsD(2)[OF dns_apartD(1)[OF apart] that])
  have claim: "rec \<in> held (snd (claim_and_apply r gw gc w)) z" for gw gc
    using rec(1) by (auto simp: claim_and_apply_def up keeps(1) split: prod.split option.split)
  have final: "rec \<in> held (snd (finalize r gw w)) z" for gw
    using rec(1) keeps(2)[of gw] by (auto simp: finalize_def up split: prod.split option.split)
  show ?thesis unfolding snd using rec(1) claim final by (auto simp: reconcile_def split: sum.split)
qed

text \<open>
  C8. Records of other people survive. Take any run of the controller over an SDK that behaves as documented:
  reconciliations of any Gateways, live or being deleted, successful or failing anywhere, between
  arbitrary changes by others that leave one record alone. If the comment of that record does not begin
  with the mark of this controller, the record is in its zone, unchanged, at the end.
\<close>

theorem unmarked_record_survives:
  assumes "r_CloudflareClient r = client sdk acc" and "documented_dns sdk held" and "dns_apart r held"
    and "controller_run r (\<lambda>_. True) (\<lambda>w. rec \<in> held w z) w w'" and "unmarked rec" and "rec \<in> held w z"
  shows "rec \<in> held w' z"
proof -
  have "rec \<in> held (snd (Reconcile r ns name v)) z" if "rec \<in> held v z" for ns name v
    by (rule Reconcile_keeps_record[OF assms(1-3) that assms(5)])
  then show ?thesis by (rule run_invariant[where P = "\<lambda>b. b", OF assms(4,6)])
qed

text \<open>A cluster in which the sample Gateway is being deleted, over the in-memory record service.\<close>

definition fixed_store :: "(string \<Rightarrow> string \<Rightarrow> 'o result) \<Rightarrow> ('w, 'o) Store" where
  "fixed_store get = \<lparr>st_Get = (\<lambda>_. get), st_Create = (\<lambda>w _. (None, w)), st_Update = (\<lambda>w _. (None, w)),
     st_Delete = (\<lambda>w _. (None, w))\<rparr>"

definition cloud_reconciler :: "cloud GatewayReconciler" where
  "cloud_reconciler =
     \<lparr>r_Client =
       \<lparr>cl_gateways = fixed_store (\<lambda>_ _. Inr deleted_gateway), cl_secrets = fixed_store (\<lambda>_ _. Inl NotFound),
        cl_deployments = fixed_store (\<lambda>_ _. Inl NotFound),
        cl_get_class = (\<lambda>_ _. Inr sample_class), cl_get_config = (\<lambda>_ _ _. Inl NotFound),
        cl_get_namespace = (\<lambda>_ _. Inl NotFound), cl_kube = (\<lambda>_. sample_kube),
        cl_list_http = (\<lambda>_. Inr []), cl_list_grpc = (\<lambda>_. Inr []), cl_list_tls = (\<lambda>_. Inr []), cl_list_tcp = (\<lambda>_. Inr []),
        cl_list_access = (\<lambda>_ _. Inr []), cl_list_origin = (\<lambda>_ _. Inr []),
        cl_list_tls_policies = (\<lambda>_. no_tls_policies), cl_list_xbackends = (\<lambda>_. Inr []),
        cl_status_class = (\<lambda>w _. (None, w)), cl_status_gateway = (\<lambda>w _. (None, w)),
        cl_status_http = (\<lambda>w _. (None, w)), cl_status_grpc = (\<lambda>w _. (None, w)),
        cl_status_tls = (\<lambda>w _. (None, w)), cl_status_tcp = (\<lambda>w _. (None, w)),
        cl_status_access = (\<lambda>w _. (None, w)), cl_status_origin = (\<lambda>w _. (None, w)),
        cl_status_xbackend = (\<lambda>w _. (None, w)), cl_rand = (\<lambda>w n. (Inr (replicate n 7), w)), cl_now = (\<lambda>_. 5)\<rparr>,
      r_CloudflareClient = client sample_sdk ''acc'', r_ControllerName = ''cf'',
      ExperimentalBackends = False, ManageDNS = True\<rparr>"

lemma cloud_apart: "dns_apart cloud_reconciler sample_held"
  by (simp add: dns_apart_def store_keeps_def statuses_keep_def tunnels_keep_def push_keeps_def cloud_reconciler_def
      fixed_store_def client_def CreateTunnel_def DeleteTunnel_def UpdateTunnelConfiguration_def sample_sdk_def
      split: sum.split option.split)

theorem unmarked_record_survives_witness:
  "cname ''1'' ''a.example.com'' ''elsewhere'' ''human'' \<in> sample_held
     (snd (Reconcile cloud_reconciler ''infra'' ''edge'' (snd (Reconcile cloud_reconciler ''infra'' ''edge'' sample_cloud)))) ''z1''"
proof -
  let ?rec = "cname ''1'' ''a.example.com'' ''elsewhere'' ''human''"
  have run: "controller_run cloud_reconciler (\<lambda>_. True) (\<lambda>w. ?rec \<in> sample_held w ''z1'') sample_cloud
      (snd (Reconcile cloud_reconciler ''infra'' ''edge'' (snd (Reconcile cloud_reconciler ''infra'' ''edge'' sample_cloud))))"
    by (intro controller_run.reconciled controller_run.start TrueI)
  have "r_CloudflareClient cloud_reconciler = client sample_sdk ''acc''" by (simp add: cloud_reconciler_def)
  moreover have "unmarked ?rec" by code_simp
  moreover have "?rec \<in> sample_held sample_cloud ''z1''" by (simp add: sample_held_def sample_cloud_def cname_def)
  ultimately show ?thesis by (rule unmarked_record_survives[OF _ sample_documented cloud_apart run])
qed

text \<open>The sample Gateway with its Secret and its tunnel in place.\<close>

definition settled_world :: world where
  "settled_world = kept_world\<lparr>wd_tunnels := [(\<lparr>Tunnel_ID = ''t1'', Tunnel_Name = ''edge''\<rparr>, replicate 32 7)]\<rparr>"

lemma sample_account_apart: "account_apart sample_reconciler wd_tunnels"
  by (simp add: account_apart_def store_keeps_def statuses_keep_def records_keep_def push_keeps_def sample_world_defs split_beta)

theorem settled_tunnel_untouched_witness:
  "wd_tunnels (snd (Reconcile sample_reconciler ''infra'' ''edge'' settled_world)) =
     [(\<lparr>Tunnel_ID = ''t1'', Tunnel_Name = ''edge''\<rparr>, replicate 32 7)]"
proof -
  have "not_deleting sample_reconciler ''infra'' ''edge'' settled_world" by code_simp
  moreover have "secret_bytes (secret_at sample_reconciler ''infra'' ''edge'' settled_world) = Some (replicate 32 7)" by code_simp
  moreover have "api_GetTunnelByName (r_CloudflareClient sample_reconciler) settled_world ''edge'' =
      Inr \<lparr>Tunnel_ID = ''t1'', Tunnel_Name = ''edge''\<rparr>"
    by (simp add: settled_world_def sample_reconciler_def sample_cloudflare_def)
  ultimately show ?thesis
    using settled_tunnel_untouched[OF sample_secret_laws sample_apart sample_account_apart] by (simp add: settled_world_def)
qed

end
