(* ===== verification/Failures.thy ===== *)
theory Failures
  imports Lifecycle
begin

text \<open>
  What becomes of a failure. Every call that changes something may fail in any world; the failures are seen by an
  observer who notes, in the world itself, which kinds of call have failed so far. The results say that a
  reconciliation during which a call failed returns an error, with exactly two exceptions, that a read which
  keeps failing makes it return an error, and when an error of the steps is not handed to the controller.
\<close>

section \<open>Noting failures\<close>

datatype call = GatewayUpdate | SecretWrite | DeploymentWrite | RandomRead | TunnelCreate | TunnelDelete | RulesPush
  | RecordChange | ClassStatus | GatewayStatus | RouteStatus | PolicyStatus | XBackendStatus

text \<open>A call of a kind, run in a world with the given outcome, is noted exactly when the outcome is bad.\<close>

definition noted :: "('w \<Rightarrow> call set) \<Rightarrow> call \<Rightarrow> ('x \<Rightarrow> bool) \<Rightarrow> 'w \<Rightarrow> 'x \<times> 'w \<Rightarrow> bool" where
  "noted failed K bad w outcome \<longleftrightarrow> failed (snd outcome) = (if bad (fst outcome) then insert K (failed w) else failed w)"

definition is_error :: "goerror option \<Rightarrow> bool" where
  "is_error e \<longleftrightarrow> e \<noteq> None"

definition is_delete_error :: "goerror option \<Rightarrow> bool" where
  "is_delete_error e \<longleftrightarrow> (case e of None \<Rightarrow> False | Some f \<Rightarrow> \<not> apierrors_IsNotFound f)"

definition is_failure :: "'a result \<Rightarrow> bool" where
  "is_failure x \<longleftrightarrow> (case x of Inl e \<Rightarrow> True | Inr y \<Rightarrow> False)"

definition store_noted :: "('w \<Rightarrow> call set) \<Rightarrow> call \<Rightarrow> ('w, 'o) Store \<Rightarrow> bool" where
  "store_noted failed K st \<longleftrightarrow>
     (\<forall>w x. noted failed K is_error w (st_Create st w x) \<and> noted failed K is_error w (st_Update st w x) \<and>
        noted failed K is_delete_error w (st_Delete st w x))"

definition writes_noted :: "('w \<Rightarrow> call set) \<Rightarrow> call \<Rightarrow> ('w \<Rightarrow> 'o \<Rightarrow> goerror option \<times> 'w) \<Rightarrow> bool" where
  "writes_noted failed K write \<longleftrightarrow> (\<forall>w x. noted failed K is_error w (write w x))"

definition statuses_noted :: "('w \<Rightarrow> call set) \<Rightarrow> 'w Cluster \<Rightarrow> bool" where
  "statuses_noted failed cl \<longleftrightarrow>
     writes_noted failed ClassStatus (cl_status_class cl) \<and> writes_noted failed GatewayStatus (cl_status_gateway cl) \<and>
     writes_noted failed RouteStatus (cl_status_http cl) \<and> writes_noted failed RouteStatus (cl_status_grpc cl) \<and>
     writes_noted failed RouteStatus (cl_status_tls cl) \<and> writes_noted failed RouteStatus (cl_status_tcp cl) \<and>
     writes_noted failed PolicyStatus (cl_status_access cl) \<and> writes_noted failed PolicyStatus (cl_status_origin cl) \<and>
     writes_noted failed XBackendStatus (cl_status_xbackend cl)"

definition account_noted :: "('w \<Rightarrow> call set) \<Rightarrow> 'w APIClient \<Rightarrow> bool" where
  "account_noted failed api \<longleftrightarrow>
     (\<forall>w name secret. noted failed TunnelCreate is_failure w (api_CreateTunnel api w name secret)) \<and>
     (\<forall>w i. noted failed TunnelDelete is_error w (api_DeleteTunnel api w i)) \<and>
     (\<forall>w i rules. noted failed RulesPush is_error w (api_UpdateTunnelConfiguration api w i rules)) \<and>
     (\<forall>w z c. noted failed RecordChange is_error w (api_ApplyDNSChanges api w z c))"

definition notes_failures :: "'w GatewayReconciler \<Rightarrow> ('w \<Rightarrow> call set) \<Rightarrow> bool" where
  "notes_failures r failed \<longleftrightarrow>
     store_noted failed GatewayUpdate (cl_gateways (r_Client r)) \<and> store_noted failed SecretWrite (cl_secrets (r_Client r)) \<and>
     store_noted failed DeploymentWrite (cl_deployments (r_Client r)) \<and> statuses_noted failed (r_Client r) \<and>
     (\<forall>w n. noted failed RandomRead is_failure w (cl_rand (r_Client r) w n)) \<and> account_noted failed (r_CloudflareClient r)"

text \<open>
  Any system can be observed so: beside its world the kinds of failed calls are kept.
\<close>

definition mark :: "call \<Rightarrow> ('x \<Rightarrow> bool) \<Rightarrow> call set \<Rightarrow> 'x \<times> 'w \<Rightarrow> 'x \<times> 'w \<times> call set" where
  "mark K bad F outcome = (let (x, w) = outcome in (x, w, if bad x then insert K F else F))"

definition mark_store :: "call \<Rightarrow> ('w, 'o) Store \<Rightarrow> ('w \<times> call set, 'o) Store" where
  "mark_store K st =
     \<lparr>st_Get = (\<lambda>(w, F). st_Get st w), st_Create = (\<lambda>(w, F) x. mark K is_error F (st_Create st w x)),
      st_Update = (\<lambda>(w, F) x. mark K is_error F (st_Update st w x)),
      st_Delete = (\<lambda>(w, F) x. mark K is_delete_error F (st_Delete st w x))\<rparr>"

definition mark_write :: "call \<Rightarrow> ('w \<Rightarrow> 'o \<Rightarrow> goerror option \<times> 'w) \<Rightarrow> 'w \<times> call set \<Rightarrow> 'o \<Rightarrow> goerror option \<times> 'w \<times> call set" where
  "mark_write K write = (\<lambda>(w, F) x. mark K is_error F (write w x))"

definition observed :: "'w GatewayReconciler \<Rightarrow> ('w \<times> call set) GatewayReconciler" where
  "observed r =
     (let cl = r_Client r; api = r_CloudflareClient r in
      \<lparr>r_Client =
         \<lparr>cl_gateways = mark_store GatewayUpdate (cl_gateways cl), cl_secrets = mark_store SecretWrite (cl_secrets cl),
          cl_deployments = mark_store DeploymentWrite (cl_deployments cl),
          cl_get_class = (\<lambda>(w, F). cl_get_class cl w), cl_get_config = (\<lambda>(w, F). cl_get_config cl w),
          cl_get_namespace = (\<lambda>(w, F). cl_get_namespace cl w), cl_kube = (\<lambda>(w, F). cl_kube cl w),
          cl_list_http = (\<lambda>(w, F). cl_list_http cl w), cl_list_grpc = (\<lambda>(w, F). cl_list_grpc cl w),
          cl_list_tls = (\<lambda>(w, F). cl_list_tls cl w), cl_list_tcp = (\<lambda>(w, F). cl_list_tcp cl w),
          cl_list_access = (\<lambda>(w, F). cl_list_access cl w), cl_list_origin = (\<lambda>(w, F). cl_list_origin cl w),
          cl_list_tls_policies = (\<lambda>(w, F). cl_list_tls_policies cl w), cl_list_xbackends = (\<lambda>(w, F). cl_list_xbackends cl w),
          cl_status_class = mark_write ClassStatus (cl_status_class cl),
          cl_status_gateway = mark_write GatewayStatus (cl_status_gateway cl),
          cl_status_http = mark_write RouteStatus (cl_status_http cl), cl_status_grpc = mark_write RouteStatus (cl_status_grpc cl),
          cl_status_tls = mark_write RouteStatus (cl_status_tls cl), cl_status_tcp = mark_write RouteStatus (cl_status_tcp cl),
          cl_status_access = mark_write PolicyStatus (cl_status_access cl),
          cl_status_origin = mark_write PolicyStatus (cl_status_origin cl),
          cl_status_xbackend = mark_write XBackendStatus (cl_status_xbackend cl),
          cl_rand = (\<lambda>(w, F) n. mark RandomRead is_failure F (cl_rand cl w n)), cl_now = (\<lambda>(w, F). cl_now cl w)\<rparr>,
       r_CloudflareClient =
         \<lparr>api_CreateTunnel = (\<lambda>(w, F) name secret. mark TunnelCreate is_failure F (api_CreateTunnel api w name secret)),
          api_GetTunnelByName = (\<lambda>(w, F). api_GetTunnelByName api w),
          api_DeleteTunnel = (\<lambda>(w, F) i. mark TunnelDelete is_error F (api_DeleteTunnel api w i)),
          api_UpdateTunnelConfiguration = (\<lambda>(w, F) i rules. mark RulesPush is_error F (api_UpdateTunnelConfiguration api w i rules)),
          api_AccountID = api_AccountID api,
          api_ListZones = (\<lambda>(w, F). api_ListZones api w), api_ListDNSRecords = (\<lambda>(w, F). api_ListDNSRecords api w),
          api_ApplyDNSChanges = (\<lambda>(w, F) z c. mark RecordChange is_error F (api_ApplyDNSChanges api w z c))\<rparr>,
       r_ControllerName = r_ControllerName r, ExperimentalBackends = ExperimentalBackends r, ManageDNS = ManageDNS r\<rparr>)"

lemma observed_notes: "notes_failures (observed r) snd"
  by (simp add: notes_failures_def store_noted_def statuses_noted_def writes_noted_def account_noted_def noted_def observed_def
      mark_store_def mark_write_def mark_def Let_def split_beta)

section \<open>A success notes nothing\<close>

lemma store_notedD:
  assumes "store_noted failed K st"
  shows "st_Create st w x = (None, w') \<Longrightarrow> failed w' = failed w" "st_Update st w x = (None, w') \<Longrightarrow> failed w' = failed w"
    "st_Delete st w x = (e, w') \<Longrightarrow> \<not> is_delete_error e \<Longrightarrow> failed w' = failed w"
  using assms unfolding store_noted_def noted_def is_error_def by (metis fst_conv snd_conv)+

lemma writes_notedD: "writes_noted failed K write \<Longrightarrow> write w x = (None, w') \<Longrightarrow> failed w' = failed w"
  unfolding writes_noted_def noted_def is_error_def by (metis fst_conv snd_conv)

lemma writes_noted_only: "writes_noted failed K write \<Longrightarrow> failed (snd (write w x)) \<subseteq> insert K (failed w)"
  unfolding writes_noted_def noted_def by auto

lemma notes_failuresD:
  assumes "notes_failures r failed"
  shows "store_noted failed GatewayUpdate (cl_gateways (r_Client r))" "store_noted failed SecretWrite (cl_secrets (r_Client r))"
    "store_noted failed DeploymentWrite (cl_deployments (r_Client r))" "statuses_noted failed (r_Client r)"
    "account_noted failed (r_CloudflareClient r)"
    "cl_rand (r_Client r) w n = (Inr bs, w') \<Longrightarrow> failed w' = failed w"
  using assms unfolding notes_failures_def noted_def is_failure_def by (blast, blast, blast, blast, blast, metis fst_conv snd_conv sum.case(2))

lemma account_notedD:
  assumes "account_noted failed api"
  shows "api_CreateTunnel api w name secret = (Inr t, w') \<Longrightarrow> failed w' = failed w"
    "api_DeleteTunnel api w i = (None, w') \<Longrightarrow> failed w' = failed w"
    "api_UpdateTunnelConfiguration api w i rules = (None, w') \<Longrightarrow> failed w' = failed w"
    "api_ApplyDNSChanges api w z c = (None, w') \<Longrightarrow> failed w' = failed w"
  using assms unfolding account_noted_def noted_def is_error_def is_failure_def
  by (metis fst_conv snd_conv sum.case(2), (metis fst_conv snd_conv)+)

text \<open>A patch passes the outcome of its write on.\<close>

definition faithful :: "(('o \<Rightarrow> goerror option) \<Rightarrow> goerror option \<times> 'o) \<Rightarrow> bool" where
  "faithful patch \<longleftrightarrow> (\<forall>u. fst (patch u) = u (snd (patch u)))"

lemma faithful_patches [simp]:
  "faithful (\<lambda>u. PatchGatewayClassStatus u now gc ok reason msg)"
  "faithful (\<lambda>u. PatchGatewayStatus u now gw tid counts dnsErr)"
  "faithful (\<lambda>u. PatchHTTPRouteStatus u now h n ns a b c d refs)"
  "faithful (\<lambda>u. PatchGRPCRouteStatus u now g n ns a b c d refs)"
  "faithful (\<lambda>u. PatchTLSRouteStatus u now t n ns a b c refs)"
  "faithful (\<lambda>u. PatchTCPRouteStatus u now p n ns a b c refs)"
  by (simp_all add: faithful_def PatchGatewayClassStatus_def PatchGatewayStatus_def PatchHTTPRouteStatus_def
      PatchGRPCRouteStatus_def PatchTLSRouteStatus_def PatchTCPRouteStatus_def patch_route_status_def Let_def)

lemma write_status_quiet:
  assumes "writes_noted failed K update" and "faithful patch" and "write_status update patch w = (None, w')"
  shows "failed w' = failed w"
proof -
  obtain err x where p: "patch (\<lambda>x. fst (update w x)) = (err, x)" by fastforce
  have "fst (update w x) = None" "w' = snd (update w x)"
    using assms(2,3) p unfolding faithful_def by (auto simp: write_status_def dest!: spec[of _ "\<lambda>x. fst (update w x)"])
  then show ?thesis using writes_notedD[OF assms(1), of w x w'] by (cases "update w x") auto
qed

lemma or_else_None: "or_else e f = None \<longleftrightarrow> e = None \<and> f = None"
  by (cases e) simp_all

text \<open>A loop that keeps the first error.\<close>

lemma fold_quiet:
  assumes "\<And>x st w'. f x st = (None, w') \<Longrightarrow> fst st = None \<and> failed w' = failed (snd st)"
    and "fold f xs st = (None, w')"
  shows "fst st = None \<and> failed w' = failed (snd st)"
  using assms(2)
proof (induction xs arbitrary: st)
  case (Cons x xs)
  then have "fst (f x st) = None \<and> failed w' = failed (snd (f x st))" by simp
  moreover from this have "f x st = (None, snd (f x st))" by (simp add: prod_eq_iff)
  ultimately show ?case using assms(1)[of x st "snd (f x st)"] by simp
qed simp

lemma patch_routes_quiet:
  assumes "writes_noted failed K update" and "\<And>w route. faithful (\<lambda>u. patch u w route)"
    and "patch_routes update patch routes st = (None, w')"
  shows "fst st = None \<and> failed w' = failed (snd st)"
proof (rule fold_quiet[OF _ assms(3)[unfolded patch_routes_def]])
  fix route st v
  assume run: "(let (statusErr, w) = st; (err, w') = write_status update (\<lambda>u. patch u w route) w in (or_else statusErr err, w')) = (None, v)"
  obtain e w where st: "st = (e, w)" by (cases st)
  obtain err w1 where w1: "write_status update (\<lambda>u. patch u w route) w = (err, w1)" by fastforce
  then have "e = None" "err = None" "v = w1" using run st by (simp_all add: or_else_None)
  then show "fst st = None \<and> failed v = failed (snd st)"
    using write_status_quiet[OF assms(1) assms(2) w1[unfolded \<open>err = None\<close>]] st by simp
qed

lemma write_policies_only:
  assumes "writes_noted failed PolicyStatus update"
  shows "failed (write_policies update ps w) \<subseteq> insert PolicyStatus (failed w)"
proof -
  have "failed (fold (\<lambda>(p, changed) w. if changed then snd (update w p) else w) ps w) \<subseteq> insert PolicyStatus F"
    if "failed w \<subseteq> insert PolicyStatus F" for F
    using that
  proof (induction ps arbitrary: w)
    case (Cons pc ps)
    obtain p changed where pc: "pc = (p, changed)" by (cases pc)
    have "failed (if changed then snd (update w p) else w) \<subseteq> insert PolicyStatus F"
      using Cons.prems writes_noted_only[OF assms, of w p] by auto
    then show ?case using Cons.IH pc by simp
  qed simp
  then show ?thesis unfolding write_policies_def by blast
qed

lemma EnsureTunnelSecret_quiet:
  assumes "notes_failures r failed"
    and "EnsureTunnelSecret (cl_secrets (r_Client r)) (cl_rand (r_Client r)) gw w = (Inr x, w')"
  shows "failed w' = failed w"
  using assms(2) by (auto simp: EnsureTunnelSecret_def create_secret_def regenerate_secret_def generateTunnelSecret_def
      split: sum.splits prod.splits option.splits if_splits
      dest!: store_notedD[OF notes_failuresD(2)[OF assms(1)]] notes_failuresD(6)[OF assms(1)])

lemma ensure_tunnel_quiet:
  assumes "notes_failures r failed" and "ensure_tunnel r gw secret reg w = (Inr t, w')"
  shows "failed w' = failed w"
  using assms(2) by (auto simp: ensure_tunnel_def create_tunnel_def split: sum.splits prod.splits option.splits if_splits
      dest!: account_notedD[OF notes_failuresD(5)[OF assms(1)]])

lemma deploy_tunnel_quiet:
  assumes "notes_failures r failed" and "deploy_tunnel r gw cfg secret t w = (Inr t', w')"
  shows "failed w' = failed w"
  using assms(2) by (auto simp: deploy_tunnel_def StoreTunnelToken_def applyDeployment_def Let_def
      split: sum.splits prod.splits option.splits if_splits
      dest!: store_notedD(1,2)[OF notes_failuresD(2)[OF assms(1)]] store_notedD(1,2)[OF notes_failuresD(3)[OF assms(1)]])

lemma statuses_notedD:
  assumes "notes_failures r failed"
  shows "writes_noted failed ClassStatus (cl_status_class (r_Client r))" "writes_noted failed GatewayStatus (cl_status_gateway (r_Client r))"
    "writes_noted failed RouteStatus (cl_status_http (r_Client r))" "writes_noted failed RouteStatus (cl_status_grpc (r_Client r))"
    "writes_noted failed RouteStatus (cl_status_tls (r_Client r))" "writes_noted failed RouteStatus (cl_status_tcp (r_Client r))"
    "writes_noted failed PolicyStatus (cl_status_access (r_Client r))" "writes_noted failed PolicyStatus (cl_status_origin (r_Client r))"
    "writes_noted failed XBackendStatus (cl_status_xbackend (r_Client r))"
  using notes_failuresD(4)[OF assms] by (simp_all add: statuses_noted_def)

lemma provision_quiet:
  assumes n: "notes_failures r failed" and run: "provision r gw gc w = (Inr t, w')"
  shows "failed w' = failed w"
proof -
  obtain cfg ok msg where cfg: "resolveTunnelConfig (cl_get_config (r_Client r) w) gw gc = (cfg, ok, msg)"
    by (cases "resolveTunnelConfig (cl_get_config (r_Client r) w) gw gc")
  show ?thesis
    using run cfg by (auto simp: provision_def Let_def split: prod.splits option.splits sum.splits
        dest!: write_status_quiet[OF statuses_notedD(1)[OF n] faithful_patches(1)] EnsureTunnelSecret_quiet[OF n]
          ensure_tunnel_quiet[OF n] deploy_tunnel_quiet[OF n])
qed

lemma dns_quiet:
  assumes n: "notes_failures r failed"
  shows "reconcileDNS (r_CloudflareClient r) manageDNS gw tunnelID hostnames w = (None, w') \<Longrightarrow> failed w' = failed w"
    and "teardownDNS (r_CloudflareClient r) manageDNS gw w = (None, w') \<Longrightarrow> failed w' = failed w"
proof -
  note apply_ok = account_notedD(4)[OF notes_failuresD(5)[OF n]]
  have conf: "fold (\<lambda>name err. or_else err (Some (conflict_error gw z name))) names e = None \<Longrightarrow> e = None" for names e z
  proof (induction names arbitrary: e)
    case (Cons a names)
    then have "or_else e (Some (conflict_error gw z a)) = None" by simp
    then show ?case by (simp add: or_else_None)
  qed simp
  have step: "fst st = None \<and> failed w' = failed (snd st)"
    if "dns_zone_step (r_CloudflareClient r) gw D owner z st = (None, w')" for D owner z st w'
    using that by (cases st) (auto simp: dns_zone_step_def Let_def or_else_None split: sum.splits prod.splits option.splits if_splits
        dest!: conf dest: apply_ok)
  have loop: "failed w' = failed w" if "fold (dns_zone_step (r_CloudflareClient r) gw D owner) zones (None, w) = (None, w')" for D owner zones
    using fold_quiet[where f = "dns_zone_step (r_CloudflareClient r) gw D owner", OF step that] by simp
  show "failed w' = failed w" if "reconcileDNS (r_CloudflareClient r) manageDNS gw tunnelID hostnames w = (None, w')"
    using that loop by (auto simp: reconcileDNS_def Let_def split: if_splits sum.splits)
  have step': "fst st = None \<and> failed w' = failed (snd st)"
    if "teardown_zone_step (r_CloudflareClient r) owner z st = (None, w')" for owner z st w'
    using that by (cases st) (auto simp: teardown_zone_step_def Let_def or_else_None split: sum.splits prod.splits option.splits if_splits
        dest: apply_ok)
  have loop': "failed w' = failed w" if "fold (teardown_zone_step (r_CloudflareClient r) owner) zones (None, w) = (None, w')" for owner zones
    using fold_quiet[where f = "teardown_zone_step (r_CloudflareClient r) owner", OF step' that] by simp
  show "failed w' = failed w" if "teardownDNS (r_CloudflareClient r) manageDNS gw w = (None, w')"
    using that loop' by (auto simp: teardownDNS_def split: if_splits sum.splits)
qed

lemma patch_routes_pair:
  assumes "writes_noted failed K update" and "\<And>w route. faithful (\<lambda>u. patch u w route)"
    and "st' = patch_routes update patch routes st" and "fst st' = None"
  shows "fst st = None \<and> failed (snd st') = failed (snd st)"
proof -
  have "patch_routes update patch routes st = (None, snd st')" using assms(3,4) by (simp add: prod_eq_iff)
  then show ?thesis by (rule patch_routes_quiet[OF assms(1,2)])
qed

lemma route_statuses_quiet:
  assumes n: "notes_failures r failed" and run: "patch_route_statuses r gw att ef st = (None, w')"
  shows "fst st = None \<and> failed w' = failed (snd st)"
proof -
  note ok = statuses_notedD[OF n]
  obtain h g t where run': "patch_routes (cl_status_tcp (r_Client r)) (\<lambda>u w route. let key = targetKey ''TCPRoute'' (rt_Name route) in
        PatchTCPRouteStatus u (cl_now (r_Client r) w) route (Name (gw_meta gw)) (Namespace (gw_meta gw)) True (ef_access ef key) (ef_origin ef key)
          (route_refs r att ''TCPRoute'' tcpRouteObjRefs route)) (at_tcp att) t = (None, w')"
    and t: "t = patch_routes (cl_status_tls (r_Client r)) (\<lambda>u w route. let key = targetKey ''TLSRoute'' (rt_Name route) in
        PatchTLSRouteStatus u (cl_now (r_Client r) w) route (Name (gw_meta gw)) (Namespace (gw_meta gw)) True (ef_access ef key) (ef_origin ef key)
          (route_refs r att ''TLSRoute'' tlsRouteObjRefs route)) (at_tls att) g"
    and g: "g = patch_routes (cl_status_grpc (r_Client r)) (\<lambda>u w route. let key = targetKey ''GRPCRoute'' (rt_Name route) in
        PatchGRPCRouteStatus u (cl_now (r_Client r) w) route (Name (gw_meta gw)) (Namespace (gw_meta gw)) True (ef_access ef key) (ef_origin ef key)
          (ef_unsupported ef key) (route_refs r att ''GRPCRoute'' grpcRouteObjRefs route)) (at_grpc att) h"
    and h: "h = patch_routes (cl_status_http (r_Client r)) (\<lambda>u w route. let key = targetKey ''HTTPRoute'' (rt_Name route) in
        PatchHTTPRouteStatus u (cl_now (r_Client r) w) route (Name (gw_meta gw)) (Namespace (gw_meta gw)) True (ef_access ef key) (ef_origin ef key)
          (ef_unsupported ef key) (route_refs r att ''HTTPRoute'' httpRouteObjRefs route)) (at_http att) st"
    using run unfolding patch_route_statuses_def Let_def by blast
  have tcp: "fst t = None \<and> failed w' = failed (snd t)"
    by (rule patch_routes_quiet[OF ok(6) _ run']) (simp add: Let_def)
  have tls: "fst g = None \<and> failed (snd t) = failed (snd g)"
    by (rule patch_routes_pair[OF ok(5) _ t]) (simp_all add: Let_def tcp)
  have grpc: "fst h = None \<and> failed (snd g) = failed (snd h)"
    by (rule patch_routes_pair[OF ok(4) _ g]) (simp_all add: Let_def tls)
  have "fst st = None \<and> failed (snd h) = failed (snd st)"
    by (rule patch_routes_pair[OF ok(3) _ h]) (simp_all add: Let_def grpc)
  then show ?thesis using tcp tls grpc by simp
qed

lemma patch_statuses_quiet:
  assumes n: "notes_failures r failed" and run: "patch_statuses r gw att l7 tunnelID dnsErr w = (None, w')"
  shows "failed w' \<subseteq> insert PolicyStatus (failed w)"
proof -
  note ok = statuses_notedD[OF n]
  let ?valid = "validPolicyTargets gw (at_http att) (at_grpc att) (at_tls att) (at_tcp att)"
  obtain e1 acc w1 where s1: "patch_access_statuses r gw ?valid w = (e1, acc, w1)" by (metis prod_cases3)
  obtain org w2 where s2: "patch_origin_statuses r (at_origin att) gw ?valid w1 = (org, w2)" by fastforce
  let ?ef = "\<lparr>ef_access = acc, ef_origin = org, ef_unsupported = collectUnsupportedMatchRoutes l7\<rparr>"
  obtain e3 w3 where s3: "patch_route_statuses r gw att ?ef (e1, w2) = (e3, w3)" by fastforce
  obtain e4 w4 where s4: "patchXBackendStatuses (cl_list_xbackends (r_Client r)) (cl_status_xbackend (r_Client r))
      (cl_now (r_Client r) w3) gw (r_ControllerName r) (at_xb att) w3 = (e4, w4)" by fastforce
  obtain patch e5 where s5: "write_status (cl_status_gateway (r_Client r)) patch w4 = (e5, w')" "faithful patch"
    and res: "or_else (or_else e3 e4) e5 = None"
    using run by (auto simp: patch_statuses_def Let_def s1 s2 s3 s4 split: prod.splits intro: faithful_patches(2))
  have none: "e3 = None" "e4 = None" "e5 = None" using res by (simp_all add: or_else_None)
  have f1: "failed w1 \<subseteq> insert PolicyStatus (failed w)"
    using s1 write_policies_only[OF ok(7)] by (auto simp: patch_access_statuses_def Let_def split: sum.splits prod.splits)
  have f2: "failed w2 \<subseteq> insert PolicyStatus (failed w1)"
    using s2 write_policies_only[OF ok(8)] by (auto simp: patch_origin_statuses_def Let_def split: prod.splits)
  have f3: "failed w3 = failed w2"
    using route_statuses_quiet[OF n s3[unfolded none]] by simp
  have step: "fst st = None \<and> failed v = failed (snd st)" if "write_xbackend (cl_status_xbackend (r_Client r)) x st = (None, v)" for x st v
    using that writes_notedD[OF ok(9)] by (cases x; cases st) (auto simp: write_xbackend_def Let_def or_else_None split: prod.splits if_splits)
  have f4: "failed w4 = failed w3"
  proof -
    have "failed w4 = failed w3" if "fold (\<lambda>xb. write_xbackend (cl_status_xbackend (r_Client r)) (f xb)) xbs (None, w3) = (None, w4)" for f xbs
      using fold_quiet[where f = "\<lambda>xb. write_xbackend (cl_status_xbackend (r_Client r)) (f xb)", OF step that] by simp
    then show ?thesis using s4[unfolded none] by (auto simp: patchXBackendStatuses_def split: option.splits sum.splits)
  qed
  have f5: "failed w' = failed w4" by (rule write_status_quiet[OF ok(2) s5(2) s5(1)[unfolded none]])
  show ?thesis using f1 f2 f3 f4 f5 by auto
qed

lemma publish_quiet:
  assumes n: "notes_failures r failed" and run: "publish r gw att l7 ingress t w = (None, w')"
  shows "failed w' \<subseteq> insert PolicyStatus (failed w)"
proof -
  obtain w1 dnsErr w2 statusErr where
      p: "api_UpdateTunnelConfiguration (r_CloudflareClient r) w (Tunnel_ID t) ingress = (None, w1)"
    and d: "reconcileDNS (r_CloudflareClient r) (ManageDNS r) gw (Tunnel_ID t)
      (collectRouteHostnames (at_http att) (at_grpc att) (at_tls att)) w1 = (dnsErr, w2)"
    and s: "patch_statuses r gw att l7 (Tunnel_ID t) dnsErr w2 = (statusErr, w')"
    and none: "statusErr = None" "dnsErr = None"
    using run by (auto simp: publish_def Let_def split: prod.splits option.splits)
  show ?thesis
    using account_notedD(3)[OF notes_failuresD(5)[OF n] p] dns_quiet(1)[OF n d[unfolded none]]
      patch_statuses_quiet[OF n s[unfolded none]] by simp
qed

lemma apply_gateway_quiet:
  assumes n: "notes_failures r failed" and run: "apply_gateway r gw gc w = (e, w')" and e: "e = None \<or> UID (gw_meta gw) = ''''"
  shows "failed w' \<subseteq> insert PolicyStatus (failed w)"
proof (cases "UID (gw_meta gw) = ''''")
  case True
  then show ?thesis using run by (auto simp: apply_gateway_def)
next
  case False
  then obtain t w1 att l7 ingress where p: "provision r gw gc w = (Inr t, w1)"
    and pub: "publish r gw att l7 ingress t w1 = (None, w')"
    using run e by (auto simp: apply_gateway_def split: prod.splits sum.splits)
  show ?thesis using provision_quiet[OF n p] publish_quiet[OF n pub] by simp
qed

lemma cleanup_tunnel_quiet:
  assumes n: "notes_failures r failed" and run: "cleanup_tunnel r gw w = (None, w')"
  shows "failed w' = failed w"
  using run account_notedD(2)[OF notes_failuresD(5)[OF n]] by (auto simp: cleanup_tunnel_def split: sum.splits if_splits)

lemma cleanup_object_quiet:
  assumes n: "store_noted failed K st" and run: "cleanup_object st ns name s = (None, w')"
  shows "fst s = None \<and> failed w' = failed (snd s)"
  using run by (cases s) (auto simp: cleanup_object_def or_else_None is_delete_error_def split: sum.splits prod.splits option.splits if_splits
      dest: store_notedD(3)[OF n])

lemma prune_only:
  assumes n: "notes_failures r failed"
  shows "failed (prunePolicyAncestorStatus r gw w) \<subseteq> insert PolicyStatus (failed w)"
    and "failed (snd (pruneXBackendAncestorStatus list (cl_status_xbackend (r_Client r)) experimental gw cn w)) \<subseteq> insert XBackendStatus (failed w)"
proof -
  note ok = statuses_notedD[OF n]
  show "failed (prunePolicyAncestorStatus r gw w) \<subseteq> insert PolicyStatus (failed w)"
    using write_policies_only[OF ok(7)] write_policies_only[OF ok(8)]
    by (auto simp: prunePolicyAncestorStatus_def Let_def split: sum.splits dest!: subsetD)
  have step: "failed (snd (write_xbackend (cl_status_xbackend (r_Client r)) x st)) \<subseteq> insert XBackendStatus (failed (snd st))" for x st
    using writes_noted_only[OF ok(9), of "snd st" "fst x"] by (cases x; cases st) (auto simp: write_xbackend_def Let_def split: prod.splits)
  have loop: "failed (snd (fold (\<lambda>xb. write_xbackend (cl_status_xbackend (r_Client r)) (pruned_xbackend gw cn xb)) xbs st)) \<subseteq>
      insert XBackendStatus (failed (snd st))" for xbs st
  proof (induction xbs arbitrary: st)
    case (Cons xb xbs)
    show ?case using Cons.IH step[of "pruned_xbackend gw cn xb" st] by fastforce
  qed auto
  have "failed (snd (fold (\<lambda>xb. write_xbackend (cl_status_xbackend (r_Client r)) (pruned_xbackend gw cn xb)) xbs (None, w))) \<subseteq>
      insert XBackendStatus (failed w)" for xbs
    using loop[of xbs "(None, w)"] by simp
  then show "failed (snd (pruneXBackendAncestorStatus list (cl_status_xbackend (r_Client r)) experimental gw cn w)) \<subseteq> insert XBackendStatus (failed w)"
    by (simp add: pruneXBackendAncestorStatus_def subset_insertI split: sum.split)
qed

lemma cleanup_quiet:
  assumes n: "notes_failures r failed" and run: "cleanup r gw w = (None, w')"
  shows "failed w' \<subseteq> {PolicyStatus, XBackendStatus} \<union> failed w"
proof -
  let ?ns = "Namespace (gw_meta gw)" and ?n = "Name (gw_meta gw)"
  obtain e1 w1 where c1: "cleanup_tunnel r gw w = (e1, w1)" by fastforce
  obtain e2 w2 where c2: "cleanup_object (cl_deployments (r_Client r)) ?ns (DeploymentName ?n) (e1, w1) = (e2, w2)" by fastforce
  obtain e3 w3 where c3: "cleanup_object (cl_secrets (r_Client r)) ?ns (TunnelSecretName ?n) (e2, w2) = (e3, w3)" by fastforce
  obtain e4 w4 where c4: "teardownDNS (r_CloudflareClient r) (ManageDNS r) gw w3 = (e4, w4)" by fastforce
  have res: "or_else e3 e4 = None" "w' = snd (pruneXBackendAncestorStatus (cl_list_xbackends (r_Client r))
      (cl_status_xbackend (r_Client r)) (ExperimentalBackends r) gw (r_ControllerName r) (prunePolicyAncestorStatus r gw w4))"
    using run by (simp_all add: cleanup_def Let_def c1 c2 c3 c4 split_beta)
  then have "e3 = None" "e4 = None" by (simp_all add: or_else_None)
  then have "failed w4 = failed w"
    using cleanup_tunnel_quiet[OF n, of gw w w1] cleanup_object_quiet[OF notes_failuresD(3)[OF n], of ?ns "DeploymentName ?n" "(e1, w1)" w2]
      cleanup_object_quiet[OF notes_failuresD(2)[OF n], of ?ns "TunnelSecretName ?n" "(e2, w2)" w3] dns_quiet(2)[OF n, of _ gw w3 w4] c1 c2 c3 c4
    by simp
  then show ?thesis
    unfolding res(2) using prune_only(1)[OF n, of gw w4]
      prune_only(2)[OF n, of "cl_list_xbackends (r_Client r)" "ExperimentalBackends r" gw "r_ControllerName r" "prunePolicyAncestorStatus r gw w4"]
    by auto
qed

text \<open>
  C13. Every failed call is reported. Whoever notes which calls fail, for any system and however the failures are
  spread: if during a reconciliation of a Gateway a call that changes something failed, Reconcile returns an error, so
  that the controller retries. This holds of the finalizer update, the Secret, the random source, the Deployment, the
  tunnel, the rules, the DNS records and the statuses of class, Gateway and routes, wherever among them the failure
  occurs, and, when a Gateway is deleted, of all the deletions; that an object to delete is missing is no failure.
  Two kinds are exempt, which the code only logs: the status of a policy, and the status of an XBackend when it is pruned
  for a deleted Gateway.
\<close>

theorem Reconcile_reports_failed_calls:
  assumes "notes_failures r failed" and "st_Get (cl_gateways (r_Client r)) w ns name = Inr gw"
    and "K \<in> failed (snd (Reconcile r ns name w))" and "K \<notin> failed w"
    and "K \<notin> (if DeletionTimestamp (gw_meta gw) = None then {PolicyStatus} else {PolicyStatus, XBackendStatus})"
  shows "\<exists>e. fst (Reconcile r ns name w) = Some e"
proof (rule ccontr)
  assume none: "\<not> (\<exists>e. fst (Reconcile r ns name w) = Some e)"
  obtain err w' where run: "reconcile r ns name w = (err, w')" by fastforce
  have w': "snd (Reconcile r ns name w) = w'" using run by (simp add: Reconcile_def split: option.split)
  have perm: "IsPermanent e" if "err = Some e" for e using none run that by (auto simp: Reconcile_def split: if_splits)
  note up = store_notedD(2)[OF notes_failuresD(1)[OF assms(1)]]
  have app: "failed w' \<subseteq> insert PolicyStatus (failed v)" if a: "apply_gateway r h gc v = (err, w')" for h gc v
    by (rule apply_gateway_quiet[OF assms(1) a]) (use apply_gateway_permanent[of r h gc v _ w'] perm a in \<open>cases err; auto\<close>)
  have claim: "failed w' \<subseteq> insert PolicyStatus (failed w)" if c: "claim_and_apply r gw gc w = (err, w')" for gc
  proof (cases "ContainsFinalizer gw")
    case True
    then show ?thesis using c app by (simp add: claim_and_apply_def)
  next
    case False
    obtain e v where u: "st_Update (cl_gateways (r_Client r)) w (AddFinalizer gw) = (e, v)" by fastforce
    have "e = None" using c u False perm by (cases e) (auto simp: claim_and_apply_def)
    then show ?thesis using c u False up[of w "AddFinalizer gw" v] app[of "AddFinalizer gw" gc v] by (simp add: claim_and_apply_def)
  qed
  have fin: "failed w' \<subseteq> {PolicyStatus, XBackendStatus} \<union> failed w" if f: "finalize r gw w = (err, w')"
  proof (cases "ContainsFinalizer gw")
    case True
    obtain e1 v where c: "cleanup r gw w = (e1, v)" by fastforce
    obtain e2 u where u: "st_Update (cl_gateways (r_Client r)) v (RemoveFinalizer gw) = (e2, u)" by fastforce
    have e: "e1 = None" "e2 = None" using f c u True perm by (cases e1; cases e2; auto simp: finalize_def)+
    then show ?thesis
      using f c u True up[of v "RemoveFinalizer gw" u] cleanup_quiet[OF assms(1), of gw w v] by (simp add: finalize_def)
  next
    case False
    then show ?thesis using f by (auto simp: finalize_def)
  qed
  show False
  proof (cases "cl_get_class (r_Client r) w (GatewayClassName gw)")
    case (Inl e)
    then show ?thesis using run assms(2-4) w' by (auto simp: reconcile_def split: if_splits)
  next
    case (Inr gc)
    consider "w' = w" | "DeletionTimestamp (gw_meta gw) \<noteq> None" "finalize r gw w = (err, w')"
      | "DeletionTimestamp (gw_meta gw) = None" "claim_and_apply r gw gc w = (err, w')"
      using run assms(2) Inr by (auto simp: reconcile_def split: if_splits)
    then show ?thesis using assms(3-5) w' claim fin by cases (auto split: if_splits)
  qed
qed

text \<open>A deletion during which Cloudflare refuses to remove the DNS record, seen by the observer.\<close>

definition refusing_reconciler :: "(world \<times> call set) GatewayReconciler" where
  "refusing_reconciler = observed (dns_reconciler\<lparr>r_CloudflareClient :=
     sample_cloudflare\<lparr>api_ApplyDNSChanges := (\<lambda>w _ _. (Some (Err ''forbidden''), w))\<rparr>\<rparr>)"

lemma refused_run:
  "RecordChange \<in> snd (snd (Reconcile refusing_reconciler ''infra'' ''edge'' (deleted_world, {})))"
  by code_simp

theorem Reconcile_reports_failed_calls_witness:
  "\<exists>e. fst (Reconcile refusing_reconciler ''infra'' ''edge'' (deleted_world, {})) = Some e"
proof -
  have "notes_failures refusing_reconciler snd" unfolding refusing_reconciler_def by (rule observed_notes)
  moreover have "st_Get (cl_gateways (r_Client refusing_reconciler)) (deleted_world, {}) ''infra'' ''edge'' = Inr deleted_gateway"
    by (simp add: refusing_reconciler_def observed_def mark_store_def dns_reconciler_def sample_world_defs finalized_store_def
        deleted_world_def deleted_gateway_def gateway_key_def sample_names)
  ultimately show ?thesis
    using Reconcile_reports_failed_calls[of refusing_reconciler snd "(deleted_world, {})" "''infra''" "''edge''" deleted_gateway RecordChange]
      refused_run by simp
qed

section \<open>Reads that fail\<close>

definition refused :: "'a result \<Rightarrow> bool" where
  "refused x \<longleftrightarrow> (case x of Inl e \<Rightarrow> \<not> apierrors_IsNotFound e | Inr y \<Rightarrow> False)"

text \<open>A route kind that the cluster does not have is listed as empty.\<close>

definition list_refused :: "'a result \<Rightarrow> bool" where
  "list_refused x \<longleftrightarrow> (case x of Inl e \<Rightarrow> \<not> apierrors_IsNotFound e \<and> \<not> isNoMatchError e | Inr y \<Rightarrow> False)"

definition lookup_refused :: "Tunnel result \<Rightarrow> bool" where
  "lookup_refused x \<longleftrightarrow> (case x of Inl e \<Rightarrow> \<not> is_TunnelNotFound e | Inr y \<Rightarrow> False)"

text \<open>The identifier of a tunnel is not empty.\<close>

definition documented_ids :: "'w APIClient \<Rightarrow> bool" where
  "documented_ids api \<longleftrightarrow>
     (\<forall>w name t. api_GetTunnelByName api w name = Inr t \<longrightarrow> Tunnel_ID t \<noteq> '''') \<and>
     (\<forall>w name secret t w'. api_CreateTunnel api w name secret = (Inr t, w') \<longrightarrow> Tunnel_ID t \<noteq> '''')"

datatype read = SecretRead | DeploymentRead | TunnelLookup | HTTPList | GRPCList | TLSList | TCPList | AccessList | OriginList | ZoneList

text \<open>A read that is not answered in any world; for DNS, of a Gateway whose records are managed.\<close>

fun unanswered :: "'w GatewayReconciler \<Rightarrow> Gateway \<Rightarrow> read \<Rightarrow> bool" where
  "unanswered r gw SecretRead =
     (\<forall>v. refused (st_Get (cl_secrets (r_Client r)) v (Namespace (gw_meta gw)) (TunnelSecretName (Name (gw_meta gw)))))"
| "unanswered r gw DeploymentRead =
     (\<forall>v. refused (st_Get (cl_deployments (r_Client r)) v (Namespace (gw_meta gw)) (DeploymentName (Name (gw_meta gw)))))"
| "unanswered r gw TunnelLookup = (\<forall>v. lookup_refused (api_GetTunnelByName (r_CloudflareClient r) v (Name (gw_meta gw))))"
| "unanswered r gw HTTPList = (\<forall>v. list_refused (cl_list_http (r_Client r) v))"
| "unanswered r gw GRPCList = (\<forall>v. list_refused (cl_list_grpc (r_Client r) v))"
| "unanswered r gw TLSList = (\<forall>v. list_refused (cl_list_tls (r_Client r) v))"
| "unanswered r gw TCPList = (\<forall>v. list_refused (cl_list_tcp (r_Client r) v))"
| "unanswered r gw AccessList = (\<forall>v. is_failure (cl_list_access (r_Client r) v (Namespace (gw_meta gw))))"
| "unanswered r gw OriginList = (\<forall>v. is_failure (cl_list_origin (r_Client r) v (Namespace (gw_meta gw))))"
| "unanswered r gw ZoneList =
     (documented_ids (r_CloudflareClient r) \<and> ManageDNS r \<and> gatewayDNSEnabled gw \<and> (\<forall>v. is_failure (api_ListZones (r_CloudflareClient r) v)))"

text \<open>The reads a reconciliation makes of its Gateway, when it is live and when it is being deleted.\<close>

definition reads_of :: "Gateway \<Rightarrow> read set" where
  "reads_of gw = (if DeletionTimestamp (gw_meta gw) = None then UNIV
     else if ContainsFinalizer gw then {SecretRead, DeploymentRead, TunnelLookup, ZoneList} else {})"

definition cannot_read :: "'w GatewayReconciler \<Rightarrow> string \<Rightarrow> string \<Rightarrow> 'w \<Rightarrow> bool" where
  "cannot_read r ns name w \<longleftrightarrow>
     (case st_Get (cl_gateways (r_Client r)) w ns name of
        Inl e \<Rightarrow> \<not> apierrors_IsNotFound e
      | Inr gw \<Rightarrow>
          (case cl_get_class (r_Client r) w (GatewayClassName gw) of
             Inl e \<Rightarrow> \<not> apierrors_IsNotFound e
           | Inr gc \<Rightarrow> gc_ControllerName gc = r_ControllerName r \<and> UID (gw_meta gw) \<noteq> '''' \<and>
               (\<exists>rd \<in> reads_of gw. unanswered r gw rd)))"

lemma unanswered_claimed: "unanswered r (claimed gw) rd = unanswered r gw rd"
  by (cases rd) (simp_all add: claimed_def AddFinalizer_def set_finalizers_def gatewayDNSEnabled_def)

lemma provision_answered:
  assumes "provision r gw gc w = (Inr t, w')"
  shows "\<not> unanswered r gw SecretRead" "\<not> unanswered r gw DeploymentRead" "\<not> unanswered r gw TunnelLookup"
    "documented_ids (r_CloudflareClient r) \<Longrightarrow> Tunnel_ID t \<noteq> ''''"
proof -
  obtain cfg ok msg where cfg: "resolveTunnelConfig (cl_get_config (r_Client r) w) gw gc = (cfg, ok, msg)"
    by (cases "resolveTunnelConfig (cl_get_config (r_Client r) w) gw gc")
  obtain w1 w2 w3 secret reg t' where
      s: "EnsureTunnelSecret (cl_secrets (r_Client r)) (cl_rand (r_Client r)) gw w1 = (Inr (secret, reg), w2)"
    and e: "ensure_tunnel r gw secret reg w2 = (Inr t', w3)" and d: "deploy_tunnel r gw cfg secret t' w3 = (Inr t, w')"
    using assms cfg by (auto simp: provision_def Let_def split: prod.splits option.splits sum.splits)
  have t: "t' = t" using d by (auto simp: deploy_tunnel_def Let_def split: prod.splits option.splits)
  have "\<not> refused (st_Get (cl_secrets (r_Client r)) w1 (Namespace (gw_meta gw)) (TunnelSecretName (Name (gw_meta gw))))"
    using s by (auto simp: EnsureTunnelSecret_def refused_def split: sum.splits if_splits)
  then show "\<not> unanswered r gw SecretRead" by auto
  obtain v where "applyDeployment (cl_deployments (r_Client r))
      (BuildCloudflaredDeployment gw (TunnelSecretName (Name (gw_meta gw))) cfg) v = (None, w')"
    using d by (auto simp: deploy_tunnel_def Let_def split: prod.splits option.splits)
  then have "\<not> refused (st_Get (cl_deployments (r_Client r)) v (Namespace (gw_meta gw)) (DeploymentName (Name (gw_meta gw))))"
    by (auto simp: applyDeployment_def refused_def BuildCloudflaredDeployment_key split: sum.splits if_splits)
  then show "\<not> unanswered r gw DeploymentRead" by auto
  have "\<not> lookup_refused (api_GetTunnelByName (r_CloudflareClient r) w2 (Name (gw_meta gw)))"
    using e by (auto simp: ensure_tunnel_def lookup_refused_def split: sum.splits if_splits)
  then show "\<not> unanswered r gw TunnelLookup" by auto
  show "Tunnel_ID t \<noteq> ''''" if "documented_ids (r_CloudflareClient r)"
    using e that unfolding t documented_ids_def
    by (auto simp: ensure_tunnel_def create_tunnel_def split: sum.splits prod.splits option.splits if_splits; metis)
qed

lemma kube_result_ok: "kube_result x = Inr y \<longleftrightarrow> x = Inr y"
  by (cases x) (simp_all add: kube_result_def)

lemma collect_answered:
  assumes "collect_attachments r gw w = Inr att"
  shows "\<not> unanswered r gw HTTPList" "\<not> unanswered r gw GRPCList" "\<not> unanswered r gw TLSList" "\<not> unanswered r gw TCPList"
    "\<not> unanswered r gw OriginList"
proof -
  obtain http grpc tls tcp org where
    "collectHTTPRoutes (cl_get_namespace (r_Client r) w) gw (cl_list_http (r_Client r) w) = Inr http"
    "collectGRPCRoutes (cl_get_namespace (r_Client r) w) gw (cl_list_grpc (r_Client r) w) = Inr grpc"
    "collectTLSRoutes (cl_get_namespace (r_Client r) w) gw (cl_list_tls (r_Client r) w) = Inr tls"
    "collectTCPRoutes (cl_get_namespace (r_Client r) w) gw (cl_list_tcp (r_Client r) w) = Inr tcp"
    "listOriginPolicies (cl_list_origin (r_Client r) w) (Namespace (gw_meta gw)) = Inr org"
    using assms by (auto simp: collect_attachments_def Let_def bind_result_Inr_iff kube_result_ok split: if_splits)
  then have "\<not> list_refused (cl_list_http (r_Client r) w)" "\<not> list_refused (cl_list_grpc (r_Client r) w)"
    "\<not> list_refused (cl_list_tls (r_Client r) w)" "\<not> list_refused (cl_list_tcp (r_Client r) w)"
    "\<not> is_failure (cl_list_origin (r_Client r) w (Namespace (gw_meta gw)))"
    by (auto simp: is_failure_def list_refused_def collectHTTPRoutes_def collectGRPCRoutes_def collectTLSRoutes_def collectTCPRoutes_def
        collect_attached_def listOriginPolicies_def split: sum.splits if_splits)
  then show "\<not> unanswered r gw HTTPList" "\<not> unanswered r gw GRPCList" "\<not> unanswered r gw TLSList" "\<not> unanswered r gw TCPList"
    "\<not> unanswered r gw OriginList" by auto
qed

lemma build_answered:
  assumes "build_ingress r gw att w = Inr x"
  shows "\<not> unanswered r gw AccessList"
proof -
  have "\<not> is_failure (cl_list_access (r_Client r) w (Namespace (gw_meta gw)))"
    using assms by (auto simp: build_ingress_def Let_def bind_result_Inr_iff kube_result_ok applyAccessPolicies_def is_failure_def
        split: sum.splits)
  then show ?thesis by auto
qed

lemma zones_answered:
  "reconcileDNS (r_CloudflareClient r) (ManageDNS r) gw tunnelID hostnames w = (None, w') \<Longrightarrow>
     (documented_ids (r_CloudflareClient r) \<Longrightarrow> tunnelID \<noteq> '''') \<Longrightarrow>
     \<not> unanswered r gw ZoneList"
  "teardownDNS (r_CloudflareClient r) (ManageDNS r) gw w = (None, w') \<Longrightarrow> \<not> unanswered r gw ZoneList"
proof -
  have ok: "\<not> unanswered r gw ZoneList" if "api_ListZones (r_CloudflareClient r) w = Inr zones" for zones
    using that by (auto simp: is_failure_def intro!: exI[of _ w])
  show "\<not> unanswered r gw ZoneList"
    if "reconcileDNS (r_CloudflareClient r) (ManageDNS r) gw tunnelID hostnames w = (None, w')"
      "documented_ids (r_CloudflareClient r) \<Longrightarrow> tunnelID \<noteq> ''''"
    using that ok by (cases "api_ListZones (r_CloudflareClient r) w") (auto simp: reconcileDNS_def split: if_splits)
  show "\<not> unanswered r gw ZoneList" if "teardownDNS (r_CloudflareClient r) (ManageDNS r) gw w = (None, w')"
    using that ok by (cases "api_ListZones (r_CloudflareClient r) w") (auto simp: teardownDNS_def split: if_splits)
qed

lemma apply_answered:
  assumes "apply_gateway r gw gc w = (None, w')"
  shows "\<not> unanswered r gw rd"
proof -
  obtain t v att l7 ingress where p: "provision r gw gc w = (Inr t, v)" and c: "collect_attachments r gw v = Inr att"
    and b: "build_ingress r gw att v = Inr (l7, ingress)" and pub: "publish r gw att l7 ingress t v = (None, w')"
    using assms(1) by (auto simp: apply_gateway_def split: if_splits prod.splits sum.splits)
  obtain w1 w2 where d: "reconcileDNS (r_CloudflareClient r) (ManageDNS r) gw (Tunnel_ID t)
      (collectRouteHostnames (at_http att) (at_grpc att) (at_tls att)) w1 = (None, w2)"
    using pub by (auto simp: publish_def Let_def split: prod.splits option.splits)
  show ?thesis
    using provision_answered[OF p] collect_answered[OF c] build_answered[OF b] zones_answered(1)[OF d] by (cases rd) metis+
qed

lemma cleanup_answered:
  assumes "cleanup r gw w = (None, w')" and "rd \<in> {SecretRead, DeploymentRead, TunnelLookup, ZoneList}"
  shows "\<not> unanswered r gw rd"
proof -
  let ?ns = "Namespace (gw_meta gw)" and ?n = "Name (gw_meta gw)"
  obtain e1 w1 where c1: "cleanup_tunnel r gw w = (e1, w1)" by fastforce
  obtain e2 w2 where c2: "cleanup_object (cl_deployments (r_Client r)) ?ns (DeploymentName ?n) (e1, w1) = (e2, w2)" by fastforce
  obtain e3 w3 where c3: "cleanup_object (cl_secrets (r_Client r)) ?ns (TunnelSecretName ?n) (e2, w2) = (e3, w3)" by fastforce
  obtain e4 w4 where c4: "teardownDNS (r_CloudflareClient r) (ManageDNS r) gw w3 = (e4, w4)" by fastforce
  have "or_else e3 e4 = None" using assms(1) by (simp add: cleanup_def Let_def c1 c2 c3 c4 split_beta)
  then have none: "e3 = None" "e4 = None" by (simp_all add: or_else_None)
  have object: "\<not> refused (st_Get st v ns name) \<and> e = None" if "cleanup_object st ns name (e, v) = (None, v')" for st v ns name e v'
    using that by (auto simp: cleanup_object_def refused_def or_else_None split: sum.splits if_splits prod.splits option.splits)
  have s: "\<not> refused (st_Get (cl_secrets (r_Client r)) w2 ?ns (TunnelSecretName ?n))" "e2 = None"
    using object[OF c3[unfolded none]] by auto
  have d: "\<not> refused (st_Get (cl_deployments (r_Client r)) w1 ?ns (DeploymentName ?n))" "e1 = None"
    using object[OF c2[unfolded s]] by auto
  have t: "\<not> lookup_refused (api_GetTunnelByName (r_CloudflareClient r) w ?n)"
    using c1[unfolded d] by (auto simp: cleanup_tunnel_def lookup_refused_def split: sum.splits if_splits)
  show ?thesis using assms(2) s(1) d(1) t zones_answered(2)[OF c4[unfolded none]] by auto
qed

text \<open>
  C7. A read that fails is reported. If the Gateway or its class cannot be read, other than for being absent, or if
  any read that a reconciliation of a live Gateway with a UID makes is never answered (the Secret, the Deployment, the
  lookup of the tunnel, the routes of any of the four kinds, the access or origin policies, and the zones where DNS
  is managed), then Reconcile returns an error; so a failed read is never taken for an empty answer. That an object is
  missing, or that the cluster lacks a kind of route, is an answer. The same holds of the reads of a deletion. Reads of
  TunnelConfigs, whose failure the class status reports, and the lists read only to prune statuses are not among
  them.
\<close>

theorem Reconcile_reports_failed_reads:
  assumes "cannot_read r ns name w"
  shows "\<exists>e. fst (Reconcile r ns name w) = Some e"
proof (rule ccontr)
  assume "\<not> (\<exists>e. fst (Reconcile r ns name w) = Some e)"
  then obtain w' where run: "Reconcile r ns name w = (None, w')" by (metis not_None_eq prod.collapse)
  obtain err v where rec: "reconcile r ns name w = (err, v)" by fastforce
  have perm: "IsPermanent e" if "err = Some e" for e using run rec that by (auto simp: Reconcile_def split: if_splits)
  obtain gw gc where g: "st_Get (cl_gateways (r_Client r)) w ns name = Inr gw"
      "cl_get_class (r_Client r) w (GatewayClassName gw) = Inr gc" "gc_ControllerName gc = r_ControllerName r" "UID (gw_meta gw) \<noteq> ''''"
    and rd: "\<exists>rd \<in> reads_of gw. unanswered r gw rd"
    using assms rec perm by (auto simp: cannot_read_def reconcile_def split: sum.splits)
  show False
  proof (cases "DeletionTimestamp (gw_meta gw) = None")
    case True
    then have "live r ns name gw gc w" using g by (simp add: live_def)
    from Reconcile_None[OF run this g(4)] have "claim_and_apply r gw gc w = (None, w')" using g True by (simp add: reconcile_def)
    then obtain w0 where "apply_gateway r (claimed gw) gc w0 = (None, w')"
      by (auto simp: claim_and_apply_def claimed_def split: if_splits prod.splits option.splits)
    from apply_answered[OF this] show False using rd unanswered_claimed by blast
  next
    case False
    then have f: "finalize r gw w = (err, v)" "ContainsFinalizer gw" using rec g rd by (auto simp: reconcile_def reads_of_def split: if_splits)
    obtain e1 u where c: "cleanup r gw w = (e1, u)" by fastforce
    then have "e1 = None" using f perm by (cases e1) (auto simp: finalize_def)
    from cleanup_answered[OF c[unfolded this]] show False using rd f(2) False by (auto simp: reads_of_def)
  qed
qed

text \<open>The sample Gateway while the API server refuses to list HTTPRoutes.\<close>

definition unlisted_reconciler :: "world GatewayReconciler" where
  "unlisted_reconciler = sample_reconciler\<lparr>r_Client := sample_cluster\<lparr>cl_list_http := (\<lambda>_. Inl (Err ''forbidden''))\<rparr>\<rparr>"

theorem Reconcile_reports_failed_reads_witness:
  "\<exists>e. fst (Reconcile unlisted_reconciler ''infra'' ''edge'' sample_world) = Some e"
proof -
  have live: "live unlisted_reconciler ''infra'' ''edge'' sample_gateway sample_class sample_world"
    using sample_live by (simp add: live_def unlisted_reconciler_def sample_reconciler_def sample_cluster_def)
  have refused: "unanswered unlisted_reconciler sample_gateway HTTPList"
    by (simp add: unlisted_reconciler_def list_refused_def isNoMatchError_def)
  then have ex: "\<exists>rd. unanswered unlisted_reconciler sample_gateway rd" by blast
  have "UID (gw_meta sample_gateway) \<noteq> ''''" by (simp add: sample_gateway_def sample_meta_def)
  moreover have "reads_of sample_gateway = UNIV" using live by (simp add: reads_of_def live_def)
  ultimately have "cannot_read unlisted_reconciler ''infra'' ''edge'' sample_world"
    using live ex by (simp add: cannot_read_def live_def)
  from Reconcile_reports_failed_reads[OF this] show ?thesis .
qed

end
