(* ===== verification/GoHeap.thy ===== *)
theory GoHeap
  imports Prelude "HOL-Library.State_Monad" "HOL-Library.AList"
begin

text \<open>
  An explicit heap, for the code whose meaning is about aliasing. A heap is the list of its cells and an address an
  index of it; \<open>new\<close>, \<open>make\<close> and composite literals allocate at the end. A pointer, a slice or a map is
  an optional address, \<^const>\<open>None\<close> for nil. The locale \<open>deep_copier\<close> is the contract of a deep
  copy, and the lemmas after it build copiers of structs, slices and pointers from those of their parts.
\<close>

section \<open>Heaps\<close>

type_synonym addr = nat
type_synonym 'c heap = "'c list"

definition load :: "'c heap \<Rightarrow> addr \<Rightarrow> 'c option" where
  "load h a = (if a < length h then Some (h ! a) else None)"

definition alloc :: "'c \<Rightarrow> ('c heap, addr) state" where
  "alloc c = State (\<lambda>h. (length h, h @ [c]))"

definition load_as :: "('c \<Rightarrow> 'x option) \<Rightarrow> 'c heap \<Rightarrow> addr \<Rightarrow> 'x option" where
  "load_as proj h a = Option.bind (load h a) proj"

lemma run_alloc [simp]: "run_state (alloc c) h = (length h, h @ [c])"
  by (simp add: alloc_def)

lemma load_append: "a < length h \<Longrightarrow> load (h @ ext) a = load h a"
  by (simp add: load_def nth_append)

lemma load_new [simp]: "load (h @ [c]) (length h) = Some c"
  by (simp add: load_def)

definition in_heap :: "'c heap \<Rightarrow> addr set \<Rightarrow> bool" where
  "in_heap h A \<longleftrightarrow> A \<subseteq> {..<length h}"

definition fresh_in :: "'c heap \<Rightarrow> 'c heap \<Rightarrow> addr set \<Rightarrow> bool" where
  "fresh_in h h' A \<longleftrightarrow> A \<subseteq> {length h..<length h'}"

definition agree :: "addr set \<Rightarrow> 'c heap \<Rightarrow> 'c heap \<Rightarrow> bool" where
  "agree A h h' \<longleftrightarrow> (\<forall>a \<in> A. load h' a = load h a)"

lemma agree_append: "in_heap h A \<Longrightarrow> agree A h (h @ ext)"
  by (auto simp: agree_def in_heap_def load_append)

lemma agree_Un: "agree (A \<union> B) h h' \<longleftrightarrow> agree A h h' \<and> agree B h h'"
  by (auto simp: agree_def)

lemma in_heap_Un: "in_heap h (A \<union> B) \<longleftrightarrow> in_heap h A \<and> in_heap h B"
  by (auto simp: in_heap_def)

lemma fresh_in_heap: "fresh_in h h' A \<Longrightarrow> in_heap h' A"
  by (auto simp: fresh_in_def in_heap_def)

lemma fresh_disjoint: "in_heap h A \<Longrightarrow> fresh_in h h' B \<Longrightarrow> A \<inter> B = {}"
proof -
  have "{..<length h} \<inter> {length h..<length h'} = {}" by auto
  then show "in_heap h A \<Longrightarrow> fresh_in h h' B \<Longrightarrow> A \<inter> B = {}" unfolding in_heap_def fresh_in_def by blast
qed

lemma in_heap_append: "in_heap h A \<Longrightarrow> in_heap (h @ ext) A"
  by (auto simp: in_heap_def)

section \<open>The contract of a deep copy\<close>

definition written_only :: "addr set \<Rightarrow> 'c heap \<Rightarrow> 'c heap \<Rightarrow> bool" where
  "written_only A h h' \<longleftrightarrow> (\<forall>a. a < length h \<and> a \<notin> A \<longrightarrow> load h' a = load h a)"

lemma written_agree: "written_only A h h' \<Longrightarrow> in_heap h B \<Longrightarrow> B \<inter> A = {} \<Longrightarrow> agree B h h'"
  unfolding written_only_def agree_def in_heap_def by blast

text \<open>What a deep copy is for: the copy denotes what the original did, and neither sees writes to the other.\<close>

definition isolates ::
  "('x \<Rightarrow> ('c heap, 'x) state) \<Rightarrow> ('c heap \<Rightarrow> 'x \<Rightarrow> 'v) \<Rightarrow> ('c heap \<Rightarrow> 'x \<Rightarrow> addr set) \<Rightarrow> bool" where
  "isolates copy view reach \<longleftrightarrow>
     (\<forall>h x y h'. in_heap h (reach h x) \<longrightarrow> run_state (copy x) h = (y, h') \<longrightarrow>
        (\<exists>ext. h' = h @ ext) \<and> view h' y = view h x \<and> reach h' x \<inter> reach h' y = {} \<and>
        (\<forall>h''. (written_only (reach h' y) h' h'' \<longrightarrow> view h'' x = view h x) \<and>
               (written_only (reach h' x) h' h'' \<longrightarrow> view h'' y = view h x)))"

text \<open>
  As laws of the operation: what a value denotes, its \<open>view\<close>, and the cells it reaches depend on the cells it
  reaches only; the copy denotes the same, reaches new cells only, and no cell that was there before is written.
\<close>

locale deep_copier =
  fixes copy :: "'x \<Rightarrow> ('c heap, 'x) state" and view :: "'c heap \<Rightarrow> 'x \<Rightarrow> 'v"
    and reach :: "'c heap \<Rightarrow> 'x \<Rightarrow> addr set"
  assumes view_frame: "agree (reach h x) h h' \<Longrightarrow> view h' x = view h x"
    and reach_frame: "agree (reach h x) h h' \<Longrightarrow> reach h' x = reach h x"
    and copied: "in_heap h (reach h x) \<Longrightarrow> run_state (copy x) h = (y, h') \<Longrightarrow>
      (\<exists>ext. h' = h @ ext) \<and> view h' y = view h x \<and> fresh_in h h' (reach h' y)"
begin

lemma extended:
  assumes "in_heap h (reach h x)"
  shows "view (h @ ext) x = view h x" "reach (h @ ext) x = reach h x"
  using view_frame reach_frame agree_append[OF assms] by blast+

lemma copyE:
  assumes "in_heap h (reach h x)"
  obtains y ext where "run_state (copy x) h = (y, h @ ext)" "view (h @ ext) y = view h x"
    "fresh_in h (h @ ext) (reach (h @ ext) y)"
  using copied[OF assms] by (cases "run_state (copy x) h") blast

text \<open>
  Copy and original share no cell: whatever is written to the cells of one, new
  allocations included, is never seen through the other.
\<close>

lemma isolated: "isolates copy view reach"
  unfolding isolates_def
proof (intro allI impI)
  fix h x y h'
  assume x: "in_heap h (reach h x)" and run: "run_state (copy x) h = (y, h')"
  obtain ext where e: "h' = h @ ext" and v: "view h' y = view h x" and f: "fresh_in h h' (reach h' y)"
    using copied[OF x run] by blast
  note old = extended[OF x, of ext, folded e]
  have disjoint: "reach h' x \<inter> reach h' y = {}" unfolding old(2) by (rule fresh_disjoint[OF x f])
  have in': "in_heap h' (reach h' x)" "in_heap h' (reach h' y)"
    using in_heap_append[OF x, of ext] fresh_in_heap[OF f] by (simp_all add: e old(2)[unfolded e])
  show "(\<exists>ext. h' = h @ ext) \<and> view h' y = view h x \<and> reach h' x \<inter> reach h' y = {} \<and>
      (\<forall>h''. (written_only (reach h' y) h' h'' \<longrightarrow> view h'' x = view h x) \<and>
             (written_only (reach h' x) h' h'' \<longrightarrow> view h'' y = view h x))"
    using e v disjoint old(1) view_frame[OF written_agree[OF _ in'(1)]] view_frame[OF written_agree[OF _ in'(2)]]
    by (metis Int_commute)
qed

end

section \<open>Copiers of parts\<close>

lemma deep_copier_flat:
  assumes "\<And>x. g (f x) = g x"
  shows "deep_copier (\<lambda>x. State_Monad.return (f x)) (\<lambda>h x. g x) (\<lambda>h x. {})"
  by unfold_locales (use assms in \<open>auto simp: fresh_in_def\<close>)

definition copy_pair ::
  "('x \<Rightarrow> ('c heap, 'x) state) \<Rightarrow> ('y \<Rightarrow> ('c heap, 'y) state) \<Rightarrow> 'x \<times> 'y \<Rightarrow> ('c heap, 'x \<times> 'y) state" where
  "copy_pair c d p = do { x \<leftarrow> c (fst p); y \<leftarrow> d (snd p); State_Monad.return (x, y) }"

lemma deep_copier_pair:
  assumes "deep_copier c v r" and "deep_copier d w s"
  shows "deep_copier (copy_pair c d) (\<lambda>h p. (v h (fst p), w h (snd p))) (\<lambda>h p. r h (fst p) \<union> s h (snd p))"
proof
  fix h h' p
  assume "agree (r h (fst p) \<union> s h (snd p)) h h'"
  then have a: "agree (r h (fst p)) h h'" "agree (s h (snd p)) h h'" by (simp_all add: agree_Un)
  show "(v h' (fst p), w h' (snd p)) = (v h (fst p), w h (snd p))"
    "r h' (fst p) \<union> s h' (snd p) = r h (fst p) \<union> s h (snd p)"
    using deep_copier.view_frame[OF assms(1) a(1)] deep_copier.reach_frame[OF assms(1) a(1)]
      deep_copier.view_frame[OF assms(2) a(2)] deep_copier.reach_frame[OF assms(2) a(2)]
    by simp_all
next
  fix h p q h'
  assume "in_heap h (r h (fst p) \<union> s h (snd p))" and run: "run_state (copy_pair c d p) h = (q, h')"
  then have x: "in_heap h (r h (fst p))" and y: "in_heap h (s h (snd p))" by (simp_all add: in_heap_Un)
  obtain x' e where c: "run_state (c (fst p)) h = (x', h @ e)" "v (h @ e) x' = v h (fst p)"
      "fresh_in h (h @ e) (r (h @ e) x')"
    using deep_copier.copyE[OF assms(1) x] by blast
  note old = deep_copier.extended[OF assms(2) y, of e]
  have "in_heap (h @ e) (s (h @ e) (snd p))" unfolding old by (rule in_heap_append[OF y])
  then obtain y' e' where d: "run_state (d (snd p)) (h @ e) = (y', (h @ e) @ e')"
      "w ((h @ e) @ e') y' = w (h @ e) (snd p)" "fresh_in (h @ e) ((h @ e) @ e') (s ((h @ e) @ e') y')"
    using deep_copier.copyE[OF assms(2)] by blast
  note new = deep_copier.extended[OF assms(1) fresh_in_heap[OF c(3)], of e']
  have q: "q = (x', y')" "h' = (h @ e) @ e'" using run c(1) d(1) by (simp_all add: copy_pair_def)
  show "(\<exists>ext. h' = h @ ext) \<and> (v h' (fst q), w h' (snd q)) = (v h (fst p), w h (snd p)) \<and>
      fresh_in h h' (r h' (fst q) \<union> s h' (snd q))"
    using c(2,3) d(2,3) new unfolding q old by (auto simp: fresh_in_def)
qed

lemma deep_copier_list:
  assumes "deep_copier c v r"
  shows "deep_copier (State_Monad.traverse_list c) (\<lambda>h xs. map (v h) xs) (\<lambda>h xs. \<Union> (r h ` set xs))"
proof
  fix h h' xs
  assume "agree (\<Union> (r h ` set xs)) h h'"
  then have a: "agree (r h x) h h'" if "x \<in> set xs" for x using that by (auto simp: agree_def)
  show "map (v h') xs = map (v h) xs" "\<Union> (r h' ` set xs) = \<Union> (r h ` set xs)"
    using deep_copier.view_frame[OF assms a] deep_copier.reach_frame[OF assms a] by simp_all
next
  fix h xs ys h'
  assume "in_heap h (\<Union> (r h ` set xs))" and "run_state (State_Monad.traverse_list c xs) h = (ys, h')"
  then show "(\<exists>ext. h' = h @ ext) \<and> map (v h') ys = map (v h) xs \<and> fresh_in h h' (\<Union> (r h' ` set ys))"
  proof (induction xs arbitrary: h ys h')
    case Nil
    then show ?case by (auto simp: fresh_in_def)
  next
    case (Cons x xs)
    have x: "in_heap h (r h x)" and xs: "in_heap h (\<Union> (r h ` set xs))"
      using Cons.prems(1) by (simp_all add: in_heap_Un)
    obtain y e where y: "run_state (c x) h = (y, h @ e)" "v (h @ e) y = v h x" "fresh_in h (h @ e) (r (h @ e) y)"
      using deep_copier.copyE[OF assms x] by blast
    have mem: "in_heap h (r h z)" if "z \<in> set xs" for z using xs that by (auto simp: in_heap_def)
    have old: "map (v (h @ e)) xs = map (v h) xs" "\<Union> (r (h @ e) ` set xs) = \<Union> (r h ` set xs)"
      using deep_copier.extended[OF assms mem] by auto
    obtain ys' h'' where run: "run_state (State_Monad.traverse_list c xs) (h @ e) = (ys', h'')"
      by (cases "run_state (State_Monad.traverse_list c xs) (h @ e)")
    have "in_heap (h @ e) (\<Union> (r (h @ e) ` set xs))" unfolding old by (rule in_heap_append[OF xs])
    from Cons.IH[OF this run] obtain e' where IH: "h'' = (h @ e) @ e'" "map (v h'') ys' = map (v h) xs"
        "fresh_in (h @ e) h'' (\<Union> (r h'' ` set ys'))"
      unfolding old by blast
    note new = deep_copier.extended[OF assms fresh_in_heap[OF y(3)], of e', folded IH(1)]
    have "ys = y # ys'" "h' = h''" using Cons.prems(2) y(1) run by simp_all
    then show ?case using y(2,3) IH new by (auto simp: fresh_in_def)
  qed
qed

text \<open>
  \<open>out = new(T)\<close> or \<open>make(T, n)\<close> and the copy of what the old pointer points to into it. A cell of another type,
  which Go's type system excludes, is copied as it is.
\<close>

definition copy_new ::
  "('x \<Rightarrow> 'c) \<Rightarrow> ('c \<Rightarrow> 'x option) \<Rightarrow> ('x \<Rightarrow> ('c heap, 'x) state) \<Rightarrow> addr option \<Rightarrow> ('c heap, addr option) state" where
  "copy_new mk proj into p =
     (case p of
        None \<Rightarrow> State_Monad.return None
      | Some a \<Rightarrow> do {
          h \<leftarrow> State_Monad.get;
          case load_as proj h a of
            Some x \<Rightarrow> do { y \<leftarrow> into x; b \<leftarrow> alloc (mk y); State_Monad.return (Some b) }
          | None \<Rightarrow> do { b \<leftarrow> alloc (h ! a); State_Monad.return (Some b) }})"

definition view_at :: "('c \<Rightarrow> 'x option) \<Rightarrow> ('c heap \<Rightarrow> 'x \<Rightarrow> 'v) \<Rightarrow> 'c heap \<Rightarrow> addr option \<Rightarrow> 'v option option" where
  "view_at proj view h p = map_option (\<lambda>a. map_option (view h) (load_as proj h a)) p"

definition reach_at :: "('c \<Rightarrow> 'x option) \<Rightarrow> ('c heap \<Rightarrow> 'x \<Rightarrow> addr set) \<Rightarrow> 'c heap \<Rightarrow> addr option \<Rightarrow> addr set" where
  "reach_at proj reach h p =
     (case p of None \<Rightarrow> {}
      | Some a \<Rightarrow> insert a (case load_as proj h a of None \<Rightarrow> {} | Some x \<Rightarrow> reach h x))"

lemma load_as_agree: "agree A h h' \<Longrightarrow> a \<in> A \<Longrightarrow> load_as proj h' a = load_as proj h a"
  by (simp add: agree_def load_as_def)

lemma deep_copier_new:
  assumes inner: "deep_copier into v r" and proj: "\<And>x. proj (mk x) = Some x"
  shows "deep_copier (copy_new mk proj into) (view_at proj v) (reach_at proj r)"
proof
  fix h h' p
  assume a: "agree (reach_at proj r h p) h h'"
  have "view_at proj v h' p = view_at proj v h p \<and> reach_at proj r h' p = reach_at proj r h p"
  proof (cases p)
    case (Some b)
    have l: "load_as proj h' b = load_as proj h b"
      by (rule load_as_agree[OF a]) (simp add: Some reach_at_def)
    have x: "agree (r h x) h h'" if "load_as proj h b = Some x" for x
      using a that Some by (simp add: reach_at_def agree_def)
    show ?thesis
      using l deep_copier.view_frame[OF inner x] deep_copier.reach_frame[OF inner x]
      by (cases "load_as proj h b") (simp_all add: Some view_at_def reach_at_def)
  qed (simp add: view_at_def reach_at_def)
  then show "view_at proj v h' p = view_at proj v h p" "reach_at proj r h' p = reach_at proj r h p" by simp_all
next
  fix h p q h'
  assume p: "in_heap h (reach_at proj r h p)" and run: "run_state (copy_new mk proj into p) h = (q, h')"
  show "(\<exists>ext. h' = h @ ext) \<and> view_at proj v h' q = view_at proj v h p \<and> fresh_in h h' (reach_at proj r h' q)"
  proof (cases p)
    case None
    then show ?thesis using run by (auto simp: copy_new_def view_at_def reach_at_def fresh_in_def)
  next
    case (Some a)
    show ?thesis
    proof (cases "load_as proj h a")
      case None
      then have "q = Some (length h)" "h' = h @ [h ! a]" using run Some by (simp_all add: copy_new_def)
      moreover have "a < length h" using p Some by (simp add: reach_at_def in_heap_def)
      ultimately show ?thesis
        using None Some by (simp add: view_at_def reach_at_def fresh_in_def load_as_def) (simp add: load_def)
    next
      case x: (Some x)
      then have "in_heap h (r h x)" using p Some by (simp add: reach_at_def in_heap_def)
      from deep_copier.copyE[OF inner this] obtain y e where y: "run_state (into x) h = (y, h @ e)"
          "v (h @ e) y = v h x" "fresh_in h (h @ e) (r (h @ e) y)" by blast
      have q: "q = Some (length (h @ e))" "h' = (h @ e) @ [mk y]"
        using run Some x y(1) by (simp_all add: copy_new_def)
      note new = deep_copier.extended[OF inner fresh_in_heap[OF y(3)], of "[mk y]"]
      have "load_as proj h' (length (h @ e)) = Some y" unfolding q load_as_def load_new by (simp add: proj)
      then show ?thesis
        using Some x y new unfolding q(1) by (auto simp: q(2) view_at_def reach_at_def fresh_in_def)
    qed
  qed
qed

text \<open>A struct is the tuple of its parts, beside fields that are copied by the assignment \<open>*out = *in\<close>.\<close>

lemma deep_copier_struct:
  assumes "deep_copier c v r"
    and "\<And>x. copy x = do { t \<leftarrow> c (parts x); State_Monad.return (make x t) }"
    and "\<And>x t. parts (make x t) = t" and "\<And>x t. plain (make x t) = plain x"
  shows "deep_copier copy (\<lambda>h x. (plain x, v h (parts x))) (\<lambda>h x. r h (parts x))"
proof
  fix h h' x
  assume "agree (r h (parts x)) h h'"
  then show "(plain x, v h' (parts x)) = (plain x, v h (parts x))" "r h' (parts x) = r h (parts x)"
    using deep_copier.view_frame[OF assms(1)] deep_copier.reach_frame[OF assms(1)] by simp_all
next
  fix h x y h'
  assume x: "in_heap h (r h (parts x))" and run: "run_state (copy x) h = (y, h')"
  obtain t where t: "run_state (c (parts x)) h = (t, h')" "y = make x t"
    using run by (auto simp: assms(2) split: prod.splits)
  show "(\<exists>ext. h' = h @ ext) \<and> (plain y, v h' (parts y)) = (plain x, v h (parts x)) \<and> fresh_in h h' (r h' (parts y))"
    using deep_copier.copied[OF assms(1) x t(1)] by (simp add: t(2) assms(3,4))
qed

section \<open>Slices and maps\<close>

text \<open>The builtin copy, and the loop that fills a new map; a range visits the entries in any order.\<close>

definition go_copy :: "'x list \<Rightarrow> 'x list \<Rightarrow> 'x list" where
  "go_copy dst src = take (length dst) src @ drop (length src) dst"

definition slice_into :: "'x \<Rightarrow> 'x list \<Rightarrow> 'x list" where
  "slice_into zero src = go_copy (replicate (length src) zero) src"

definition map_into :: "('k \<times> 'w) list \<Rightarrow> ('k \<times> 'w) list" where
  "map_into src = foldr (\<lambda>(k, w) dst. AList.update k w dst) src []"

lemma slice_into_same [simp]: "slice_into zero src = src"
  by (simp add: slice_into_def go_copy_def)

lemma map_into_same [simp]: "map_of (map_into src) = map_of src"
  by (induction src) (auto simp: map_into_def update_conv')

end
