(* ===== verification/DeepCopy.thy ===== *)
theory DeepCopy
  imports GoHeap TunnelConfig
begin

text \<open>
  api/v1alpha1: the structs of the three custom resources as they lie in memory, their generated deep copies, and their
  registration. controller-runtime hands the reconciler deep copies of what its cache holds, and the
  reconciler writes to them; the other theories treat objects as values, which is right because of what is shown here.
  The structs of the Kubernetes libraries that the resources contain are of a type \<open>'l\<close>, copied by
  functions of those libraries, the parameter \<open>lib\<close>.
\<close>

section \<open>The structs\<close>

text \<open>Pointers, slices and maps are addresses.\<close>

record CloudflareAccessPolicySpec =
  acs_TargetRefs :: "addr option"
  acs_TeamName :: string
  acs_Required :: bool
  acs_AudTag :: "addr option"

record CloudflareOriginPolicySpec =
  ors_TargetRefs :: "addr option"
  ors_ProxyType :: "addr option"
  ors_DisableChunkedEncoding :: "addr option"
  ors_KeepAliveConnections :: "addr option"
  ors_KeepAliveTimeout :: "addr option"
  ors_NoHappyEyeballs :: "addr option"
  ors_TLSTimeout :: "addr option"
  ors_TCPKeepAlive :: "addr option"
  ors_HTTP2Origin :: "addr option"
  ors_MatchSNIToHost :: "addr option"

record CloudflareTunnelConfigSpec =
  tcs_Replicas :: "addr option"
  tcs_Image :: "addr option"
  tcs_Resources :: "addr option"
  tcs_LogLevel :: "addr option"
  tcs_MetricsPort :: "addr option"
  tcs_PodLabels :: "addr option"
  tcs_PodAnnotations :: "addr option"
  tcs_NodeSelector :: "addr option"
  tcs_Tolerations :: "addr option"
  tcs_Affinity :: "addr option"

record CloudflareTunnelConfigStatus =
  tct_Conditions :: "addr option"

record TypeMeta =
  tm_Kind :: string
  tm_APIVersion :: string

record 'l CloudflareAccessPolicy =
  acp_TypeMeta :: TypeMeta
  acp_ObjectMeta :: 'l
  acp_Spec :: CloudflareAccessPolicySpec
  acp_Status :: 'l

record 'l CloudflareOriginPolicy =
  orp_TypeMeta :: TypeMeta
  orp_ObjectMeta :: 'l
  orp_Spec :: CloudflareOriginPolicySpec
  orp_Status :: 'l

record 'l CloudflareTunnelConfig =
  tcc_TypeMeta :: TypeMeta
  tcc_ObjectMeta :: 'l
  tcc_Spec :: CloudflareTunnelConfigSpec
  tcc_Status :: CloudflareTunnelConfigStatus

record 'l ObjectList =
  ol_TypeMeta :: TypeMeta
  ol_ListMeta :: 'l
  ol_Items :: "addr option"

section \<open>The heap\<close>

datatype 'l cell =
    StringCell string | BoolCell bool | Int32Cell "32 word" | DurationCell Duration
  | TargetRefsCell "LocalPolicyTargetReference list" | StringsCell "string list"
  | StringMapCell "(string \<times> string) list"
  | LibraryCell 'l | LibrariesCell "'l list"
  | AccessPolicySpecCell CloudflareAccessPolicySpec | OriginPolicySpecCell CloudflareOriginPolicySpec
  | TunnelConfigSpecCell CloudflareTunnelConfigSpec | TunnelConfigStatusCell CloudflareTunnelConfigStatus
  | AccessPolicyCell "'l CloudflareAccessPolicy" | AccessPoliciesCell "'l CloudflareAccessPolicy list"
  | OriginPolicyCell "'l CloudflareOriginPolicy" | OriginPoliciesCell "'l CloudflareOriginPolicy list"
  | TunnelConfigCell "'l CloudflareTunnelConfig" | TunnelConfigsCell "'l CloudflareTunnelConfig list"
  | ObjectListCell "'l ObjectList"

text \<open>The content of a cell at its type.\<close>

definition as_String :: "'l cell \<Rightarrow> (string) option" where
  "as_String c = (case c of StringCell x \<Rightarrow> Some x | _ \<Rightarrow> None)"

definition as_Bool :: "'l cell \<Rightarrow> (bool) option" where
  "as_Bool c = (case c of BoolCell x \<Rightarrow> Some x | _ \<Rightarrow> None)"

definition as_Int32 :: "'l cell \<Rightarrow> (32 word) option" where
  "as_Int32 c = (case c of Int32Cell x \<Rightarrow> Some x | _ \<Rightarrow> None)"

definition as_Duration :: "'l cell \<Rightarrow> (Duration) option" where
  "as_Duration c = (case c of DurationCell x \<Rightarrow> Some x | _ \<Rightarrow> None)"

definition as_TargetRefs :: "'l cell \<Rightarrow> (LocalPolicyTargetReference list) option" where
  "as_TargetRefs c = (case c of TargetRefsCell x \<Rightarrow> Some x | _ \<Rightarrow> None)"

definition as_Strings :: "'l cell \<Rightarrow> (string list) option" where
  "as_Strings c = (case c of StringsCell x \<Rightarrow> Some x | _ \<Rightarrow> None)"

definition as_StringMap :: "'l cell \<Rightarrow> ((string \<times> string) list) option" where
  "as_StringMap c = (case c of StringMapCell x \<Rightarrow> Some x | _ \<Rightarrow> None)"

definition as_Library :: "'l cell \<Rightarrow> ('l) option" where
  "as_Library c = (case c of LibraryCell x \<Rightarrow> Some x | _ \<Rightarrow> None)"

definition as_Libraries :: "'l cell \<Rightarrow> ('l list) option" where
  "as_Libraries c = (case c of LibrariesCell x \<Rightarrow> Some x | _ \<Rightarrow> None)"

definition as_AccessPolicySpec :: "'l cell \<Rightarrow> (CloudflareAccessPolicySpec) option" where
  "as_AccessPolicySpec c = (case c of AccessPolicySpecCell x \<Rightarrow> Some x | _ \<Rightarrow> None)"

definition as_OriginPolicySpec :: "'l cell \<Rightarrow> (CloudflareOriginPolicySpec) option" where
  "as_OriginPolicySpec c = (case c of OriginPolicySpecCell x \<Rightarrow> Some x | _ \<Rightarrow> None)"

definition as_TunnelConfigSpec :: "'l cell \<Rightarrow> (CloudflareTunnelConfigSpec) option" where
  "as_TunnelConfigSpec c = (case c of TunnelConfigSpecCell x \<Rightarrow> Some x | _ \<Rightarrow> None)"

definition as_TunnelConfigStatus :: "'l cell \<Rightarrow> (CloudflareTunnelConfigStatus) option" where
  "as_TunnelConfigStatus c = (case c of TunnelConfigStatusCell x \<Rightarrow> Some x | _ \<Rightarrow> None)"

definition as_AccessPolicy :: "'l cell \<Rightarrow> ('l CloudflareAccessPolicy) option" where
  "as_AccessPolicy c = (case c of AccessPolicyCell x \<Rightarrow> Some x | _ \<Rightarrow> None)"

definition as_AccessPolicies :: "'l cell \<Rightarrow> ('l CloudflareAccessPolicy list) option" where
  "as_AccessPolicies c = (case c of AccessPoliciesCell x \<Rightarrow> Some x | _ \<Rightarrow> None)"

definition as_OriginPolicy :: "'l cell \<Rightarrow> ('l CloudflareOriginPolicy) option" where
  "as_OriginPolicy c = (case c of OriginPolicyCell x \<Rightarrow> Some x | _ \<Rightarrow> None)"

definition as_OriginPolicies :: "'l cell \<Rightarrow> ('l CloudflareOriginPolicy list) option" where
  "as_OriginPolicies c = (case c of OriginPoliciesCell x \<Rightarrow> Some x | _ \<Rightarrow> None)"

definition as_TunnelConfig :: "'l cell \<Rightarrow> ('l CloudflareTunnelConfig) option" where
  "as_TunnelConfig c = (case c of TunnelConfigCell x \<Rightarrow> Some x | _ \<Rightarrow> None)"

definition as_TunnelConfigs :: "'l cell \<Rightarrow> ('l CloudflareTunnelConfig list) option" where
  "as_TunnelConfigs c = (case c of TunnelConfigsCell x \<Rightarrow> Some x | _ \<Rightarrow> None)"

definition as_ObjectList :: "'l cell \<Rightarrow> ('l ObjectList) option" where
  "as_ObjectList c = (case c of ObjectListCell x \<Rightarrow> Some x | _ \<Rightarrow> None)"

lemma as_cell [simp]:
  "as_String (StringCell xString) = Some xString"
  "as_Bool (BoolCell xBool) = Some xBool"
  "as_Int32 (Int32Cell xInt32) = Some xInt32"
  "as_Duration (DurationCell xDuration) = Some xDuration"
  "as_TargetRefs (TargetRefsCell xTargetRefs) = Some xTargetRefs"
  "as_Strings (StringsCell xStrings) = Some xStrings"
  "as_StringMap (StringMapCell xStringMap) = Some xStringMap"
  "as_Library (LibraryCell xLibrary) = Some xLibrary"
  "as_Libraries (LibrariesCell xLibraries) = Some xLibraries"
  "as_AccessPolicySpec (AccessPolicySpecCell xAccessPolicySpec) = Some xAccessPolicySpec"
  "as_OriginPolicySpec (OriginPolicySpecCell xOriginPolicySpec) = Some xOriginPolicySpec"
  "as_TunnelConfigSpec (TunnelConfigSpecCell xTunnelConfigSpec) = Some xTunnelConfigSpec"
  "as_TunnelConfigStatus (TunnelConfigStatusCell xTunnelConfigStatus) = Some xTunnelConfigStatus"
  "as_AccessPolicy (AccessPolicyCell xAccessPolicy) = Some xAccessPolicy"
  "as_AccessPolicies (AccessPoliciesCell xAccessPolicies) = Some xAccessPolicies"
  "as_OriginPolicy (OriginPolicyCell xOriginPolicy) = Some xOriginPolicy"
  "as_OriginPolicies (OriginPoliciesCell xOriginPolicies) = Some xOriginPolicies"
  "as_TunnelConfig (TunnelConfigCell xTunnelConfig) = Some xTunnelConfig"
  "as_TunnelConfigs (TunnelConfigsCell xTunnelConfigs) = Some xTunnelConfigs"
  "as_ObjectList (ObjectListCell xObjectList) = Some xObjectList"
  by (simp_all add: as_String_def as_Bool_def as_Int32_def as_Duration_def as_TargetRefs_def as_Strings_def as_StringMap_def as_Library_def as_Libraries_def as_AccessPolicySpec_def as_OriginPolicySpec_def as_TunnelConfigSpec_def as_TunnelConfigStatus_def as_AccessPolicy_def as_AccessPolicies_def as_OriginPolicy_def as_OriginPolicies_def as_TunnelConfig_def as_TunnelConfigs_def as_ObjectList_def)

text \<open>
  What the code relies on in the libraries: the DeepCopyInto of their structs meets the contract of a deep copy.
\<close>

record ('l, 'w) Library =
  lib_DeepCopyInto :: "'l \<Rightarrow> ('l cell heap, 'l) state"
  lib_view :: "'l cell heap \<Rightarrow> 'l \<Rightarrow> 'w"
  lib_reach :: "'l cell heap \<Rightarrow> 'l \<Rightarrow> addr set"

definition documented_library :: "('l, 'w) Library \<Rightarrow> bool" where
  "documented_library lib \<longleftrightarrow> deep_copier (lib_DeepCopyInto lib) (lib_view lib) (lib_reach lib)"

section \<open>Copies of fields\<close>

text \<open>\<open>*out = new(T); **out = **in\<close>, for the types without pointers of their own.\<close>

definition new_string :: "addr option \<Rightarrow> ('l cell heap, addr option) state" where
  "new_string = copy_new StringCell as_String State_Monad.return"

definition new_bool :: "addr option \<Rightarrow> ('l cell heap, addr option) state" where
  "new_bool = copy_new BoolCell as_Bool State_Monad.return"

definition new_int32 :: "addr option \<Rightarrow> ('l cell heap, addr option) state" where
  "new_int32 = copy_new Int32Cell as_Int32 State_Monad.return"

definition new_Duration :: "addr option \<Rightarrow> ('l cell heap, addr option) state" where
  "new_Duration = copy_new DurationCell as_Duration State_Monad.return"

text \<open>\<open>*out = make([]T, len(*in)); copy(*out, *in)\<close>, and the loop over a map.\<close>

definition make_TargetRefs :: "addr option \<Rightarrow> ('l cell heap, addr option) state" where
  "make_TargetRefs = copy_new TargetRefsCell as_TargetRefs
     (\<lambda>refs. State_Monad.return (slice_into \<lparr>tr_Group = '''', tr_Kind = '''', tr_Name = ''''\<rparr> refs))"

definition make_strings :: "addr option \<Rightarrow> ('l cell heap, addr option) state" where
  "make_strings = copy_new StringsCell as_Strings (\<lambda>ss. State_Monad.return (slice_into '''' ss))"

definition make_map :: "addr option \<Rightarrow> ('l cell heap, addr option) state" where
  "make_map = copy_new StringMapCell as_StringMap (\<lambda>kvs. State_Monad.return (map_into kvs))"

text \<open>Structs of the libraries, behind a pointer and as the elements of a slice.\<close>

definition new_library :: "('l, 'w) Library \<Rightarrow> addr option \<Rightarrow> ('l cell heap, addr option) state" where
  "new_library lib = copy_new LibraryCell as_Library (lib_DeepCopyInto lib)"

definition make_libraries :: "('l, 'w) Library \<Rightarrow> addr option \<Rightarrow> ('l cell heap, addr option) state" where
  "make_libraries lib = copy_new LibrariesCell as_Libraries (State_Monad.traverse_list (lib_DeepCopyInto lib))"

section \<open>DeepCopyInto\<close>

text \<open>
  A DeepCopyInto returns the struct that it leaves in \<open>out\<close>: first \<open>*out = *in\<close>, then the fields
  that need it, in the order of the code.
\<close>

definition CloudflareAccessPolicySpec_DeepCopyInto ::
  "CloudflareAccessPolicySpec \<Rightarrow> ('l cell heap, CloudflareAccessPolicySpec) state" where
  "CloudflareAccessPolicySpec_DeepCopyInto src = do {
     vTargetRefs \<leftarrow> make_TargetRefs (acs_TargetRefs src);
     vAudTag \<leftarrow> make_strings (acs_AudTag src);
     State_Monad.return (src\<lparr>acs_TargetRefs := vTargetRefs, acs_AudTag := vAudTag\<rparr>) }"

definition CloudflareOriginPolicySpec_DeepCopyInto ::
  "CloudflareOriginPolicySpec \<Rightarrow> ('l cell heap, CloudflareOriginPolicySpec) state" where
  "CloudflareOriginPolicySpec_DeepCopyInto src = do {
     vTargetRefs \<leftarrow> make_TargetRefs (ors_TargetRefs src);
     vProxyType \<leftarrow> new_string (ors_ProxyType src);
     vDisableChunkedEncoding \<leftarrow> new_bool (ors_DisableChunkedEncoding src);
     vKeepAliveConnections \<leftarrow> new_int32 (ors_KeepAliveConnections src);
     vKeepAliveTimeout \<leftarrow> new_Duration (ors_KeepAliveTimeout src);
     vNoHappyEyeballs \<leftarrow> new_bool (ors_NoHappyEyeballs src);
     vTLSTimeout \<leftarrow> new_Duration (ors_TLSTimeout src);
     vTCPKeepAlive \<leftarrow> new_Duration (ors_TCPKeepAlive src);
     vHTTP2Origin \<leftarrow> new_bool (ors_HTTP2Origin src);
     vMatchSNIToHost \<leftarrow> new_bool (ors_MatchSNIToHost src);
     State_Monad.return (src\<lparr>ors_TargetRefs := vTargetRefs, ors_ProxyType := vProxyType,
         ors_DisableChunkedEncoding := vDisableChunkedEncoding,
         ors_KeepAliveConnections := vKeepAliveConnections, ors_KeepAliveTimeout := vKeepAliveTimeout,
         ors_NoHappyEyeballs := vNoHappyEyeballs, ors_TLSTimeout := vTLSTimeout,
         ors_TCPKeepAlive := vTCPKeepAlive, ors_HTTP2Origin := vHTTP2Origin,
         ors_MatchSNIToHost := vMatchSNIToHost\<rparr>) }"

definition CloudflareTunnelConfigSpec_DeepCopyInto ::
  "('l, 'w) Library \<Rightarrow> CloudflareTunnelConfigSpec \<Rightarrow> ('l cell heap, CloudflareTunnelConfigSpec) state" where
  "CloudflareTunnelConfigSpec_DeepCopyInto lib src = do {
     vReplicas \<leftarrow> new_int32 (tcs_Replicas src);
     vImage \<leftarrow> new_string (tcs_Image src);
     vResources \<leftarrow> new_library lib (tcs_Resources src);
     vLogLevel \<leftarrow> new_string (tcs_LogLevel src);
     vMetricsPort \<leftarrow> new_int32 (tcs_MetricsPort src);
     vPodLabels \<leftarrow> make_map (tcs_PodLabels src);
     vPodAnnotations \<leftarrow> make_map (tcs_PodAnnotations src);
     vNodeSelector \<leftarrow> make_map (tcs_NodeSelector src);
     vTolerations \<leftarrow> make_libraries lib (tcs_Tolerations src);
     vAffinity \<leftarrow> new_library lib (tcs_Affinity src);
     State_Monad.return (src\<lparr>tcs_Replicas := vReplicas, tcs_Image := vImage, tcs_Resources := vResources,
         tcs_LogLevel := vLogLevel, tcs_MetricsPort := vMetricsPort, tcs_PodLabels := vPodLabels,
         tcs_PodAnnotations := vPodAnnotations, tcs_NodeSelector := vNodeSelector,
         tcs_Tolerations := vTolerations, tcs_Affinity := vAffinity\<rparr>) }"

definition CloudflareTunnelConfigStatus_DeepCopyInto ::
  "('l, 'w) Library \<Rightarrow> CloudflareTunnelConfigStatus \<Rightarrow> ('l cell heap, CloudflareTunnelConfigStatus) state" where
  "CloudflareTunnelConfigStatus_DeepCopyInto lib src = do {
     vConditions \<leftarrow> make_libraries lib (tct_Conditions src);
     State_Monad.return (src\<lparr>tct_Conditions := vConditions\<rparr>) }"

definition CloudflareAccessPolicy_DeepCopyInto ::
  "('l, 'w) Library \<Rightarrow> 'l CloudflareAccessPolicy \<Rightarrow> ('l cell heap, 'l CloudflareAccessPolicy) state" where
  "CloudflareAccessPolicy_DeepCopyInto lib src = do {
     vMeta \<leftarrow> lib_DeepCopyInto lib (acp_ObjectMeta src);
     vSpec \<leftarrow> CloudflareAccessPolicySpec_DeepCopyInto (acp_Spec src);
     vStatus \<leftarrow> lib_DeepCopyInto lib (acp_Status src);
     State_Monad.return (src\<lparr>acp_TypeMeta := acp_TypeMeta src, acp_ObjectMeta := vMeta, acp_Spec := vSpec, acp_Status := vStatus\<rparr>) }"

definition CloudflareOriginPolicy_DeepCopyInto ::
  "('l, 'w) Library \<Rightarrow> 'l CloudflareOriginPolicy \<Rightarrow> ('l cell heap, 'l CloudflareOriginPolicy) state" where
  "CloudflareOriginPolicy_DeepCopyInto lib src = do {
     vMeta \<leftarrow> lib_DeepCopyInto lib (orp_ObjectMeta src);
     vSpec \<leftarrow> CloudflareOriginPolicySpec_DeepCopyInto (orp_Spec src);
     vStatus \<leftarrow> lib_DeepCopyInto lib (orp_Status src);
     State_Monad.return (src\<lparr>orp_TypeMeta := orp_TypeMeta src, orp_ObjectMeta := vMeta, orp_Spec := vSpec, orp_Status := vStatus\<rparr>) }"

definition CloudflareTunnelConfig_DeepCopyInto ::
  "('l, 'w) Library \<Rightarrow> 'l CloudflareTunnelConfig \<Rightarrow> ('l cell heap, 'l CloudflareTunnelConfig) state" where
  "CloudflareTunnelConfig_DeepCopyInto lib src = do {
     vMeta \<leftarrow> lib_DeepCopyInto lib (tcc_ObjectMeta src);
     vSpec \<leftarrow> CloudflareTunnelConfigSpec_DeepCopyInto lib (tcc_Spec src);
     vStatus \<leftarrow> CloudflareTunnelConfigStatus_DeepCopyInto lib (tcc_Status src);
     State_Monad.return (src\<lparr>tcc_TypeMeta := tcc_TypeMeta src, tcc_ObjectMeta := vMeta, tcc_Spec := vSpec, tcc_Status := vStatus\<rparr>) }"

definition CloudflareAccessPolicyList_DeepCopyInto ::
  "('l, 'w) Library \<Rightarrow> 'l ObjectList \<Rightarrow> ('l cell heap, 'l ObjectList) state" where
  "CloudflareAccessPolicyList_DeepCopyInto lib src = do {
     vMeta \<leftarrow> lib_DeepCopyInto lib (ol_ListMeta src);
     vItems \<leftarrow> copy_new AccessPoliciesCell as_AccessPolicies
       (State_Monad.traverse_list (CloudflareAccessPolicy_DeepCopyInto lib)) (ol_Items src);
     State_Monad.return (src\<lparr>ol_TypeMeta := ol_TypeMeta src, ol_ListMeta := vMeta, ol_Items := vItems\<rparr>) }"

definition CloudflareOriginPolicyList_DeepCopyInto ::
  "('l, 'w) Library \<Rightarrow> 'l ObjectList \<Rightarrow> ('l cell heap, 'l ObjectList) state" where
  "CloudflareOriginPolicyList_DeepCopyInto lib src = do {
     vMeta \<leftarrow> lib_DeepCopyInto lib (ol_ListMeta src);
     vItems \<leftarrow> copy_new OriginPoliciesCell as_OriginPolicies
       (State_Monad.traverse_list (CloudflareOriginPolicy_DeepCopyInto lib)) (ol_Items src);
     State_Monad.return (src\<lparr>ol_TypeMeta := ol_TypeMeta src, ol_ListMeta := vMeta, ol_Items := vItems\<rparr>) }"

definition CloudflareTunnelConfigList_DeepCopyInto ::
  "('l, 'w) Library \<Rightarrow> 'l ObjectList \<Rightarrow> ('l cell heap, 'l ObjectList) state" where
  "CloudflareTunnelConfigList_DeepCopyInto lib src = do {
     vMeta \<leftarrow> lib_DeepCopyInto lib (ol_ListMeta src);
     vItems \<leftarrow> copy_new TunnelConfigsCell as_TunnelConfigs
       (State_Monad.traverse_list (CloudflareTunnelConfig_DeepCopyInto lib)) (ol_Items src);
     State_Monad.return (src\<lparr>ol_TypeMeta := ol_TypeMeta src, ol_ListMeta := vMeta, ol_Items := vItems\<rparr>) }"

section \<open>DeepCopy and DeepCopyObject\<close>

text \<open>
  A DeepCopy gives nil for nil, and otherwise a new struct that DeepCopyInto fills. DeepCopyObject returns it as a
  runtime.Object, the nil interface for nil.
\<close>

definition CloudflareAccessPolicy_DeepCopy :: "('l, 'w) Library \<Rightarrow> addr option \<Rightarrow> ('l cell heap, addr option) state" where
  "CloudflareAccessPolicy_DeepCopy lib = copy_new AccessPolicyCell as_AccessPolicy (CloudflareAccessPolicy_DeepCopyInto lib)"

definition CloudflareAccessPolicyList_DeepCopy :: "('l, 'w) Library \<Rightarrow> addr option \<Rightarrow> ('l cell heap, addr option) state" where
  "CloudflareAccessPolicyList_DeepCopy lib = copy_new ObjectListCell as_ObjectList (CloudflareAccessPolicyList_DeepCopyInto lib)"

definition CloudflareAccessPolicySpec_DeepCopy :: "addr option \<Rightarrow> ('l cell heap, addr option) state" where
  "CloudflareAccessPolicySpec_DeepCopy = copy_new AccessPolicySpecCell as_AccessPolicySpec CloudflareAccessPolicySpec_DeepCopyInto"

definition CloudflareOriginPolicy_DeepCopy :: "('l, 'w) Library \<Rightarrow> addr option \<Rightarrow> ('l cell heap, addr option) state" where
  "CloudflareOriginPolicy_DeepCopy lib = copy_new OriginPolicyCell as_OriginPolicy (CloudflareOriginPolicy_DeepCopyInto lib)"

definition CloudflareOriginPolicyList_DeepCopy :: "('l, 'w) Library \<Rightarrow> addr option \<Rightarrow> ('l cell heap, addr option) state" where
  "CloudflareOriginPolicyList_DeepCopy lib = copy_new ObjectListCell as_ObjectList (CloudflareOriginPolicyList_DeepCopyInto lib)"

definition CloudflareOriginPolicySpec_DeepCopy :: "addr option \<Rightarrow> ('l cell heap, addr option) state" where
  "CloudflareOriginPolicySpec_DeepCopy = copy_new OriginPolicySpecCell as_OriginPolicySpec CloudflareOriginPolicySpec_DeepCopyInto"

definition CloudflareTunnelConfig_DeepCopy :: "('l, 'w) Library \<Rightarrow> addr option \<Rightarrow> ('l cell heap, addr option) state" where
  "CloudflareTunnelConfig_DeepCopy lib = copy_new TunnelConfigCell as_TunnelConfig (CloudflareTunnelConfig_DeepCopyInto lib)"

definition CloudflareTunnelConfigList_DeepCopy :: "('l, 'w) Library \<Rightarrow> addr option \<Rightarrow> ('l cell heap, addr option) state" where
  "CloudflareTunnelConfigList_DeepCopy lib = copy_new ObjectListCell as_ObjectList (CloudflareTunnelConfigList_DeepCopyInto lib)"

definition CloudflareTunnelConfigSpec_DeepCopy :: "('l, 'w) Library \<Rightarrow> addr option \<Rightarrow> ('l cell heap, addr option) state" where
  "CloudflareTunnelConfigSpec_DeepCopy lib = copy_new TunnelConfigSpecCell as_TunnelConfigSpec (CloudflareTunnelConfigSpec_DeepCopyInto lib)"

definition CloudflareTunnelConfigStatus_DeepCopy :: "('l, 'w) Library \<Rightarrow> addr option \<Rightarrow> ('l cell heap, addr option) state" where
  "CloudflareTunnelConfigStatus_DeepCopy lib = copy_new TunnelConfigStatusCell as_TunnelConfigStatus (CloudflareTunnelConfigStatus_DeepCopyInto lib)"

datatype Object =
    AccessPolicyObject addr | AccessPolicyListObject addr | OriginPolicyObject addr | OriginPolicyListObject addr
  | TunnelConfigObject addr | TunnelConfigListObject addr

definition CloudflareAccessPolicy_DeepCopyObject :: "('l, 'w) Library \<Rightarrow> addr option \<Rightarrow> ('l cell heap, Object option) state" where
  "CloudflareAccessPolicy_DeepCopyObject lib p = do { c \<leftarrow> CloudflareAccessPolicy_DeepCopy lib p; State_Monad.return (map_option AccessPolicyObject c) }"

definition CloudflareAccessPolicyList_DeepCopyObject :: "('l, 'w) Library \<Rightarrow> addr option \<Rightarrow> ('l cell heap, Object option) state" where
  "CloudflareAccessPolicyList_DeepCopyObject lib p = do { c \<leftarrow> CloudflareAccessPolicyList_DeepCopy lib p; State_Monad.return (map_option AccessPolicyListObject c) }"

definition CloudflareOriginPolicy_DeepCopyObject :: "('l, 'w) Library \<Rightarrow> addr option \<Rightarrow> ('l cell heap, Object option) state" where
  "CloudflareOriginPolicy_DeepCopyObject lib p = do { c \<leftarrow> CloudflareOriginPolicy_DeepCopy lib p; State_Monad.return (map_option OriginPolicyObject c) }"

definition CloudflareOriginPolicyList_DeepCopyObject :: "('l, 'w) Library \<Rightarrow> addr option \<Rightarrow> ('l cell heap, Object option) state" where
  "CloudflareOriginPolicyList_DeepCopyObject lib p = do { c \<leftarrow> CloudflareOriginPolicyList_DeepCopy lib p; State_Monad.return (map_option OriginPolicyListObject c) }"

definition CloudflareTunnelConfig_DeepCopyObject :: "('l, 'w) Library \<Rightarrow> addr option \<Rightarrow> ('l cell heap, Object option) state" where
  "CloudflareTunnelConfig_DeepCopyObject lib p = do { c \<leftarrow> CloudflareTunnelConfig_DeepCopy lib p; State_Monad.return (map_option TunnelConfigObject c) }"

definition CloudflareTunnelConfigList_DeepCopyObject :: "('l, 'w) Library \<Rightarrow> addr option \<Rightarrow> ('l cell heap, Object option) state" where
  "CloudflareTunnelConfigList_DeepCopyObject lib p = do { c \<leftarrow> CloudflareTunnelConfigList_DeepCopy lib p; State_Monad.return (map_option TunnelConfigListObject c) }"

section \<open>What the structs denote and reach\<close>

abbreviation flat_view :: "('l cell \<Rightarrow> 'x option) \<Rightarrow> 'l cell heap \<Rightarrow> addr option \<Rightarrow> 'x option option" where
  "flat_view proj \<equiv> view_at proj (\<lambda>h x. x)"

abbreviation flat_reach :: "('l cell \<Rightarrow> 'x option) \<Rightarrow> 'l cell heap \<Rightarrow> addr option \<Rightarrow> addr set" where
  "flat_reach proj \<equiv> reach_at proj (\<lambda>h x. {})"

text \<open>A map denotes its entries; a library struct what the library reads in it.\<close>

abbreviation map_view :: "'l cell heap \<Rightarrow> addr option \<Rightarrow> (string \<rightharpoonup> string) option option" where
  "map_view \<equiv> view_at as_StringMap (\<lambda>h. map_of)"

abbreviation library_view :: "('l, 'w) Library \<Rightarrow> 'l cell heap \<Rightarrow> addr option \<Rightarrow> 'w option option" where
  "library_view lib \<equiv> view_at as_Library (lib_view lib)"

abbreviation library_reach :: "('l, 'w) Library \<Rightarrow> 'l cell heap \<Rightarrow> addr option \<Rightarrow> addr set" where
  "library_reach lib \<equiv> reach_at as_Library (lib_reach lib)"

abbreviation libraries_view :: "('l, 'w) Library \<Rightarrow> 'l cell heap \<Rightarrow> addr option \<Rightarrow> 'w list option option" where
  "libraries_view lib \<equiv> view_at as_Libraries (\<lambda>h. map (lib_view lib h))"

abbreviation libraries_reach :: "('l, 'w) Library \<Rightarrow> 'l cell heap \<Rightarrow> addr option \<Rightarrow> addr set" where
  "libraries_reach lib \<equiv> reach_at as_Libraries (\<lambda>h xs. \<Union> (lib_reach lib h ` set xs))"

lemma field_copiers:
  "deep_copier new_string (flat_view as_String) (flat_reach as_String)"
  "deep_copier new_bool (flat_view as_Bool) (flat_reach as_Bool)"
  "deep_copier new_int32 (flat_view as_Int32) (flat_reach as_Int32)"
  "deep_copier new_Duration (flat_view as_Duration) (flat_reach as_Duration)"
  "deep_copier make_TargetRefs (flat_view as_TargetRefs) (flat_reach as_TargetRefs)"
  "deep_copier make_strings (flat_view as_Strings) (flat_reach as_Strings)"
  "deep_copier make_map map_view (flat_reach as_StringMap)"
  unfolding new_string_def new_bool_def new_int32_def new_Duration_def make_TargetRefs_def make_strings_def make_map_def
  by (intro deep_copier_new deep_copier_flat[where f = "\<lambda>x. x"] deep_copier_flat as_cell; simp)+

lemma library_copiers:
  assumes "documented_library lib"
  shows "deep_copier (new_library lib) (library_view lib) (library_reach lib)"
    "deep_copier (make_libraries lib) (libraries_view lib) (libraries_reach lib)"
  using assms unfolding documented_library_def new_library_def make_libraries_def
  by (intro deep_copier_new deep_copier_list as_cell; simp)+

section \<open>The structs are deep copied\<close>

type_synonym access_spec_value =
  "(string \<times> bool) \<times> LocalPolicyTargetReference list option option \<times> string list option option"

definition access_spec_view ::
  "'l cell heap \<Rightarrow> CloudflareAccessPolicySpec \<Rightarrow> access_spec_value" where
  "access_spec_view h x =
     ((acs_TeamName x, acs_Required x), flat_view as_TargetRefs h (acs_TargetRefs x),
      flat_view as_Strings h (acs_AudTag x))"

definition access_spec_reach :: "'l cell heap \<Rightarrow> CloudflareAccessPolicySpec \<Rightarrow> addr set" where
  "access_spec_reach h x =
     flat_reach as_TargetRefs h (acs_TargetRefs x) \<union>
     flat_reach as_Strings h (acs_AudTag x)"

lemma access_spec_copier:
  "deep_copier CloudflareAccessPolicySpec_DeepCopyInto access_spec_view access_spec_reach"
proof -
  note parts = deep_copier_pair[OF field_copiers(5) field_copiers(6)]
  show ?thesis
    using deep_copier_struct[where copy = "CloudflareAccessPolicySpec_DeepCopyInto"
        and parts = "\<lambda>x. (acs_TargetRefs x, acs_AudTag x)"
        and plain = "\<lambda>x. (acs_TeamName x, acs_Required x)"
        and make = "\<lambda>x (vTargetRefs, vAudTag).
          x\<lparr>acs_TargetRefs := vTargetRefs, acs_AudTag := vAudTag\<rparr>", OF parts]
    by (simp add: CloudflareAccessPolicySpec_DeepCopyInto_def copy_pair_def split_beta Un_assoc
        access_spec_view_def[abs_def] access_spec_reach_def[abs_def])
qed

type_synonym origin_spec_value =
  "unit \<times> LocalPolicyTargetReference list option option \<times> string option option \<times> bool option option \<times>
     32 word option option \<times> Duration option option \<times> bool option option \<times> Duration option option \<times>
     Duration option option \<times> bool option option \<times> bool option option"

definition origin_spec_view ::
  "'l cell heap \<Rightarrow> CloudflareOriginPolicySpec \<Rightarrow> origin_spec_value" where
  "origin_spec_view h x =
     ((), flat_view as_TargetRefs h (ors_TargetRefs x),
      flat_view as_String h (ors_ProxyType x),
      flat_view as_Bool h (ors_DisableChunkedEncoding x),
      flat_view as_Int32 h (ors_KeepAliveConnections x),
      flat_view as_Duration h (ors_KeepAliveTimeout x),
      flat_view as_Bool h (ors_NoHappyEyeballs x),
      flat_view as_Duration h (ors_TLSTimeout x),
      flat_view as_Duration h (ors_TCPKeepAlive x),
      flat_view as_Bool h (ors_HTTP2Origin x),
      flat_view as_Bool h (ors_MatchSNIToHost x))"

definition origin_spec_reach :: "'l cell heap \<Rightarrow> CloudflareOriginPolicySpec \<Rightarrow> addr set" where
  "origin_spec_reach h x =
     flat_reach as_TargetRefs h (ors_TargetRefs x) \<union>
     flat_reach as_String h (ors_ProxyType x) \<union>
     flat_reach as_Bool h (ors_DisableChunkedEncoding x) \<union>
     flat_reach as_Int32 h (ors_KeepAliveConnections x) \<union>
     flat_reach as_Duration h (ors_KeepAliveTimeout x) \<union>
     flat_reach as_Bool h (ors_NoHappyEyeballs x) \<union>
     flat_reach as_Duration h (ors_TLSTimeout x) \<union>
     flat_reach as_Duration h (ors_TCPKeepAlive x) \<union>
     flat_reach as_Bool h (ors_HTTP2Origin x) \<union>
     flat_reach as_Bool h (ors_MatchSNIToHost x)"

lemma origin_spec_copier:
  "deep_copier CloudflareOriginPolicySpec_DeepCopyInto origin_spec_view origin_spec_reach"
proof -
  note parts = deep_copier_pair[OF field_copiers(5) deep_copier_pair[OF field_copiers(1) deep_copier_pair[OF field_copiers(2)
      deep_copier_pair[OF field_copiers(3) deep_copier_pair[OF field_copiers(4) deep_copier_pair[OF field_copiers(2)
      deep_copier_pair[OF field_copiers(4) deep_copier_pair[OF field_copiers(4) deep_copier_pair[OF field_copiers(2)
      field_copiers(2)]]]]]]]]]
  show ?thesis
    using deep_copier_struct[where copy = "CloudflareOriginPolicySpec_DeepCopyInto"
        and parts = "\<lambda>x. (ors_TargetRefs x, ors_ProxyType x, ors_DisableChunkedEncoding x, ors_KeepAliveConnections x,
          ors_KeepAliveTimeout x, ors_NoHappyEyeballs x, ors_TLSTimeout x, ors_TCPKeepAlive x,
          ors_HTTP2Origin x, ors_MatchSNIToHost x)"
        and plain = "\<lambda>x. ()"
        and make = "\<lambda>x (vTargetRefs, vProxyType, vDisableChunkedEncoding, vKeepAliveConnections, vKeepAliveTimeout,
          vNoHappyEyeballs, vTLSTimeout, vTCPKeepAlive, vHTTP2Origin, vMatchSNIToHost).
          x\<lparr>ors_TargetRefs := vTargetRefs, ors_ProxyType := vProxyType,
          ors_DisableChunkedEncoding := vDisableChunkedEncoding,
          ors_KeepAliveConnections := vKeepAliveConnections, ors_KeepAliveTimeout := vKeepAliveTimeout,
          ors_NoHappyEyeballs := vNoHappyEyeballs, ors_TLSTimeout := vTLSTimeout,
          ors_TCPKeepAlive := vTCPKeepAlive, ors_HTTP2Origin := vHTTP2Origin,
          ors_MatchSNIToHost := vMatchSNIToHost\<rparr>", OF parts]
    by (simp add: CloudflareOriginPolicySpec_DeepCopyInto_def copy_pair_def split_beta Un_assoc
        origin_spec_view_def[abs_def] origin_spec_reach_def[abs_def])
qed

type_synonym 'w tunnel_spec_value =
  "unit \<times> 32 word option option \<times> string option option \<times> 'w option option \<times> string option option \<times>
     32 word option option \<times> (string \<rightharpoonup> string) option option \<times>
     (string \<rightharpoonup> string) option option \<times>
     (string \<rightharpoonup> string) option option \<times> 'w list option option \<times> 'w option option"

definition tunnel_spec_view ::
  "('l, 'w) Library \<Rightarrow> 'l cell heap \<Rightarrow> CloudflareTunnelConfigSpec \<Rightarrow> 'w tunnel_spec_value" where
  "tunnel_spec_view lib h x =
     ((), flat_view as_Int32 h (tcs_Replicas x),
      flat_view as_String h (tcs_Image x),
      library_view lib h (tcs_Resources x),
      flat_view as_String h (tcs_LogLevel x),
      flat_view as_Int32 h (tcs_MetricsPort x),
      map_view h (tcs_PodLabels x),
      map_view h (tcs_PodAnnotations x),
      map_view h (tcs_NodeSelector x),
      libraries_view lib h (tcs_Tolerations x),
      library_view lib h (tcs_Affinity x))"

definition tunnel_spec_reach :: "('l, 'w) Library \<Rightarrow> 'l cell heap \<Rightarrow> CloudflareTunnelConfigSpec \<Rightarrow> addr set" where
  "tunnel_spec_reach lib h x =
     flat_reach as_Int32 h (tcs_Replicas x) \<union>
     flat_reach as_String h (tcs_Image x) \<union>
     library_reach lib h (tcs_Resources x) \<union>
     flat_reach as_String h (tcs_LogLevel x) \<union>
     flat_reach as_Int32 h (tcs_MetricsPort x) \<union>
     flat_reach as_StringMap h (tcs_PodLabels x) \<union>
     flat_reach as_StringMap h (tcs_PodAnnotations x) \<union>
     flat_reach as_StringMap h (tcs_NodeSelector x) \<union>
     libraries_reach lib h (tcs_Tolerations x) \<union>
     library_reach lib h (tcs_Affinity x)"

lemma tunnel_spec_copier:
  assumes "documented_library lib"
  shows "deep_copier (CloudflareTunnelConfigSpec_DeepCopyInto lib) (tunnel_spec_view lib) (tunnel_spec_reach lib)"
proof -
  note parts = deep_copier_pair[OF field_copiers(3) deep_copier_pair[OF field_copiers(1) deep_copier_pair[OF library_copiers(1)[OF assms]
      deep_copier_pair[OF field_copiers(1) deep_copier_pair[OF field_copiers(3) deep_copier_pair[OF field_copiers(7)
      deep_copier_pair[OF field_copiers(7) deep_copier_pair[OF field_copiers(7) deep_copier_pair[OF library_copiers(2)[OF assms]
      library_copiers(1)[OF assms]]]]]]]]]]
  show ?thesis
    using deep_copier_struct[where copy = "CloudflareTunnelConfigSpec_DeepCopyInto lib"
        and parts = "\<lambda>x. (tcs_Replicas x, tcs_Image x, tcs_Resources x, tcs_LogLevel x, tcs_MetricsPort x,
          tcs_PodLabels x, tcs_PodAnnotations x, tcs_NodeSelector x, tcs_Tolerations x, tcs_Affinity x)"
        and plain = "\<lambda>x. ()"
        and make = "\<lambda>x (vReplicas, vImage, vResources, vLogLevel, vMetricsPort, vPodLabels, vPodAnnotations,
          vNodeSelector, vTolerations, vAffinity).
          x\<lparr>tcs_Replicas := vReplicas, tcs_Image := vImage, tcs_Resources := vResources,
          tcs_LogLevel := vLogLevel, tcs_MetricsPort := vMetricsPort, tcs_PodLabels := vPodLabels,
          tcs_PodAnnotations := vPodAnnotations, tcs_NodeSelector := vNodeSelector,
          tcs_Tolerations := vTolerations, tcs_Affinity := vAffinity\<rparr>", OF parts]
    by (simp add: CloudflareTunnelConfigSpec_DeepCopyInto_def copy_pair_def split_beta Un_assoc
        tunnel_spec_view_def[abs_def] tunnel_spec_reach_def[abs_def])
qed

type_synonym 'w tunnel_status_value =
  "unit \<times> 'w list option option"

definition tunnel_status_view ::
  "('l, 'w) Library \<Rightarrow> 'l cell heap \<Rightarrow> CloudflareTunnelConfigStatus \<Rightarrow> 'w tunnel_status_value" where
  "tunnel_status_view lib h x =
     ((), libraries_view lib h (tct_Conditions x))"

definition tunnel_status_reach :: "('l, 'w) Library \<Rightarrow> 'l cell heap \<Rightarrow> CloudflareTunnelConfigStatus \<Rightarrow> addr set" where
  "tunnel_status_reach lib h x =
     libraries_reach lib h (tct_Conditions x)"

lemma tunnel_status_copier:
  assumes "documented_library lib"
  shows "deep_copier (CloudflareTunnelConfigStatus_DeepCopyInto lib) (tunnel_status_view lib) (tunnel_status_reach lib)"
proof -
  note parts = library_copiers(2)[OF assms]
  show ?thesis
    using deep_copier_struct[where copy = "CloudflareTunnelConfigStatus_DeepCopyInto lib"
        and parts = "\<lambda>x. tct_Conditions x"
        and plain = "\<lambda>x. ()"
        and make = "\<lambda>x vConditions.
          x\<lparr>tct_Conditions := vConditions\<rparr>", OF parts]
    by (simp add: CloudflareTunnelConfigStatus_DeepCopyInto_def copy_pair_def split_beta Un_assoc
        tunnel_status_view_def[abs_def] tunnel_status_reach_def[abs_def])
qed

type_synonym 'w access_policy_value =
  "TypeMeta \<times> 'w \<times> access_spec_value \<times> 'w"

definition access_policy_view ::
  "('l, 'w) Library \<Rightarrow> 'l cell heap \<Rightarrow> 'l CloudflareAccessPolicy \<Rightarrow> 'w access_policy_value" where
  "access_policy_view lib h x =
     ((acp_TypeMeta x), lib_view lib h (acp_ObjectMeta x),
      access_spec_view h (acp_Spec x),
      lib_view lib h (acp_Status x))"

definition access_policy_reach :: "('l, 'w) Library \<Rightarrow> 'l cell heap \<Rightarrow> 'l CloudflareAccessPolicy \<Rightarrow> addr set" where
  "access_policy_reach lib h x =
     lib_reach lib h (acp_ObjectMeta x) \<union>
     access_spec_reach h (acp_Spec x) \<union>
     lib_reach lib h (acp_Status x)"

lemma access_policy_copier:
  assumes "documented_library lib"
  shows "deep_copier (CloudflareAccessPolicy_DeepCopyInto lib) (access_policy_view lib) (access_policy_reach lib)"
proof -
  note parts = deep_copier_pair[OF assms[unfolded documented_library_def] deep_copier_pair[OF access_spec_copier assms[unfolded documented_library_def]]]
  show ?thesis
    using deep_copier_struct[where copy = "CloudflareAccessPolicy_DeepCopyInto lib"
        and parts = "\<lambda>x. (acp_ObjectMeta x, acp_Spec x, acp_Status x)"
        and plain = "\<lambda>x. (acp_TypeMeta x)"
        and make = "\<lambda>x (vObjectMeta, vSpec, vStatus).
          x\<lparr>acp_ObjectMeta := vObjectMeta, acp_Spec := vSpec, acp_Status := vStatus\<rparr>", OF parts]
    by (simp add: CloudflareAccessPolicy_DeepCopyInto_def copy_pair_def split_beta Un_assoc
        access_policy_view_def[abs_def] access_policy_reach_def[abs_def])
qed

type_synonym 'w origin_policy_value =
  "TypeMeta \<times> 'w \<times> origin_spec_value \<times> 'w"

definition origin_policy_view ::
  "('l, 'w) Library \<Rightarrow> 'l cell heap \<Rightarrow> 'l CloudflareOriginPolicy \<Rightarrow> 'w origin_policy_value" where
  "origin_policy_view lib h x =
     ((orp_TypeMeta x), lib_view lib h (orp_ObjectMeta x),
      origin_spec_view h (orp_Spec x),
      lib_view lib h (orp_Status x))"

definition origin_policy_reach :: "('l, 'w) Library \<Rightarrow> 'l cell heap \<Rightarrow> 'l CloudflareOriginPolicy \<Rightarrow> addr set" where
  "origin_policy_reach lib h x =
     lib_reach lib h (orp_ObjectMeta x) \<union>
     origin_spec_reach h (orp_Spec x) \<union>
     lib_reach lib h (orp_Status x)"

lemma origin_policy_copier:
  assumes "documented_library lib"
  shows "deep_copier (CloudflareOriginPolicy_DeepCopyInto lib) (origin_policy_view lib) (origin_policy_reach lib)"
proof -
  note parts = deep_copier_pair[OF assms[unfolded documented_library_def] deep_copier_pair[OF origin_spec_copier assms[unfolded documented_library_def]]]
  show ?thesis
    using deep_copier_struct[where copy = "CloudflareOriginPolicy_DeepCopyInto lib"
        and parts = "\<lambda>x. (orp_ObjectMeta x, orp_Spec x, orp_Status x)"
        and plain = "\<lambda>x. (orp_TypeMeta x)"
        and make = "\<lambda>x (vObjectMeta, vSpec, vStatus).
          x\<lparr>orp_ObjectMeta := vObjectMeta, orp_Spec := vSpec, orp_Status := vStatus\<rparr>", OF parts]
    by (simp add: CloudflareOriginPolicy_DeepCopyInto_def copy_pair_def split_beta Un_assoc
        origin_policy_view_def[abs_def] origin_policy_reach_def[abs_def])
qed

type_synonym 'w tunnel_config_value =
  "TypeMeta \<times> 'w \<times> 'w tunnel_spec_value \<times> 'w tunnel_status_value"

definition tunnel_config_view ::
  "('l, 'w) Library \<Rightarrow> 'l cell heap \<Rightarrow> 'l CloudflareTunnelConfig \<Rightarrow> 'w tunnel_config_value" where
  "tunnel_config_view lib h x =
     ((tcc_TypeMeta x), lib_view lib h (tcc_ObjectMeta x),
      tunnel_spec_view lib h (tcc_Spec x),
      tunnel_status_view lib h (tcc_Status x))"

definition tunnel_config_reach :: "('l, 'w) Library \<Rightarrow> 'l cell heap \<Rightarrow> 'l CloudflareTunnelConfig \<Rightarrow> addr set" where
  "tunnel_config_reach lib h x =
     lib_reach lib h (tcc_ObjectMeta x) \<union>
     tunnel_spec_reach lib h (tcc_Spec x) \<union>
     tunnel_status_reach lib h (tcc_Status x)"

lemma tunnel_config_copier:
  assumes "documented_library lib"
  shows "deep_copier (CloudflareTunnelConfig_DeepCopyInto lib) (tunnel_config_view lib) (tunnel_config_reach lib)"
proof -
  note parts = deep_copier_pair[OF assms[unfolded documented_library_def] deep_copier_pair[OF tunnel_spec_copier[OF assms] tunnel_status_copier[OF assms]]]
  show ?thesis
    using deep_copier_struct[where copy = "CloudflareTunnelConfig_DeepCopyInto lib"
        and parts = "\<lambda>x. (tcc_ObjectMeta x, tcc_Spec x, tcc_Status x)"
        and plain = "\<lambda>x. (tcc_TypeMeta x)"
        and make = "\<lambda>x (vObjectMeta, vSpec, vStatus).
          x\<lparr>tcc_ObjectMeta := vObjectMeta, tcc_Spec := vSpec, tcc_Status := vStatus\<rparr>", OF parts]
    by (simp add: CloudflareTunnelConfig_DeepCopyInto_def copy_pair_def split_beta Un_assoc
        tunnel_config_view_def[abs_def] tunnel_config_reach_def[abs_def])
qed

type_synonym 'w access_list_value = "TypeMeta \<times> 'w \<times> 'w access_policy_value list option option"

definition access_list_view :: "('l, 'w) Library \<Rightarrow> 'l cell heap \<Rightarrow> 'l ObjectList \<Rightarrow> 'w access_list_value" where
  "access_list_view lib h x =
     (ol_TypeMeta x, lib_view lib h (ol_ListMeta x),
      view_at as_AccessPolicies (\<lambda>h. map (access_policy_view lib h)) h (ol_Items x))"

definition access_list_reach :: "('l, 'w) Library \<Rightarrow> 'l cell heap \<Rightarrow> 'l ObjectList \<Rightarrow> addr set" where
  "access_list_reach lib h x =
     lib_reach lib h (ol_ListMeta x) \<union>
     reach_at as_AccessPolicies (\<lambda>h xs. \<Union> (access_policy_reach lib h ` set xs)) h (ol_Items x)"

lemma access_list_copier:
  assumes "documented_library lib"
  shows "deep_copier (CloudflareAccessPolicyList_DeepCopyInto lib) (access_list_view lib) (access_list_reach lib)"
proof -
  note parts = deep_copier_pair[OF assms[unfolded documented_library_def]
      deep_copier_new[OF deep_copier_list[OF access_policy_copier[OF assms]], where mk = AccessPoliciesCell and proj = as_AccessPolicies, OF as_cell(15)]]
  show ?thesis
    using deep_copier_struct[where copy = "CloudflareAccessPolicyList_DeepCopyInto lib"
        and parts = "\<lambda>x. (ol_ListMeta x, ol_Items x)" and plain = "\<lambda>x. ol_TypeMeta x"
        and make = "\<lambda>x (vMeta, vItems). x\<lparr>ol_ListMeta := vMeta, ol_Items := vItems\<rparr>", OF parts]
    by (simp add: CloudflareAccessPolicyList_DeepCopyInto_def copy_pair_def split_beta
        access_list_view_def[abs_def] access_list_reach_def[abs_def])
qed

type_synonym 'w origin_list_value = "TypeMeta \<times> 'w \<times> 'w origin_policy_value list option option"

definition origin_list_view :: "('l, 'w) Library \<Rightarrow> 'l cell heap \<Rightarrow> 'l ObjectList \<Rightarrow> 'w origin_list_value" where
  "origin_list_view lib h x =
     (ol_TypeMeta x, lib_view lib h (ol_ListMeta x),
      view_at as_OriginPolicies (\<lambda>h. map (origin_policy_view lib h)) h (ol_Items x))"

definition origin_list_reach :: "('l, 'w) Library \<Rightarrow> 'l cell heap \<Rightarrow> 'l ObjectList \<Rightarrow> addr set" where
  "origin_list_reach lib h x =
     lib_reach lib h (ol_ListMeta x) \<union>
     reach_at as_OriginPolicies (\<lambda>h xs. \<Union> (origin_policy_reach lib h ` set xs)) h (ol_Items x)"

lemma origin_list_copier:
  assumes "documented_library lib"
  shows "deep_copier (CloudflareOriginPolicyList_DeepCopyInto lib) (origin_list_view lib) (origin_list_reach lib)"
proof -
  note parts = deep_copier_pair[OF assms[unfolded documented_library_def]
      deep_copier_new[OF deep_copier_list[OF origin_policy_copier[OF assms]], where mk = OriginPoliciesCell and proj = as_OriginPolicies, OF as_cell(17)]]
  show ?thesis
    using deep_copier_struct[where copy = "CloudflareOriginPolicyList_DeepCopyInto lib"
        and parts = "\<lambda>x. (ol_ListMeta x, ol_Items x)" and plain = "\<lambda>x. ol_TypeMeta x"
        and make = "\<lambda>x (vMeta, vItems). x\<lparr>ol_ListMeta := vMeta, ol_Items := vItems\<rparr>", OF parts]
    by (simp add: CloudflareOriginPolicyList_DeepCopyInto_def copy_pair_def split_beta
        origin_list_view_def[abs_def] origin_list_reach_def[abs_def])
qed

type_synonym 'w tunnel_list_value = "TypeMeta \<times> 'w \<times> 'w tunnel_config_value list option option"

definition tunnel_list_view :: "('l, 'w) Library \<Rightarrow> 'l cell heap \<Rightarrow> 'l ObjectList \<Rightarrow> 'w tunnel_list_value" where
  "tunnel_list_view lib h x =
     (ol_TypeMeta x, lib_view lib h (ol_ListMeta x),
      view_at as_TunnelConfigs (\<lambda>h. map (tunnel_config_view lib h)) h (ol_Items x))"

definition tunnel_list_reach :: "('l, 'w) Library \<Rightarrow> 'l cell heap \<Rightarrow> 'l ObjectList \<Rightarrow> addr set" where
  "tunnel_list_reach lib h x =
     lib_reach lib h (ol_ListMeta x) \<union>
     reach_at as_TunnelConfigs (\<lambda>h xs. \<Union> (tunnel_config_reach lib h ` set xs)) h (ol_Items x)"

lemma tunnel_list_copier:
  assumes "documented_library lib"
  shows "deep_copier (CloudflareTunnelConfigList_DeepCopyInto lib) (tunnel_list_view lib) (tunnel_list_reach lib)"
proof -
  note parts = deep_copier_pair[OF assms[unfolded documented_library_def]
      deep_copier_new[OF deep_copier_list[OF tunnel_config_copier[OF assms]], where mk = TunnelConfigsCell and proj = as_TunnelConfigs, OF as_cell(19)]]
  show ?thesis
    using deep_copier_struct[where copy = "CloudflareTunnelConfigList_DeepCopyInto lib"
        and parts = "\<lambda>x. (ol_ListMeta x, ol_Items x)" and plain = "\<lambda>x. ol_TypeMeta x"
        and make = "\<lambda>x (vMeta, vItems). x\<lparr>ol_ListMeta := vMeta, ol_Items := vItems\<rparr>", OF parts]
    by (simp add: CloudflareTunnelConfigList_DeepCopyInto_def copy_pair_def split_beta
        tunnel_list_view_def[abs_def] tunnel_list_reach_def[abs_def])
qed

interpretation access_spec: deep_copier CloudflareAccessPolicySpec_DeepCopyInto access_spec_view access_spec_reach
  by (rule access_spec_copier)

interpretation origin_spec: deep_copier CloudflareOriginPolicySpec_DeepCopyInto origin_spec_view origin_spec_reach
  by (rule origin_spec_copier)

section \<open>What DeepCopy gives\<close>

text \<open>The specs hold no struct of a library; their copies are isolated without further ado.\<close>

lemma spec_copies_isolate:
  "isolates CloudflareAccessPolicySpec_DeepCopyInto access_spec_view access_spec_reach"
  "isolates CloudflareOriginPolicySpec_DeepCopyInto origin_spec_view origin_spec_reach"
  by (rule access_spec.isolated, rule origin_spec.isolated)

lemma DeepCopyObject_nil:
  "run_state (CloudflareAccessPolicy_DeepCopyObject lib None) h = (None, h)"
  "run_state (CloudflareOriginPolicyList_DeepCopyObject lib None) h = (None, h)"
  by (simp_all add: CloudflareAccessPolicy_DeepCopyObject_def CloudflareAccessPolicy_DeepCopy_def
      CloudflareOriginPolicyList_DeepCopyObject_def CloudflareOriginPolicyList_DeepCopy_def copy_new_def)

text \<open>
  C33. Deep copies are deep. If the copies of the Kubernetes libraries' own structs are what they are documented to
  be, then DeepCopy of each of the three resources and of their lists leaves everything in memory as it was and
  returns a structure that denotes the same object, nil for nil and empty for empty included,
  and shares no cell with the original: whatever a reconciler then writes to the cells of its copy, the cached original
  denotes the same as before, and the other way round.
\<close>

theorem deep_copies_isolate:
  assumes "documented_library lib"
  shows "isolates (CloudflareAccessPolicy_DeepCopy lib)
      (view_at as_AccessPolicy (access_policy_view lib)) (reach_at as_AccessPolicy (access_policy_reach lib)) \<and>
    isolates (CloudflareOriginPolicy_DeepCopy lib)
      (view_at as_OriginPolicy (origin_policy_view lib)) (reach_at as_OriginPolicy (origin_policy_reach lib)) \<and>
    isolates (CloudflareTunnelConfig_DeepCopy lib)
      (view_at as_TunnelConfig (tunnel_config_view lib)) (reach_at as_TunnelConfig (tunnel_config_reach lib)) \<and>
    isolates (CloudflareAccessPolicyList_DeepCopy lib)
      (view_at as_ObjectList (access_list_view lib)) (reach_at as_ObjectList (access_list_reach lib)) \<and>
    isolates (CloudflareOriginPolicyList_DeepCopy lib)
      (view_at as_ObjectList (origin_list_view lib)) (reach_at as_ObjectList (origin_list_reach lib)) \<and>
    isolates (CloudflareTunnelConfigList_DeepCopy lib)
      (view_at as_ObjectList (tunnel_list_view lib)) (reach_at as_ObjectList (tunnel_list_reach lib))"
  unfolding CloudflareAccessPolicy_DeepCopy_def CloudflareOriginPolicy_DeepCopy_def CloudflareTunnelConfig_DeepCopy_def
    CloudflareAccessPolicyList_DeepCopy_def CloudflareOriginPolicyList_DeepCopy_def CloudflareTunnelConfigList_DeepCopy_def
  by (intro conjI deep_copier.isolated deep_copier_new as_cell access_policy_copier[OF assms] origin_policy_copier[OF assms]
      tunnel_config_copier[OF assms] access_list_copier[OF assms] origin_list_copier[OF assms] tunnel_list_copier[OF assms])

text \<open>A library whose structs are a map each, as the labels of an ObjectMeta, and a configuration with labels.\<close>

definition sample_library :: "(addr option, (string \<rightharpoonup> string) option option) Library" where
  "sample_library = \<lparr>lib_DeepCopyInto = make_map, lib_view = map_view, lib_reach = flat_reach as_StringMap\<rparr>"

lemma documented_sample_library: "documented_library sample_library"
  by (simp add: documented_library_def sample_library_def field_copiers)

definition sample_heap :: "addr option cell heap" where
  "sample_heap =
     [StringMapCell [(''team'', ''edge'')], StringMapCell [(''app'', ''cloudflared'')],
      TunnelConfigCell \<lparr>tcc_TypeMeta = \<lparr>tm_Kind = ''CloudflareTunnelConfig'', tm_APIVersion = ''v1alpha1''\<rparr>,
        tcc_ObjectMeta = Some 0,
        tcc_Spec = \<lparr>tcs_Replicas = None, tcs_Image = None, tcs_Resources = None, tcs_LogLevel = None,
          tcs_MetricsPort = None, tcs_PodLabels = Some 1, tcs_PodAnnotations = None, tcs_NodeSelector = None,
          tcs_Tolerations = None, tcs_Affinity = None\<rparr>,
        tcc_Status = \<lparr>tct_Conditions = None\<rparr>\<rparr>]"

theorem deep_copies_isolate_witness:
  "case run_state (CloudflareTunnelConfig_DeepCopy sample_library (Some 2)) sample_heap of (q, h) \<Rightarrow>
     view_at as_TunnelConfig (tunnel_config_view sample_library) h q =
       view_at as_TunnelConfig (tunnel_config_view sample_library) sample_heap (Some 2) \<and>
     reach_at as_TunnelConfig (tunnel_config_reach sample_library) h (Some 2) \<inter>
       reach_at as_TunnelConfig (tunnel_config_reach sample_library) h q = {}"
proof -
  have "in_heap sample_heap (reach_at as_TunnelConfig (tunnel_config_reach sample_library) sample_heap (Some 2))"
    by (simp add: in_heap_def reach_at_def tunnel_config_reach_def tunnel_spec_reach_def tunnel_status_reach_def
        sample_library_def sample_heap_def load_as_def load_def)
  then show ?thesis
    using deep_copies_isolate[OF documented_sample_library]
    unfolding isolates_def[of "CloudflareTunnelConfig_DeepCopy sample_library"] by (blast intro: prod.exhaust)
qed

section \<open>Registration\<close>

definition GroupVersion :: "string \<times> string" where
  "GroupVersion = (GroupVersion_Group, ''v1alpha1'')"

definition known_types :: "string list" where
  "known_types = [''CloudflareAccessPolicy'', ''CloudflareAccessPolicyList'', ''CloudflareOriginPolicy'',
     ''CloudflareOriginPolicyList'', ''CloudflareTunnelConfig'', ''CloudflareTunnelConfigList'']"

text \<open>The two operations of the scheme are parameters; a type is registered under its name.\<close>

definition addKnownTypes ::
  "('s \<Rightarrow> string \<times> string \<Rightarrow> string list \<Rightarrow> 's) \<Rightarrow> ('s \<Rightarrow> string \<times> string \<Rightarrow> 's) \<Rightarrow> 's \<Rightarrow> goerror option \<times> 's" where
  "addKnownTypes add_types add_group scheme =
     (None, add_group (add_types scheme GroupVersion known_types) GroupVersion)"

text \<open>Every resource is registered with its list, which is what a typed client lists.\<close>

lemma lists_are_known: "list_all (\<lambda>k. k @ ''List'' \<in> set known_types) [tunnelConfigKind, ''CloudflareAccessPolicy'', ''CloudflareOriginPolicy'']"
  by (simp add: known_types_def tunnelConfigKind_def)

text \<open>
  init of package main registers the types of four packages, ours last; \<open>installs\<close> are the other three.
  utilruntime.Must panics on an error, which is \<^const>\<open>None\<close>.
\<close>

fun must_all :: "('s \<Rightarrow> goerror option \<times> 's) list \<Rightarrow> 's \<Rightarrow> 's option" where
  "must_all [] scheme = Some scheme"
| "must_all (f # fs) scheme =
     (case f scheme of (Some e, scheme') \<Rightarrow> None | (None, scheme') \<Rightarrow> must_all fs scheme')"

definition main_init ::
  "('s \<Rightarrow> string \<times> string \<Rightarrow> string list \<Rightarrow> 's) \<Rightarrow> ('s \<Rightarrow> string \<times> string \<Rightarrow> 's) \<Rightarrow>
     ('s \<Rightarrow> goerror option \<times> 's) list \<Rightarrow> 's \<Rightarrow> 's option" where
  "main_init add_types add_group installs scheme =
     must_all (installs @ [addKnownTypes add_types add_group]) scheme"

text \<open>The registration of our own types is no reason to panic.\<close>

lemma main_init_ours:
  "main_init add_types add_group installs scheme = None \<longleftrightarrow> must_all installs scheme = None"
  unfolding main_init_def
  by (induction installs arbitrary: scheme) (auto simp: addKnownTypes_def split: prod.splits option.splits)

end
