(* ===== verification/Spec2Isabelle.thy ===== *)
theory Spec2Isabelle
  imports Precedence PathRegex Dns PolicyStatus PolicyPush Backends Startup PushedList System Failures DeepCopy
begin

text \<open>
  A verification development for cloudflared-gateway, a Kubernetes controller that serves Gateway API
  routes through Cloudflare tunnels.

  The program. A Gateway of the controller's class gets a Secret with a random credential, a Cloudflare tunnel
  made with it, and a Deployment of cloudflared that runs the tunnel with a token. The routes attached to
  the Gateway are converted into a list of ingress rules, which Cloudflare evaluates first match first; policies of
  three kinds change the origin settings of the rules; the list is pushed to the tunnel, DNS records are
  pointed at it, and the outcome is written into the status of every object concerned. One function,
  GatewayReconciler.Reconcile, does this for one Gateway from what the API server shows; watches
  decide when it runs; main checks the platform and starts it.

  Theories and sources, in the order in which they build on each other.

  \<^item> Prelude: Go's strings, errors and results; Ordering: sort.SliceStable and selection by a comparison,
    with the locale \<open>strict_weak\<close>, which Precedence and Policy interpret.
  \<^item> CfTypes, Precedence, GoTime, Ingress, PathRegex, Token, Client: internal/cloudflare (types.go, builtrule.go,
    merge.go, precedence.go, ingress.go, client.go). GoTime and PathRegex model the parts of Go's packages
    time and regexp that give the results their meaning, Token those of encoding/base64 and
    encoding/json. Client has the locale \<open>dns_writer\<close> of what a chunked change set may touch.
  \<^item> GatewayApi: the objects of Kubernetes and of the Gateway API; Kube: the API server as a store
    per kind, with the laws it documents; Errors: errors.go.
  \<^item> Attachment (attachment.go and the route collectors of reconciler.go), Status (status.go), Policy (policy.go,
    accesspolicy.go, originpolicy.go), Backends (refgrant.go, servicebackend.go, xbackend.go), BackendTLS
    (backendtls.go), XBackendStatus (xbackendstatus.go), TunnelConfig (tunnelconfig.go), Secret (secret.go),
    Deployment (deployment.go), Dns (dns.go), all of internal/controller. Status has the locale \<open>keyed_list\<close> of the
    in-place upserts, Backends the locale \<open>collector\<close> of its two collection loops, and it interprets the
    locale \<open>fail_closed\<close> that Ingress states about a resolver.
  \<^item> Reconciler: reconciler.go, the composition of all of them. Watches and Setup: controller.go. Preflight:
    preflight.go. Startup: cmd/main.go with NewClientFromEnv and PreflightCheckCRDs.
  \<^item> Sample: a small world that satisfies every law, with a Gateway store that removes a deleted Gateway with its last
    finalizer and status writes that are stored; Pipeline, PushedList, PolicyPush, PolicyStatus, Lifecycle, Failures,
    System: the properties of the whole.
  \<^item> GoHeap, DeepCopy: api/v1alpha1 as it lies in memory, with the generated deep copies and the registration. GoHeap
    has the locale \<open>deep_copier\<close> of what a deep copy promises; DeepCopy shows it of every struct.

  State and effects. The state of the controller lies outside it, in the cluster and in the account. Both
  are one world of type \<open>'w\<close>; a call that changes it takes it and returns the next one, in the order of
  the code, and a read takes the world of its moment. An error is the left summand of a sum, or \<^const>\<open>Some\<close>
  error where the code returns an error only; every early return is a branch. Pointers are options,
  32-bit fields are words, unbounded quantities are \<^typ>\<open>int\<close> or \<^typ>\<open>nat\<close>. Every loop of
  the program is a recursion that is structural or has a measure (the parser of durations consumes its text); only
  the parser of path patterns has fuel, a unit per byte and nesting level, enough for every pattern that is emitted.

  What is shown, by groups.

  \<^item> Rules: the sorted list serves the most specific match and is the one stable sort; path patterns mean the
    path matches, those of gRPC the method matches; durations parse exactly; the token decodes to its parts; chunking loses nothing.
  \<^item> Admission: what attaches, with which hostnames; foreign namespaces need an opt-in; label selectors as documented.
  \<^item> Backends: verdicts on references are exact, the resolver fails closed, and the status of a
    route tells what is served; an XBackend is translated faithfully or refused.
  \<^item> Policies and configuration: which policy wins, what it supplies, field-by-field layering of
    origin settings and tunnel configuration; BackendTLSPolicy without index and cache. PolicyPush relates the
    acceptance that is reported to the access configuration that is pushed, with the two cases where they part.
  \<^item> Status: patches are idempotent, foreign entries stay, caps hold, and the writes of policy status end.
  \<^item> The pushed list: every service in it is authorised, its first match is the most specific, what cannot
    be enforced is reported, and it is well formed except for the routes that are named exactly.
  \<^item> The life of a Gateway: what a successful Reconcile leaves in place, in which order things become
    visible, what is gone when the finalizer goes, DNS records included.
  \<^item> Failures: a call that fails, or a read that stays unanswered, makes Reconcile return an error. An observer
    notes in the world which calls failed; \<open>observed\<close> adds it to any system. The exceptions are named.
  \<^item> All runs: by induction over any interleaving of reconciliations with the changes of others, the credential of a
    live Gateway and the DNS records of other people survive.
  \<^item> Events: every change of a watched object that a Gateway depends on enqueues it; what no watch sees.
    Start: the controller starts only on checked ground.
  \<^item> Memory: a deep copy denotes the same object and shares nothing with it, which is why the other theories may
    treat the objects that the reconciler changes as values.

  Hypotheses. The API server, Cloudflare's SDK, controller-runtime, the random source, discovery and semver
  are parameters. Their laws are named definitions that state documented behaviour: \<open>documented_store\<close>
  (Secrets and Deployments: a successful write is read back; the manager's client reads from a cache, so this
  describes a cache that has caught up), \<open>keyed_store\<close> (Gateways: a read answers with the object of its key, and no more, for
  an update that clears the last finalizer of a deleted Gateway removes it), \<open>atomic_store\<close> (a write concerns its
  key), \<open>documented_dns\<close> (an identifier names one record, a batch touches what it mentions), \<open>documented_zones\<close> (listings of
  zones and records are complete, an accepted batch of deletions is carried out, other zones are left alone; Dns shows
  it of the client over an SDK that keeps \<open>documented_batches\<close>), \<open>documented_push\<close>, \<open>documented_create_tunnel\<close> (a new tunnel is found under its name),
  \<open>documented_delete_tunnel\<close>, \<open>documented_tunnels\<close>, \<open>documented_ids\<close> (tunnel identifiers are not empty),
  \<open>documented_runtime\<close>, \<open>fills\<close>, and the frames \<open>kept_apart\<close>, \<open>inputs_kept\<close> and \<open>dns_apart\<close>, by which writes to one kind
  of thing leave the others alone; \<open>inputs_kept\<close> demands of the status writes only that of the class, the one that
  comes before the routes and policies are read. Each is proved of a concrete instance and used there by a witness. Nothing is
  said about other controllers writing at the same time, except where a run lets them.

  Not modelled: log lines; the fields of Kubernetes objects that the program neither reads nor sets; the text
  after the wrapped error of one preflight message. The verb for quoted strings is modelled without escaping, which
  concerns the texts of messages only. A patch of a status reads the clock once where the code reads it for each condition; no
  property depends on the difference between two such readings. The structs of the Kubernetes libraries and their
  deep copies are parameters of DeepCopy, with the law \<open>documented_library\<close>.
\<close>

end
